(* ===== verification/Pppd_Prelude.thy ===== *)
theory Pppd_Prelude
  imports Main "HOL-Library.Word" "HOL-Library.Stream"
begin

text \<open>
  Prelude of the pppd development: the types the components share (octets, 32-bit words,
  packets), the network byte order macros of \<^verbatim>\<open>pppd/pppd.h\<close> (\<open>GETSHORT\<close>, \<open>PUTSHORT\<close>, \<open>GETLONG\<close>,
  \<open>PUTLONG\<close>, \<open>MAKEHEADER\<close>) with their round trips, the protocol numbers of
  \<^verbatim>\<open>include/net/ppp_defs.h\<close>, and the fact collections that carry the component proofs.

  Conventions.  A C \<open>u_char\<close> is an \<open>8 word\<close> and a \<open>u_int32_t\<close> a \<open>32 word\<close>, both with their
  wrap-around.  A C \<open>int\<close> and a \<open>u_short\<close> local (which is only ever assigned by \<open>GETSHORT\<close> and then
  promoted to \<open>int\<close>) is an \<open>int\<close>.  A packet pointer together with its length is the list of exactly
  that many octets.
\<close>

unbundle bit_operations_syntax

section \<open>Shared types\<close>

type_synonym byte = "8 word"
type_synonym u32 = "32 word"
type_synonym packet = "byte list"

section \<open>Collections\<close>

named_theorems codec_simps \<open>round trips of the byte order macros\<close>
named_theorems world_frame \<open>what an operation leaves unchanged in the shared state\<close>
named_theorems fsm_defs \<open>definitions of the automaton's operations\<close>

section \<open>Byte order macros\<close>

definition PUTCHAR :: "int \<Rightarrow> packet" where
  "PUTCHAR c = [word_of_int c]"

definition PUTSHORT :: "int \<Rightarrow> packet" where
  "PUTSHORT s = [word_of_int (s div 256), word_of_int s]"

definition GETSHORT :: "byte \<Rightarrow> byte \<Rightarrow> int" where
  "GETSHORT a b = uint a * 256 + uint b"

definition PUTLONG :: "u32 \<Rightarrow> packet" where
  "PUTLONG l = [ucast (drop_bit 24 l), ucast (drop_bit 16 l), ucast (drop_bit 8 l), ucast l]"

definition GETLONG :: "byte \<Rightarrow> byte \<Rightarrow> byte \<Rightarrow> byte \<Rightarrow> u32" where
  "GETLONG a b c d =
     push_bit 8 (push_bit 8 (push_bit 8 (ucast a) OR ucast b) OR ucast c) OR ucast d"

abbreviation PPP_ALLSTATIONS :: int where "PPP_ALLSTATIONS \<equiv> 0xff"
abbreviation PPP_UI :: int where "PPP_UI \<equiv> 0x03"
abbreviation PPP_HDRLEN :: int where "PPP_HDRLEN \<equiv> 4"
abbreviation PPP_MRU :: int where "PPP_MRU \<equiv> 1500"
abbreviation PPP_LCP :: int where "PPP_LCP \<equiv> 0xc021"
abbreviation PPP_PAP :: int where "PPP_PAP \<equiv> 0xc023"
abbreviation PPP_LQR :: int where "PPP_LQR \<equiv> 0xc025"
abbreviation PPP_CHAP :: int where "PPP_CHAP \<equiv> 0xc223"
abbreviation PPP_EAP :: int where "PPP_EAP \<equiv> 0xc227"

definition MAKEHEADER :: "int \<Rightarrow> packet" where
  "MAKEHEADER t = PUTCHAR PPP_ALLSTATIONS @ PUTCHAR PPP_UI @ PUTSHORT t"

subsection \<open>Round trips\<close>

lemma uint_byte_less [simp]: "uint (b :: byte) < 256"
  using uint_lt2p [of b] by simp

lemma uint_byte_le [simp]: "uint (b :: byte) \<le> 255"
  using uint_byte_less [of b] by linarith

lemma length_PUT [simp]:
  "length (PUTCHAR c) = 1" "length (PUTSHORT s) = 2" "length (PUTLONG l) = 4"
  "length (MAKEHEADER t) = 4"
  by (simp_all add: PUTCHAR_def PUTSHORT_def PUTLONG_def MAKEHEADER_def)

lemma GETSHORT_bounds [simp]: "0 \<le> GETSHORT a b" "GETSHORT a b < 65536"
  using uint_byte_less [of a] uint_byte_less [of b] uint_nonnegative [of a] uint_nonnegative [of b]
  unfolding GETSHORT_def by linarith+

lemma PUT_GETSHORT [codec_simps]: "PUTSHORT (GETSHORT a b) = [a, b]"
proof -
  have "(uint a * 256 + uint b) div 256 = uint a"
    using uint_byte_less [of b] uint_nonnegative [of b] by simp
  moreover have "word_of_int (uint a * 256 + uint b) = b"
    by (rule word_uint_eqI) (simp add: uint_word_of_int uint_word_ariths del: of_int_add of_int_mult)
  ultimately show ?thesis by (simp add: PUTSHORT_def GETSHORT_def)
qed

lemma GET_PUTSHORT [codec_simps]:
  assumes "0 \<le> s" "s < 65536"
  shows "GETSHORT (word_of_int (s div 256)) (word_of_int s) = s"
  using assms by (simp add: GETSHORT_def uint_word_of_int)

lemma PUT_GETLONG [codec_simps]: "PUTLONG (GETLONG a b c d) = [a, b, c, d]"
  unfolding PUTLONG_def GETLONG_def
  by (simp, intro conjI; rule bit_word_eqI; auto simp: bit_simps dest: bit_imp_le_length)

lemma GET_PUTLONG [codec_simps]:
  "GETLONG (ucast (drop_bit 24 l)) (ucast (drop_bit 16 l)) (ucast (drop_bit 8 l)) (ucast l) = l"
    (is "?g = l")
proof (rule bit_word_eqI)
  fix n assume "n < LENGTH(32)"
  then consider "n < 8" | "8 \<le> n" "n < 16" | "16 \<le> n" "n < 24" | "24 \<le> n" "n < 32"
    by (simp, linarith)
  then show "bit ?g n = bit l n"
    by cases (auto simp: GETLONG_def bit_simps)
qed

lemma GETSHORT_eq_iff: "0 \<le> s \<Longrightarrow> s < 65536 \<Longrightarrow> GETSHORT a b = s \<longleftrightarrow> [a, b] = PUTSHORT s"
  using PUT_GETSHORT [of a b] GET_PUTSHORT [of s] by (auto simp: PUTSHORT_def)

lemma GETLONG_eq_iff: "GETLONG a b c d = l \<longleftrightarrow> [a, b, c, d] = PUTLONG l"
  using PUT_GETLONG [of a b c d] GET_PUTLONG [of l] by (auto simp: PUTLONG_def)

section \<open>Generic list facts\<close>

lemma length_2_cases: "2 \<le> length xs \<Longrightarrow> \<exists>a b ys. xs = a # b # ys"
  by (cases xs; cases "tl xs") auto

end
