(* ===== verification/Callout.thy ===== *)
theory Callout
  imports Pppd_Prelude
begin

text \<open>
  The callout queue of \<^verbatim>\<open>pppd/main.c\<close> (\<open>timeout\<close>, \<open>untimeout\<close>, \<open>calltimeout\<close>, \<open>timeleft\<close>), on which
  every protocol of pppd hangs its retransmission timers.

  \<open>struct callout\<close> is the record \<open>callout_ent\<close>, the singly linked list \<open>callout\<close> a list in the record
  \<open>timers\<close>.  The function pointer and its argument are names: \<open>timer_fn\<close> lists the routines that
  the modelled components register, \<open>timer_arg\<close> the objects they are registered with.  The clock is
  the operating system's: \<open>clock\<close> is the stream of the readings that successive calls of
  \<open>gettimeofday\<close> return, and nothing is assumed of it (it may stand still or jump backwards).
  The exit of the process when \<open>malloc\<close> fails is not modelled.
\<close>

section \<open>State\<close>

record timeval =
  tv_sec :: int
  tv_usec :: int

text \<open>The automata, one static object each (\<open>NUM_PPP\<close> is 1).\<close>

datatype fsm_ref = lcp_fsm | ipcp_fsm | ccp_fsm | ecp_fsm | ipv6cp_fsm | ipxcp_fsm

datatype timer_fn = Fn_fsm_timeout | Fn_lcp_delayed_up | Fn_LcpEchoTimeout
  | Fn_upap_timeout | Fn_upap_reqtimeout | Fn_chap_timeout
  | Fn_check_idle | Fn_connect_time_expired | Fn_check_maxoctets
  | Fn_holdoff_end

datatype timer_arg = Fsm_arg fsm_ref | Upap_arg | Chap_server_arg | Null_arg

record callout_ent =
  c_time :: timeval
  c_arg :: timer_arg
  c_func :: timer_fn

record timers =
  clock :: "timeval stream"
  timenow :: timeval
  callout :: "callout_ent list"

section \<open>Operations\<close>

definition gettimeofday :: "'z timers_scheme \<Rightarrow> 'z timers_scheme" where
  "gettimeofday w = w\<lparr>timenow := shd (clock w), clock := stl (clock w)\<rparr>"

text \<open>The comparison of the search loop in \<open>timeout\<close>, and the test for "due" in \<open>calltimeout\<close>.\<close>

definition tv_less :: "timeval \<Rightarrow> timeval \<Rightarrow> bool" where
  "tv_less s t \<longleftrightarrow> tv_sec s < tv_sec t \<or> (tv_sec s = tv_sec t \<and> tv_usec s < tv_usec t)"

definition tv_due :: "timeval \<Rightarrow> timeval \<Rightarrow> bool" where
  "tv_due s now \<longleftrightarrow> tv_sec s < tv_sec now \<or> (tv_sec s = tv_sec now \<and> tv_usec s \<le> tv_usec now)"

text \<open>The loop that finds the place of the new entry and links it in.\<close>

fun link_in :: "callout_ent \<Rightarrow> callout_ent list \<Rightarrow> callout_ent list" where
  "link_in new [] = [new]"
| "link_in new (p # ps) =
     (if tv_less (c_time new) (c_time p) then new # p # ps else p # link_in new ps)"

definition expiry :: "timeval \<Rightarrow> int \<Rightarrow> int \<Rightarrow> timeval" where
  "expiry now secs usecs =
     (let sec = tv_sec now + secs; usec = tv_usec now + usecs
      in if usec \<ge> 1000000
         then \<lparr>tv_sec = sec + usec div 1000000, tv_usec = usec mod 1000000\<rparr>
         else \<lparr>tv_sec = sec, tv_usec = usec\<rparr>)"

definition timeout :: "timer_fn \<Rightarrow> timer_arg \<Rightarrow> int \<Rightarrow> int \<Rightarrow> 'z timers_scheme \<Rightarrow> 'z timers_scheme" where
  "timeout func arg secs usecs w =
     (let w1 = gettimeofday w;
          newp = \<lparr>c_time = expiry (timenow w1) secs usecs, c_arg = arg, c_func = func\<rparr>
      in w1\<lparr>callout := link_in newp (callout w1)\<rparr>)"

fun unlink_first :: "timer_fn \<Rightarrow> timer_arg \<Rightarrow> callout_ent list \<Rightarrow> callout_ent list" where
  "unlink_first func arg [] = []"
| "unlink_first func arg (p # ps) =
     (if c_func p = func \<and> c_arg p = arg then ps else p # unlink_first func arg ps)"

definition untimeout :: "timer_fn \<Rightarrow> timer_arg \<Rightarrow> 'z timers_scheme \<Rightarrow> 'z timers_scheme" where
  "untimeout func arg w = w\<lparr>callout := unlink_first func arg (callout w)\<rparr>"

abbreviation TIMEOUT :: "timer_fn \<Rightarrow> timer_arg \<Rightarrow> int \<Rightarrow> 'z timers_scheme \<Rightarrow> 'z timers_scheme" where
  "TIMEOUT r f t \<equiv> timeout r f t 0"

abbreviation UNTIMEOUT :: "timer_fn \<Rightarrow> timer_arg \<Rightarrow> 'z timers_scheme \<Rightarrow> 'z timers_scheme" where
  "UNTIMEOUT r f \<equiv> untimeout r f"

text \<open>
  \<open>calltimeout\<close>: the routine behind the pointer is the argument \<open>call\<close>.  The loop need not end (a
  routine may register a callout that is due at once), so the result is an option and \<open>None\<close> means
  that it does not return.
\<close>

partial_function (option) calltimeout ::
    "(timer_fn \<Rightarrow> timer_arg \<Rightarrow> 'z timers_scheme \<Rightarrow> 'z timers_scheme) \<Rightarrow>
     'z timers_scheme \<Rightarrow> 'z timers_scheme option" where
  "calltimeout call w =
     (case callout w of
        [] \<Rightarrow> Some w
      | p # rest \<Rightarrow>
          (let w1 = gettimeofday w
           in if tv_due (c_time p) (timenow w1)
              then calltimeout call (call (c_func p) (c_arg p) (w1\<lparr>callout := rest\<rparr>))
              else Some w1))"

text \<open>\<open>timeleft\<close>: \<open>None\<close> is the null pointer.\<close>

definition timeleft :: "'z timers_scheme \<Rightarrow> timeval option \<times> 'z timers_scheme" where
  "timeleft w =
     (case callout w of
        [] \<Rightarrow> (None, w)
      | p # _ \<Rightarrow>
          (let w1 = gettimeofday w;
               sec = tv_sec (c_time p) - tv_sec (timenow w1);
               usec = tv_usec (c_time p) - tv_usec (timenow w1);
               (sec, usec) = (if usec < 0 then (sec - 1, usec + 1000000) else (sec, usec));
               (sec, usec) = (if sec < 0 then (0, 0) else (sec, usec))
           in (Some \<lparr>tv_sec = sec, tv_usec = usec\<rparr>, w1)))"

end
