(* ===== verification/Callout_Props.thy ===== *)
theory Callout_Props
  imports Callout "HOL-Library.Multiset"
begin

text \<open>
  What the callout queue guarantees: it stays sorted by expiry time, a new entry goes behind every
  entry that expires at the same time or earlier and nothing else moves, \<open>untimeout\<close> removes one
  matching entry, \<open>timeleft\<close> is the exact remaining time, and \<open>calltimeout\<close> returns with no due entry
  left when its routines register no due entry.
\<close>

section \<open>The queue is sorted and loses nothing\<close>

definition tv_norm :: "timeval \<Rightarrow> bool" where
  "tv_norm t \<longleftrightarrow> 0 \<le> tv_usec t \<and> tv_usec t < 1000000"

definition tv_usecs :: "timeval \<Rightarrow> int" where
  "tv_usecs t = tv_sec t * 1000000 + tv_usec t"

definition callout_sorted :: "callout_ent list \<Rightarrow> bool" where
  "callout_sorted ps \<longleftrightarrow> sorted_wrt (\<lambda>p q. \<not> tv_less (c_time q) (c_time p)) ps"

definition pending :: "timer_fn \<Rightarrow> timer_arg \<Rightarrow> 'z timers_scheme \<Rightarrow> nat" where
  "pending func arg w = length (filter (\<lambda>p. c_func p = func \<and> c_arg p = arg) (callout w))"

lemma tv_less_usecs: "tv_norm s \<Longrightarrow> tv_norm t \<Longrightarrow> tv_less s t \<longleftrightarrow> tv_usecs s < tv_usecs t"
  unfolding tv_less_def tv_norm_def tv_usecs_def by linarith

lemma tv_less_trans: "tv_less s t \<Longrightarrow> tv_less t u \<Longrightarrow> tv_less s u"
  unfolding tv_less_def by linarith

lemma tv_not_less_trans: "\<not> tv_less s t \<Longrightarrow> \<not> tv_less t u \<Longrightarrow> \<not> tv_less s u"
  unfolding tv_less_def by linarith

lemma tv_less_le_trans: "tv_less s t \<Longrightarrow> \<not> tv_less u t \<Longrightarrow> tv_less s u"
  unfolding tv_less_def by linarith

lemma tv_less_asym: "tv_less s t \<Longrightarrow> \<not> tv_less t s"
  unfolding tv_less_def by linarith

lemma tv_due_mono: "\<not> tv_less t s \<Longrightarrow> tv_due t now \<Longrightarrow> tv_due s now"
  unfolding tv_less_def tv_due_def by linarith

lemma mset_link_in [simp]: "mset (link_in new ps) = add_mset new (mset ps)"
  by (induction ps) auto

lemma set_link_in [simp]: "set (link_in new ps) = insert new (set ps)"
  by (induction ps) auto

lemma link_in_stable:
  assumes "callout_sorted ps"
  shows "link_in new ps =
    filter (\<lambda>p. \<not> tv_less (c_time new) (c_time p)) ps @ new #
    filter (\<lambda>p. tv_less (c_time new) (c_time p)) ps"
  using assms
proof (induction ps)
  case Nil
  then show ?case by simp
next
  case (Cons p ps)
  then have later: "tv_less (c_time new) (c_time p) \<Longrightarrow> \<forall>q\<in>set ps. tv_less (c_time new) (c_time q)"
    unfolding callout_sorted_def by (auto intro: tv_less_le_trans)
  from Cons show ?case
    using later by (auto simp: callout_sorted_def filter_id_conv intro: filter_False)
qed

lemma callout_sorted_link_in: "callout_sorted ps \<Longrightarrow> callout_sorted (link_in new ps)"
  unfolding callout_sorted_def
  by (induction ps) (auto dest: tv_less_asym tv_not_less_trans tv_less_trans)

lemma callout_sorted_unlink_first: "callout_sorted ps \<Longrightarrow> callout_sorted (unlink_first f a ps)"
proof (induction ps)
  case (Cons p ps)
  have "set (unlink_first f a qs) \<subseteq> set qs" for qs
    by (induction qs) auto
  with Cons show ?case by (auto simp: callout_sorted_def)
qed (simp add: callout_sorted_def)

lemma unlink_first_split:
  "unlink_first f a (xs @ p # ys) = xs @ ys"
  if "c_func p = f" "c_arg p = a" "\<forall>q\<in>set xs. \<not> (c_func q = f \<and> c_arg q = a)"
  using that by (induction xs) auto

lemma unlink_first_absent: "\<forall>q\<in>set ps. \<not> (c_func q = f \<and> c_arg q = a) \<Longrightarrow> unlink_first f a ps = ps"
  by (induction ps) auto

lemma filter_length_link_in:
  "length (filter P (link_in new ps)) = (if P new then 1 else 0) + length (filter P ps)"
  by (induction ps) auto

lemma filter_length_unlink_first:
  "length (filter (\<lambda>p. c_func p = f' \<and> c_arg p = a') (unlink_first f a ps)) =
     length (filter (\<lambda>p. c_func p = f' \<and> c_arg p = a') ps) - (if f' = f \<and> a' = a then 1 else 0)"
  by (induction ps) (auto simp: not_less_eq_eq Suc_diff_le)

lemma pending_timeout [simp]:
  "pending f' a' (timeout f a s us w) = pending f' a' w + (if f' = f \<and> a' = a then 1 else 0)"
  by (simp add: pending_def timeout_def gettimeofday_def Let_def filter_length_link_in)

lemma pending_untimeout [simp]:
  "pending f' a' (untimeout f a w) = pending f' a' w - (if f' = f \<and> a' = a then 1 else 0)"
  by (simp add: pending_def untimeout_def filter_length_unlink_first)

lemma timers_more [simp]:
  "timers.more (timeout f a s us w) = timers.more w"
  "timers.more (untimeout f a w) = timers.more w"
  "timers.more (gettimeofday w) = timers.more w"
  by (simp_all add: timeout_def untimeout_def gettimeofday_def Let_def)

lemma expiry_usecs:
  "tv_norm now \<Longrightarrow> 0 \<le> us \<Longrightarrow> tv_norm (expiry now s us) \<and>
     tv_usecs (expiry now s us) = tv_usecs now + s * 1000000 + us"
  by (auto simp: tv_norm_def tv_usecs_def expiry_def Let_def)

text \<open>
  Property C32.  \<open>timeout\<close> keeps the callout queue sorted by expiry time and inserts the new entry stably:
  behind every entry that expires no later, before every entry that expires later; no other entry is lost,
  changed or moved.
\<close>

theorem timeout_spec:
  assumes "callout_sorted (callout w)"
  shows "callout_sorted (callout (timeout f a s us w)) \<and>
    callout (timeout f a s us w) =
      filter (\<lambda>p. \<not> tv_less (expiry (shd (clock w)) s us) (c_time p)) (callout w) @
      \<lparr>c_time = expiry (shd (clock w)) s us, c_arg = a, c_func = f\<rparr> #
      filter (\<lambda>p. tv_less (expiry (shd (clock w)) s us) (c_time p)) (callout w)"
proof
  show "callout_sorted (callout (timeout f a s us w))"
    by (simp add: timeout_def gettimeofday_def Let_def callout_sorted_link_in assms)
qed (simp add: timeout_def gettimeofday_def Let_def link_in_stable assms)

text \<open>
  \<open>timeleft\<close>, which bounds the wait of the main loop, is the time to the first callout, and zero if
  it is overdue: never negative, and with a normalised microsecond part.
\<close>

lemma timeleft_spec:
  assumes "callout w = p # ps" "tv_norm (c_time p)" "tv_norm (shd (clock w))"
  shows "\<exists>tv. fst (timeleft w) = Some tv \<and> tv_norm tv \<and>
    tv_usecs tv = max 0 (tv_usecs (c_time p) - tv_usecs (shd (clock w)))"
  using assms
  by (auto simp: timeleft_def gettimeofday_def Let_def tv_norm_def tv_usecs_def)

definition due_count :: "timeval \<Rightarrow> callout_ent list \<Rightarrow> nat" where
  "due_count now ps = length (filter (\<lambda>p. tv_due (c_time p) now) ps)"

text \<open>
  The clock runs while the loop does.  \<open>within lim w\<close> says that no reading is later than \<open>lim\<close>.  What is asked of the functions that
  are called, as far as they are in the queue of a state with \<open>I\<close>: they keep \<open>I\<close> and the order of the queue, and schedule nothing that
  would be due by \<open>lim\<close>.
\<close>

definition within :: "timeval \<Rightarrow> 'z timers_scheme \<Rightarrow> bool" where
  "within lim w \<longleftrightarrow> (\<forall>t \<in> sset (clock w). \<not> tv_less lim t)"

definition handler_ok ::
    "timeval \<Rightarrow> ('z timers_scheme \<Rightarrow> bool) \<Rightarrow> (timer_fn \<Rightarrow> timer_arg \<Rightarrow> 'z timers_scheme \<Rightarrow> 'z timers_scheme) \<Rightarrow> bool" where
  "handler_ok lim I call \<longleftrightarrow> (\<forall>w. I w \<longrightarrow> I (gettimeofday w)) \<and>
     (\<forall>w p rest. I w \<and> callout w = p # rest \<and> within lim w \<and> callout_sorted rest \<longrightarrow>
        (let v = call (c_func p) (c_arg p) (w\<lparr>callout := rest\<rparr>)
         in I v \<and> within lim v \<and> callout_sorted (callout v) \<and> due_count lim (callout v) \<le> due_count lim rest))"

lemma tv_due_later: "tv_due t now \<Longrightarrow> \<not> tv_less lim now \<Longrightarrow> tv_due t lim"
  unfolding tv_less_def tv_due_def by linarith

lemma within_clock:
  assumes "within lim w"
  shows "within lim (gettimeofday w)" "\<not> tv_less lim (timenow (gettimeofday w))"
  using assms by (cases "clock w"; simp add: within_def gettimeofday_def)+

text \<open>What a function schedules at least \<open>s\<close> seconds ahead is not due by \<open>lim\<close> when the clock runs for less than that.\<close>

lemma timeout_within:
  assumes "within lim w" "\<not> tv_due (expiry (shd (clock w)) s us) lim" "callout_sorted (callout w)"
  shows "within lim (timeout f a s us w)" "callout_sorted (callout (timeout f a s us w))"
    "due_count lim (callout (timeout f a s us w)) = due_count lim (callout w)"
  using assms within_clock(1) [OF assms(1)]
  by (simp_all add: timeout_def Let_def within_def gettimeofday_def callout_sorted_link_in due_count_def filter_length_link_in)

text \<open>
  Property C33.  The loop of \<open>calltimeout\<close> ends.  Let the clock run, but not past \<open>lim\<close>, and let the functions that are called
  keep the queue sorted and schedule nothing that is due by \<open>lim\<close>.  Then \<open>calltimeout\<close> returns, the queue is sorted, and nothing
  in it is due at the time that was read last.
\<close>

theorem calltimeout_returns:
  assumes "handler_ok lim I call" "I w" "within lim w" "callout_sorted (callout w)"
  shows "\<exists>w'. calltimeout call w = Some w' \<and> callout_sorted (callout w') \<and>
    (\<forall>p\<in>set (callout w'). \<not> tv_due (c_time p) (timenow w'))"
  using assms(2-4)
proof (induction "due_count lim (callout w)" arbitrary: w rule: less_induct)
  case less
  show ?case
  proof (cases "callout w")
    case Nil
    then show ?thesis by (subst calltimeout.simps) (simp add: callout_sorted_def)
  next
    case (Cons p rest)
    let ?w1 = "gettimeofday w"
    have w1: "callout ?w1 = p # rest" "I ?w1" "within lim ?w1" "\<not> tv_less lim (timenow ?w1)" "callout_sorted rest"
      using Cons less.prems assms(1) within_clock [OF less.prems(2)]
      by (simp_all add: gettimeofday_def handler_ok_def callout_sorted_def)
    show ?thesis
    proof (cases "tv_due (c_time p) (timenow ?w1)")
      case True
      let ?w2 = "call (c_func p) (c_arg p) (?w1\<lparr>callout := rest\<rparr>)"
      have w2: "I ?w2" "within lim ?w2" "callout_sorted (callout ?w2)" "due_count lim (callout ?w2) \<le> due_count lim rest"
        using assms(1) w1 by (auto simp: handler_ok_def Let_def)
      then have "due_count lim (callout ?w2) < due_count lim (callout w)"
        using tv_due_later [OF True w1(4)] Cons by (simp add: due_count_def)
      from less.hyps [OF this w2(1-3)] Cons True w1 show ?thesis
        by (subst calltimeout.simps) (simp add: Let_def)
    next
      case False
      then have "\<forall>q\<in>set (callout w). \<not> tv_due (c_time q) (timenow ?w1)"
        using less.prems(3) Cons by (auto simp: callout_sorted_def dest: tv_due_mono)
      with False Cons w1 less.prems(3) show ?thesis
        by (subst calltimeout.simps) (simp add: Let_def)
    qed
  qed
qed

section \<open>Evaluations\<close>

definition queue_at :: "int \<Rightarrow> (int \<times> timer_fn) list \<Rightarrow> timers" where
  "queue_at t es = \<lparr>clock = sconst \<lparr>tv_sec = t, tv_usec = 0\<rparr>, timenow = \<lparr>tv_sec = t, tv_usec = 0\<rparr>,
     callout = map (\<lambda>(s, fn). \<lparr>c_time = \<lparr>tv_sec = s, tv_usec = 0\<rparr>, c_arg = Null_arg, c_func = fn\<rparr>) es\<rparr>"

theorem timeout_spec_witness:
  "map c_func (callout (timeout Fn_chap_timeout Chap_server_arg 3 0
     (queue_at 10 [(12, Fn_upap_timeout), (13, Fn_check_idle), (15, Fn_LcpEchoTimeout)]))) =
   [Fn_upap_timeout, Fn_check_idle, Fn_chap_timeout, Fn_LcpEchoTimeout]"
  using timeout_spec [of "queue_at 10 [(12, Fn_upap_timeout), (13, Fn_check_idle), (15, Fn_LcpEchoTimeout)]"
      Fn_chap_timeout Chap_server_arg 3 0]
  by (simp add: queue_at_def callout_sorted_def expiry_def tv_less_def Let_def)

end
