(* ===== verification/Fsm.thy ===== *)
theory Fsm
  imports Callout_Props
begin

text \<open>
  The option negotiation automaton of \<^verbatim>\<open>pppd/fsm.c\<close> and \<^verbatim>\<open>pppd/fsm.h\<close>, shared by LCP, IPCP, CCP, ECP,
  IPV6CP and IPXCP.

  \<open>struct fsm\<close> is the record \<open>fsm\<close>; the static automaton objects live in \<open>fsms\<close>, indexed by
  \<open>fsm_ref\<close> where the C passes a pointer.  \<open>struct fsm_callbacks\<close> is the record \<open>fsm_callbacks\<close>, one
  optional function per (possibly null) function pointer; since a callback may reach any static
  object, it maps the whole state to the whole state.  The field \<open>callbacks\<close> of the C structure is
  the argument \<open>cb\<close> of the operations.  \<open>sent\<close> records the frames given to \<open>output\<close>, oldest first.
  Log messages are not modelled.  \<open>NUM_PPP\<close> is 1, so unit numbers and the index of \<open>peer_mru\<close> are
  dropped.
\<close>

section \<open>State\<close>

datatype fsm_state = INITIAL | STARTING | CLOSED | STOPPED | CLOSING | STOPPING
  | REQSENT | ACKRCVD | ACKSENT | OPENED

record fsm =
  protocol :: int
  state :: fsm_state
  flags :: u32
  fid :: byte
  reqid :: byte
  seen_ack :: bool
  timeouttime :: int
  maxconfreqtransmits :: int
  retransmits :: int
  maxtermtransmits :: int
  nakloops :: int
  rnakloops :: int
  maxnakloops :: int
  term_reason :: packet

record fsm_world = timers +
  fsms :: "fsm_ref \<Rightarrow> fsm"
  peer_mru :: int
  sent :: "packet list"

record 'w fsm_callbacks =
  cb_resetci :: "('w \<Rightarrow> 'w) option"
  cb_cilen :: "('w \<Rightarrow> int \<times> 'w) option"
  cb_addci :: "('w \<Rightarrow> int \<Rightarrow> packet \<times> int \<times> 'w) option"
  cb_ackci :: "('w \<Rightarrow> packet \<Rightarrow> int) option"
  cb_nakci :: "('w \<Rightarrow> packet \<Rightarrow> bool \<Rightarrow> int \<times> 'w) option"
  cb_rejci :: "('w \<Rightarrow> packet \<Rightarrow> int \<times> 'w) option"
  cb_reqci :: "('w \<Rightarrow> packet \<Rightarrow> bool \<Rightarrow> int \<times> packet \<times> 'w) option"
  cb_up :: "('w \<Rightarrow> 'w) option"
  cb_down :: "('w \<Rightarrow> 'w) option"
  cb_starting :: "('w \<Rightarrow> 'w) option"
  cb_finished :: "('w \<Rightarrow> 'w) option"
  cb_retransmit :: "('w \<Rightarrow> 'w) option"
  cb_extcode :: "('w \<Rightarrow> int \<Rightarrow> byte \<Rightarrow> packet \<Rightarrow> bool \<times> 'w) option"

abbreviation HEADERLEN :: int where "HEADERLEN \<equiv> 4"
abbreviation CONFREQ :: int where "CONFREQ \<equiv> 1"
abbreviation CONFACK :: int where "CONFACK \<equiv> 2"
abbreviation CONFNAK :: int where "CONFNAK \<equiv> 3"
abbreviation CONFREJ :: int where "CONFREJ \<equiv> 4"
abbreviation TERMREQ :: int where "TERMREQ \<equiv> 5"
abbreviation TERMACK :: int where "TERMACK \<equiv> 6"
abbreviation CODEREJ :: int where "CODEREJ \<equiv> 7"

abbreviation OPT_PASSIVE :: u32 where "OPT_PASSIVE \<equiv> 1"
abbreviation OPT_RESTART :: u32 where "OPT_RESTART \<equiv> 2"
abbreviation OPT_SILENT :: u32 where "OPT_SILENT \<equiv> 4"

text \<open>The flag LCP adds: the lower layer is up, but its start is put off.\<close>

abbreviation DELAYED_UP :: u32 where "DELAYED_UP \<equiv> 0x100"

abbreviation DEFTIMEOUT :: int where "DEFTIMEOUT \<equiv> 3"
abbreviation DEFMAXTERMREQS :: int where "DEFMAXTERMREQS \<equiv> 2"
abbreviation DEFMAXCONFREQS :: int where "DEFMAXCONFREQS \<equiv> 10"
abbreviation DEFMAXNAKLOOPS :: int where "DEFMAXNAKLOOPS \<equiv> 5"

text \<open>Access to the automaton behind a pointer.\<close>

definition upd_fsm :: "fsm_ref \<Rightarrow> (fsm \<Rightarrow> fsm) \<Rightarrow> 'z fsm_world_scheme \<Rightarrow> 'z fsm_world_scheme" where
  "upd_fsm f g w = w\<lparr>fsms := (fsms w)(f := g (fsms w f))\<rparr>"

abbreviation st :: "fsm_ref \<Rightarrow> 'z fsm_world_scheme \<Rightarrow> fsm_state" where
  "st f w \<equiv> state (fsms w f)"

abbreviation set_state :: "fsm_ref \<Rightarrow> fsm_state \<Rightarrow> 'z fsm_world_scheme \<Rightarrow> 'z fsm_world_scheme" where
  "set_state f s w \<equiv> upd_fsm f (\<lambda>x. x\<lparr>state := s\<rparr>) w"

abbreviation has_flag :: "fsm_ref \<Rightarrow> u32 \<Rightarrow> 'z fsm_world_scheme \<Rightarrow> bool" where
  "has_flag f b w \<equiv> flags (fsms w f) AND b \<noteq> 0"

text \<open>\<open>if (f->callbacks->cb) (*f->callbacks->cb)(f)\<close>.\<close>

definition callback :: "('w \<Rightarrow> 'w) option \<Rightarrow> 'w \<Rightarrow> 'w" where
  "callback g w = (case g of None \<Rightarrow> w | Some h \<Rightarrow> h w)"

text \<open>\<open>f->reqid = ++f->id\<close>.\<close>

definition new_reqid :: "fsm_ref \<Rightarrow> 'z fsm_world_scheme \<Rightarrow> 'z fsm_world_scheme" where
  "new_reqid f = upd_fsm f (\<lambda>x. x\<lparr>fid := fid x + 1, reqid := fid x + 1\<rparr>)"

abbreviation TIMEOUT_fsm :: "fsm_ref \<Rightarrow> 'z fsm_world_scheme \<Rightarrow> 'z fsm_world_scheme" where
  "TIMEOUT_fsm f w \<equiv> TIMEOUT Fn_fsm_timeout (Fsm_arg f) (timeouttime (fsms w f)) w"

abbreviation UNTIMEOUT_fsm :: "fsm_ref \<Rightarrow> 'z fsm_world_scheme \<Rightarrow> 'z fsm_world_scheme" where
  "UNTIMEOUT_fsm f w \<equiv> UNTIMEOUT Fn_fsm_timeout (Fsm_arg f) w"

section \<open>Operations\<close>

definition fsm_init :: "fsm_ref \<Rightarrow> 'z fsm_world_scheme \<Rightarrow> 'z fsm_world_scheme" where
  "fsm_init f = upd_fsm f (\<lambda>x. x\<lparr>state := INITIAL, flags := 0, fid := 0, timeouttime := DEFTIMEOUT,
     maxconfreqtransmits := DEFMAXCONFREQS, maxtermtransmits := DEFMAXTERMREQS,
     maxnakloops := DEFMAXNAKLOOPS, term_reason := []\<rparr>)"

text \<open>
  \<open>fsm_sdata\<close>: the data is the list of the \<open>datalen\<close> octets behind \<open>data\<close>.
\<close>

definition fsm_sdata :: "fsm_ref \<Rightarrow> int \<Rightarrow> byte \<Rightarrow> packet \<Rightarrow> 'z fsm_world_scheme \<Rightarrow> 'z fsm_world_scheme" where
  "fsm_sdata f code idn data w =
     (let datalen = int (length data);
          datalen = (if datalen > peer_mru w - HEADERLEN then peer_mru w - HEADERLEN else datalen);
          outlen = datalen + HEADERLEN
      in w\<lparr>sent := sent w @ [MAKEHEADER (protocol (fsms w f)) @ PUTCHAR code @ [idn] @
                              PUTSHORT outlen @ take (nat datalen) data]\<rparr>)"

text \<open>
  The options of a Configure-Request.  \<open>addci\<close> gets the length that is left for them and returns the octets it writes
  and the length it has set; both callbacks may change the options they ask for.
\<close>

definition confreq_data ::
    "'z fsm_world_scheme fsm_callbacks \<Rightarrow> 'z fsm_world_scheme \<Rightarrow> packet \<times> 'z fsm_world_scheme" where
  "confreq_data cb w =
     (case (cb_cilen cb, cb_addci cb) of
        (Some cl, Some ac) \<Rightarrow>
          (let (n, w) = cl w;
               n = (if n > peer_mru w - HEADERLEN then peer_mru w - HEADERLEN else n);
               (bs, n, w) = ac w n
           in (take (nat n) bs, w))
      | _ \<Rightarrow> ([], w))"

definition fsm_sconfreq ::
    "'z fsm_world_scheme fsm_callbacks \<Rightarrow> fsm_ref \<Rightarrow> bool \<Rightarrow> 'z fsm_world_scheme \<Rightarrow> 'z fsm_world_scheme" where
  "fsm_sconfreq cb f retrans w =
     (let w = (if st f w \<noteq> REQSENT \<and> st f w \<noteq> ACKRCVD \<and> st f w \<noteq> ACKSENT
               then upd_fsm f (\<lambda>x. x\<lparr>nakloops := 0, rnakloops := 0\<rparr>) (callback (cb_resetci cb) w)
               else w);
          w = (if \<not> retrans
               then new_reqid f (upd_fsm f (\<lambda>x. x\<lparr>retransmits := maxconfreqtransmits x\<rparr>) w)
               else w);
          w = upd_fsm f (\<lambda>x. x\<lparr>seen_ack := False\<rparr>) w;
          (data, w) = confreq_data cb w;
          w = fsm_sdata f CONFREQ (reqid (fsms w f)) data w;
          w = upd_fsm f (\<lambda>x. x\<lparr>retransmits := retransmits x - 1\<rparr>) w
      in TIMEOUT_fsm f w)"

definition fsm_lowerup ::
    "'z fsm_world_scheme fsm_callbacks \<Rightarrow> fsm_ref \<Rightarrow> 'z fsm_world_scheme \<Rightarrow> 'z fsm_world_scheme" where
  "fsm_lowerup cb f w =
     (case st f w of
        INITIAL \<Rightarrow> set_state f CLOSED w
      | STARTING \<Rightarrow>
          (if has_flag f OPT_SILENT w then set_state f STOPPED w
           else set_state f REQSENT (fsm_sconfreq cb f False w))
      | _ \<Rightarrow> w)"

definition fsm_lowerdown ::
    "'z fsm_world_scheme fsm_callbacks \<Rightarrow> fsm_ref \<Rightarrow> 'z fsm_world_scheme \<Rightarrow> 'z fsm_world_scheme" where
  "fsm_lowerdown cb f w =
     (case st f w of
        CLOSED \<Rightarrow> set_state f INITIAL w
      | STOPPED \<Rightarrow> callback (cb_starting cb) (set_state f STARTING w)
      | CLOSING \<Rightarrow> UNTIMEOUT_fsm f (set_state f INITIAL w)
      | STOPPING \<Rightarrow> UNTIMEOUT_fsm f (set_state f STARTING w)
      | REQSENT \<Rightarrow> UNTIMEOUT_fsm f (set_state f STARTING w)
      | ACKRCVD \<Rightarrow> UNTIMEOUT_fsm f (set_state f STARTING w)
      | ACKSENT \<Rightarrow> UNTIMEOUT_fsm f (set_state f STARTING w)
      | OPENED \<Rightarrow> set_state f STARTING (callback (cb_down cb) w)
      | _ \<Rightarrow> w)"

text \<open>The tail of \<open>fsm_open\<close> that \<open>CLOSING\<close> falls through to.\<close>

definition fsm_open_restart ::
    "'z fsm_world_scheme fsm_callbacks \<Rightarrow> fsm_ref \<Rightarrow> 'z fsm_world_scheme \<Rightarrow> 'z fsm_world_scheme" where
  "fsm_open_restart cb f w =
     (if has_flag f OPT_RESTART w then fsm_lowerup cb f (fsm_lowerdown cb f w) else w)"

definition fsm_open ::
    "'z fsm_world_scheme fsm_callbacks \<Rightarrow> fsm_ref \<Rightarrow> 'z fsm_world_scheme \<Rightarrow> 'z fsm_world_scheme" where
  "fsm_open cb f w =
     (case st f w of
        INITIAL \<Rightarrow> callback (cb_starting cb) (set_state f STARTING w)
      | CLOSED \<Rightarrow>
          (if has_flag f OPT_SILENT w then set_state f STOPPED w
           else set_state f REQSENT (fsm_sconfreq cb f False w))
      | CLOSING \<Rightarrow> fsm_open_restart cb f (set_state f STOPPING w)
      | STOPPED \<Rightarrow> fsm_open_restart cb f w
      | OPENED \<Rightarrow> fsm_open_restart cb f w
      | _ \<Rightarrow> w)"

text \<open>\<open>fsm_sdata(f, TERMREQ, f->reqid = ++f->id, f->term_reason, f->term_reason_len)\<close>.\<close>

definition send_termreq :: "fsm_ref \<Rightarrow> 'z fsm_world_scheme \<Rightarrow> 'z fsm_world_scheme" where
  "send_termreq f w =
     (let w = new_reqid f w
      in fsm_sdata f TERMREQ (reqid (fsms w f)) (term_reason (fsms w f)) w)"

definition terminate_layer ::
    "'z fsm_world_scheme fsm_callbacks \<Rightarrow> fsm_ref \<Rightarrow> fsm_state \<Rightarrow> 'z fsm_world_scheme \<Rightarrow> 'z fsm_world_scheme" where
  "terminate_layer cb f nextstate w =
     (let w = (if st f w \<noteq> OPENED then UNTIMEOUT_fsm f w else callback (cb_down cb) w);
          w = upd_fsm f (\<lambda>x. x\<lparr>retransmits := maxtermtransmits x\<rparr>) w;
          w = send_termreq f w
      in if retransmits (fsms w f) = 0
         then callback (cb_finished cb) (set_state f (if nextstate = CLOSING then CLOSED else STOPPED) w)
         else set_state f nextstate
                (upd_fsm f (\<lambda>x. x\<lparr>retransmits := retransmits x - 1\<rparr>) (TIMEOUT_fsm f w)))"

definition fsm_close ::
    "'z fsm_world_scheme fsm_callbacks \<Rightarrow> fsm_ref \<Rightarrow> packet \<Rightarrow> 'z fsm_world_scheme \<Rightarrow> 'z fsm_world_scheme" where
  "fsm_close cb f reason w =
     (let w = upd_fsm f (\<lambda>x. x\<lparr>term_reason := reason\<rparr>) w
      in case st f w of
           STARTING \<Rightarrow> set_state f INITIAL w
         | STOPPED \<Rightarrow> set_state f CLOSED w
         | STOPPING \<Rightarrow> set_state f CLOSING w
         | REQSENT \<Rightarrow> terminate_layer cb f CLOSING w
         | ACKRCVD \<Rightarrow> terminate_layer cb f CLOSING w
         | ACKSENT \<Rightarrow> terminate_layer cb f CLOSING w
         | OPENED \<Rightarrow> terminate_layer cb f CLOSING w
         | _ \<Rightarrow> w)"

definition timeout_terminating ::
    "'z fsm_world_scheme fsm_callbacks \<Rightarrow> fsm_ref \<Rightarrow> 'z fsm_world_scheme \<Rightarrow> 'z fsm_world_scheme" where
  "timeout_terminating cb f w =
     (if retransmits (fsms w f) \<le> 0
      then callback (cb_finished cb) (set_state f (if st f w = CLOSING then CLOSED else STOPPED) w)
      else upd_fsm f (\<lambda>x. x\<lparr>retransmits := retransmits x - 1\<rparr>) (TIMEOUT_fsm f (send_termreq f w)))"

definition timeout_negotiating ::
    "'z fsm_world_scheme fsm_callbacks \<Rightarrow> fsm_ref \<Rightarrow> 'z fsm_world_scheme \<Rightarrow> 'z fsm_world_scheme" where
  "timeout_negotiating cb f w =
     (if retransmits (fsms w f) \<le> 0
      then (let w = set_state f STOPPED w
            in if has_flag f OPT_PASSIVE w then w else callback (cb_finished cb) w)
      else (let w = fsm_sconfreq cb f True (callback (cb_retransmit cb) w)
            in if st f w = ACKRCVD then set_state f REQSENT w else w))"

definition fsm_timeout ::
    "'z fsm_world_scheme fsm_callbacks \<Rightarrow> fsm_ref \<Rightarrow> 'z fsm_world_scheme \<Rightarrow> 'z fsm_world_scheme" where
  "fsm_timeout cb f w =
     (case st f w of
        CLOSING \<Rightarrow> timeout_terminating cb f w
      | STOPPING \<Rightarrow> timeout_terminating cb f w
      | REQSENT \<Rightarrow> timeout_negotiating cb f w
      | ACKRCVD \<Rightarrow> timeout_negotiating cb f w
      | ACKSENT \<Rightarrow> timeout_negotiating cb f w
      | _ \<Rightarrow> w)"

text \<open>\<open>fsm_rconfreq\<close>, after the switch on the state: the request is answered and the state advances.\<close>

definition rconfreq_answer ::
    "'z fsm_world_scheme fsm_callbacks \<Rightarrow> fsm_ref \<Rightarrow> byte \<Rightarrow> packet \<Rightarrow> 'z fsm_world_scheme \<Rightarrow> 'z fsm_world_scheme" where
  "rconfreq_answer cb f idn inp w =
     (let reject_if_disagree = (nakloops (fsms w f) \<ge> maxnakloops (fsms w f));
          (code, inp, w) = (case cb_reqci cb of
                              Some rq \<Rightarrow> rq w inp reject_if_disagree
                            | None \<Rightarrow> (if inp \<noteq> [] then (CONFREJ, inp, w) else (CONFACK, inp, w)));
          w = fsm_sdata f code idn inp w
      in if code = CONFACK
         then upd_fsm f (\<lambda>x. x\<lparr>nakloops := 0\<rparr>)
                (if st f w = ACKRCVD
                 then callback (cb_up cb) (set_state f OPENED (UNTIMEOUT_fsm f w))
                 else set_state f ACKSENT w)
         else (let w = (if st f w \<noteq> ACKRCVD then set_state f REQSENT w else w)
               in if code = CONFNAK then upd_fsm f (\<lambda>x. x\<lparr>nakloops := nakloops x + 1\<rparr>) w else w))"

definition fsm_rconfreq ::
    "'z fsm_world_scheme fsm_callbacks \<Rightarrow> fsm_ref \<Rightarrow> byte \<Rightarrow> packet \<Rightarrow> 'z fsm_world_scheme \<Rightarrow> 'z fsm_world_scheme" where
  "fsm_rconfreq cb f idn inp w =
     (case st f w of
        CLOSED \<Rightarrow> fsm_sdata f TERMACK idn [] w
      | CLOSING \<Rightarrow> w
      | STOPPING \<Rightarrow> w
      | OPENED \<Rightarrow> rconfreq_answer cb f idn inp
                    (set_state f REQSENT (fsm_sconfreq cb f False (callback (cb_down cb) w)))
      | STOPPED \<Rightarrow> rconfreq_answer cb f idn inp (set_state f REQSENT (fsm_sconfreq cb f False w))
      | _ \<Rightarrow> rconfreq_answer cb f idn inp w)"

definition fsm_rconfack ::
    "'z fsm_world_scheme fsm_callbacks \<Rightarrow> fsm_ref \<Rightarrow> byte \<Rightarrow> packet \<Rightarrow> 'z fsm_world_scheme \<Rightarrow> 'z fsm_world_scheme" where
  "fsm_rconfack cb f idn inp w =
     (if idn \<noteq> reqid (fsms w f) \<or> seen_ack (fsms w f) then w
      else if \<not> (case cb_ackci cb of Some a \<Rightarrow> a w inp \<noteq> 0 | None \<Rightarrow> inp = []) then w
      else
        (let w = upd_fsm f (\<lambda>x. x\<lparr>seen_ack := True, rnakloops := 0\<rparr>) w
         in case st f w of
              CLOSED \<Rightarrow> fsm_sdata f TERMACK idn [] w
            | STOPPED \<Rightarrow> fsm_sdata f TERMACK idn [] w
            | REQSENT \<Rightarrow> upd_fsm f (\<lambda>x. x\<lparr>state := ACKRCVD, retransmits := maxconfreqtransmits x\<rparr>) w
            | ACKRCVD \<Rightarrow> set_state f REQSENT (fsm_sconfreq cb f False (UNTIMEOUT_fsm f w))
            | ACKSENT \<Rightarrow> callback (cb_up cb)
                           (upd_fsm f (\<lambda>x. x\<lparr>state := OPENED, retransmits := maxconfreqtransmits x\<rparr>)
                             (UNTIMEOUT_fsm f w))
            | OPENED \<Rightarrow> set_state f REQSENT (fsm_sconfreq cb f False (callback (cb_down cb) w))
            | _ \<Rightarrow> w))"

text \<open>
  \<open>fsm_rconfnakrej\<close>: the first part passes the packet to \<open>nakci\<close> or \<open>rejci\<close> and gives the value
  \<open>ret\<close>; 0 (bad packet, or no such callback) drops the packet.
\<close>

definition rconfnakrej_check ::
    "'z fsm_world_scheme fsm_callbacks \<Rightarrow> fsm_ref \<Rightarrow> int \<Rightarrow> packet \<Rightarrow> 'z fsm_world_scheme \<Rightarrow> int \<times> 'z fsm_world_scheme" where
  "rconfnakrej_check cb f code inp w =
     (if code = CONFNAK
      then (let w = upd_fsm f (\<lambda>x. x\<lparr>rnakloops := rnakloops x + 1\<rparr>) w;
                treat_as_reject = (rnakloops (fsms w f) \<ge> maxnakloops (fsms w f))
            in case cb_nakci cb of None \<Rightarrow> (0, w) | Some n \<Rightarrow> n w inp treat_as_reject)
      else (let w = upd_fsm f (\<lambda>x. x\<lparr>rnakloops := 0\<rparr>) w
            in case cb_rejci cb of None \<Rightarrow> (0, w) | Some r \<Rightarrow> r w inp))"

definition fsm_rconfnakrej ::
    "'z fsm_world_scheme fsm_callbacks \<Rightarrow> fsm_ref \<Rightarrow> int \<Rightarrow> byte \<Rightarrow> packet \<Rightarrow> 'z fsm_world_scheme \<Rightarrow> 'z fsm_world_scheme" where
  "fsm_rconfnakrej cb f code idn inp w =
     (if idn \<noteq> reqid (fsms w f) \<or> seen_ack (fsms w f) then w
      else
        (let (ret, w) = rconfnakrej_check cb f code inp w
         in if ret = 0 then w
            else
              (let w = upd_fsm f (\<lambda>x. x\<lparr>seen_ack := True\<rparr>) w
               in case st f w of
                    CLOSED \<Rightarrow> fsm_sdata f TERMACK idn [] w
                  | STOPPED \<Rightarrow> fsm_sdata f TERMACK idn [] w
                  | REQSENT \<Rightarrow> (let w = UNTIMEOUT_fsm f w
                                in if ret < 0 then set_state f STOPPED w else fsm_sconfreq cb f False w)
                  | ACKSENT \<Rightarrow> (let w = UNTIMEOUT_fsm f w
                                in if ret < 0 then set_state f STOPPED w else fsm_sconfreq cb f False w)
                  | ACKRCVD \<Rightarrow> set_state f REQSENT (fsm_sconfreq cb f False (UNTIMEOUT_fsm f w))
                  | OPENED \<Rightarrow> set_state f REQSENT (fsm_sconfreq cb f False (callback (cb_down cb) w))
                  | _ \<Rightarrow> w)))"

definition fsm_rtermreq ::
    "'z fsm_world_scheme fsm_callbacks \<Rightarrow> fsm_ref \<Rightarrow> byte \<Rightarrow> packet \<Rightarrow> 'z fsm_world_scheme \<Rightarrow> 'z fsm_world_scheme" where
  "fsm_rtermreq cb f idn p w =
     fsm_sdata f TERMACK idn []
       (case st f w of
          ACKRCVD \<Rightarrow> set_state f REQSENT w
        | ACKSENT \<Rightarrow> set_state f REQSENT w
        | OPENED \<Rightarrow> (let w = callback (cb_down cb) (upd_fsm f (\<lambda>x. x\<lparr>retransmits := 0, state := STOPPING\<rparr>) w)
                     in TIMEOUT_fsm f w)
        | _ \<Rightarrow> w)"

definition fsm_rtermack ::
    "'z fsm_world_scheme fsm_callbacks \<Rightarrow> fsm_ref \<Rightarrow> 'z fsm_world_scheme \<Rightarrow> 'z fsm_world_scheme" where
  "fsm_rtermack cb f w =
     (case st f w of
        CLOSING \<Rightarrow> callback (cb_finished cb) (set_state f CLOSED (UNTIMEOUT_fsm f w))
      | STOPPING \<Rightarrow> callback (cb_finished cb) (set_state f STOPPED (UNTIMEOUT_fsm f w))
      | ACKRCVD \<Rightarrow> set_state f REQSENT w
      | OPENED \<Rightarrow> set_state f REQSENT (fsm_sconfreq cb f False (callback (cb_down cb) w))
      | _ \<Rightarrow> w)"

definition fsm_rcoderej :: "fsm_ref \<Rightarrow> packet \<Rightarrow> 'z fsm_world_scheme \<Rightarrow> 'z fsm_world_scheme" where
  "fsm_rcoderej f inp w =
     (if int (length inp) < HEADERLEN then w
      else if st f w = ACKRCVD then set_state f REQSENT w else w)"

definition fsm_protreject ::
    "'z fsm_world_scheme fsm_callbacks \<Rightarrow> fsm_ref \<Rightarrow> 'z fsm_world_scheme \<Rightarrow> 'z fsm_world_scheme" where
  "fsm_protreject cb f w =
     (case st f w of
        CLOSING \<Rightarrow> callback (cb_finished cb) (set_state f CLOSED (UNTIMEOUT_fsm f w))
      | CLOSED \<Rightarrow> callback (cb_finished cb) (set_state f CLOSED w)
      | STOPPING \<Rightarrow> callback (cb_finished cb) (set_state f STOPPED (UNTIMEOUT_fsm f w))
      | REQSENT \<Rightarrow> callback (cb_finished cb) (set_state f STOPPED (UNTIMEOUT_fsm f w))
      | ACKRCVD \<Rightarrow> callback (cb_finished cb) (set_state f STOPPED (UNTIMEOUT_fsm f w))
      | ACKSENT \<Rightarrow> callback (cb_finished cb) (set_state f STOPPED (UNTIMEOUT_fsm f w))
      | STOPPED \<Rightarrow> callback (cb_finished cb) (set_state f STOPPED w)
      | OPENED \<Rightarrow> terminate_layer cb f STOPPING w
      | _ \<Rightarrow> w)"

text \<open>
  \<open>fsm_input\<close>: the last branch is the \<open>default\<close> of the switch, where the code is offered to the
  \<open>extcode\<close> callback first.
\<close>

definition input_dispatch ::
    "'z fsm_world_scheme fsm_callbacks \<Rightarrow> fsm_ref \<Rightarrow> packet \<Rightarrow> int \<Rightarrow> byte \<Rightarrow> packet \<Rightarrow>
     'z fsm_world_scheme \<Rightarrow> 'z fsm_world_scheme" where
  "input_dispatch cb f whole code idn inp w =
     (if code = CONFREQ then fsm_rconfreq cb f idn inp w
      else if code = CONFACK then fsm_rconfack cb f idn inp w
      else if code = CONFNAK \<or> code = CONFREJ then fsm_rconfnakrej cb f code idn inp w
      else if code = TERMREQ then fsm_rtermreq cb f idn inp w
      else if code = TERMACK then fsm_rtermack cb f w
      else if code = CODEREJ then fsm_rcoderej f inp w
      else
        (let (handled, w) = (case cb_extcode cb of None \<Rightarrow> (False, w) | Some x \<Rightarrow> x w code idn inp)
         in if handled then w
            else (let w = upd_fsm f (\<lambda>x. x\<lparr>fid := fid x + 1\<rparr>) w
                  in fsm_sdata f CODEREJ (fid (fsms w f)) whole w)))"

definition fsm_input ::
    "'z fsm_world_scheme fsm_callbacks \<Rightarrow> fsm_ref \<Rightarrow> packet \<Rightarrow> 'z fsm_world_scheme \<Rightarrow> 'z fsm_world_scheme" where
  "fsm_input cb f inpacket w =
     (case inpacket of
        code # idn # l1 # l2 # inp \<Rightarrow>
          (let len = GETSHORT l1 l2
           in if len < HEADERLEN then w
              else if len > int (length inpacket) then w
              else if st f w = INITIAL \<or> st f w = STARTING then w
              else input_dispatch cb f (take (nat len) inpacket) (uint code) idn
                     (take (nat (len - HEADERLEN)) inp) w)
      | _ \<Rightarrow> w)"

end
