(* ===== verification/Lcp_Options.thy ===== *)
theory Lcp_Options
  imports Fsm "HOL-Library.Monad_Syntax"
begin

text \<open>
  The configuration options of LCP: \<open>struct lcp_options\<close> of \<^verbatim>\<open>pppd/lcp.h\<close>, and the part of
  \<^verbatim>\<open>pppd/lcp.c\<close> that builds, checks and answers lists of configuration options (CIs): \<open>lcp_cilen\<close>,
  \<open>lcp_addci\<close>, \<open>lcp_ackci\<close>, \<open>lcp_nakci\<close>, \<open>lcp_rejci\<close> and \<open>lcp_reqci\<close>.

  Each C macro (\<open>ADDCISHORT\<close>, \<open>ACKCISHORT\<close>, \<open>NAKCISHORT\<close>, ...) is one definition under its own name.
  A \<open>goto bad\<close> is the value \<open>None\<close>.  The functions here are pure: \<open>lcp.c\<close>'s own functions, which fetch
  and store the static option records, are in \<open>Lcp\<close>.  The random numbers of \<open>magic()\<close> are taken from
  a stream.
\<close>

section \<open>Data\<close>

record epdisc =
  ep_class :: byte
  ep_value :: packet

record lcp_options =
  opt_passive :: bool
  opt_silent :: bool
  opt_restart :: bool
  neg_mru :: bool
  neg_asyncmap :: bool
  neg_upap :: bool
  neg_chap :: bool
  neg_eap :: bool
  neg_magicnumber :: bool
  neg_pcompression :: bool
  neg_accompression :: bool
  neg_lqr :: bool
  neg_cbcp :: bool
  neg_mrru :: bool
  neg_ssnhf :: bool
  neg_endpoint :: bool
  mru :: int
  mrru :: int
  chap_mdtype :: byte
  asyncmap :: u32
  magicnumber :: u32
  numloops :: int
  lqr_period :: u32
  endpoint :: epdisc

text \<open>The record after \<open>BZERO\<close>.\<close>

definition lcp_zero :: lcp_options where
  "lcp_zero = \<lparr>opt_passive = False, opt_silent = False, opt_restart = False, neg_mru = False, neg_asyncmap = False,
     neg_upap = False, neg_chap = False, neg_eap = False, neg_magicnumber = False,
     neg_pcompression = False, neg_accompression = False, neg_lqr = False, neg_cbcp = False,
     neg_mrru = False, neg_ssnhf = False, neg_endpoint = False, mru = 0, mrru = 0, chap_mdtype = 0,
     asyncmap = 0, magicnumber = 0, numloops = 0, lqr_period = 0,
     endpoint = \<lparr>ep_class = 0, ep_value = []\<rparr>\<rparr>"

abbreviation CI_MRU :: byte where "CI_MRU \<equiv> 1"
abbreviation CI_ASYNCMAP :: byte where "CI_ASYNCMAP \<equiv> 2"
abbreviation CI_AUTHTYPE :: byte where "CI_AUTHTYPE \<equiv> 3"
abbreviation CI_QUALITY :: byte where "CI_QUALITY \<equiv> 4"
abbreviation CI_MAGICNUMBER :: byte where "CI_MAGICNUMBER \<equiv> 5"
abbreviation CI_PCOMPRESSION :: byte where "CI_PCOMPRESSION \<equiv> 7"
abbreviation CI_ACCOMPRESSION :: byte where "CI_ACCOMPRESSION \<equiv> 8"
abbreviation CI_CALLBACK :: byte where "CI_CALLBACK \<equiv> 13"
abbreviation CI_MRRU :: byte where "CI_MRRU \<equiv> 17"
abbreviation CI_SSNHF :: byte where "CI_SSNHF \<equiv> 18"
abbreviation CI_EPDISC :: byte where "CI_EPDISC \<equiv> 19"

abbreviation CBCP_OPT :: byte where "CBCP_OPT \<equiv> 6"
abbreviation DEFMRU :: int where "DEFMRU \<equiv> 1500"
abbreviation MINMRU :: int where "MINMRU \<equiv> 128"
abbreviation MAXMRU :: int where "MAXMRU \<equiv> 16384"
abbreviation MAX_ENDP_LEN :: int where "MAX_ENDP_LEN \<equiv> 20"

section \<open>CHAP digest types (the macros of chap-new.h)\<close>

abbreviation CHAP_MD5 :: byte where "CHAP_MD5 \<equiv> 5"
abbreviation CHAP_MICROSOFT :: byte where "CHAP_MICROSOFT \<equiv> 0x80"
abbreviation CHAP_MICROSOFT_V2 :: byte where "CHAP_MICROSOFT_V2 \<equiv> 0x81"
abbreviation MDTYPE_MICROSOFT_V2 :: byte where "MDTYPE_MICROSOFT_V2 \<equiv> 1"
abbreviation MDTYPE_MICROSOFT :: byte where "MDTYPE_MICROSOFT \<equiv> 2"
abbreviation MDTYPE_MD5 :: byte where "MDTYPE_MD5 \<equiv> 4"
abbreviation MDTYPE_NONE :: byte where "MDTYPE_NONE \<equiv> 0"

definition CHAP_DIGEST :: "byte \<Rightarrow> byte" where
  "CHAP_DIGEST mdtype =
     (if mdtype AND MDTYPE_MD5 \<noteq> 0 then CHAP_MD5
      else if mdtype AND MDTYPE_MICROSOFT_V2 \<noteq> 0 then CHAP_MICROSOFT_V2
      else if mdtype AND MDTYPE_MICROSOFT \<noteq> 0 then CHAP_MICROSOFT
      else 0)"

definition CHAP_MDTYPE :: "byte \<Rightarrow> byte" where
  "CHAP_MDTYPE mdtype = (mdtype XOR (mdtype - 1)) AND mdtype"

definition CHAP_MDTYPE_D :: "byte \<Rightarrow> byte" where
  "CHAP_MDTYPE_D digest =
     (if digest = CHAP_MICROSOFT_V2 then MDTYPE_MICROSOFT_V2
      else if digest = CHAP_MICROSOFT then MDTYPE_MICROSOFT
      else if digest = CHAP_MD5 then MDTYPE_MD5
      else 0)"

definition CHAP_CANDIGEST :: "byte \<Rightarrow> byte \<Rightarrow> bool" where
  "CHAP_CANDIGEST mdtype digest =
     (if digest = CHAP_MICROSOFT_V2 then mdtype AND MDTYPE_MICROSOFT_V2 \<noteq> 0
      else if digest = CHAP_MICROSOFT then mdtype AND MDTYPE_MICROSOFT \<noteq> 0
      else if digest = CHAP_MD5 then mdtype AND MDTYPE_MD5 \<noteq> 0
      else False)"

text \<open>
  The test \<open>cichar != CHAP_DIGEST(mdtype)\<close> of \<open>lcp_nakci\<close>.  The macro has no outer parentheses, so the
  comparison binds to its first condition: the C expression is
  \<open>(cichar != (mdtype & MDTYPE_MD5)) ? CHAP_MD5 : (mdtype & MDTYPE_MICROSOFT_V2) ? ... : 0\<close>.
\<close>

definition neq_CHAP_DIGEST :: "byte \<Rightarrow> byte \<Rightarrow> bool" where
  "neq_CHAP_DIGEST cichar mdtype =
     ((if cichar \<noteq> mdtype AND MDTYPE_MD5 then CHAP_MD5
       else if mdtype AND MDTYPE_MICROSOFT_V2 \<noteq> 0 then CHAP_MICROSOFT_V2
       else if mdtype AND MDTYPE_MICROSOFT \<noteq> 0 then CHAP_MICROSOFT
       else 0) \<noteq> 0)"

section \<open>Building a request\<close>

definition ADDCIVOID :: "byte \<Rightarrow> bool \<Rightarrow> packet" where
  "ADDCIVOID opt neg = (if neg then [opt, 2] else [])"

definition ADDCISHORT :: "byte \<Rightarrow> bool \<Rightarrow> int \<Rightarrow> packet" where
  "ADDCISHORT opt neg val = (if neg then [opt, 4] @ PUTSHORT val else [])"

definition ADDCICHAP :: "byte \<Rightarrow> bool \<Rightarrow> byte \<Rightarrow> packet" where
  "ADDCICHAP opt neg val = (if neg then [opt, 5] @ PUTSHORT PPP_CHAP @ [CHAP_DIGEST val] else [])"

definition ADDCILONG :: "byte \<Rightarrow> bool \<Rightarrow> u32 \<Rightarrow> packet" where
  "ADDCILONG opt neg val = (if neg then [opt, 6] @ PUTLONG val else [])"

definition ADDCILQR :: "byte \<Rightarrow> bool \<Rightarrow> u32 \<Rightarrow> packet" where
  "ADDCILQR opt neg val = (if neg then [opt, 8] @ PUTSHORT PPP_LQR @ PUTLONG val else [])"

definition ADDCICHAR :: "byte \<Rightarrow> bool \<Rightarrow> byte \<Rightarrow> packet" where
  "ADDCICHAR opt neg val = (if neg then [opt, 3, val] else [])"

definition ADDCIENDP :: "byte \<Rightarrow> bool \<Rightarrow> byte \<Rightarrow> packet \<Rightarrow> packet" where
  "ADDCIENDP opt neg cls val = (if neg then [opt] @ PUTCHAR (3 + int (length val)) @ [cls] @ val else [])"

definition lcp_cilen_of :: "lcp_options \<Rightarrow> int" where
  "lcp_cilen_of go =
     (if neg_mru go \<and> mru go \<noteq> DEFMRU then 4 else 0) +
     (if neg_asyncmap go \<and> asyncmap go \<noteq> 0xFFFFFFFF then 6 else 0) +
     (if neg_eap go then 4 else 0) +
     (if \<not> neg_eap go \<and> neg_chap go then 5 else 0) +
     (if \<not> neg_eap go \<and> \<not> neg_chap go \<and> neg_upap go then 4 else 0) +
     (if neg_lqr go then 8 else 0) +
     (if neg_cbcp go then 3 else 0) +
     (if neg_magicnumber go then 6 else 0) +
     (if neg_pcompression go then 2 else 0) +
     (if neg_accompression go then 2 else 0) +
     (if neg_mrru go then 4 else 0) +
     (if neg_ssnhf go then 2 else 0) +
     (if neg_endpoint go then 3 + int (length (ep_value (endpoint go))) else 0)"

definition lcp_addci_of :: "lcp_options \<Rightarrow> packet" where
  "lcp_addci_of go =
     ADDCISHORT CI_MRU (neg_mru go \<and> mru go \<noteq> DEFMRU) (mru go) @
     ADDCILONG CI_ASYNCMAP (neg_asyncmap go \<and> asyncmap go \<noteq> 0xFFFFFFFF) (asyncmap go) @
     ADDCISHORT CI_AUTHTYPE (neg_eap go) PPP_EAP @
     ADDCICHAP CI_AUTHTYPE (\<not> neg_eap go \<and> neg_chap go) (chap_mdtype go) @
     ADDCISHORT CI_AUTHTYPE (\<not> neg_eap go \<and> \<not> neg_chap go \<and> neg_upap go) PPP_PAP @
     ADDCILQR CI_QUALITY (neg_lqr go) (lqr_period go) @
     ADDCICHAR CI_CALLBACK (neg_cbcp go) CBCP_OPT @
     ADDCILONG CI_MAGICNUMBER (neg_magicnumber go) (magicnumber go) @
     ADDCIVOID CI_PCOMPRESSION (neg_pcompression go) @
     ADDCIVOID CI_ACCOMPRESSION (neg_accompression go) @
     ADDCISHORT CI_MRRU (neg_mrru go) (mrru go) @
     ADDCIVOID CI_SSNHF (neg_ssnhf go) @
     ADDCIENDP CI_EPDISC (neg_endpoint go) (ep_class (endpoint go)) (ep_value (endpoint go))"

section \<open>Checking an Ack\<close>

definition ACKCIVOID :: "byte \<Rightarrow> bool \<Rightarrow> packet \<Rightarrow> packet option" where
  "ACKCIVOID opt neg p =
     (if neg then
        (case p of
           citype # cilen # p \<Rightarrow> (if cilen \<noteq> 2 \<or> citype \<noteq> opt then None else Some p)
         | _ \<Rightarrow> None)
      else Some p)"

definition ACKCISHORT :: "byte \<Rightarrow> bool \<Rightarrow> int \<Rightarrow> packet \<Rightarrow> packet option" where
  "ACKCISHORT opt neg val p =
     (if neg then
        (case p of
           citype # cilen # a # b # p \<Rightarrow>
             (if cilen \<noteq> 4 \<or> citype \<noteq> opt then None
              else if GETSHORT a b \<noteq> val then None else Some p)
         | _ \<Rightarrow> None)
      else Some p)"

definition ACKCICHAR :: "byte \<Rightarrow> bool \<Rightarrow> byte \<Rightarrow> packet \<Rightarrow> packet option" where
  "ACKCICHAR opt neg val p =
     (if neg then
        (case p of
           citype # cilen # c # p \<Rightarrow>
             (if cilen \<noteq> 3 \<or> citype \<noteq> opt then None
              else if c \<noteq> val then None else Some p)
         | _ \<Rightarrow> None)
      else Some p)"

definition ACKCICHAP :: "byte \<Rightarrow> bool \<Rightarrow> byte \<Rightarrow> packet \<Rightarrow> packet option" where
  "ACKCICHAP opt neg val p =
     (if neg then
        (case p of
           citype # cilen # a # b # c # p \<Rightarrow>
             (if cilen \<noteq> 5 \<or> citype \<noteq> opt then None
              else if GETSHORT a b \<noteq> PPP_CHAP then None
              else if c \<noteq> CHAP_DIGEST val then None else Some p)
         | _ \<Rightarrow> None)
      else Some p)"

definition ACKCILONG :: "byte \<Rightarrow> bool \<Rightarrow> u32 \<Rightarrow> packet \<Rightarrow> packet option" where
  "ACKCILONG opt neg val p =
     (if neg then
        (case p of
           citype # cilen # a # b # c # d # p \<Rightarrow>
             (if cilen \<noteq> 6 \<or> citype \<noteq> opt then None
              else if GETLONG a b c d \<noteq> val then None else Some p)
         | _ \<Rightarrow> None)
      else Some p)"

definition ACKCILQR :: "byte \<Rightarrow> bool \<Rightarrow> u32 \<Rightarrow> packet \<Rightarrow> packet option" where
  "ACKCILQR opt neg val p =
     (if neg then
        (case p of
           citype # cilen # s # t # a # b # c # d # p \<Rightarrow>
             (if cilen \<noteq> 8 \<or> citype \<noteq> opt then None
              else if GETSHORT s t \<noteq> PPP_LQR then None
              else if GETLONG a b c d \<noteq> val then None else Some p)
         | _ \<Rightarrow> None)
      else Some p)"

definition ACKCIENDP :: "byte \<Rightarrow> bool \<Rightarrow> byte \<Rightarrow> packet \<Rightarrow> packet \<Rightarrow> packet option" where
  "ACKCIENDP opt neg cls val p =
     (if neg then
        (if int (length p) < 3 + int (length val) then None
         else
           (case p of
              citype # cilen # c # p \<Rightarrow>
                (if uint cilen \<noteq> 3 + int (length val) \<or> citype \<noteq> opt then None
                 else if c \<noteq> cls then None
                 else if take (length val) p \<noteq> val then None else Some (drop (length val) p))
            | _ \<Rightarrow> None))
      else Some p)"

definition lcp_ackci_of :: "lcp_options \<Rightarrow> packet \<Rightarrow> bool" where
  "lcp_ackci_of go p =
     (do {
        p \<leftarrow> ACKCISHORT CI_MRU (neg_mru go \<and> mru go \<noteq> DEFMRU) (mru go) p;
        p \<leftarrow> ACKCILONG CI_ASYNCMAP (neg_asyncmap go \<and> asyncmap go \<noteq> 0xFFFFFFFF) (asyncmap go) p;
        p \<leftarrow> ACKCISHORT CI_AUTHTYPE (neg_eap go) PPP_EAP p;
        p \<leftarrow> ACKCICHAP CI_AUTHTYPE (\<not> neg_eap go \<and> neg_chap go) (chap_mdtype go) p;
        p \<leftarrow> ACKCISHORT CI_AUTHTYPE (\<not> neg_eap go \<and> \<not> neg_chap go \<and> neg_upap go) PPP_PAP p;
        p \<leftarrow> ACKCILQR CI_QUALITY (neg_lqr go) (lqr_period go) p;
        p \<leftarrow> ACKCICHAR CI_CALLBACK (neg_cbcp go) CBCP_OPT p;
        p \<leftarrow> ACKCILONG CI_MAGICNUMBER (neg_magicnumber go) (magicnumber go) p;
        p \<leftarrow> ACKCIVOID CI_PCOMPRESSION (neg_pcompression go) p;
        p \<leftarrow> ACKCIVOID CI_ACCOMPRESSION (neg_accompression go) p;
        p \<leftarrow> ACKCISHORT CI_MRRU (neg_mrru go) (mrru go) p;
        p \<leftarrow> ACKCIVOID CI_SSNHF (neg_ssnhf go) p;
        ACKCIENDP CI_EPDISC (neg_endpoint go) (ep_class (endpoint go)) (ep_value (endpoint go)) p
      } = Some [])"

section \<open>Taking in a Nak\<close>

text \<open>
  The scan of \<open>lcp_nakci\<close> works on the unread octets, the record \<open>no\<close> of the options already seen and
  the record \<open>try\<close> of the options to ask for next.  A macro gets the field \<open>neg\<close> as the selector and
  the update function of that field, and its \<open>code\<close> argument as a function on \<open>try\<close>.
\<close>

type_synonym nak_scan = "packet \<times> lcp_options \<times> lcp_options"
type_synonym neg_update = "(bool \<Rightarrow> bool) \<Rightarrow> lcp_options \<Rightarrow> lcp_options"

fun NAKCIVOID :: "byte \<Rightarrow> (lcp_options \<Rightarrow> bool) \<Rightarrow> neg_update \<Rightarrow> lcp_options \<Rightarrow> nak_scan \<Rightarrow> nak_scan" where
  "NAKCIVOID opt neg upd go (p, no, try) =
     (case p of
        t # l # q \<Rightarrow>
          (if neg go \<and> l = 2 \<and> t = opt then (q, upd (\<lambda>_. True) no, upd (\<lambda>_. False) try)
           else (p, no, try))
      | _ \<Rightarrow> (p, no, try))"

fun NAKCICHAR :: "byte \<Rightarrow> (lcp_options \<Rightarrow> bool) \<Rightarrow> neg_update \<Rightarrow> (byte \<Rightarrow> lcp_options \<Rightarrow> lcp_options) \<Rightarrow>
    lcp_options \<Rightarrow> nak_scan \<Rightarrow> nak_scan" where
  "NAKCICHAR opt neg upd code go (p, no, try) =
     (case p of
        t # l # c # q \<Rightarrow>
          (if neg go \<and> l = 3 \<and> t = opt then (q, upd (\<lambda>_. True) no, code c try)
           else (p, no, try))
      | _ \<Rightarrow> (p, no, try))"

fun NAKCISHORT :: "byte \<Rightarrow> (lcp_options \<Rightarrow> bool) \<Rightarrow> neg_update \<Rightarrow> (int \<Rightarrow> lcp_options \<Rightarrow> lcp_options) \<Rightarrow>
    lcp_options \<Rightarrow> nak_scan \<Rightarrow> nak_scan" where
  "NAKCISHORT opt neg upd code go (p, no, try) =
     (case p of
        t # l # a # b # q \<Rightarrow>
          (if neg go \<and> l = 4 \<and> t = opt then (q, upd (\<lambda>_. True) no, code (GETSHORT a b) try)
           else (p, no, try))
      | _ \<Rightarrow> (p, no, try))"

fun NAKCILONG :: "byte \<Rightarrow> (lcp_options \<Rightarrow> bool) \<Rightarrow> neg_update \<Rightarrow> (u32 \<Rightarrow> lcp_options \<Rightarrow> lcp_options) \<Rightarrow>
    lcp_options \<Rightarrow> nak_scan \<Rightarrow> nak_scan" where
  "NAKCILONG opt neg upd code go (p, no, try) =
     (case p of
        t # l # a # b # c # d # q \<Rightarrow>
          (if neg go \<and> l = 6 \<and> t = opt then (q, upd (\<lambda>_. True) no, code (GETLONG a b c d) try)
           else (p, no, try))
      | _ \<Rightarrow> (p, no, try))"

fun NAKCILQR :: "byte \<Rightarrow> (lcp_options \<Rightarrow> bool) \<Rightarrow> neg_update \<Rightarrow> (int \<Rightarrow> u32 \<Rightarrow> lcp_options \<Rightarrow> lcp_options) \<Rightarrow>
    lcp_options \<Rightarrow> nak_scan \<Rightarrow> nak_scan" where
  "NAKCILQR opt neg upd code go (p, no, try) =
     (case p of
        t # l # u # v # a # b # c # d # q \<Rightarrow>
          (if neg go \<and> l = 8 \<and> t = opt
           then (q, upd (\<lambda>_. True) no, code (GETSHORT u v) (GETLONG a b c d) try)
           else (p, no, try))
      | _ \<Rightarrow> (p, no, try))"

fun NAKCIENDP :: "byte \<Rightarrow> (lcp_options \<Rightarrow> bool) \<Rightarrow> neg_update \<Rightarrow> lcp_options \<Rightarrow> nak_scan \<Rightarrow> nak_scan" where
  "NAKCIENDP opt neg upd go (p, no, try) =
     (case p of
        t # l # q \<Rightarrow>
          (if neg go \<and> 3 \<le> length p \<and> t = opt \<and> 3 \<le> uint l \<and> uint l \<le> int (length p)
           then (drop (unat l) p, upd (\<lambda>_. True) no, upd (\<lambda>_. False) try)
           else (p, no, try))
      | _ \<Rightarrow> (p, no, try))"

text \<open>The authentication protocol: the three cases of the suggestion in the Nak.\<close>

definition nak_chap :: "lcp_options \<Rightarrow> byte \<Rightarrow> lcp_options \<Rightarrow> lcp_options option" where
  "nak_chap go cichar try =
     (if neg_eap go then
        (let try = try\<lparr>neg_eap := False\<rparr>
         in Some (if CHAP_CANDIGEST (chap_mdtype go) cichar
                  then try\<lparr>chap_mdtype := CHAP_MDTYPE_D cichar\<rparr> else try))
      else if neg_chap go then
        (if neq_CHAP_DIGEST cichar (chap_mdtype go) then
           (if CHAP_CANDIGEST (chap_mdtype go) cichar
            then Some (try\<lparr>chap_mdtype := CHAP_MDTYPE_D cichar\<rparr>)
            else
              (let try = try\<lparr>chap_mdtype := chap_mdtype try AND NOT (CHAP_MDTYPE (chap_mdtype try))\<rparr>
               in Some (if chap_mdtype try = MDTYPE_NONE then try\<lparr>neg_chap := False\<rparr> else try)))
         else None)
      else Some (try\<lparr>neg_upap := False\<rparr>))"

definition nak_pap :: "lcp_options \<Rightarrow> lcp_options \<Rightarrow> lcp_options option" where
  "nak_pap go try =
     (if neg_eap go then Some (try\<lparr>neg_eap := False\<rparr>)
      else if neg_chap go then Some (try\<lparr>neg_chap := False\<rparr>)
      else None)"

definition nak_other :: "lcp_options \<Rightarrow> lcp_options \<Rightarrow> lcp_options" where
  "nak_other go try =
     (if neg_eap go then try\<lparr>neg_eap := False\<rparr>
      else if neg_chap go then try\<lparr>neg_chap := False\<rparr>
      else try\<lparr>neg_upap := False\<rparr>)"

fun nak_auth :: "lcp_options \<Rightarrow> nak_scan \<Rightarrow> nak_scan option" where
  "nak_auth go (p, no, try) =
     (case p of
        t # l # a # b # q \<Rightarrow>
          (if (neg_chap go \<or> neg_upap go \<or> neg_eap go) \<and> t = CI_AUTHTYPE \<and>
              4 \<le> uint l \<and> uint l \<le> int (length p)
           then
             (let cishort = GETSHORT a b;
                  no = no\<lparr>neg_chap := neg_chap go, neg_upap := neg_upap go, neg_eap := neg_eap go\<rparr>;
                  rest = drop (unat l) p
              in if cishort = PPP_PAP \<and> l = 4
                 then map_option (\<lambda>try. (rest, no, try)) (nak_pap go try)
                 else if cishort = PPP_CHAP \<and> l = 5
                 then map_option (\<lambda>try. (rest, no, try)) (nak_chap go (hd q) try)
                 else Some (rest, no, nak_other go try))
           else Some (p, no, try))
      | _ \<Rightarrow> Some (p, no, try))"

text \<open>One option of the loop over the remaining CIs: bad if it was asked for or seen before.\<close>

definition nak_rest_ci ::
    "lcp_options \<Rightarrow> lcp_options \<Rightarrow> byte \<Rightarrow> byte \<Rightarrow> packet \<Rightarrow> lcp_options \<Rightarrow> lcp_options option" where
  "nak_rest_ci go no citype cilen p try =
     (if citype = CI_MRU then
        (if neg_mru go \<and> mru go \<noteq> DEFMRU \<or> neg_mru no \<or> cilen \<noteq> 4 then None
         else (case p of
                 a # b # _ \<Rightarrow>
                   (if GETSHORT a b < DEFMRU
                    then Some (try\<lparr>neg_mru := True, mru := GETSHORT a b\<rparr>) else Some try)
               | _ \<Rightarrow> None))
      else if citype = CI_ASYNCMAP then
        (if neg_asyncmap go \<and> asyncmap go \<noteq> 0xFFFFFFFF \<or> neg_asyncmap no \<or> cilen \<noteq> 6
         then None else Some try)
      else if citype = CI_AUTHTYPE then
        (if neg_chap go \<or> neg_chap no \<or> neg_upap go \<or> neg_upap no \<or> neg_eap go \<or> neg_eap no
         then None else Some try)
      else if citype = CI_MAGICNUMBER then
        (if neg_magicnumber go \<or> neg_magicnumber no \<or> cilen \<noteq> 6 then None else Some try)
      else if citype = CI_PCOMPRESSION then
        (if neg_pcompression go \<or> neg_pcompression no \<or> cilen \<noteq> 2 then None else Some try)
      else if citype = CI_ACCOMPRESSION then
        (if neg_accompression go \<or> neg_accompression no \<or> cilen \<noteq> 2 then None else Some try)
      else if citype = CI_QUALITY then
        (if neg_lqr go \<or> neg_lqr no \<or> cilen \<noteq> 8 then None else Some try)
      else if citype = CI_MRRU then
        (if neg_mrru go \<or> neg_mrru no \<or> cilen \<noteq> 4 then None else Some try)
      else if citype = CI_SSNHF then
        (if neg_ssnhf go \<or> neg_ssnhf no \<or> cilen \<noteq> 2 then None else Some (try\<lparr>neg_ssnhf := True\<rparr>))
      else if citype = CI_EPDISC then
        (if neg_endpoint go \<or> neg_endpoint no \<or> uint cilen < 3 then None else Some try)
      else Some try)"

function nak_rest :: "lcp_options \<Rightarrow> lcp_options \<Rightarrow> packet \<Rightarrow> lcp_options \<Rightarrow> lcp_options option" where
  "nak_rest go no p try =
     (case p of
        citype # cilen # q \<Rightarrow>
          (if unat cilen < 2 \<or> unat cilen > length p then None
           else (case nak_rest_ci go no citype cilen q try of
                   None \<Rightarrow> None
                 | Some try \<Rightarrow> nak_rest go no (drop (unat cilen) p) try))
      | _ \<Rightarrow> Some try)"
  by pat_completeness auto
termination
  by (relation "measure (\<lambda>(go, no, p, try). length p)") auto

declare nak_rest.simps [simp del]

text \<open>
  The scan up to the authentication protocol, up to the magic number and up to the endpoint
  discriminator.  \<open>m\<close> is what \<open>magic()\<close> returns.
\<close>

definition nakci_first :: "lcp_options \<Rightarrow> lcp_options \<Rightarrow> nak_scan \<Rightarrow> nak_scan option" where
  "nakci_first go wo s =
     (let s = (if neg_mru go \<and> mru go \<noteq> DEFMRU
               then NAKCISHORT CI_MRU neg_mru neg_mru_update
                      (\<lambda>v t. if v \<le> mru wo \<or> v \<le> DEFMRU then t\<lparr>mru := v\<rparr> else t) go s
               else s);
          s = (if neg_asyncmap go \<and> asyncmap go \<noteq> 0xFFFFFFFF
               then NAKCILONG CI_ASYNCMAP neg_asyncmap neg_asyncmap_update
                      (\<lambda>v t. t\<lparr>asyncmap := asyncmap go OR v\<rparr>) go s
               else s)
      in nak_auth go s)"

definition nakci_second :: "lcp_options \<Rightarrow> u32 \<Rightarrow> nak_scan \<Rightarrow> nak_scan" where
  "nakci_second go m s =
     (let s = NAKCILQR CI_QUALITY neg_lqr neg_lqr_update
                (\<lambda>u v t. if u \<noteq> PPP_LQR then t\<lparr>neg_lqr := False\<rparr> else t\<lparr>lqr_period := v\<rparr>) go s;
          s = NAKCICHAR CI_CALLBACK neg_cbcp neg_cbcp_update (\<lambda>_ t. t\<lparr>neg_cbcp := False\<rparr>) go s
      in NAKCILONG CI_MAGICNUMBER neg_magicnumber neg_magicnumber_update
           (\<lambda>_ t. t\<lparr>magicnumber := m\<rparr>) go s)"

definition nakci_third :: "lcp_options \<Rightarrow> lcp_options \<Rightarrow> bool \<Rightarrow> nak_scan \<Rightarrow> nak_scan" where
  "nakci_third go wo treat_as_reject s =
     (let s = NAKCIVOID CI_PCOMPRESSION neg_pcompression neg_pcompression_update go s;
          s = NAKCIVOID CI_ACCOMPRESSION neg_accompression neg_accompression_update go s;
          s = (if neg_mrru go
               then NAKCISHORT CI_MRRU neg_mrru neg_mrru_update
                      (\<lambda>v t. if treat_as_reject then t\<lparr>neg_mrru := False\<rparr>
                             else if v \<le> mrru wo then t\<lparr>mrru := v\<rparr> else t) go s
               else s);
          s = NAKCIVOID CI_SSNHF neg_ssnhf neg_ssnhf_update go s
      in NAKCIENDP CI_EPDISC neg_endpoint neg_endpoint_update go s)"

text \<open>
  The whole scan.  The first component says whether \<open>magic()\<close> was called (which is when \<open>looped_back\<close>
  is set), the second is the record \<open>try\<close>, or \<open>None\<close> for a bad Nak.
\<close>

definition nakci_scan ::
    "lcp_options \<Rightarrow> lcp_options \<Rightarrow> bool \<Rightarrow> u32 \<Rightarrow> packet \<Rightarrow> bool \<times> lcp_options option" where
  "nakci_scan go wo treat_as_reject m p =
     (case nakci_first go wo (p, lcp_zero, go) of
        None \<Rightarrow> (False, None)
      | Some s \<Rightarrow>
          (let s = nakci_second go m s;
               looped_back = neg_magicnumber (fst (snd s));
               (p, no, try) = nakci_third go wo treat_as_reject s
           in (looped_back, nak_rest go no p try)))"

section \<open>Taking in a Reject\<close>

type_synonym rej_scan = "packet \<times> lcp_options"

fun REJCIVOID :: "byte \<Rightarrow> (lcp_options \<Rightarrow> bool) \<Rightarrow> neg_update \<Rightarrow> lcp_options \<Rightarrow> rej_scan \<Rightarrow> rej_scan option" where
  "REJCIVOID opt neg upd go (p, try) =
     (case p of
        t # l # q \<Rightarrow>
          (if neg go \<and> l = 2 \<and> t = opt then Some (q, upd (\<lambda>_. False) try) else Some (p, try))
      | _ \<Rightarrow> Some (p, try))"

fun REJCISHORT :: "byte \<Rightarrow> (lcp_options \<Rightarrow> bool) \<Rightarrow> neg_update \<Rightarrow> int \<Rightarrow> lcp_options \<Rightarrow> rej_scan \<Rightarrow> rej_scan option" where
  "REJCISHORT opt neg upd val go (p, try) =
     (case p of
        t # l # a # b # q \<Rightarrow>
          (if neg go \<and> l = 4 \<and> t = opt
           then (if GETSHORT a b \<noteq> val then None else Some (q, upd (\<lambda>_. False) try))
           else Some (p, try))
      | _ \<Rightarrow> Some (p, try))"

fun REJCICHAP :: "byte \<Rightarrow> (lcp_options \<Rightarrow> bool) \<Rightarrow> neg_update \<Rightarrow> byte \<Rightarrow> lcp_options \<Rightarrow> rej_scan \<Rightarrow> rej_scan option" where
  "REJCICHAP opt neg upd val go (p, try) =
     (case p of
        t # l # a # b # c # q \<Rightarrow>
          (if neg go \<and> l = 5 \<and> t = opt
           then (if GETSHORT a b \<noteq> PPP_CHAP \<or> c \<noteq> CHAP_DIGEST val then None
                 else Some (q, (upd (\<lambda>_. False) try)\<lparr>neg_upap := False, neg_eap := False\<rparr>))
           else Some (p, try))
      | _ \<Rightarrow> Some (p, try))"

fun REJCILONG :: "byte \<Rightarrow> (lcp_options \<Rightarrow> bool) \<Rightarrow> neg_update \<Rightarrow> u32 \<Rightarrow> lcp_options \<Rightarrow> rej_scan \<Rightarrow> rej_scan option" where
  "REJCILONG opt neg upd val go (p, try) =
     (case p of
        t # l # a # b # c # d # q \<Rightarrow>
          (if neg go \<and> l = 6 \<and> t = opt
           then (if GETLONG a b c d \<noteq> val then None else Some (q, upd (\<lambda>_. False) try))
           else Some (p, try))
      | _ \<Rightarrow> Some (p, try))"

fun REJCILQR :: "byte \<Rightarrow> (lcp_options \<Rightarrow> bool) \<Rightarrow> neg_update \<Rightarrow> u32 \<Rightarrow> lcp_options \<Rightarrow> rej_scan \<Rightarrow> rej_scan option" where
  "REJCILQR opt neg upd val go (p, try) =
     (case p of
        t # l # u # v # a # b # c # d # q \<Rightarrow>
          (if neg go \<and> l = 8 \<and> t = opt
           then (if GETSHORT u v \<noteq> PPP_LQR \<or> GETLONG a b c d \<noteq> val then None
                 else Some (q, upd (\<lambda>_. False) try))
           else Some (p, try))
      | _ \<Rightarrow> Some (p, try))"

fun REJCICBCP :: "byte \<Rightarrow> (lcp_options \<Rightarrow> bool) \<Rightarrow> neg_update \<Rightarrow> byte \<Rightarrow> lcp_options \<Rightarrow> rej_scan \<Rightarrow> rej_scan option" where
  "REJCICBCP opt neg upd val go (p, try) =
     (case p of
        t # l # c # q \<Rightarrow>
          (if neg go \<and> l = 3 \<and> t = opt
           then (if c \<noteq> val then None else Some (q, upd (\<lambda>_. False) try))
           else Some (p, try))
      | _ \<Rightarrow> Some (p, try))"

fun REJCIENDP :: "byte \<Rightarrow> (lcp_options \<Rightarrow> bool) \<Rightarrow> neg_update \<Rightarrow> byte \<Rightarrow> packet \<Rightarrow> lcp_options \<Rightarrow> rej_scan \<Rightarrow> rej_scan option" where
  "REJCIENDP opt neg upd cls val go (p, try) =
     (case p of
        t # l # c # q \<Rightarrow>
          (if neg go \<and> length p \<ge> 3 + length val \<and> t = opt \<and> uint l = 3 + int (length val)
           then (if c \<noteq> cls \<or> take (length val) q \<noteq> val then None
                 else Some (drop (length val) q, upd (\<lambda>_. False) try))
           else Some (p, try))
      | _ \<Rightarrow> Some (p, try))"

definition lcp_rejci_of :: "lcp_options \<Rightarrow> packet \<Rightarrow> lcp_options option" where
  "lcp_rejci_of go p =
     (do {
        s \<leftarrow> REJCISHORT CI_MRU neg_mru neg_mru_update (mru go) go (p, go);
        s \<leftarrow> REJCILONG CI_ASYNCMAP neg_asyncmap neg_asyncmap_update (asyncmap go) go s;
        s \<leftarrow> REJCISHORT CI_AUTHTYPE neg_eap neg_eap_update PPP_EAP go s;
        s \<leftarrow> (if \<not> neg_eap go then
                do {
                  s \<leftarrow> REJCICHAP CI_AUTHTYPE neg_chap neg_chap_update (chap_mdtype go) go s;
                  (if \<not> neg_chap go
                   then REJCISHORT CI_AUTHTYPE neg_upap neg_upap_update PPP_PAP go s
                   else Some s)
                }
              else Some s);
        s \<leftarrow> REJCILQR CI_QUALITY neg_lqr neg_lqr_update (lqr_period go) go s;
        s \<leftarrow> REJCICBCP CI_CALLBACK neg_cbcp neg_cbcp_update CBCP_OPT go s;
        s \<leftarrow> REJCILONG CI_MAGICNUMBER neg_magicnumber neg_magicnumber_update (magicnumber go) go s;
        s \<leftarrow> REJCIVOID CI_PCOMPRESSION neg_pcompression neg_pcompression_update go s;
        s \<leftarrow> REJCIVOID CI_ACCOMPRESSION neg_accompression neg_accompression_update go s;
        s \<leftarrow> REJCISHORT CI_MRRU neg_mrru neg_mrru_update (mrru go) go s;
        s \<leftarrow> REJCIVOID CI_SSNHF neg_ssnhf neg_ssnhf_update go s;
        (p, try) \<leftarrow> REJCIENDP CI_EPDISC neg_endpoint neg_endpoint_update
                      (ep_class (endpoint go)) (ep_value (endpoint go)) go s;
        (if p \<noteq> [] then None else Some try)
      })"

section \<open>Answering a request\<close>

text \<open>
  \<open>lcp_reqci\<close>.  One turn of its loop gives the verdict \<open>orc\<close> on one option, the octets it puts into
  \<open>nak_buffer\<close>, and the peer's options \<open>ho\<close>.  \<open>p\<close> holds the octets behind the option's two octet header.
\<close>

type_synonym ci_verdict = "int \<times> packet \<times> lcp_options"

definition auth_nak_eap :: packet where
  "auth_nak_eap = [CI_AUTHTYPE, 4] @ PUTSHORT PPP_EAP"

definition auth_nak_chap :: "lcp_options \<Rightarrow> packet" where
  "auth_nak_chap ao = [CI_AUTHTYPE, 5] @ PUTSHORT PPP_CHAP @ [CHAP_DIGEST (chap_mdtype ao)]"

definition auth_nak_pap :: packet where
  "auth_nak_pap = [CI_AUTHTYPE, 4] @ PUTSHORT PPP_PAP"

definition reqci_authtype :: "lcp_options \<Rightarrow> lcp_options \<Rightarrow> int \<Rightarrow> packet \<Rightarrow> ci_verdict" where
  "reqci_authtype ao ho cilen p =
     (if cilen < 4 \<or> \<not> (neg_upap ao \<or> neg_chap ao \<or> neg_eap ao) then (CONFREJ, [], ho)
      else
        (case p of
           a # b # q \<Rightarrow>
             (let cishort = GETSHORT a b
              in if cishort = PPP_PAP then
                   (if neg_chap ho \<or> neg_eap ho \<or> cilen \<noteq> 4 then (CONFREJ, [], ho)
                    else if \<not> neg_upap ao
                    then (CONFNAK, if neg_eap ao then auth_nak_eap else auth_nak_chap ao, ho)
                    else (CONFACK, [], ho\<lparr>neg_upap := True\<rparr>))
                 else if cishort = PPP_CHAP then
                   (if neg_upap ho \<or> neg_eap ho \<or> cilen \<noteq> 5 then (CONFREJ, [], ho)
                    else if \<not> neg_chap ao
                    then (CONFNAK, if neg_eap ao then auth_nak_eap else auth_nak_pap, ho)
                    else if \<not> CHAP_CANDIGEST (chap_mdtype ao) (hd q) then (CONFNAK, auth_nak_chap ao, ho)
                    else (CONFACK, [], ho\<lparr>chap_mdtype := CHAP_MDTYPE_D (hd q), neg_chap := True\<rparr>))
                 else if cishort = PPP_EAP then
                   (if neg_chap ho \<or> neg_upap ho \<or> cilen \<noteq> 4 then (CONFREJ, [], ho)
                    else if \<not> neg_eap ao
                    then (CONFNAK, if neg_chap ao then auth_nak_chap ao else auth_nak_pap, ho)
                    else (CONFACK, [], ho\<lparr>neg_eap := True\<rparr>))
                 else
                   (CONFNAK,
                    if neg_eap ao then auth_nak_eap
                    else if neg_chap ao then auth_nak_chap ao else auth_nak_pap, ho))
         | _ \<Rightarrow> (CONFREJ, [], ho)))"

definition reqci_mru :: "lcp_options \<Rightarrow> lcp_options \<Rightarrow> int \<Rightarrow> packet \<Rightarrow> ci_verdict" where
  "reqci_mru ao ho cilen p =
     (case p of
        a # b # _ \<Rightarrow>
          (if \<not> neg_mru ao \<or> cilen \<noteq> 4 then (CONFREJ, [], ho)
           else if GETSHORT a b < MINMRU then (CONFNAK, [CI_MRU, 4] @ PUTSHORT MINMRU, ho)
           else (CONFACK, [], ho\<lparr>neg_mru := True, mru := GETSHORT a b\<rparr>))
      | _ \<Rightarrow> (CONFREJ, [], ho))"

definition reqci_asyncmap :: "lcp_options \<Rightarrow> lcp_options \<Rightarrow> int \<Rightarrow> packet \<Rightarrow> ci_verdict" where
  "reqci_asyncmap ao ho cilen p =
     (case p of
        a # b # c # d # _ \<Rightarrow>
          (if \<not> neg_asyncmap ao \<or> cilen \<noteq> 6 then (CONFREJ, [], ho)
           else if asyncmap ao AND NOT (GETLONG a b c d) \<noteq> 0
           then (CONFNAK, [CI_ASYNCMAP, 6] @ PUTLONG (asyncmap ao OR GETLONG a b c d), ho)
           else (CONFACK, [], ho\<lparr>neg_asyncmap := True, asyncmap := GETLONG a b c d\<rparr>))
      | _ \<Rightarrow> (CONFREJ, [], ho))"

definition reqci_quality :: "lcp_options \<Rightarrow> lcp_options \<Rightarrow> int \<Rightarrow> packet \<Rightarrow> ci_verdict" where
  "reqci_quality ao ho cilen p =
     (case p of
        a # b # _ \<Rightarrow>
          (if \<not> neg_lqr ao \<or> cilen \<noteq> 8 then (CONFREJ, [], ho)
           else if GETSHORT a b \<noteq> PPP_LQR
           then (CONFNAK, [CI_QUALITY, 8] @ PUTSHORT PPP_LQR @ PUTLONG (lqr_period ao), ho)
           else (CONFACK, [], ho))
      | _ \<Rightarrow> (CONFREJ, [], ho))"

text \<open>The magic number is the one option whose answer draws a random number, \<open>m\<close>.\<close>

definition reqci_magic :: "lcp_options \<Rightarrow> lcp_options \<Rightarrow> lcp_options \<Rightarrow> u32 \<Rightarrow> int \<Rightarrow> packet \<Rightarrow> ci_verdict" where
  "reqci_magic go ao ho m cilen p =
     (case p of
        a # b # c # d # _ \<Rightarrow>
          (if \<not> (neg_magicnumber ao \<or> neg_magicnumber go) \<or> cilen \<noteq> 6 then (CONFREJ, [], ho)
           else if neg_magicnumber go \<and> GETLONG a b c d = magicnumber go
           then (CONFNAK, [CI_MAGICNUMBER, 6] @ PUTLONG m, ho)
           else (CONFACK, [], ho\<lparr>neg_magicnumber := True, magicnumber := GETLONG a b c d\<rparr>))
      | _ \<Rightarrow> (CONFREJ, [], ho))"

definition reqci_mrru :: "bool \<Rightarrow> lcp_options \<Rightarrow> lcp_options \<Rightarrow> int \<Rightarrow> packet \<Rightarrow> ci_verdict" where
  "reqci_mrru mlink ao ho cilen p =
     (case p of
        a # b # _ \<Rightarrow>
          (if \<not> neg_mrru ao \<or> \<not> mlink \<or> cilen \<noteq> 4 then (CONFREJ, [], ho)
           else (CONFACK, [], ho\<lparr>neg_mrru := True, mrru := GETSHORT a b\<rparr>))
      | _ \<Rightarrow> (CONFREJ, [], ho))"

definition reqci_epdisc :: "lcp_options \<Rightarrow> lcp_options \<Rightarrow> int \<Rightarrow> packet \<Rightarrow> ci_verdict" where
  "reqci_epdisc ao ho cilen p =
     (case p of
        c # q \<Rightarrow>
          (if \<not> neg_endpoint ao \<or> cilen < 3 \<or> cilen > 3 + MAX_ENDP_LEN then (CONFREJ, [], ho)
           else (CONFACK, [], ho\<lparr>neg_endpoint := True,
                   endpoint := \<lparr>ep_class = c, ep_value = take (nat (cilen - 3)) q\<rparr>\<rparr>))
      | _ \<Rightarrow> (CONFREJ, [], ho))"

definition reqci_ci ::
    "bool \<Rightarrow> lcp_options \<Rightarrow> lcp_options \<Rightarrow> u32 \<Rightarrow> byte \<Rightarrow> int \<Rightarrow> packet \<Rightarrow> lcp_options \<Rightarrow> ci_verdict" where
  "reqci_ci mlink go ao m citype cilen p ho =
     (if citype = CI_MRU then reqci_mru ao ho cilen p
      else if citype = CI_ASYNCMAP then reqci_asyncmap ao ho cilen p
      else if citype = CI_AUTHTYPE then reqci_authtype ao ho cilen p
      else if citype = CI_QUALITY then reqci_quality ao ho cilen p
      else if citype = CI_MAGICNUMBER then reqci_magic go ao ho m cilen p
      else if citype = CI_PCOMPRESSION then
        (if \<not> neg_pcompression ao \<or> cilen \<noteq> 2 then (CONFREJ, [], ho)
         else (CONFACK, [], ho\<lparr>neg_pcompression := True\<rparr>))
      else if citype = CI_ACCOMPRESSION then
        (if \<not> neg_accompression ao \<or> cilen \<noteq> 2 then (CONFREJ, [], ho)
         else (CONFACK, [], ho\<lparr>neg_accompression := True\<rparr>))
      else if citype = CI_MRRU then reqci_mrru mlink ao ho cilen p
      else if citype = CI_SSNHF then
        (if \<not> neg_ssnhf ao \<or> \<not> mlink \<or> cilen \<noteq> 2 then (CONFREJ, [], ho)
         else (CONFACK, [], ho\<lparr>neg_ssnhf := True\<rparr>))
      else if citype = CI_EPDISC then reqci_epdisc ao ho cilen p
      else (CONFREJ, [], ho))"

text \<open>
  The code behind the label \<open>endswitch\<close>: what the verdict on one option does to the answer.  \<open>nakbuf\<close> is what has been written
  from \<open>nak_buffer\<close> on.  The code has no check of its size, so the list has none either: how its length compares with the 1500
  octets of the array is settled by theorems of \<^verbatim>\<open>Lcp_Options_Props\<close> on both sides.  Rejected options are moved to
  the front of the request with \<open>BCOPY\<close>, which is \<open>memcpy\<close> although the areas can overlap; the model has the copy that is meant.
\<close>

record reqci_acc =
  rc :: int
  nakbuf :: packet
  rejbuf :: packet
  his :: lcp_options
  magics :: "u32 stream"

definition reqci_end :: "bool \<Rightarrow> byte \<Rightarrow> packet \<Rightarrow> int \<Rightarrow> reqci_acc \<Rightarrow> reqci_acc" where
  "reqci_end reject_if_disagree citype ci orc a =
     (if orc = CONFACK \<and> rc a \<noteq> CONFACK then a
      else
        (let fedup = (orc = CONFNAK \<and> reject_if_disagree \<and> citype \<noteq> CI_MAGICNUMBER)
         in if orc = CONFNAK \<and> \<not> fedup
            then (if rc a = CONFREJ then a else a\<lparr>rc := CONFNAK\<rparr>)
            else if orc = CONFREJ \<or> fedup
            then a\<lparr>rc := CONFREJ, rejbuf := rejbuf a @ ci\<rparr>
            else a))"

text \<open>
  The loop.  \<open>next\<close> is the list of the unread octets.  \<open>magic()\<close> is called exactly when the request
  carries our own magic number, so the stream advances only then.
\<close>

definition draws_magic :: "lcp_options \<Rightarrow> lcp_options \<Rightarrow> byte \<Rightarrow> int \<Rightarrow> packet \<Rightarrow> bool" where
  "draws_magic go ao citype cilen p \<longleftrightarrow>
     citype = CI_MAGICNUMBER \<and> cilen = 6 \<and> neg_magicnumber go \<and>
     (case p of a # b # c # d # _ \<Rightarrow> GETLONG a b c d = magicnumber go | _ \<Rightarrow> False)"

function reqci_loop ::
    "bool \<Rightarrow> bool \<Rightarrow> lcp_options \<Rightarrow> lcp_options \<Rightarrow> packet \<Rightarrow> reqci_acc \<Rightarrow> reqci_acc" where
  "reqci_loop rid mlink go ao next a =
     (if next = [] then a
      else if length next < 2 \<or> unat (next ! 1) < 2 \<or> unat (next ! 1) > length next
      then reqci_end rid 0 next CONFREJ a
      else
        (let citype = next ! 0; cilen = next ! 1; n = unat cilen; p = drop 2 next;
             (orc, nak, ho) = reqci_ci mlink go ao (shd (magics a)) citype (uint cilen) p (his a);
             ms = (if draws_magic go ao citype (uint cilen) p then stl (magics a) else magics a);
             a = a\<lparr>nakbuf := nakbuf a @ nak, his := ho, magics := ms\<rparr>
         in reqci_loop rid mlink go ao (drop n next) (reqci_end rid citype (take n next) orc a)))"
  by pat_completeness auto
termination
  by (relation "measure (\<lambda>(rid, mlink, go, ao, next, a). length next)") auto

declare reqci_loop.simps [simp del]

definition reqci_run ::
    "bool \<Rightarrow> bool \<Rightarrow> lcp_options \<Rightarrow> lcp_options \<Rightarrow> u32 stream \<Rightarrow> packet \<Rightarrow> reqci_acc" where
  "reqci_run rid mlink go ao ms inp =
     reqci_loop rid mlink go ao inp
       \<lparr>rc = CONFACK, nakbuf = [], rejbuf = [], his = lcp_zero, magics = ms\<rparr>"

text \<open>The packet left in \<open>inp\<close>.\<close>

definition reqci_reply :: "packet \<Rightarrow> reqci_acc \<Rightarrow> packet" where
  "reqci_reply inp a =
     (if rc a = CONFACK then inp else if rc a = CONFNAK then nakbuf a else rejbuf a)"

end
