(* ===== verification/Lcp_Options_Props.thy ===== *)
theory Lcp_Options_Props
  imports Lcp_Options "HOL-Library.Sublist"
begin

text \<open>
  Correctness of the LCP option codec.
\<close>

section \<open>Requests and Acks\<close>

definition wf_lcp :: "lcp_options \<Rightarrow> bool" where
  "wf_lcp go \<longleftrightarrow>
     (neg_mru go \<longrightarrow> 0 \<le> mru go \<and> mru go < 65536) \<and>
     (neg_mrru go \<longrightarrow> 0 \<le> mrru go \<and> mrru go < 65536) \<and>
     (neg_endpoint go \<longrightarrow> length (ep_value (endpoint go)) \<le> 20)"

lemmas ADDCI_defs = ADDCIVOID_def ADDCISHORT_def ADDCICHAP_def ADDCILONG_def ADDCILQR_def
  ADDCICHAR_def ADDCIENDP_def

text \<open>
  The options \<open>lcp_addci\<close> writes into a Configure-Request have exactly the length \<open>lcp_cilen\<close> has
  announced, for every combination of the thirteen options, so \<open>fsm_sconfreq\<close> sends all of them and nothing else.
\<close>

lemma lcp_addci_length: "int (length (lcp_addci_of go)) = lcp_cilen_of go"
  unfolding lcp_addci_of_def lcp_cilen_of_def length_append of_nat_add
  by (auto simp: ADDCI_defs)

text \<open>Each checking macro accepts exactly what the building macro of the same name writes.\<close>

lemma ACKCIVOID_iff: "ACKCIVOID opt neg p = Some q \<longleftrightarrow> p = ADDCIVOID opt neg @ q"
  by (auto simp: ACKCIVOID_def ADDCIVOID_def split: list.splits)

lemma ACKCICHAR_iff: "ACKCICHAR opt neg v p = Some q \<longleftrightarrow> p = ADDCICHAR opt neg v @ q"
  by (auto simp: ACKCICHAR_def ADDCICHAR_def split: list.splits)

lemma ACKCISHORT_iff:
  "(neg \<longrightarrow> 0 \<le> v \<and> v < 65536) \<Longrightarrow> ACKCISHORT opt neg v p = Some q \<longleftrightarrow> p = ADDCISHORT opt neg v @ q"
  by (auto simp: ACKCISHORT_def ADDCISHORT_def GETSHORT_eq_iff PUTSHORT_def split: list.splits)

lemma ACKCILONG_iff: "ACKCILONG opt neg v p = Some q \<longleftrightarrow> p = ADDCILONG opt neg v @ q"
  by (auto simp: ACKCILONG_def ADDCILONG_def GETLONG_eq_iff PUTLONG_def split: list.splits)

lemma ACKCICHAP_iff: "ACKCICHAP opt neg v p = Some q \<longleftrightarrow> p = ADDCICHAP opt neg v @ q"
  by (auto simp: ACKCICHAP_def ADDCICHAP_def GETSHORT_eq_iff PUTSHORT_def split: list.splits)

lemma ACKCILQR_iff: "ACKCILQR opt neg v p = Some q \<longleftrightarrow> p = ADDCILQR opt neg v @ q"
  by (auto simp: ACKCILQR_def ADDCILQR_def GETSHORT_eq_iff GETLONG_eq_iff PUTSHORT_def PUTLONG_def
      split: list.splits)

lemma PUTCHAR_small: "0 \<le> n \<Longrightarrow> n < 256 \<Longrightarrow> [b] = PUTCHAR n \<longleftrightarrow> uint b = n"
  by (auto simp: PUTCHAR_def uint_word_of_int)

lemma ACKCIENDP_iff:
  assumes "neg \<longrightarrow> length v \<le> 20"
  shows "ACKCIENDP opt neg c v p = Some q \<longleftrightarrow> p = ADDCIENDP opt neg c v @ q"
proof (cases neg)
  case True
  have "ACKCIENDP opt neg c v p = Some q \<longleftrightarrow>
      (\<exists>l r. p = opt # l # c # r \<and> uint l = 3 + int (length v) \<and> length v \<le> length r \<and>
         take (length v) r = v \<and> q = drop (length v) r)"
    using True by (auto simp: ACKCIENDP_def split: list.splits if_splits)
  also have "\<dots> \<longleftrightarrow> (\<exists>l. p = opt # l # c # v @ q \<and> uint l = 3 + int (length v))"
    by (auto, metis append_take_drop_id)
  also have "\<dots> \<longleftrightarrow> p = ADDCIENDP opt neg c v @ q"
    using True assms PUTCHAR_small [of "3 + int (length v)"]
    by (auto simp: ADDCIENDP_def PUTCHAR_def)
  finally show ?thesis .
qed (auto simp: ACKCIENDP_def ADDCIENDP_def)

lemmas ACKCI_iffs = ACKCIVOID_iff ACKCICHAR_iff ACKCISHORT_iff ACKCILONG_iff ACKCICHAP_iff
  ACKCILQR_iff ACKCIENDP_iff

text \<open>
  Property C17.  \<open>lcp_ackci\<close> accepts a Configure-Ack if and only if it is octet for octet the options of our
  last Configure-Request: the twelve checking macros and the twelve building macros agree.
\<close>

theorem lcp_ackci_iff_addci:
  assumes "wf_lcp go"
  shows "lcp_ackci_of go p \<longleftrightarrow> p = lcp_addci_of go"
  using assms unfolding wf_lcp_def lcp_ackci_of_def lcp_addci_of_def
  by (simp add: bind_eq_Some_conv ACKCI_iffs)

theorem lcp_ackci_iff_addci_witness:
  "\<not> lcp_ackci_of (lcp_zero\<lparr>neg_mru := True, mru := 1400, neg_pcompression := True\<rparr>) [CI_MRU, 4, 5, 0x78] \<and>
   lcp_ackci_of (lcp_zero\<lparr>neg_mru := True, mru := 1400, neg_pcompression := True\<rparr>) [CI_MRU, 4, 5, 0x78, CI_PCOMPRESSION, 2]"
  using lcp_ackci_iff_addci [of "lcp_zero\<lparr>neg_mru := True, mru := 1400, neg_pcompression := True\<rparr>"]
  by (simp add: wf_lcp_def lcp_addci_of_def lcp_zero_def ADDCI_defs PUTSHORT_def PUTCHAR_def)

section \<open>Digest types\<close>

lemma and_7_zero: "(m :: byte) AND 4 = 0 \<Longrightarrow> m AND 2 = 0 \<Longrightarrow> m AND 1 = 0 \<Longrightarrow> m AND 7 = 0"
proof -
  assume "m AND 4 = 0" "m AND 2 = 0" "m AND 1 = 0"
  then have "m AND (4 OR 2 OR 1) = 0"
    by (simp only: bit.conj_disj_distrib or.left_neutral)
  then show ?thesis by simp
qed

lemma and_4_neq_5: "(m :: byte) AND 4 \<noteq> 5"
proof
  assume "m AND 4 = 5"
  then have "bit (m AND 4) 0 = bit (5 :: byte) 0" by simp
  then show False by (simp add: bit_simps)
qed

lemma neq_own_digest: "m AND 7 \<noteq> 0 \<Longrightarrow> neq_CHAP_DIGEST (CHAP_DIGEST m) m"
  using and_7_zero [of m] and_4_neq_5 [of m]
  by (auto simp: neq_CHAP_DIGEST_def CHAP_DIGEST_def)

text \<open>
  Property C39.  The comparison \<open>cichar != CHAP_DIGEST(go->chap_mdtype)\<close> in \<open>lcp_nakci\<close> does not compare: the macro's
  definition is a conditional expression without outer parentheses, so the test is true for the digest we
  asked for ourselves.  A Nak that suggests our own digest, which the comment calls bad, is accepted.
\<close>

theorem nak_of_own_digest_accepted:
  assumes "neg_chap go" "\<not> neg_eap go" "chap_mdtype go AND 7 \<noteq> 0"
  shows "nak_chap go (CHAP_DIGEST (chap_mdtype go)) try \<noteq> None"
  using neq_own_digest [OF assms(3)] assms(1,2) by (simp add: nak_chap_def Let_def)

theorem nak_of_own_digest_accepted_witness:
  "nak_chap (lcp_zero\<lparr>neg_chap := True, chap_mdtype := 7\<rparr>) 5
     (lcp_zero\<lparr>neg_chap := True, chap_mdtype := 7\<rparr>) \<noteq> None"
  using nak_of_own_digest_accepted [of "lcp_zero\<lparr>neg_chap := True, chap_mdtype := 7\<rparr>"
      "lcp_zero\<lparr>neg_chap := True, chap_mdtype := 7\<rparr>"]
  by (simp add: lcp_zero_def CHAP_DIGEST_def)

lemma digest_sets: "(m :: byte) AND 7 = m \<Longrightarrow> m \<in> {0, 1, 2, 3, 4, 5, 6, 7}"
proof -
  assume "m AND 7 = m"
  then have "m \<le> 7" by (metis word_and_le1)
  then have "unat m \<le> 7" by (simp add: word_le_nat_alt)
  then have "unat m \<in> {0, 1, 2, 3, 4, 5, 6, 7}" by auto
  then have "word_of_nat (unat m) \<in> (word_of_nat ` {0, 1, 2, 3, 4, 5, 6, 7} :: byte set)" by (rule imageI)
  then show ?thesis by simp
qed

text \<open>
  Property C40.  When the peer suggests a digest we cannot do, \<open>lcp_nakci\<close> means to go on with the next digest in the order of
  preference.  It takes the lowest bit off the set of ours, but the request is built from the order of \<open>CHAP_DIGEST\<close>, which
  prefers MD5, the highest bit: exactly for the sets that have MD5 and another digest, the same digest is asked for again.
\<close>

theorem nak_unsupported_digest_repeats:
  assumes "neg_chap go" "\<not> neg_eap go" "chap_mdtype go AND 7 = chap_mdtype go" "chap_mdtype go \<noteq> MDTYPE_NONE"
    "\<not> CHAP_CANDIGEST (chap_mdtype go) c" "c \<noteq> 4"
  shows "\<exists>try. nak_chap go c go = Some try \<and>
    (neg_chap try \<and> CHAP_DIGEST (chap_mdtype try) = CHAP_DIGEST (chap_mdtype go) \<longleftrightarrow>
     chap_mdtype go AND MDTYPE_MD5 \<noteq> 0 \<and> chap_mdtype go AND (MDTYPE_MICROSOFT OR MDTYPE_MICROSOFT_V2) \<noteq> 0)"
proof -
  have "neq_CHAP_DIGEST c (chap_mdtype go)"
    using digest_sets [OF assms(3)] assms(4,6) by (auto simp: neq_CHAP_DIGEST_def)
  then show ?thesis
    using digest_sets [OF assms(3)] assms(1,2,4,5) by (auto simp: nak_chap_def CHAP_MDTYPE_def CHAP_DIGEST_def Let_def)
qed

theorem nak_unsupported_digest_repeats_witness:
  "\<exists>try. nak_chap (lcp_zero\<lparr>neg_chap := True, chap_mdtype := 7\<rparr>) 9 (lcp_zero\<lparr>neg_chap := True, chap_mdtype := 7\<rparr>) = Some try \<and>
     CHAP_DIGEST (chap_mdtype try) = CHAP_MD5"
proof -
  let ?go = "lcp_zero\<lparr>neg_chap := True, chap_mdtype := 7\<rparr>"
  have d: "CHAP_DIGEST (chap_mdtype ?go) = CHAP_MD5" by (simp add: CHAP_DIGEST_def)
  show ?thesis
    using nak_unsupported_digest_repeats [of ?go 9] d by (auto simp: lcp_zero_def CHAP_CANDIGEST_def)
qed

section \<open>Answering a request\<close>

lemma reqci_end_rc: "rc (reqci_end rid t ci orc a) \<in> {rc a, CONFNAK, CONFREJ}"
  by (auto simp: reqci_end_def Let_def)

lemma reqci_loop_Nil [simp]: "reqci_loop rid ml go ao [] a = a"
  by (subst reqci_loop.simps) simp

lemma reqci_loop_bad:
  "next \<noteq> [] \<Longrightarrow> length next < 2 \<or> unat (next ! 1) < 2 \<or> unat (next ! 1) > length next \<Longrightarrow>
   reqci_loop rid ml go ao next a = reqci_end rid 0 next CONFREJ a"
  by (subst reqci_loop.simps) auto

definition reqci_turn ::
    "bool \<Rightarrow> bool \<Rightarrow> lcp_options \<Rightarrow> lcp_options \<Rightarrow> byte \<Rightarrow> byte \<Rightarrow> packet \<Rightarrow> packet \<Rightarrow> reqci_acc \<Rightarrow> reqci_acc" where
  "reqci_turn rid ml go ao t l p ci a =
     (let (orc, nak, ho) = reqci_ci ml go ao (shd (magics a)) t (uint l) p (his a);
          ms = (if draws_magic go ao t (uint l) p then stl (magics a) else magics a)
      in reqci_end rid t ci orc (a\<lparr>nakbuf := nakbuf a @ nak, his := ho, magics := ms\<rparr>))"

lemma reqci_loop_turn:
  assumes "unat l = length body + 2"
  shows "reqci_loop rid ml go ao (t # l # body @ rest) a =
    reqci_loop rid ml go ao rest (reqci_turn rid ml go ao t l (body @ rest) (t # l # body) a)"
  using assms
  by (subst reqci_loop.simps) (simp add: reqci_turn_def Let_def split: prod.splits)

text \<open>Every non-empty request starts with a bad option or with a well-formed one.\<close>

lemma ci_cases:
  fixes p :: packet
  obtains (Nil) "p = []"
  | (bad) "p \<noteq> []" "length p < 2 \<or> unat (p ! 1) < 2 \<or> unat (p ! 1) > length p"
  | (ci) t l body rest where "p = t # l # body @ rest" "unat l = length body + 2"
proof (cases "p = [] \<or> length p < 2 \<or> unat (p ! 1) < 2 \<or> unat (p ! 1) > length p")
  case True
  then show ?thesis using Nil bad by blast
next
  case False
  then obtain t l q where p: "p = t # l # q" using length_2_cases [of p] by auto
  let ?n = "unat l - 2"
  have "unat l = length (take ?n q) + 2" "p = t # l # take ?n q @ drop ?n q"
    using False p by auto
  then show ?thesis using ci by blast
qed

lemma reqci_loop_induct [case_names Nil bad ci]:
  fixes p :: packet and a :: reqci_acc
  assumes "\<And>a. P [] a"
    and "\<And>p a. p \<noteq> [] \<Longrightarrow> length p < 2 \<or> unat (p ! 1) < 2 \<or> unat (p ! 1) > length p \<Longrightarrow> P p a"
    and "\<And>t l body rest a. unat l = length body + 2 \<Longrightarrow> (\<And>b. P rest b) \<Longrightarrow> P (t # l # body @ rest) a"
  shows "P p a"
proof (induction "length p" arbitrary: p a rule: less_induct)
  case less
  show ?case
  proof (cases p rule: ci_cases)
    case (ci t l body rest)
    with less have "\<And>b. P rest b" by simp
    with ci assms(3) show ?thesis by blast
  qed (use assms in auto)
qed

text \<open>
  The verdict on one option: its code, and that a suggestion is at most one octet longer than the
  shortest option it answers.
\<close>

definition verdict_ok :: "int \<Rightarrow> ci_verdict \<Rightarrow> bool" where
  "verdict_ok l v \<longleftrightarrow> fst v \<in> {CONFACK, CONFNAK, CONFREJ} \<and> 0 \<le> l \<and> 4 * int (length (fst (snd v))) \<le> 5 * l"

lemma verdict_ok_rej [simp]: "0 \<le> l \<Longrightarrow> verdict_ok l (CONFREJ, [], ho)"
  and verdict_ok_ack [simp]: "0 \<le> l \<Longrightarrow> verdict_ok l (CONFACK, [], ho)"
  by (simp_all add: verdict_ok_def)

lemma verdict_ok_nak [simp]: "4 * int (length n) \<le> 5 * l \<Longrightarrow> verdict_ok l (CONFNAK, n, ho)"
  by (simp add: verdict_ok_def)

lemma auth_nak_lengths [simp]:
  "length auth_nak_eap = 4" "length (auth_nak_chap ao) = 5" "length auth_nak_pap = 4"
  by (simp_all add: auth_nak_eap_def auth_nak_chap_def auth_nak_pap_def)

lemma reqci_mru_ok: "0 \<le> l \<Longrightarrow> verdict_ok l (reqci_mru ao ho l p)"
  by (simp add: reqci_mru_def split: list.split)

lemma reqci_asyncmap_ok: "0 \<le> l \<Longrightarrow> verdict_ok l (reqci_asyncmap ao ho l p)"
  by (simp add: reqci_asyncmap_def split: list.split)

lemma reqci_authtype_ok: "0 \<le> l \<Longrightarrow> verdict_ok l (reqci_authtype ao ho l p)"
  by (simp add: reqci_authtype_def Let_def split: list.split)

lemma reqci_quality_ok: "0 \<le> l \<Longrightarrow> verdict_ok l (reqci_quality ao ho l p)"
  by (simp add: reqci_quality_def split: list.split)

lemma reqci_magic_ok: "0 \<le> l \<Longrightarrow> verdict_ok l (reqci_magic go ao ho m l p)"
  by (simp add: reqci_magic_def split: list.split)

lemma reqci_mrru_ok: "0 \<le> l \<Longrightarrow> verdict_ok l (reqci_mrru ml ao ho l p)"
  by (simp add: reqci_mrru_def split: list.split)

lemma reqci_epdisc_ok: "0 \<le> l \<Longrightarrow> verdict_ok l (reqci_epdisc ao ho l p)"
  by (simp add: reqci_epdisc_def split: list.split)

lemma reqci_ci_ok: "0 \<le> l \<Longrightarrow> verdict_ok l (reqci_ci ml go ao m t l p ho)"
  by (simp add: reqci_ci_def reqci_mru_ok reqci_asyncmap_ok reqci_authtype_ok reqci_quality_ok
      reqci_magic_ok reqci_mrru_ok reqci_epdisc_ok)

lemma reqci_ci_nak_len:
  assumes "reqci_ci ml go ao m t (uint l) p ho = (orc, nak, ho')"
  shows "4 * length nak \<le> 5 * unat l"
proof -
  have "verdict_ok (uint l) (orc, nak, ho')"
    unfolding assms [symmetric] by (rule reqci_ci_ok) simp
  then have "4 * int (length nak) \<le> 5 * int (unat l)" by (simp add: verdict_ok_def)
  then show ?thesis by linarith
qed

lemma reqci_turn_rc: "rc (reqci_turn rid ml go ao t l p ci a) \<in> {rc a, CONFNAK, CONFREJ}"
proof -
  obtain orc nak ho where "reqci_ci ml go ao (shd (magics a)) t (uint l) p (his a) = (orc, nak, ho)"
    by (metis prod_cases3)
  then show ?thesis
    using reqci_end_rc [of rid t ci orc "a\<lparr>nakbuf := nakbuf a @ nak, his := ho,
      magics := (if draws_magic go ao t (uint l) p then stl (magics a) else magics a)\<rparr>"]
    by (simp add: reqci_turn_def Let_def)
qed

lemma reqci_loop_rc: "rc (reqci_loop rid ml go ao p a) \<in> {rc a, CONFNAK, CONFREJ}"
proof (induction p a rule: reqci_loop_induct)
  case (ci t l body rest a)
  from ci(2) [of "reqci_turn rid ml go ao t l (body @ rest) (t # l # body) a"]
    reqci_turn_rc [of rid ml go ao t l "body @ rest" "t # l # body" a] ci(1)
  show ?case by (auto simp: reqci_loop_turn)
qed (use reqci_end_rc in \<open>auto simp: reqci_loop_bad\<close>)

lemma reqci_loop_rejbuf:
  "\<exists>r. rejbuf (reqci_loop rid ml go ao p a) = rejbuf a @ r \<and> subseq r p"
proof (induction p a rule: reqci_loop_induct)
  case (bad p a)
  then show ?case by (auto simp: reqci_loop_bad reqci_end_def Let_def)
next
  case (ci t l body rest a)
  let ?b = "reqci_turn rid ml go ao t l (body @ rest) (t # l # body) a"
  have "rejbuf ?b = rejbuf a \<or> rejbuf ?b = rejbuf a @ t # l # body"
    by (auto simp: reqci_turn_def reqci_end_def Let_def split: prod.splits)
  moreover obtain r where "rejbuf (reqci_loop rid ml go ao rest ?b) = rejbuf ?b @ r" "subseq r rest"
    using ci(2) by blast
  moreover have "subseq r rest \<Longrightarrow> subseq r (t # l # body @ rest)"
    by (metis append_Cons list_emb_append2)
  moreover have "subseq r rest \<Longrightarrow> subseq (t # l # body @ r) (t # l # body @ rest)"
    by (simp add: subseq_append')
  ultimately show ?case
    using ci(1) by (auto simp: reqci_loop_turn)
qed auto

lemma reqci_loop_nakbuf:
  "\<exists>n. nakbuf (reqci_loop rid ml go ao p a) = nakbuf a @ n \<and> 4 * length n \<le> 5 * length p"
proof (induction p a rule: reqci_loop_induct)
  case (bad p a)
  then show ?case by (auto simp: reqci_loop_bad reqci_end_def Let_def)
next
  case (ci t l body rest a)
  let ?b = "reqci_turn rid ml go ao t l (body @ rest) (t # l # body) a"
  obtain orc nak ho where rq: "reqci_ci ml go ao (shd (magics a)) t (uint l) (body @ rest) (his a) = (orc, nak, ho)"
    by (metis prod_cases3)
  then have "nakbuf ?b = nakbuf a @ nak"
    by (auto simp: reqci_turn_def reqci_end_def Let_def)
  moreover obtain n where "nakbuf (reqci_loop rid ml go ao rest ?b) = nakbuf ?b @ n" "4 * length n \<le> 5 * length rest"
    using ci(2) by blast
  ultimately show ?case
    using ci(1) reqci_ci_nak_len [OF rq] by (auto simp: reqci_loop_turn)
qed auto

text \<open>
  Property C28.  Any request of the peer of up to 1200 octets, however malformed, is answered with an Ack, a Nak or a Reject; an
  Ack repeats the request, a Reject is a selection of its octets in their order, no answer is longer than five quarters of
  the request, and what is written into the static array \<open>nak_buffer\<close> fits its 1500 octets.
\<close>

theorem lcp_reqci_reply:
  assumes "length inp \<le> 1200"
  shows "rc (reqci_run rid ml go ao ms inp) \<in> {CONFACK, CONFNAK, CONFREJ} \<and>
   (rc (reqci_run rid ml go ao ms inp) = CONFACK \<longrightarrow> reqci_reply inp (reqci_run rid ml go ao ms inp) = inp) \<and>
   (rc (reqci_run rid ml go ao ms inp) = CONFREJ \<longrightarrow> subseq (reqci_reply inp (reqci_run rid ml go ao ms inp)) inp) \<and>
   4 * length (reqci_reply inp (reqci_run rid ml go ao ms inp)) \<le> 5 * length inp \<and>
   length (nakbuf (reqci_run rid ml go ao ms inp)) \<le> 1500"
proof -
  let ?a = "\<lparr>rc = CONFACK, nakbuf = [], rejbuf = [], his = lcp_zero, magics = ms\<rparr>"
  obtain r n where "rejbuf (reqci_run rid ml go ao ms inp) = r" "subseq r inp"
    "nakbuf (reqci_run rid ml go ao ms inp) = n" "4 * length n \<le> 5 * length inp"
    using reqci_loop_rejbuf [of rid ml go ao inp ?a] reqci_loop_nakbuf [of rid ml go ao inp ?a]
    unfolding reqci_run_def by auto
  moreover have "rc (reqci_run rid ml go ao ms inp) \<in> {CONFACK, CONFNAK, CONFREJ}"
    using reqci_loop_rc [of rid ml go ao inp ?a] unfolding reqci_run_def by simp
  ultimately show ?thesis
    using assms by (auto simp: reqci_reply_def dest: list_emb_length)
qed

theorem lcp_reqci_reply_witness:
  "rc (reqci_run False False lcp_zero (lcp_zero\<lparr>neg_mru := True\<rparr>) (sconst 0) [CI_PCOMPRESSION, 2]) = CONFREJ \<and>
   subseq (reqci_reply [CI_PCOMPRESSION, 2]
     (reqci_run False False lcp_zero (lcp_zero\<lparr>neg_mru := True\<rparr>) (sconst 0) [CI_PCOMPRESSION, 2])) [CI_PCOMPRESSION, 2]"
proof -
  have "rc (reqci_run False False lcp_zero (lcp_zero\<lparr>neg_mru := True\<rparr>) (sconst 0) [CI_PCOMPRESSION, 2]) = CONFREJ"
    by (simp add: reqci_run_def reqci_loop.simps reqci_ci_def reqci_end_def lcp_zero_def Let_def)
  then show ?thesis
    using lcp_reqci_reply [of "[CI_PCOMPRESSION, 2]" False False lcp_zero "lcp_zero\<lparr>neg_mru := True\<rparr>" "sconst 0"] by simp
qed

section \<open>The size of the Nak\<close>

text \<open>
  Octets of the options \<open>[3, 4, 0xC0, 0x23]\<close> (ask for PAP), each of which a CHAP-only server answers with
  the five octets that suggest CHAP.
\<close>

fun pap_requests :: "nat \<Rightarrow> packet" where
  "pap_requests 0 = []"
| "pap_requests (Suc n) = [CI_AUTHTYPE, 4, 0xC0, 0x23] @ pap_requests n"

lemma length_pap_requests [simp]: "length (pap_requests n) = 4 * n"
  by (induction n) auto

lemma reqci_loop_pap_requests:
  assumes "neg_chap ao" "\<not> neg_upap ao" "\<not> neg_eap ao" "\<not> neg_chap (his a)" "\<not> neg_eap (his a)"
  shows "length (nakbuf (reqci_loop rid ml go ao (pap_requests n) a)) = length (nakbuf a) + 5 * n"
  using assms(4,5)
proof (induction n arbitrary: a)
  case (Suc n)
  have G: "GETSHORT 0xC0 0x23 = PPP_PAP" by (simp add: GETSHORT_def)
  let ?b = "reqci_turn rid ml go ao CI_AUTHTYPE 4 ([0xC0, 0x23] @ pap_requests n) (CI_AUTHTYPE # 4 # [0xC0, 0x23]) a"
  have "his ?b = his a \<and> nakbuf ?b = nakbuf a @ auth_nak_chap ao"
    using assms Suc.prems G
    by (auto simp: reqci_turn_def reqci_ci_def reqci_authtype_def reqci_end_def Let_def)
  with Suc.IH [of ?b] Suc.prems show ?case
    using reqci_loop_turn [of 4 "[0xC0, 0x23]" rid ml go ao CI_AUTHTYPE "pap_requests n" a] by simp
qed simp

text \<open>
  Property C34.  The octets \<open>lcp_reqci\<close> writes to \<open>nak_buffer\<close> are not bounded by its size: a request of
  1496 octets, which fits a default MRU of 1500 with its header, makes a CHAP-only authenticator write
  1870 octets into the static \<open>nak_buffer[PPP_MRU]\<close> of 1500.
\<close>

theorem lcp_reqci_nak_overflow:
  assumes "neg_chap ao" "\<not> neg_upap ao" "\<not> neg_eap ao"
  shows "length (pap_requests 374) + 4 \<le> 1500 \<and>
    length (nakbuf (reqci_run rid ml go ao ms (pap_requests 374))) = 1870"
  using reqci_loop_pap_requests [OF assms, where n = 374] by (simp add: reqci_run_def lcp_zero_def)

theorem lcp_reqci_nak_overflow_witness:
  "length (nakbuf (reqci_run False False lcp_zero (lcp_zero\<lparr>neg_chap := True\<rparr>) (sconst 0)
     (pap_requests 374))) = 1870"
  by (rule lcp_reqci_nak_overflow [THEN conjunct2]) (simp_all add: lcp_zero_def)

section \<open>Rejects only take options away\<close>

text \<open>The thirteen options that can be asked for, and the record without these flags.\<close>

definition asked :: "lcp_options \<Rightarrow> bool list" where
  "asked opts = [neg_mru opts, neg_asyncmap opts, neg_eap opts, neg_chap opts, neg_upap opts, neg_lqr opts,
     neg_cbcp opts, neg_magicnumber opts, neg_pcompression opts, neg_accompression opts, neg_mrru opts,
     neg_ssnhf opts, neg_endpoint opts]"

definition unasked :: "lcp_options \<Rightarrow> lcp_options" where
  "unasked opts = opts\<lparr>neg_mru := False, neg_asyncmap := False, neg_eap := False, neg_chap := False,
     neg_upap := False, neg_lqr := False, neg_cbcp := False, neg_magicnumber := False,
     neg_pcompression := False, neg_accompression := False, neg_mrru := False, neg_ssnhf := False,
     neg_endpoint := False\<rparr>"

definition drops :: "lcp_options \<Rightarrow> packet \<Rightarrow> rej_scan \<Rightarrow> bool" where
  "drops go p0 s \<longleftrightarrow> unasked (snd s) = unasked go \<and> list_all2 (\<longrightarrow>) (asked (snd s)) (asked go) \<and>
     (fst s = p0 \<or> asked (snd s) \<noteq> asked go)"

lemma asked_length [simp]: "length (asked opts) = 13"
  by (simp add: asked_def)

lemma asked_drop:
  "asked (neg_mru_update (\<lambda>_. False) t) = (asked t)[0 := False]"
  "asked (neg_asyncmap_update (\<lambda>_. False) t) = (asked t)[1 := False]"
  "asked (neg_eap_update (\<lambda>_. False) t) = (asked t)[2 := False]"
  "asked (neg_chap_update (\<lambda>_. False) t) = (asked t)[3 := False]"
  "asked (neg_upap_update (\<lambda>_. False) t) = (asked t)[4 := False]"
  "asked (neg_lqr_update (\<lambda>_. False) t) = (asked t)[5 := False]"
  "asked (neg_cbcp_update (\<lambda>_. False) t) = (asked t)[6 := False]"
  "asked (neg_magicnumber_update (\<lambda>_. False) t) = (asked t)[7 := False]"
  "asked (neg_pcompression_update (\<lambda>_. False) t) = (asked t)[8 := False]"
  "asked (neg_accompression_update (\<lambda>_. False) t) = (asked t)[9 := False]"
  "asked (neg_mrru_update (\<lambda>_. False) t) = (asked t)[10 := False]"
  "asked (neg_ssnhf_update (\<lambda>_. False) t) = (asked t)[11 := False]"
  "asked (neg_endpoint_update (\<lambda>_. False) t) = (asked t)[12 := False]"
  by (simp_all add: asked_def)

lemma asked_nth:
  "asked go ! 0 = neg_mru go" "asked go ! 1 = neg_asyncmap go" "asked go ! 2 = neg_eap go"
  "asked go ! 3 = neg_chap go" "asked go ! 4 = neg_upap go" "asked go ! 5 = neg_lqr go"
  "asked go ! 6 = neg_cbcp go" "asked go ! 7 = neg_magicnumber go" "asked go ! 8 = neg_pcompression go"
  "asked go ! 9 = neg_accompression go" "asked go ! 10 = neg_mrru go" "asked go ! 11 = neg_ssnhf go"
  "asked go ! 12 = neg_endpoint go"
  by (simp_all add: asked_def)

lemma unasked_drop:
  "unasked (neg_mru_update f t) = unasked t" "unasked (neg_asyncmap_update f t) = unasked t"
  "unasked (neg_eap_update f t) = unasked t" "unasked (neg_chap_update f t) = unasked t"
  "unasked (neg_upap_update f t) = unasked t" "unasked (neg_lqr_update f t) = unasked t"
  "unasked (neg_cbcp_update f t) = unasked t" "unasked (neg_magicnumber_update f t) = unasked t"
  "unasked (neg_pcompression_update f t) = unasked t" "unasked (neg_accompression_update f t) = unasked t"
  "unasked (neg_mrru_update f t) = unasked t" "unasked (neg_ssnhf_update f t) = unasked t"
  "unasked (neg_endpoint_update f t) = unasked t"
  by (simp_all add: unasked_def)

text \<open>What a flag update must satisfy to clear the \<open>i\<close>-th option, and that such a step keeps \<open>drops\<close>.\<close>

definition clears :: "nat \<Rightarrow> (lcp_options \<Rightarrow> bool) \<Rightarrow> neg_update \<Rightarrow> bool" where
  "clears i neg upd \<longleftrightarrow> i < 13 \<and> (\<forall>t. unasked (upd (\<lambda>_. False) t) = unasked t \<and>
     asked (upd (\<lambda>_. False) t) = (asked t)[i := False] \<and> asked t ! i = neg t)"

lemma clears_flags:
  "clears 0 neg_mru neg_mru_update" "clears 1 neg_asyncmap neg_asyncmap_update"
  "clears 2 neg_eap neg_eap_update" "clears 3 neg_chap neg_chap_update"
  "clears 4 neg_upap neg_upap_update" "clears 5 neg_lqr neg_lqr_update"
  "clears 6 neg_cbcp neg_cbcp_update" "clears 7 neg_magicnumber neg_magicnumber_update"
  "clears 8 neg_pcompression neg_pcompression_update"
  "clears 9 neg_accompression neg_accompression_update" "clears 10 neg_mrru neg_mrru_update"
  "clears 11 neg_ssnhf neg_ssnhf_update" "clears 12 neg_endpoint neg_endpoint_update"
  by (simp_all only: clears_def asked_drop unasked_drop asked_nth) simp_all

lemma drops_clear:
  assumes "clears i neg upd" "drops go p0 (p, t)" "neg go"
  shows "drops go p0 (q, upd (\<lambda>_. False) t)"
proof -
  have i: "i < 13" "asked go ! i" and u: "unasked (upd (\<lambda>_. False) t) = unasked t"
    and a: "asked (upd (\<lambda>_. False) t) = (asked t)[i := False]"
    using assms(1,3) by (auto simp: clears_def)
  have "list_all2 (\<longrightarrow>) ((asked t)[i := False]) (asked go)"
    using assms(2) i by (auto simp: drops_def list_all2_conv_all_nth nth_list_update)
  moreover have "(asked t)[i := False] \<noteq> asked go"
    using i by (metis asked_length nth_list_update_eq)
  ultimately show ?thesis
    using assms(2) u a by (simp add: drops_def)
qed

lemma drops_more:
  assumes "clears i neg upd" "drops go p0 (p, t)" "asked t \<noteq> asked go"
  shows "drops go p0 (q, upd (\<lambda>_. False) t)" and "asked (upd (\<lambda>_. False) t) \<noteq> asked go"
proof -
  have imp: "\<forall>j<13. asked t ! j \<longrightarrow> asked go ! j" and a: "asked (upd (\<lambda>_. False) t) = (asked t)[i := False]"
    using assms(1,2) by (auto simp: drops_def clears_def list_all2_conv_all_nth)
  obtain j where "j < 13" "asked t ! j \<noteq> asked go ! j"
    using assms(3) nth_equalityI [of "asked t" "asked go"] by auto
  then have "(asked t)[i := False] ! j \<noteq> asked go ! j"
    using imp by (cases "i = j") auto
  then show ne: "asked (upd (\<lambda>_. False) t) \<noteq> asked go" using a by auto
  show "drops go p0 (q, upd (\<lambda>_. False) t)"
    using assms(1,2) ne a imp
    by (auto simp: drops_def clears_def list_all2_conv_all_nth nth_list_update)
qed

text \<open>Every macro of \<open>lcp_rejci\<close> keeps \<open>drops\<close>.\<close>

lemma REJCIVOID_drops:
  "clears i neg upd \<Longrightarrow> drops go p0 s \<Longrightarrow> REJCIVOID opt neg upd go s = Some s' \<Longrightarrow> drops go p0 s'"
  by (cases s) (auto intro: drops_clear split: list.splits if_splits)

lemma REJCISHORT_drops:
  "clears i neg upd \<Longrightarrow> drops go p0 s \<Longrightarrow> REJCISHORT opt neg upd v go s = Some s' \<Longrightarrow> drops go p0 s'"
  by (cases s) (auto intro: drops_clear split: list.splits if_splits)

lemma REJCILONG_drops:
  "clears i neg upd \<Longrightarrow> drops go p0 s \<Longrightarrow> REJCILONG opt neg upd v go s = Some s' \<Longrightarrow> drops go p0 s'"
  by (cases s) (auto intro: drops_clear split: list.splits if_splits)

lemma REJCILQR_drops:
  "clears i neg upd \<Longrightarrow> drops go p0 s \<Longrightarrow> REJCILQR opt neg upd v go s = Some s' \<Longrightarrow> drops go p0 s'"
  by (cases s) (auto intro: drops_clear split: list.splits if_splits)

lemma REJCICBCP_drops:
  "clears i neg upd \<Longrightarrow> drops go p0 s \<Longrightarrow> REJCICBCP opt neg upd v go s = Some s' \<Longrightarrow> drops go p0 s'"
  by (cases s) (auto intro: drops_clear split: list.splits if_splits)

lemma REJCIENDP_drops:
  "clears i neg upd \<Longrightarrow> drops go p0 s \<Longrightarrow> REJCIENDP opt neg upd c v go s = Some s' \<Longrightarrow> drops go p0 s'"
  by (cases s) (auto intro: drops_clear split: list.splits if_splits)

lemma drops_chap:
  assumes "drops go p0 (p, t)" "neg_chap go"
  shows "drops go p0 (q, t\<lparr>neg_chap := False, neg_upap := False, neg_eap := False\<rparr>)"
proof -
  let ?t = "t\<lparr>neg_chap := False\<rparr>"
  have d: "drops go p0 (q, ?t)" using drops_clear [OF clears_flags(4) assms] by simp
  have ne: "asked ?t \<noteq> asked go"
  proof
    assume "asked ?t = asked go"
    then have "asked ?t ! 3 = asked go ! 3" by simp
    then show False using assms(2) by (simp only: asked_nth) simp
  qed
  show ?thesis
    using drops_more(1) [OF clears_flags(3) drops_more(1) [OF clears_flags(5) d ne] drops_more(2) [OF clears_flags(5) d ne], of q]
    by simp
qed

lemma REJCICHAP_drops:
  "drops go p0 s \<Longrightarrow> REJCICHAP opt neg_chap neg_chap_update v go s = Some s' \<Longrightarrow> drops go p0 s'"
  by (cases s) (auto intro: drops_chap split: list.splits if_splits)

lemmas REJCI_drops = REJCIVOID_drops [OF clears_flags(9)] REJCIVOID_drops [OF clears_flags(10)]
  REJCIVOID_drops [OF clears_flags(12)] REJCISHORT_drops [OF clears_flags(1)]
  REJCISHORT_drops [OF clears_flags(3)] REJCISHORT_drops [OF clears_flags(5)]
  REJCISHORT_drops [OF clears_flags(11)] REJCILONG_drops [OF clears_flags(2)]
  REJCILONG_drops [OF clears_flags(8)] REJCILQR_drops [OF clears_flags(6)]
  REJCICBCP_drops [OF clears_flags(7)] REJCIENDP_drops [OF clears_flags(13)] REJCICHAP_drops

lemma bind_drops:
  "Option.bind m f = Some t \<Longrightarrow> (\<And>s. m = Some s \<Longrightarrow> drops go p0 s) \<Longrightarrow>
   (\<And>s. drops go p0 s \<Longrightarrow> f s = Some t \<Longrightarrow> drops go p0 ([], t)) \<Longrightarrow> drops go p0 ([], t)"
  by (auto simp: bind_eq_Some_conv)

lemma rejci_drops:
  assumes "lcp_rejci_of go p = Some try"
  shows "drops go p ([], try)"
proof -
  have start: "drops go p (p, go)" by (simp add: drops_def list.rel_refl)
  have auth: "drops go p s'"
    if "drops go p s" "(if \<not> neg_eap go
         then Option.bind (REJCICHAP CI_AUTHTYPE neg_chap neg_chap_update (chap_mdtype go) go s)
                (\<lambda>s. if \<not> neg_chap go then REJCISHORT CI_AUTHTYPE neg_upap neg_upap_update PPP_PAP go s else Some s)
         else Some s) = Some s'" for s s'
    using that by (auto simp: bind_eq_Some_conv split: if_splits simp del: REJCISHORT.simps REJCICHAP.simps
        dest: REJCI_drops)
  show ?thesis
    using assms unfolding lcp_rejci_of_def
    apply (rule bind_drops, blast intro: start REJCI_drops)
    apply (erule bind_drops, blast intro: REJCI_drops auth)+
    apply (auto split: if_splits prod.splits)
    done
qed

lemma fewer_asked:
  "list_all2 (\<longrightarrow>) xs ys \<Longrightarrow> xs \<noteq> ys \<Longrightarrow> count_list xs True < count_list ys True"
proof (induction rule: list_all2_induct)
  case (Cons x xs y ys)
  have "count_list xs True \<le> count_list ys True"
    using Cons by (cases "xs = ys") auto
  then show ?case using Cons by (cases "xs = ys") auto
qed simp

text \<open>
  Property C27.  A good Configure-Reject only takes options away: the values of the record stay, no
  option is switched on, and a Reject that is not empty strictly reduces the number of options asked
  for next, so the peer can send at most thirteen of them.
\<close>

theorem lcp_rejci_shrinks:
  assumes "lcp_rejci_of go p = Some try"
  shows "unasked try = unasked go \<and> list_all2 (\<longrightarrow>) (asked try) (asked go) \<and>
    (p \<noteq> [] \<longrightarrow> count_list (asked try) True < count_list (asked go) True)"
  using rejci_drops [OF assms] fewer_asked by (auto simp: drops_def)

theorem lcp_rejci_shrinks_witness:
  "lcp_rejci_of (lcp_zero\<lparr>neg_mru := True, mru := 1400, neg_pcompression := True\<rparr>) [CI_PCOMPRESSION, 2] =
     Some (lcp_zero\<lparr>neg_mru := True, mru := 1400\<rparr>) \<and>
   count_list (asked (lcp_zero\<lparr>neg_mru := True, mru := 1400\<rparr>)) True <
   count_list (asked (lcp_zero\<lparr>neg_mru := True, mru := 1400, neg_pcompression := True\<rparr>)) True"
proof -
  have "lcp_rejci_of (lcp_zero\<lparr>neg_mru := True, mru := 1400, neg_pcompression := True\<rparr>) [CI_PCOMPRESSION, 2] =
     Some (lcp_zero\<lparr>neg_mru := True, mru := 1400\<rparr>)"
    by (simp add: lcp_rejci_of_def lcp_zero_def)
  from this lcp_rejci_shrinks [OF this] show ?thesis by simp
qed


section \<open>What a Nak can change\<close>

text \<open>
  The bounds on the next request: no option is switched on other than the MRU and short sequence
  numbers, characters are only added to the escape map, and the MRU and MRRU stay below what the user asked for.
\<close>

definition nak_bounded :: "lcp_options \<Rightarrow> lcp_options \<Rightarrow> lcp_options \<Rightarrow> bool" where
  "nak_bounded go wo try \<longleftrightarrow>
     list_all2 (\<longrightarrow>) (asked try) (asked (go\<lparr>neg_mru := True, neg_ssnhf := True\<rparr>)) \<and>
     asyncmap go OR asyncmap try = asyncmap try \<and>
     mru try \<le> max (mru go) (max (mru wo) DEFMRU) \<and> mrru try \<le> max (mrru go) (mrru wo)"

definition keeps :: "(lcp_options \<Rightarrow> bool) \<Rightarrow> (lcp_options \<Rightarrow> lcp_options) \<Rightarrow> bool" where
  "keeps I f \<longleftrightarrow> (\<forall>t. I t \<longrightarrow> I (f t))"

abbreviation nak_try :: "nak_scan \<Rightarrow> lcp_options" where
  "nak_try s \<equiv> snd (snd s)"

lemma NAKCIVOID_keeps:
  "keeps I (upd (\<lambda>_. False)) \<Longrightarrow> I (nak_try s) \<Longrightarrow> I (nak_try (NAKCIVOID opt neg upd go s))"
  by (cases s) (auto simp: keeps_def split: list.split)

lemma NAKCIENDP_keeps:
  "keeps I (upd (\<lambda>_. False)) \<Longrightarrow> I (nak_try s) \<Longrightarrow> I (nak_try (NAKCIENDP opt neg upd go s))"
  by (cases s) (auto simp: keeps_def split: list.split)

lemma NAKCICHAR_keeps:
  "(\<And>c. keeps I (code c)) \<Longrightarrow> I (nak_try s) \<Longrightarrow> I (nak_try (NAKCICHAR opt neg upd code go s))"
  by (cases s) (auto simp: keeps_def split: list.split)

lemma NAKCISHORT_keeps:
  "(\<And>v. keeps I (code v)) \<Longrightarrow> I (nak_try s) \<Longrightarrow> I (nak_try (NAKCISHORT opt neg upd code go s))"
  by (cases s) (auto simp: keeps_def split: list.split)

lemma NAKCILONG_keeps:
  "(\<And>v. keeps I (code v)) \<Longrightarrow> I (nak_try s) \<Longrightarrow> I (nak_try (NAKCILONG opt neg upd code go s))"
  by (cases s) (auto simp: keeps_def split: list.split)

lemma NAKCILQR_keeps:
  "(\<And>u v. keeps I (code u v)) \<Longrightarrow> I (nak_try s) \<Longrightarrow> I (nak_try (NAKCILQR opt neg upd code go s))"
  by (cases s) (auto simp: keeps_def split: list.split)

lemma asked_values [simp]:
  "asked (mru_update f t) = asked t" "asked (mrru_update f t) = asked t"
  "asked (asyncmap_update g t) = asked t" "asked (lqr_period_update g t) = asked t"
  "asked (magicnumber_update g t) = asked t" "asked (chap_mdtype_update h t) = asked t"
  by (simp_all add: asked_def)

lemma unasked_values:
  "asyncmap (unasked t) = asyncmap t" "mru (unasked t) = mru t" "mrru (unasked t) = mrru t"
  by (simp_all add: unasked_def)

lemma nak_bounded_clear:
  assumes "clears i neg upd" "nak_bounded go wo t"
  shows "nak_bounded go wo (upd (\<lambda>_. False) t)"
proof -
  have u: "unasked (upd (\<lambda>_. False) t) = unasked t" and a: "asked (upd (\<lambda>_. False) t) = (asked t)[i := False]"
    using assms(1) by (auto simp: clears_def)
  have "asyncmap (upd (\<lambda>_. False) t) = asyncmap t" "mru (upd (\<lambda>_. False) t) = mru t"
    "mrru (upd (\<lambda>_. False) t) = mrru t"
    using u by (metis unasked_values)+
  moreover have "list_all2 (\<longrightarrow>) ((asked t)[i := False]) xs" if "list_all2 (\<longrightarrow>) (asked t) xs" for xs
    using that assms(1) by (auto simp: list_all2_conv_all_nth clears_def nth_list_update)
  ultimately show ?thesis using assms(2) a by (simp add: nak_bounded_def)
qed

lemma nak_bounded_on:
  assumes "nak_bounded go wo t"
  shows "nak_bounded go wo (t\<lparr>neg_mru := True\<rparr>)" and "nak_bounded go wo (t\<lparr>neg_ssnhf := True\<rparr>)"
  using assms by (simp_all add: nak_bounded_def asked_def)

lemmas nak_bounded_clears = clears_flags [THEN nak_bounded_clear]

lemma nak_bounded_values:
  assumes "nak_bounded go wo t"
  shows "v \<le> mru wo \<or> v \<le> DEFMRU \<Longrightarrow> nak_bounded go wo (t\<lparr>mru := v\<rparr>)"
    and "v \<le> mrru wo \<Longrightarrow> nak_bounded go wo (t\<lparr>mrru := v\<rparr>)"
    and "nak_bounded go wo (t\<lparr>asyncmap := asyncmap go OR x\<rparr>)"
    and "nak_bounded go wo (t\<lparr>lqr_period := x\<rparr>)" and "nak_bounded go wo (t\<lparr>magicnumber := x\<rparr>)"
    and "nak_bounded go wo (t\<lparr>chap_mdtype := y\<rparr>)"
  using assms by (auto simp: nak_bounded_def or.assoc [symmetric])

lemmas nak_boundedI = nak_bounded_clears nak_bounded_on nak_bounded_values

lemma nak_chap_keeps: "nak_bounded go wo try \<Longrightarrow> nak_chap go c try = Some t \<Longrightarrow> nak_bounded go wo t"
  by (auto simp: nak_chap_def Let_def intro: nak_boundedI split: if_splits)

lemma nak_pap_keeps: "nak_bounded go wo try \<Longrightarrow> nak_pap go try = Some t \<Longrightarrow> nak_bounded go wo t"
  by (auto simp: nak_pap_def intro: nak_boundedI split: if_splits)

lemma nak_other_keeps: "nak_bounded go wo try \<Longrightarrow> nak_bounded go wo (nak_other go try)"
  by (auto simp: nak_other_def intro: nak_boundedI)

lemma nak_auth_keeps:
  "nak_bounded go wo (nak_try s) \<Longrightarrow> nak_auth go s = Some s' \<Longrightarrow> nak_bounded go wo (nak_try s')"
  by (cases s) (auto simp: Let_def intro: nak_chap_keeps nak_pap_keeps nak_other_keeps
      split: list.splits if_splits)

lemma nak_rest_mru:
  assumes "nak_bounded go wo t" "v < DEFMRU"
  shows "nak_bounded go wo (t\<lparr>neg_mru := True, mru := v\<rparr>)"
  using assms by (simp add: nak_bounded_on nak_bounded_values)

lemma nak_rest_ci_keeps:
  assumes "nak_bounded go wo try" "nak_rest_ci go no ct cl p try = Some t"
  shows "nak_bounded go wo t"
proof -
  have "t = try \<or> t = try\<lparr>neg_ssnhf := True\<rparr> \<or> (\<exists>v < DEFMRU. t = try\<lparr>neg_mru := True, mru := v\<rparr>)"
    using assms(2) unfolding nak_rest_ci_def
    by (simp split: if_split_asm list.split_asm) blast+
  then show ?thesis using assms(1) nak_rest_mru nak_bounded_on(2) by blast
qed

lemma nak_rest_keeps:
  "nak_rest go no p r = Some t \<Longrightarrow> nak_bounded go wo r \<Longrightarrow> nak_bounded go wo t"
proof (induction go no p r rule: nak_rest.induct)
  case (1 go no p r)
  show ?case
    using "1.prems"(1) "1.IH" "1.prems"(2) nak_rest_ci_keeps [OF "1.prems"(2)]
    by (auto simp: nak_rest.simps [of go no p r] split: list.splits if_splits option.splits)
qed

lemma keeps_nak_bounded:
  "keeps (nak_bounded go wo) (\<lambda>t. if v \<le> mru wo \<or> v \<le> DEFMRU then t\<lparr>mru := v\<rparr> else t)"
  "keeps (nak_bounded go wo) (\<lambda>t. t\<lparr>asyncmap := asyncmap go OR x\<rparr>)"
  "keeps (nak_bounded go wo) (\<lambda>t. if u \<noteq> PPP_LQR then t\<lparr>neg_lqr := False\<rparr> else t\<lparr>lqr_period := x\<rparr>)"
  "keeps (nak_bounded go wo) (\<lambda>t. t\<lparr>neg_cbcp := False\<rparr>)"
  "keeps (nak_bounded go wo) (\<lambda>t. t\<lparr>magicnumber := x\<rparr>)"
  "keeps (nak_bounded go wo) (\<lambda>t. if tar then t\<lparr>neg_mrru := False\<rparr> else if v \<le> mrru wo then t\<lparr>mrru := v\<rparr> else t)"
  "keeps (nak_bounded go wo) (\<lambda>t. t\<lparr>neg_pcompression := False\<rparr>)"
  "keeps (nak_bounded go wo) (\<lambda>t. t\<lparr>neg_accompression := False\<rparr>)"
  "keeps (nak_bounded go wo) (\<lambda>t. t\<lparr>neg_ssnhf := False\<rparr>)"
  "keeps (nak_bounded go wo) (\<lambda>t. t\<lparr>neg_endpoint := False\<rparr>)"
  by (auto simp: keeps_def intro: nak_boundedI)

lemmas NAKCI_keeps = NAKCIVOID_keeps NAKCIENDP_keeps NAKCICHAR_keeps NAKCISHORT_keeps NAKCILONG_keeps
  NAKCILQR_keeps

lemma nakci_first_keeps:
  "nak_bounded go wo (nak_try s) \<Longrightarrow> nakci_first go wo s = Some s' \<Longrightarrow> nak_bounded go wo (nak_try s')"
  unfolding nakci_first_def Let_def
  by (erule nak_auth_keeps [rotated]) (simp add: NAKCI_keeps keeps_nak_bounded)

lemma nakci_second_keeps:
  "nak_bounded go wo (nak_try s) \<Longrightarrow> nak_bounded go wo (nak_try (nakci_second go m s))"
  unfolding nakci_second_def Let_def by (simp add: NAKCI_keeps keeps_nak_bounded)

lemma nakci_third_keeps:
  "nak_bounded go wo (nak_try s) \<Longrightarrow> nak_bounded go wo (nak_try (nakci_third go wo tar s))"
  unfolding nakci_third_def Let_def by (simp add: NAKCI_keeps keeps_nak_bounded)

text \<open>
  Property C26.  Whatever the peer writes into a Configure-Nak, the next request asks for no option that
  was not asked for before, other than an MRU and short multilink headers; it only adds characters to the
  escape map; its MRU is at most the largest of the one asked for before, the one configured and the default of 1500 (so a
  Nak can raise a smaller configured MRU up to the default), and its MRRU at most the larger of the one asked for before
  and the one configured.
\<close>

theorem lcp_nakci_bounded:
  assumes "nakci_scan go wo treat_as_reject m p = (looped_back, Some try)"
  shows "nak_bounded go wo try"
proof -
  have start: "nak_bounded go wo (nak_try (p, lcp_zero, go))"
    by (simp add: nak_bounded_def asked_def)
  obtain s where s: "nakci_first go wo (p, lcp_zero, go) = Some s"
    using assms by (auto simp: nakci_scan_def split: option.splits)
  obtain q no t where t: "nakci_third go wo treat_as_reject (nakci_second go m s) = (q, no, t)"
    by (metis prod_cases3)
  have "nak_bounded go wo t"
    using nakci_third_keeps [OF nakci_second_keeps [OF nakci_first_keeps [OF start s]]] t by (metis snd_conv)
  moreover have "nak_rest go no q t = Some try"
    using assms s t by (simp add: nakci_scan_def Let_def)
  ultimately show ?thesis by (rule nak_rest_keeps [rotated])
qed

theorem lcp_nakci_bounded_witness:
  "nak_bounded (lcp_zero\<lparr>neg_mru := True, mru := 1400, neg_chap := True, chap_mdtype := 7\<rparr>)
     (lcp_zero\<lparr>mru := 1400\<rparr>)
     (lcp_zero\<lparr>neg_mru := True, mru := 1000, neg_chap := True, chap_mdtype := 2\<rparr>)"
proof (rule lcp_nakci_bounded)
  show "nakci_scan (lcp_zero\<lparr>neg_mru := True, mru := 1400, neg_chap := True, chap_mdtype := 7\<rparr>)
     (lcp_zero\<lparr>mru := 1400\<rparr>) False 0 [CI_MRU, 4, 3, 0xE8, CI_AUTHTYPE, 5, 0xC2, 0x23, CHAP_MICROSOFT] =
    (False, Some (lcp_zero\<lparr>neg_mru := True, mru := 1000, neg_chap := True, chap_mdtype := 2\<rparr>))"
    by (simp add: nakci_scan_def nakci_first_def nakci_second_def nakci_third_def lcp_zero_def GETSHORT_def
        nak_rest.simps nak_chap_def neq_CHAP_DIGEST_def CHAP_CANDIGEST_def CHAP_MDTYPE_D_def)
qed

end
