(* ===== verification/Lcp_Interop.thy ===== *)
theory Lcp_Interop
  imports Lcp_Options_Props
begin

text \<open>
  Two \<^verbatim>\<open>pppd\<close> peers agree: the request one of them builds with \<open>lcp_addci\<close> is acked by the \<open>lcp_reqci\<close>
  of the other when what it asks for is allowed there, and the options recorded for the peer are then
  exactly the options it asked for.
\<close>

section \<open>One option at a time\<close>

lemma PUTSHORT_cases:
  assumes "0 \<le> v" "v < 65536"
  obtains x y where "PUTSHORT v = [x, y]" "GETSHORT x y = v"
  using GET_PUTSHORT [OF assms] by (simp add: PUTSHORT_def)

lemma PUTLONG_cases:
  obtains x y z w where "PUTLONG v = [x, y, z, w]" "GETLONG x y z w = v"
  using GET_PUTLONG [of v] by (simp add: PUTLONG_def)

lemma PUTCHAR_cases:
  assumes "0 \<le> v" "v < 256"
  obtains x where "PUTCHAR v = [x]" "uint x = v"
  using assms by (simp add: PUTCHAR_def uint_word_of_int)

lemma reqci_loop_ack:
  assumes "reqci_ci ml go ao (shd (magics a)) t (uint l) (body @ rest) (his a) = (CONFACK, [], ho)"
    and "unat l = length body + 2" and "\<not> draws_magic go ao t (uint l) (body @ rest)"
  shows "reqci_loop rid ml go ao (t # l # body @ rest) a = reqci_loop rid ml go ao rest (a\<lparr>his := ho\<rparr>)"
  using assms by (simp add: reqci_loop_turn reqci_turn_def reqci_end_def Let_def)

definition set_his :: "bool \<Rightarrow> (lcp_options \<Rightarrow> lcp_options) \<Rightarrow> reqci_acc \<Rightarrow> reqci_acc" where
  "set_his neg f a = (if neg then a\<lparr>his := f (his a)\<rparr> else a)"

lemma peer_mru:
  assumes "neg \<Longrightarrow> neg_mru ao \<and> MINMRU \<le> v \<and> v < 65536"
  shows "reqci_loop rid ml go ao (ADDCISHORT CI_MRU neg v @ rest) a =
    reqci_loop rid ml go ao rest (set_his neg (\<lambda>h. h\<lparr>neg_mru := True, mru := v\<rparr>) a)"
proof (cases neg)
  case True
  then have v: "neg_mru ao" "MINMRU \<le> v" "v < 65536" using assms by auto
  then obtain x y where "PUTSHORT v = [x, y]" "GETSHORT x y = v" using PUTSHORT_cases [of v] by auto
  with True v show ?thesis
    using reqci_loop_ack [of ml go ao a CI_MRU 4 "[x, y]" rest "(his a)\<lparr>neg_mru := True, mru := v\<rparr>" rid]
    by (simp add: ADDCISHORT_def set_his_def reqci_ci_def reqci_mru_def draws_magic_def)
qed (simp add: ADDCISHORT_def set_his_def)

lemma peer_asyncmap:
  assumes "neg \<Longrightarrow> neg_asyncmap ao \<and> asyncmap ao AND NOT v = 0"
  shows "reqci_loop rid ml go ao (ADDCILONG CI_ASYNCMAP neg v @ rest) a =
    reqci_loop rid ml go ao rest (set_his neg (\<lambda>h. h\<lparr>neg_asyncmap := True, asyncmap := v\<rparr>) a)"
proof (cases neg)
  case True
  obtain x y z w where "PUTLONG v = [x, y, z, w]" "GETLONG x y z w = v" by (rule PUTLONG_cases)
  with True assms show ?thesis
    using reqci_loop_ack [of ml go ao a CI_ASYNCMAP 6 "[x, y, z, w]" rest
        "(his a)\<lparr>neg_asyncmap := True, asyncmap := v\<rparr>" rid]
    by (simp add: ADDCILONG_def set_his_def reqci_ci_def reqci_asyncmap_def draws_magic_def)
qed (simp add: ADDCILONG_def set_his_def)

lemma peer_auth_eap:
  assumes "neg \<Longrightarrow> neg_eap ao \<and> \<not> neg_chap (his a) \<and> \<not> neg_upap (his a)"
  shows "reqci_loop rid ml go ao (ADDCISHORT CI_AUTHTYPE neg PPP_EAP @ rest) a =
    reqci_loop rid ml go ao rest (set_his neg (\<lambda>h. h\<lparr>neg_eap := True\<rparr>) a)"
proof (cases neg)
  case True
  obtain x y where "PUTSHORT PPP_EAP = [x, y]" "GETSHORT x y = PPP_EAP"
    using PUTSHORT_cases [of PPP_EAP] by auto
  with True assms show ?thesis
    using reqci_loop_ack [of ml go ao a CI_AUTHTYPE 4 "[x, y]" rest "(his a)\<lparr>neg_eap := True\<rparr>" rid]
    by (simp add: ADDCISHORT_def set_his_def reqci_ci_def reqci_authtype_def draws_magic_def)
qed (simp add: ADDCISHORT_def set_his_def)

lemma peer_auth_chap:
  assumes "neg \<Longrightarrow> neg_chap ao \<and> CHAP_CANDIGEST (chap_mdtype ao) (CHAP_DIGEST v) \<and> \<not> neg_eap (his a) \<and> \<not> neg_upap (his a)"
  shows "reqci_loop rid ml go ao (ADDCICHAP CI_AUTHTYPE neg v @ rest) a =
    reqci_loop rid ml go ao rest
      (set_his neg (\<lambda>h. h\<lparr>chap_mdtype := CHAP_MDTYPE_D (CHAP_DIGEST v), neg_chap := True\<rparr>) a)"
proof (cases neg)
  case True
  obtain x y where "PUTSHORT PPP_CHAP = [x, y]" "GETSHORT x y = PPP_CHAP"
    using PUTSHORT_cases [of PPP_CHAP] by auto
  with True assms show ?thesis
    using reqci_loop_ack [of ml go ao a CI_AUTHTYPE 5 "[x, y, CHAP_DIGEST v]" rest
        "(his a)\<lparr>chap_mdtype := CHAP_MDTYPE_D (CHAP_DIGEST v), neg_chap := True\<rparr>" rid]
    by (simp add: ADDCICHAP_def set_his_def reqci_ci_def reqci_authtype_def draws_magic_def)
qed (simp add: ADDCICHAP_def set_his_def)

lemma peer_auth_pap:
  assumes "neg \<Longrightarrow> neg_upap ao \<and> \<not> neg_chap (his a) \<and> \<not> neg_eap (his a)"
  shows "reqci_loop rid ml go ao (ADDCISHORT CI_AUTHTYPE neg PPP_PAP @ rest) a =
    reqci_loop rid ml go ao rest (set_his neg (\<lambda>h. h\<lparr>neg_upap := True\<rparr>) a)"
proof (cases neg)
  case True
  obtain x y where "PUTSHORT PPP_PAP = [x, y]" "GETSHORT x y = PPP_PAP"
    using PUTSHORT_cases [of PPP_PAP] by auto
  with True assms show ?thesis
    using reqci_loop_ack [of ml go ao a CI_AUTHTYPE 4 "[x, y]" rest "(his a)\<lparr>neg_upap := True\<rparr>" rid]
    by (simp add: ADDCISHORT_def set_his_def reqci_ci_def reqci_authtype_def draws_magic_def)
qed (simp add: ADDCISHORT_def set_his_def)

lemma peer_lqr:
  assumes "neg \<Longrightarrow> neg_lqr ao"
  shows "reqci_loop rid ml go ao (ADDCILQR CI_QUALITY neg v @ rest) a = reqci_loop rid ml go ao rest a"
proof (cases neg)
  case True
  obtain x y where "PUTSHORT PPP_LQR = [x, y]" "GETSHORT x y = PPP_LQR"
    using PUTSHORT_cases [of PPP_LQR] by auto
  moreover obtain p q r s where "PUTLONG v = [p, q, r, s]" by (rule PUTLONG_cases)
  ultimately show ?thesis using True assms
    using reqci_loop_ack [of ml go ao a CI_QUALITY 8 "[x, y, p, q, r, s]" rest "his a" rid]
    by (simp add: ADDCILQR_def reqci_ci_def reqci_quality_def draws_magic_def)
qed (simp add: ADDCILQR_def)

lemma peer_magic:
  assumes "neg \<Longrightarrow> (neg_magicnumber ao \<or> neg_magicnumber go) \<and> (neg_magicnumber go \<longrightarrow> magicnumber go \<noteq> v)"
  shows "reqci_loop rid ml go ao (ADDCILONG CI_MAGICNUMBER neg v @ rest) a =
    reqci_loop rid ml go ao rest (set_his neg (\<lambda>h. h\<lparr>neg_magicnumber := True, magicnumber := v\<rparr>) a)"
proof (cases neg)
  case True
  obtain x y z w where "PUTLONG v = [x, y, z, w]" "GETLONG x y z w = v" by (rule PUTLONG_cases)
  with True assms show ?thesis
    using reqci_loop_ack [of ml go ao a CI_MAGICNUMBER 6 "[x, y, z, w]" rest
        "(his a)\<lparr>neg_magicnumber := True, magicnumber := v\<rparr>" rid]
    by (auto simp: ADDCILONG_def set_his_def reqci_ci_def reqci_magic_def draws_magic_def)
qed (simp add: ADDCILONG_def set_his_def)

lemma peer_void:
  assumes "neg \<Longrightarrow> neg_pcompression ao"
  shows "reqci_loop rid ml go ao (ADDCIVOID CI_PCOMPRESSION neg @ rest) a =
    reqci_loop rid ml go ao rest (set_his neg (\<lambda>h. h\<lparr>neg_pcompression := True\<rparr>) a)"
  using assms reqci_loop_ack [of ml go ao a CI_PCOMPRESSION 2 "[]" rest "(his a)\<lparr>neg_pcompression := True\<rparr>" rid]
  by (auto simp: ADDCIVOID_def set_his_def reqci_ci_def draws_magic_def)

lemma peer_accompression:
  assumes "neg \<Longrightarrow> neg_accompression ao"
  shows "reqci_loop rid ml go ao (ADDCIVOID CI_ACCOMPRESSION neg @ rest) a =
    reqci_loop rid ml go ao rest (set_his neg (\<lambda>h. h\<lparr>neg_accompression := True\<rparr>) a)"
  using assms reqci_loop_ack [of ml go ao a CI_ACCOMPRESSION 2 "[]" rest "(his a)\<lparr>neg_accompression := True\<rparr>" rid]
  by (auto simp: ADDCIVOID_def set_his_def reqci_ci_def draws_magic_def)

lemma peer_ssnhf:
  assumes "neg \<Longrightarrow> neg_ssnhf ao \<and> ml"
  shows "reqci_loop rid ml go ao (ADDCIVOID CI_SSNHF neg @ rest) a =
    reqci_loop rid ml go ao rest (set_his neg (\<lambda>h. h\<lparr>neg_ssnhf := True\<rparr>) a)"
  using assms reqci_loop_ack [of ml go ao a CI_SSNHF 2 "[]" rest "(his a)\<lparr>neg_ssnhf := True\<rparr>" rid]
  by (auto simp: ADDCIVOID_def set_his_def reqci_ci_def draws_magic_def)

lemma peer_mrru:
  assumes "neg \<Longrightarrow> neg_mrru ao \<and> ml \<and> 0 \<le> v \<and> v < 65536"
  shows "reqci_loop rid ml go ao (ADDCISHORT CI_MRRU neg v @ rest) a =
    reqci_loop rid ml go ao rest (set_his neg (\<lambda>h. h\<lparr>neg_mrru := True, mrru := v\<rparr>) a)"
proof (cases neg)
  case True
  then have v: "neg_mrru ao" "ml" "0 \<le> v" "v < 65536" using assms by auto
  then obtain x y where "PUTSHORT v = [x, y]" "GETSHORT x y = v" using PUTSHORT_cases [of v] by auto
  with True v show ?thesis
    using reqci_loop_ack [of ml go ao a CI_MRRU 4 "[x, y]" rest "(his a)\<lparr>neg_mrru := True, mrru := v\<rparr>" rid]
    by (simp add: ADDCISHORT_def set_his_def reqci_ci_def reqci_mrru_def draws_magic_def)
qed (simp add: ADDCISHORT_def set_his_def)

lemma peer_endp:
  assumes "neg \<Longrightarrow> neg_endpoint ao \<and> length v \<le> 20"
  shows "reqci_loop rid ml go ao (ADDCIENDP CI_EPDISC neg c v @ rest) a =
    reqci_loop rid ml go ao rest
      (set_his neg (\<lambda>h. h\<lparr>neg_endpoint := True, endpoint := \<lparr>ep_class = c, ep_value = v\<rparr>\<rparr>) a)"
proof (cases neg)
  case True
  then have v: "neg_endpoint ao" "length v \<le> 20" using assms by auto
  then obtain l where l: "PUTCHAR (3 + int (length v)) = [l]" "uint l = 3 + int (length v)"
    using PUTCHAR_cases [of "3 + int (length v)"] by auto
  then have "int (unat l) = int (length (c # v) + 2)" by simp
  then have "unat l = length (c # v) + 2" by (simp only: of_nat_eq_iff)
  with True v l show ?thesis
    using reqci_loop_ack [of ml go ao a CI_EPDISC l "c # v" rest
        "(his a)\<lparr>neg_endpoint := True, endpoint := \<lparr>ep_class = c, ep_value = v\<rparr>\<rparr>" rid]
    by (simp add: ADDCIENDP_def set_his_def reqci_ci_def reqci_epdisc_def draws_magic_def)
qed (simp add: ADDCIENDP_def set_his_def)


section \<open>The whole request\<close>

text \<open>
  What the side with the options \<open>go\<close> (its own) and \<open>ao\<close> (allowed to the peer) must allow so that it acks
  the request of a peer whose options are \<open>po\<close>, and what it then knows of the peer.  Values equal to the
  default are not sent, and the quality protocol is acked without being recorded.
\<close>

definition acceptable :: "bool \<Rightarrow> lcp_options \<Rightarrow> lcp_options \<Rightarrow> lcp_options \<Rightarrow> bool" where
  "acceptable ml go ao po \<longleftrightarrow>
     (neg_mru po \<longrightarrow> neg_mru ao \<and> MINMRU \<le> mru po \<and> mru po < 65536) \<and>
     (neg_asyncmap po \<longrightarrow> neg_asyncmap ao \<and> asyncmap ao AND NOT (asyncmap po) = 0) \<and>
     (neg_eap po \<longrightarrow> neg_eap ao) \<and>
     (neg_chap po \<longrightarrow> neg_chap ao \<and> CHAP_CANDIGEST (chap_mdtype ao) (CHAP_DIGEST (chap_mdtype po))) \<and>
     (neg_upap po \<longrightarrow> neg_upap ao) \<and>
     (neg_lqr po \<longrightarrow> neg_lqr ao) \<and> \<not> neg_cbcp po \<and>
     (neg_magicnumber po \<longrightarrow> (neg_magicnumber ao \<or> neg_magicnumber go) \<and>
        (neg_magicnumber go \<longrightarrow> magicnumber go \<noteq> magicnumber po)) \<and>
     (neg_pcompression po \<longrightarrow> neg_pcompression ao) \<and>
     (neg_accompression po \<longrightarrow> neg_accompression ao) \<and>
     (neg_mrru po \<longrightarrow> neg_mrru ao \<and> ml \<and> 0 \<le> mrru po \<and> mrru po < 65536) \<and>
     (neg_ssnhf po \<longrightarrow> neg_ssnhf ao \<and> ml) \<and>
     (neg_endpoint po \<longrightarrow> neg_endpoint ao \<and> length (ep_value (endpoint po)) \<le> 20)"

definition known_of :: "lcp_options \<Rightarrow> lcp_options" where
  "known_of po =
     (let sent_mru = (neg_mru po \<and> mru po \<noteq> DEFMRU);
          sent_map = (neg_asyncmap po \<and> asyncmap po \<noteq> 0xFFFFFFFF);
          sent_chap = (\<not> neg_eap po \<and> neg_chap po)
      in lcp_zero\<lparr>
        neg_mru := sent_mru, mru := (if sent_mru then mru po else 0),
        neg_asyncmap := sent_map, asyncmap := (if sent_map then asyncmap po else 0),
        neg_eap := neg_eap po,
        neg_chap := sent_chap,
        chap_mdtype := (if sent_chap then CHAP_MDTYPE_D (CHAP_DIGEST (chap_mdtype po)) else 0),
        neg_upap := (\<not> neg_eap po \<and> \<not> neg_chap po \<and> neg_upap po),
        neg_magicnumber := neg_magicnumber po,
        magicnumber := (if neg_magicnumber po then magicnumber po else 0),
        neg_pcompression := neg_pcompression po, neg_accompression := neg_accompression po,
        neg_mrru := neg_mrru po, mrru := (if neg_mrru po then mrru po else 0),
        neg_ssnhf := neg_ssnhf po,
        neg_endpoint := neg_endpoint po,
        endpoint := (if neg_endpoint po
          then \<lparr>ep_class = ep_class (endpoint po), ep_value = ep_value (endpoint po)\<rparr>
          else \<lparr>ep_class = 0, ep_value = []\<rparr>)\<rparr>)"

lemma set_his_fields:
  "set_his n (\<lambda>h. h\<lparr>neg_mru := True, mru := v\<rparr>) a =
     a\<lparr>his := (his a)\<lparr>neg_mru := n \<or> neg_mru (his a), mru := (if n then v else mru (his a))\<rparr>\<rparr>"
  "set_his n (\<lambda>h. h\<lparr>neg_asyncmap := True, asyncmap := w\<rparr>) a =
     a\<lparr>his := (his a)\<lparr>neg_asyncmap := n \<or> neg_asyncmap (his a), asyncmap := (if n then w else asyncmap (his a))\<rparr>\<rparr>"
  "set_his n (\<lambda>h. h\<lparr>neg_eap := True\<rparr>) a = a\<lparr>his := (his a)\<lparr>neg_eap := n \<or> neg_eap (his a)\<rparr>\<rparr>"
  "set_his n (\<lambda>h. h\<lparr>chap_mdtype := b, neg_chap := True\<rparr>) a =
     a\<lparr>his := (his a)\<lparr>chap_mdtype := (if n then b else chap_mdtype (his a)), neg_chap := n \<or> neg_chap (his a)\<rparr>\<rparr>"
  "set_his n (\<lambda>h. h\<lparr>neg_upap := True\<rparr>) a = a\<lparr>his := (his a)\<lparr>neg_upap := n \<or> neg_upap (his a)\<rparr>\<rparr>"
  "set_his n (\<lambda>h. h\<lparr>neg_magicnumber := True, magicnumber := w\<rparr>) a =
     a\<lparr>his := (his a)\<lparr>neg_magicnumber := n \<or> neg_magicnumber (his a),
       magicnumber := (if n then w else magicnumber (his a))\<rparr>\<rparr>"
  "set_his n (\<lambda>h. h\<lparr>neg_pcompression := True\<rparr>) a =
     a\<lparr>his := (his a)\<lparr>neg_pcompression := n \<or> neg_pcompression (his a)\<rparr>\<rparr>"
  "set_his n (\<lambda>h. h\<lparr>neg_accompression := True\<rparr>) a =
     a\<lparr>his := (his a)\<lparr>neg_accompression := n \<or> neg_accompression (his a)\<rparr>\<rparr>"
  "set_his n (\<lambda>h. h\<lparr>neg_mrru := True, mrru := v\<rparr>) a =
     a\<lparr>his := (his a)\<lparr>neg_mrru := n \<or> neg_mrru (his a), mrru := (if n then v else mrru (his a))\<rparr>\<rparr>"
  "set_his n (\<lambda>h. h\<lparr>neg_ssnhf := True\<rparr>) a = a\<lparr>his := (his a)\<lparr>neg_ssnhf := n \<or> neg_ssnhf (his a)\<rparr>\<rparr>"
  "set_his n (\<lambda>h. h\<lparr>neg_endpoint := True, endpoint := e\<rparr>) a =
     a\<lparr>his := (his a)\<lparr>neg_endpoint := n \<or> neg_endpoint (his a), endpoint := (if n then e else endpoint (his a))\<rparr>\<rparr>"
  by (simp_all add: set_his_def)

lemmas peer_endp_last = peer_endp [where rest = "[]", unfolded append_Nil2 reqci_loop_Nil]

lemmas peer_options = peer_mru peer_asyncmap peer_auth_eap peer_auth_chap peer_auth_pap peer_lqr
  peer_magic peer_void peer_accompression peer_mrru peer_ssnhf peer_endp_last

text \<open>
  Property C7.  Two copies of the program understand each other.  A request built by \<open>lcp_addci\<close> from options the
  other side allows is acknowledged by its \<open>lcp_reqci\<close>, with nothing in the Nak and Reject buffers, and the options
  it records for its peer are the ones that were asked for.
\<close>

theorem lcp_reqci_acks_addci:
  assumes "acceptable ml go ao po"
  shows "reqci_run rid ml go ao ms (lcp_addci_of po) =
    \<lparr>rc = CONFACK, nakbuf = [], rejbuf = [], his = known_of po, magics = ms\<rparr>"
proof -
  note acc = assms [unfolded acceptable_def]
  have nil: "ADDCICHAR CI_CALLBACK (neg_cbcp po) CBCP_OPT = []"
    using acc by (simp add: ADDCICHAR_def)
  show ?thesis
    unfolding reqci_run_def lcp_addci_of_def nil append_Nil lcp_zero_def
    using acc
    by (simp add: peer_options set_his_fields known_of_def Let_def lcp_zero_def)
qed

theorem lcp_reqci_acks_addci_witness:
  "reqci_run False False (lcp_zero\<lparr>neg_magicnumber := True, magicnumber := 7\<rparr>)
     (lcp_zero\<lparr>neg_mru := True, neg_chap := True, chap_mdtype := 4, neg_magicnumber := True\<rparr>) (sconst 0)
     (lcp_addci_of (lcp_zero\<lparr>neg_mru := True, mru := 1400, neg_chap := True, chap_mdtype := 7,
        neg_magicnumber := True, magicnumber := 9\<rparr>)) =
   \<lparr>rc = CONFACK, nakbuf = [], rejbuf = [],
     his = lcp_zero\<lparr>neg_mru := True, mru := 1400, neg_chap := True, chap_mdtype := 4,
        neg_magicnumber := True, magicnumber := 9\<rparr>, magics = sconst 0\<rparr>"
proof -
  let ?po = "lcp_zero\<lparr>neg_mru := True, mru := 1400, neg_chap := True, chap_mdtype := 7,
        neg_magicnumber := True, magicnumber := 9\<rparr>"
  have "acceptable False (lcp_zero\<lparr>neg_magicnumber := True, magicnumber := 7\<rparr>)
     (lcp_zero\<lparr>neg_mru := True, neg_chap := True, chap_mdtype := 4, neg_magicnumber := True\<rparr>) ?po"
    by (simp add: acceptable_def lcp_zero_def CHAP_CANDIGEST_def CHAP_DIGEST_def)
  from lcp_reqci_acks_addci [OF this, of False "sconst 0"] show ?thesis
    by (simp add: known_of_def lcp_zero_def CHAP_MDTYPE_D_def CHAP_DIGEST_def)
qed

end
