(* ===== verification/Retry.thy ===== *)
theory Retry
  imports Pppd_Prelude
begin

text \<open>
  The contract of a request that is repeated by a timer: the automaton's Configure-Request, the PAP client's
  Authenticate-Request and LCP's echo requests follow it.  While the client is waiting and has tries left, an
  expiry sends one more packet and takes one try off; without a try left it gives up.
\<close>

locale retry =
  fixes expiry_step :: "'w \<Rightarrow> 'w" and waiting :: "'w \<Rightarrow> bool" and tries :: "'w \<Rightarrow> int"
    and outbox :: "'w \<Rightarrow> packet list" and request :: "'w \<Rightarrow> packet \<Rightarrow> bool" and give_up :: "'w \<Rightarrow> 'w"
  assumes resends: "waiting w \<Longrightarrow> tries w > 0 \<Longrightarrow>
      waiting (expiry_step w) \<and> tries (expiry_step w) = tries w - 1 \<and> request (expiry_step w) = request w \<and>
      (\<exists>fr. outbox (expiry_step w) = outbox w @ [fr] \<and> request w fr)"
    and exhausted: "waiting w \<Longrightarrow> tries w \<le> 0 \<Longrightarrow> expiry_step w = give_up w"
begin

lemma repeats:
  assumes "waiting w" "tries w = int n"
  shows "waiting ((expiry_step ^^ n) w) \<and> tries ((expiry_step ^^ n) w) = 0 \<and>
    (\<exists>frs. outbox ((expiry_step ^^ n) w) = outbox w @ frs \<and> length frs = n \<and> (\<forall>fr\<in>set frs. request w fr))"
  using assms
proof (induction n arbitrary: w)
  case (Suc n)
  have step: "waiting (expiry_step w)" "tries (expiry_step w) = int n" "request (expiry_step w) = request w"
    using resends [OF Suc.prems(1)] Suc.prems(2) by simp_all
  obtain fr where "outbox (expiry_step w) = outbox w @ [fr]" "request w fr"
    using resends [OF Suc.prems(1)] Suc.prems(2) by auto
  moreover obtain frs where "outbox ((expiry_step ^^ n) (expiry_step w)) = outbox (expiry_step w) @ frs"
    "length frs = n" "\<forall>fr\<in>set frs. request w fr"
    using Suc.IH [OF step(1,2)] step(3) by auto
  ultimately show ?case
    using Suc.IH [OF step(1,2)] by (auto simp: funpow_swap1 intro!: exI [of _ "fr # frs"])
qed simp

text \<open>With no answer: as many packets as there are tries, and then the end.\<close>

lemma gives_up:
  assumes "waiting w" "tries w = int n"
  shows "\<exists>u frs. u = (expiry_step ^^ n) w \<and> outbox u = outbox w @ frs \<and> length frs = n \<and>
    (\<forall>fr\<in>set frs. request w fr) \<and> (expiry_step ^^ Suc n) w = give_up u"
  using repeats [OF assms] exhausted [of "(expiry_step ^^ n) w"] by auto

end

end
