(* ===== verification/Fsm_Props.thy ===== *)
theory Fsm_Props
  imports Fsm Retry
begin

text \<open>
  What the automaton guarantees whatever its client does: one retransmission timer in exactly the
  states that need it (the locale \<open>fsm_client\<close> holds the contract that the callbacks have to keep for
  this, and the lemmas that every entry point preserves it), a bounded number of retransmissions,
  the round trip of control packets and the treatment of malformed and repeated packets.
\<close>

section \<open>What the primitive steps change\<close>

abbreviation fpend :: "fsm_ref \<Rightarrow> 'z fsm_world_scheme \<Rightarrow> nat" where
  "fpend f w \<equiv> pending Fn_fsm_timeout (Fsm_arg f) w"

lemma fsms_upd_fsm [simp]: "fsms (upd_fsm f g w) = (fsms w)(f := g (fsms w f))"
  by (simp add: upd_fsm_def)

lemma frame_upd_fsm [simp, world_frame]:
  "callout (upd_fsm f g w) = callout w" "clock (upd_fsm f g w) = clock w"
  "sent (upd_fsm f g w) = sent w" "peer_mru (upd_fsm f g w) = peer_mru w"
  "pending fn a (upd_fsm f g w) = pending fn a w"
  by (simp_all add: upd_fsm_def pending_def)

lemma frame_sdata [simp, world_frame]:
  "fsms (fsm_sdata f c i d w) = fsms w" "callout (fsm_sdata f c i d w) = callout w"
  "clock (fsm_sdata f c i d w) = clock w" "peer_mru (fsm_sdata f c i d w) = peer_mru w"
  "pending fn a (fsm_sdata f c i d w) = pending fn a w"
  by (simp_all add: fsm_sdata_def Let_def pending_def)

lemma frame_timeout [simp, world_frame]:
  "fsms (timeout fn a s us w) = fsms w" "sent (timeout fn a s us w) = sent w"
  "peer_mru (timeout fn a s us w) = peer_mru w"
  "fsms (untimeout fn a w) = fsms w" "sent (untimeout fn a w) = sent w"
  "peer_mru (untimeout fn a w) = peer_mru w"
  by (simp_all add: timeout_def untimeout_def gettimeofday_def Let_def)

lemma new_reqid_fsms [simp]:
  "fsms (new_reqid f w) = (fsms w)(f := (fsms w f)\<lparr>fid := fid (fsms w f) + 1, reqid := fid (fsms w f) + 1\<rparr>)"
  "pending fn a (new_reqid f w) = pending fn a w" "peer_mru (new_reqid f w) = peer_mru w"
  "sent (new_reqid f w) = sent w"
  by (simp_all add: new_reqid_def)

lemma send_termreq_fsms [simp]:
  "fsms (send_termreq f w) = (fsms w)(f := (fsms w f)\<lparr>fid := fid (fsms w f) + 1, reqid := fid (fsms w f) + 1\<rparr>)"
  "pending fn a (send_termreq f w) = pending fn a w"
  by (simp_all add: send_termreq_def Let_def)

lemma callback_simps [simp]: "callback None w = w" "callback (Some g) w = g w"
  by (simp_all add: callback_def)

section \<open>The retransmission timer\<close>

fun timed :: "fsm_state \<Rightarrow> bool" where
  "timed CLOSING = True" | "timed STOPPING = True" | "timed REQSENT = True"
| "timed ACKRCVD = True" | "timed ACKSENT = True" | "timed _ = False"

definition timer_inv :: "fsm_ref \<Rightarrow> 'z fsm_world_scheme \<Rightarrow> bool" where
  "timer_inv f w \<longleftrightarrow> fpend f w = (if timed (st f w) then 1 else 0) \<and> \<not> has_flag f DELAYED_UP w"

definition same_fsm :: "fsm_ref \<Rightarrow> 'z fsm_world_scheme \<Rightarrow> 'z fsm_world_scheme \<Rightarrow> bool" where
  "same_fsm f w w' \<longleftrightarrow> fsms w' f = fsms w f \<and> fpend f w' = fpend f w"

lemma timer_inv_upd:
  "(\<And>x. flags (g x) = flags x) \<Longrightarrow> timer_inv f (upd_fsm f g w) \<longleftrightarrow>
     fpend f w = (if timed (state (g (fsms w f))) then 1 else 0) \<and> \<not> has_flag f DELAYED_UP w"
  by (simp add: timer_inv_def)

lemma timer_inv_step [simp]:
  "timer_inv f (set_state f s w) \<longleftrightarrow> fpend f w = (if timed s then 1 else 0) \<and> \<not> has_flag f DELAYED_UP w"
  "timer_inv f (fsm_sdata f c i d w) \<longleftrightarrow> timer_inv f w"
  "timer_inv f (timeout Fn_fsm_timeout (Fsm_arg f) s' us w) \<longleftrightarrow>
     fpend f w + 1 = (if timed (st f w) then 1 else 0) \<and> \<not> has_flag f DELAYED_UP w"
  "timer_inv f (UNTIMEOUT_fsm f w) \<longleftrightarrow> fpend f w - 1 = (if timed (st f w) then 1 else 0) \<and> \<not> has_flag f DELAYED_UP w"
  by (simp_all add: timer_inv_def)

lemma timer_inv_upd_same [simp]:
  "(\<And>x. state (g x) = state x) \<Longrightarrow> (\<And>x. flags (g x) = flags x) \<Longrightarrow> timer_inv f (upd_fsm f g w) \<longleftrightarrow> timer_inv f w"
  by (simp add: timer_inv_def)

lemma timer_invD:
  "timer_inv f w \<Longrightarrow> fpend f w = (if timed (st f w) then 1 else 0) \<and> \<not> has_flag f DELAYED_UP w"
  by (simp add: timer_inv_def)

lemma same_fsm_inv: "same_fsm f w w' \<Longrightarrow> timer_inv f w \<Longrightarrow> timer_inv f w'"
  by (simp add: same_fsm_def timer_inv_def)

locale fsm_client =
  fixes cb :: "'z fsm_world_scheme fsm_callbacks" and f :: fsm_ref
  assumes resetci_keeps: "cb_resetci cb = Some g \<Longrightarrow> same_fsm f w (g w)"
    and retransmit_keeps: "cb_retransmit cb = Some g \<Longrightarrow> same_fsm f w (g w)"
    and data_keeps: "same_fsm f w (snd (confreq_data cb w))"
    and down_keeps: "cb_down cb = Some g \<Longrightarrow> same_fsm f w (g w)"
    and reqci_keeps: "cb_reqci cb = Some rq \<Longrightarrow> rq w p r = (c, p', w') \<Longrightarrow> same_fsm f w w'"
    and up_inv: "cb_up cb = Some g \<Longrightarrow> st f w = OPENED \<Longrightarrow> timer_inv f w \<Longrightarrow> timer_inv f (g w)"
    and starting_inv: "cb_starting cb = Some g \<Longrightarrow> st f w = STARTING \<Longrightarrow> timer_inv f w \<Longrightarrow> timer_inv f (g w)"
    and finished_inv: "cb_finished cb = Some g \<Longrightarrow> st f w = CLOSED \<or> st f w = STOPPED \<Longrightarrow>
          timer_inv f w \<Longrightarrow> timer_inv f (g w)"
    and nakci_inv: "cb_nakci cb = Some n \<Longrightarrow> n w p r = (ret, w') \<Longrightarrow> timer_inv f w \<Longrightarrow> timer_inv f w'"
    and rejci_inv: "cb_rejci cb = Some j \<Longrightarrow> j w p = (ret, w') \<Longrightarrow> timer_inv f w \<Longrightarrow> timer_inv f w'"
    and extcode_inv: "cb_extcode cb = Some x \<Longrightarrow> x w c i p = (b, w') \<Longrightarrow> timer_inv f w \<Longrightarrow> timer_inv f w'"
begin

lemma callback_keeps:
  "fsms (callback (cb_resetci cb) w) f = fsms w f" "fpend f (callback (cb_resetci cb) w) = fpend f w"
  "fsms (callback (cb_retransmit cb) w) f = fsms w f" "fpend f (callback (cb_retransmit cb) w) = fpend f w"
  "fsms (callback (cb_down cb) w) f = fsms w f" "fpend f (callback (cb_down cb) w) = fpend f w"
  using resetci_keeps [of _ w] retransmit_keeps [of _ w] down_keeps [of _ w]
  unfolding same_fsm_def callback_def by (auto split: option.split)

lemma data_kept:
  "confreq_data cb w = (d, w') \<Longrightarrow> fsms w' f = fsms w f" "confreq_data cb w = (d, w') \<Longrightarrow> fpend f w' = fpend f w"
  using data_keeps [of w] by (simp_all add: same_fsm_def)

lemma sconfreq_keeps [simp]:
  "st f (fsm_sconfreq cb f r w) = st f w" "flags (fsms (fsm_sconfreq cb f r w) f) = flags (fsms w f)" "fpend f (fsm_sconfreq cb f r w) = fpend f w + 1"
  by (simp_all add: fsm_sconfreq_def Let_def callback_keeps data_kept split: prod.splits)

lemma callback_inv [simp]:
  "st f w = OPENED \<Longrightarrow> timer_inv f w \<Longrightarrow> timer_inv f (callback (cb_up cb) w)"
  "st f w = STARTING \<Longrightarrow> timer_inv f w \<Longrightarrow> timer_inv f (callback (cb_starting cb) w)"
  "st f w = CLOSED \<or> st f w = STOPPED \<Longrightarrow> timer_inv f w \<Longrightarrow> timer_inv f (callback (cb_finished cb) w)"
  using up_inv [of _ w] starting_inv [of _ w] finished_inv [of _ w]
  unfolding callback_def by (auto split: option.split)

lemma lowerup_inv: "timer_inv f w \<Longrightarrow> timer_inv f (fsm_lowerup cb f w)"
  by (cases "st f w") (auto simp: fsm_lowerup_def dest: timer_invD)

lemma lowerdown_inv: "timer_inv f w \<Longrightarrow> timer_inv f (fsm_lowerdown cb f w)"
  by (cases "st f w") (auto simp: fsm_lowerdown_def callback_keeps dest: timer_invD)

lemma open_inv: "timer_inv f w \<Longrightarrow> timer_inv f (fsm_open cb f w)"
  by (cases "st f w")
     (auto simp: fsm_open_def fsm_open_restart_def dest: timer_invD intro!: lowerup_inv lowerdown_inv)

lemma terminate_inv:
  assumes "timer_inv f w" "timed (st f w) \<or> st f w = OPENED" "timed s"
  shows "timer_inv f (terminate_layer cb f s w)"
  using assms
  by (auto simp: terminate_layer_def Let_def callback_keeps dest: timer_invD)

lemma close_inv:
  assumes "timer_inv f w"
  shows "timer_inv f (fsm_close cb f reason w)"
  using assms unfolding fsm_close_def Let_def
  by (cases "st f w") (auto intro!: terminate_inv dest: timer_invD)

lemma timeout_inv:
  assumes "fpend f w = 0" "timed (st f w)" "\<not> has_flag f DELAYED_UP w"
  shows "timer_inv f (fsm_timeout cb f w)"
  using assms
  by (cases "st f w")
     (auto simp: fsm_timeout_def timeout_terminating_def timeout_negotiating_def Let_def callback_keeps
        timer_inv_def [of f "fsm_sconfreq cb f r u" for r u])

lemma protreject_inv: "timer_inv f w \<Longrightarrow> timer_inv f (fsm_protreject cb f w)"
  by (cases "st f w") (auto simp: fsm_protreject_def intro!: terminate_inv dest: timer_invD)

lemma sconfreq_inv:
  "fpend f w = 0 \<Longrightarrow> timed s \<Longrightarrow> \<not> has_flag f DELAYED_UP w \<Longrightarrow> timer_inv f (set_state f s (fsm_sconfreq cb f r w))"
  "fpend f w = 0 \<Longrightarrow> timed (st f w) \<Longrightarrow> \<not> has_flag f DELAYED_UP w \<Longrightarrow> timer_inv f (fsm_sconfreq cb f r w)"
  by (simp_all add: timer_inv_def)

lemma answer_inv:
  assumes "timer_inv f w" "timed (st f w)"
  shows "timer_inv f (rconfreq_answer cb f idn inp w)"
proof -
  obtain code inp' w' where rq: "(case cb_reqci cb of
      Some rq \<Rightarrow> rq w inp (nakloops (fsms w f) \<ge> maxnakloops (fsms w f))
    | None \<Rightarrow> (if inp \<noteq> [] then (CONFREJ, inp, w) else (CONFACK, inp, w))) = (code, inp', w')"
    by (metis prod_cases3)
  then have "same_fsm f w w'"
    by (auto simp: same_fsm_def split: option.splits if_splits dest: reqci_keeps)
  with assms have "timed (st f w')" "fpend f w' = 1" "\<not> has_flag f DELAYED_UP w'"
    by (auto simp: same_fsm_def dest: timer_invD)
  then show ?thesis
    unfolding rconfreq_answer_def Let_def rq
    by (auto simp: timer_inv_def [of f w'])
qed

lemma rconfreq_inv: "timer_inv f w \<Longrightarrow> timer_inv f (fsm_rconfreq cb f idn inp w)"
  if "st f w \<noteq> INITIAL" "st f w \<noteq> STARTING"
  using that
  by (cases "st f w")
     (auto simp: fsm_rconfreq_def callback_keeps dest: timer_invD intro!: answer_inv sconfreq_inv)

lemma rconfack_inv:
  assumes "timer_inv f w"
  shows "timer_inv f (fsm_rconfack cb f idn inp w)"
  using assms unfolding fsm_rconfack_def Let_def
  by (cases "st f w") (auto simp: timer_inv_upd callback_keeps dest: timer_invD intro!: sconfreq_inv)

lemma check_inv:
  "timer_inv f w \<Longrightarrow> rconfnakrej_check cb f code inp w = (ret, w') \<Longrightarrow> timer_inv f w'"
  by (auto simp: rconfnakrej_check_def Let_def split: if_splits option.splits
      elim!: nakci_inv rejci_inv)

lemma rconfnakrej_inv:
  assumes "timer_inv f w"
  shows "timer_inv f (fsm_rconfnakrej cb f code idn inp w)"
proof -
  obtain ret w' where ck: "rconfnakrej_check cb f code inp w = (ret, w')"
    by (metis surj_pair)
  with assms have "timer_inv f w'" by (rule check_inv)
  with assms show ?thesis
    unfolding fsm_rconfnakrej_def ck Let_def
    by (cases "st f w'") (auto simp: callback_keeps dest: timer_invD intro!: sconfreq_inv)
qed

lemma rtermreq_inv: "timer_inv f w \<Longrightarrow> timer_inv f (fsm_rtermreq cb f idn p w)"
  by (cases "st f w") (auto simp: fsm_rtermreq_def Let_def callback_keeps dest: timer_invD)

lemma rtermack_inv: "timer_inv f w \<Longrightarrow> timer_inv f (fsm_rtermack cb f w)"
  by (cases "st f w") (auto simp: fsm_rtermack_def callback_keeps dest: timer_invD intro!: sconfreq_inv)

lemma rcoderej_inv: "timer_inv f w \<Longrightarrow> timer_inv f (fsm_rcoderej f inp w)"
  by (auto simp: fsm_rcoderej_def dest: timer_invD)

lemma dispatch_inv:
  assumes "timer_inv f w" "st f w \<noteq> INITIAL" "st f w \<noteq> STARTING"
  shows "timer_inv f (input_dispatch cb f whole code idn inp w)"
  using assms unfolding input_dispatch_def Let_def
  by (auto simp: rconfreq_inv rconfack_inv rconfnakrej_inv rtermreq_inv rtermack_inv rcoderej_inv
      split: option.splits prod.splits elim!: extcode_inv)

lemma input_inv: "timer_inv f w \<Longrightarrow> timer_inv f (fsm_input cb f p w)"
  unfolding fsm_input_def Let_def by (auto simp: dispatch_inv split: list.split)

end

section \<open>Runs\<close>

text \<open>
  The steps of the system as the automaton sees them: its entry points, the expiry of its own callout
  (which \<open>calltimeout\<close> has taken off the queue), the setting of its option flags (passive, silent, restart), and any step of the
  rest of the program that leaves the automaton and its callouts alone.  Putting off the start of LCP (\<open>DELAYED_UP\<close>) is not a
  step: then the automaton has not been told that the lower layer is up.
\<close>

inductive fsm_step ::
    "'z fsm_world_scheme fsm_callbacks \<Rightarrow> fsm_ref \<Rightarrow> 'z fsm_world_scheme \<Rightarrow> 'z fsm_world_scheme \<Rightarrow> bool"
    for cb :: "'z fsm_world_scheme fsm_callbacks" and f :: fsm_ref where
  low_up: "fsm_step cb f w (fsm_lowerup cb f w)"
| low_down: "fsm_step cb f w (fsm_lowerdown cb f w)"
| do_open: "fsm_step cb f w (fsm_open cb f w)"
| do_close: "fsm_step cb f w (fsm_close cb f reason w)"
| packet_in: "fsm_step cb f w (fsm_input cb f p w)"
| prot_rej: "fsm_step cb f w (fsm_protreject cb f w)"
| expire: "callout w = c # rest \<Longrightarrow> c_func c = Fn_fsm_timeout \<Longrightarrow> c_arg c = Fsm_arg f \<Longrightarrow>
     fsm_step cb f w (fsm_timeout cb f (w\<lparr>callout := rest\<rparr>))"
| set_flags: "n AND DELAYED_UP = 0 \<Longrightarrow> fsm_step cb f w (upd_fsm f (\<lambda>x. x\<lparr>flags := n\<rparr>) w)"
| other: "same_fsm f w w' \<Longrightarrow> fsm_step cb f w w'"

inductive fsm_reach ::
    "'z fsm_world_scheme fsm_callbacks \<Rightarrow> fsm_ref \<Rightarrow> 'z fsm_world_scheme \<Rightarrow> bool"
    for cb :: "'z fsm_world_scheme fsm_callbacks" and f :: fsm_ref where
  start: "fpend f w = 0 \<Longrightarrow> fsm_reach cb f (fsm_init f w)"
| step: "fsm_reach cb f w \<Longrightarrow> fsm_step cb f w w' \<Longrightarrow> fsm_reach cb f w'"

context fsm_client
begin

lemma step_inv: "fsm_step cb f w w' \<Longrightarrow> timer_inv f w \<Longrightarrow> timer_inv f w'"
proof (induction rule: fsm_step.induct)
  case (expire w c rest)
  then have "fpend f w = fpend f (w\<lparr>callout := rest\<rparr>) + 1"
    by (simp add: pending_def)
  with expire show ?case
    by (intro timeout_inv) (auto simp: timer_inv_def [of f w] split: if_splits)
next
  case (set_flags n w)
  then show ?case by (simp add: timer_inv_def)
qed (auto intro: lowerup_inv lowerdown_inv open_inv close_inv input_inv protreject_inv same_fsm_inv)

lemma reach_inv: "fsm_reach cb f w \<Longrightarrow> timer_inv f w"
proof (induction rule: fsm_reach.induct)
  case (start w)
  then show ?case by (simp add: timer_inv_def fsm_init_def)
qed (rule step_inv)

end

section \<open>Retransmission\<close>

text \<open>The expiry of the automaton's callout.\<close>

definition expire :: "'z fsm_world_scheme fsm_callbacks \<Rightarrow> fsm_ref \<Rightarrow> 'z fsm_world_scheme \<Rightarrow> 'z fsm_world_scheme" where
  "expire cb f w = fsm_timeout cb f (UNTIMEOUT_fsm f w)"

fun negotiating :: "fsm_state \<Rightarrow> bool" where
  "negotiating REQSENT = True" | "negotiating ACKRCVD = True" | "negotiating ACKSENT = True"
| "negotiating _ = False"

lemma sent_sdata_ex: "\<exists>fr. sent (fsm_sdata f c i d w) = sent w @ [fr] \<and> take 2 (drop 4 fr) = [word_of_int c, i]"
  by (simp add: fsm_sdata_def Let_def MAKEHEADER_def PUTCHAR_def PUTSHORT_def)

text \<open>Building a request changes neither the automata nor what is sent.\<close>

definition plain_data :: "'z fsm_world_scheme fsm_callbacks \<Rightarrow> bool" where
  "plain_data cb \<longleftrightarrow> (\<forall>w. fsms (snd (confreq_data cb w)) = fsms w \<and> sent (snd (confreq_data cb w)) = sent w)"

lemma sconfreq_again:
  assumes "negotiating (st f w)" "plain_data cb"
  shows "fsms (fsm_sconfreq cb f True w) =
      (fsms w)(f := (fsms w f)\<lparr>seen_ack := False, retransmits := retransmits (fsms w f) - 1\<rparr>)"
    "\<exists>fr. sent (fsm_sconfreq cb f True w) = sent w @ [fr] \<and> take 2 (drop 4 fr) = [1, reqid (fsms w f)]"
proof -
  have "st f w = REQSENT \<or> st f w = ACKRCVD \<or> st f w = ACKSENT"
    using assms(1) by (cases "st f w") auto
  moreover obtain d v where d: "confreq_data cb (upd_fsm f (\<lambda>x. x\<lparr>seen_ack := False\<rparr>) w) = (d, v)" by (rule prod.exhaust)
  moreover have "fsms v = fsms (upd_fsm f (\<lambda>x. x\<lparr>seen_ack := False\<rparr>) w)" "sent v = sent w"
    using assms(2) d unfolding plain_data_def by (metis snd_conv, metis snd_conv frame_upd_fsm(3))
  ultimately show "fsms (fsm_sconfreq cb f True w) =
      (fsms w)(f := (fsms w f)\<lparr>seen_ack := False, retransmits := retransmits (fsms w f) - 1\<rparr>)"
    "\<exists>fr. sent (fsm_sconfreq cb f True w) = sent w @ [fr] \<and> take 2 (drop 4 fr) = [1, reqid (fsms w f)]"
    using sent_sdata_ex [where c = CONFREQ and w = v and f = f]
    by (simp_all add: fsm_sconfreq_def Let_def) fastforce+
qed

lemma expire_resends:
  assumes "cb_retransmit cb = None" "negotiating (st f w)" "retransmits (fsms w f) > 0" "plain_data cb"
  shows "negotiating (st f (expire cb f w))"
    "retransmits (fsms (expire cb f w) f) = retransmits (fsms w f) - 1"
    "reqid (fsms (expire cb f w) f) = reqid (fsms w f)"
    "flags (fsms (expire cb f w) f) = flags (fsms w f)"
    "\<exists>fr. sent (expire cb f w) = sent w @ [fr] \<and> take 2 (drop 4 fr) = [1, reqid (fsms w f)]"
proof -
  let ?v = "fsm_sconfreq cb f True (UNTIMEOUT_fsm f w)"
  have neg: "negotiating (st f (UNTIMEOUT_fsm f w))" using assms(2) by simp
  note sc = sconfreq_again [OF neg assms(4)]
  have eq: "expire cb f w = (if st f w = ACKRCVD then set_state f REQSENT ?v else ?v)"
    using assms(1-3) sc(1) by (cases "st f w") (simp_all add: expire_def fsm_timeout_def timeout_negotiating_def Let_def)
  show "negotiating (st f (expire cb f w))"
    "retransmits (fsms (expire cb f w) f) = retransmits (fsms w f) - 1"
    "reqid (fsms (expire cb f w) f) = reqid (fsms w f)"
    "flags (fsms (expire cb f w) f) = flags (fsms w f)"
    "\<exists>fr. sent (expire cb f w) = sent w @ [fr] \<and> take 2 (drop 4 fr) = [1, reqid (fsms w f)]"
    using assms(2) sc by (auto simp: eq)
qed

lemma expire_last:
  assumes "negotiating (st f w)" "retransmits (fsms w f) \<le> 0"
  shows "expire cb f w =
    (let v = set_state f STOPPED (UNTIMEOUT_fsm f w)
     in if has_flag f OPT_PASSIVE w then v else callback (cb_finished cb) v)"
  using assms by (cases "st f w") (simp_all add: expire_def fsm_timeout_def timeout_negotiating_def Let_def)

text \<open>The automaton's Configure-Request follows the contract \<open>retry\<close>.\<close>

abbreviation confreq_waiting :: "'z fsm_world_scheme fsm_callbacks \<Rightarrow> fsm_ref \<Rightarrow> 'z fsm_world_scheme \<Rightarrow> bool" where
  "confreq_waiting cb f w \<equiv> cb_retransmit cb = None \<and> plain_data cb \<and> negotiating (st f w)"

definition confreq_packet :: "fsm_ref \<Rightarrow> 'z fsm_world_scheme \<Rightarrow> packet \<Rightarrow> bool" where
  "confreq_packet f w fr \<longleftrightarrow> take 2 (drop 4 fr) = [1, reqid (fsms w f)]"

definition fsm_give_up :: "'z fsm_world_scheme fsm_callbacks \<Rightarrow> fsm_ref \<Rightarrow> 'z fsm_world_scheme \<Rightarrow> 'z fsm_world_scheme" where
  "fsm_give_up cb f w =
     (let v = set_state f STOPPED (UNTIMEOUT_fsm f w)
      in if has_flag f OPT_PASSIVE w then v else callback (cb_finished cb) v)"

interpretation confreq: retry "expire cb f" "confreq_waiting cb f" "\<lambda>w. retransmits (fsms w f)" sent
  "confreq_packet f" "fsm_give_up cb f"
proof
  fix w assume w: "confreq_waiting cb f w" "retransmits (fsms w f) > 0"
  then show "confreq_waiting cb f (expire cb f w) \<and> retransmits (fsms (expire cb f w) f) = retransmits (fsms w f) - 1 \<and>
    confreq_packet f (expire cb f w) = confreq_packet f w \<and>
    (\<exists>fr. sent (expire cb f w) = sent w @ [fr] \<and> confreq_packet f w fr)"
    using expire_resends [where cb = cb and f = f and w = w] by (simp add: confreq_packet_def fun_eq_iff)
next
  fix w assume "confreq_waiting cb f w" "retransmits (fsms w f) \<le> 0"
  then show "expire cb f w = fsm_give_up cb f w" using expire_last [where cb = cb and f = f and w = w] by (simp add: fsm_give_up_def)
qed

text \<open>
  Property C29.  With no answer from the peer, the automaton re-sends its Configure-Request (same
  identifier) exactly as many times as the restart counter says, and the next expiry stops it: it
  enters STOPPED and tells the lower layer that it has finished, unless the passive option is set.
\<close>

theorem fsm_gives_up:
  assumes "cb_retransmit cb = None" "plain_data cb" "negotiating (st f w)" "retransmits (fsms w f) = int n"
  shows "\<exists>u frs. u = (expire cb f ^^ n) w \<and> sent u = sent w @ frs \<and> length frs = n \<and>
    (\<forall>fr\<in>set frs. take 2 (drop 4 fr) = [1, reqid (fsms w f)]) \<and>
    (expire cb f ^^ Suc n) w =
      (let v = set_state f STOPPED (UNTIMEOUT_fsm f u)
       in if has_flag f OPT_PASSIVE u then v else callback (cb_finished cb) v)"
  using confreq.gives_up [where cb = cb and f = f and w = w and n = n] assms by (simp add: confreq_packet_def fsm_give_up_def Let_def)

section \<open>Packets\<close>

lemma fsm_input_wf:
  assumes "GETSHORT l1 l2 = int (length d) + 4" "st g v \<noteq> INITIAL" "st g v \<noteq> STARTING"
  shows "fsm_input cb g (c # i # l1 # l2 # d @ pad) v =
    input_dispatch cb g (c # i # l1 # l2 # d) (uint c) i d v"
proof -
  have "nat (int (length d) + 4) = Suc (Suc (Suc (Suc (length d))))" by simp
  with assms show ?thesis by (simp add: fsm_input_def Let_def del: nat_int_add)
qed

text \<open>
  Property C30.  A frame built by \<open>fsm_sdata\<close> never exceeds the peer's MRU, and its control packet is
  read back by \<open>fsm_input\<close> as exactly the code, identifier and (truncated) data that were sent,
  whatever padding follows it.
\<close>

theorem fsm_sdata_input_roundtrip:
  assumes "4 \<le> peer_mru w" "peer_mru w \<le> 65535" "0 \<le> code" "code < 256"
    "st g v \<noteq> INITIAL" "st g v \<noteq> STARTING"
  shows "\<exists>pkt data'. sent (fsm_sdata f code idn data w) = sent w @ [MAKEHEADER (protocol (fsms w f)) @ pkt] \<and>
    int (length pkt) \<le> peer_mru w \<and> data' = take (nat (peer_mru w - HEADERLEN)) data \<and>
    (\<forall>pad. fsm_input cb g (pkt @ pad) v = input_dispatch cb g pkt code idn data' v)"
proof -
  define n where "n = min (int (length data)) (peer_mru w - 4)"
  define data' where "data' = take (nat (peer_mru w - HEADERLEN)) data"
  have data': "data' = take (nat n) data" "int (length data') = n" "0 \<le> n" "n \<le> 65531"
    using assms by (auto simp: n_def data'_def min_def take_all_iff nat_le_iff)
  define pkt where "pkt = PUTCHAR code @ [idn] @ PUTSHORT (n + 4) @ data'"
  have "sent (fsm_sdata f code idn data w) = sent w @ [MAKEHEADER (protocol (fsms w f)) @ pkt]"
    by (auto simp: fsm_sdata_def Let_def pkt_def data'(1) n_def min_def)
  moreover have "int (length pkt) \<le> peer_mru w"
    using data' by (simp add: pkt_def n_def)
  moreover have "fsm_input cb g (pkt @ pad) v = input_dispatch cb g pkt code idn data' v" for pad
  proof -
    have "GETSHORT (word_of_int ((n + 4) div 256)) (word_of_int (n + 4)) = n + 4"
      using data'(3,4) by (intro GET_PUTSHORT) auto
    then have "GETSHORT (word_of_int ((n + 4) div 256)) (word_of_int (n + 4)) = int (length data') + 4"
      using data'(2) by linarith
    moreover have "uint (word_of_int code :: byte) = code"
      using assms(3,4) by (simp add: uint_word_of_int)
    ultimately show ?thesis
      using fsm_input_wf [OF _ assms(5,6), of _ _ data' cb "word_of_int code" idn pad]
      unfolding pkt_def PUTCHAR_def PUTSHORT_def append_Cons append_Nil by metis
  qed
  ultimately show ?thesis unfolding data'_def [symmetric] by blast
qed

text \<open>
  A control packet that is shorter than its header, whose length field is smaller than
  the header or larger than what was received, or that arrives before the lower layer is up, is
  dropped without any effect.
\<close>

lemma fsm_input_malformed_dropped:
  assumes "length p < 4 \<or> GETSHORT (p ! 2) (p ! 3) < 4 \<or> GETSHORT (p ! 2) (p ! 3) > int (length p) \<or>
    st f w = INITIAL \<or> st f w = STARTING"
  shows "fsm_input cb f p w = w"
proof -
  consider "length p < 4" | c i l1 l2 q where "p = c # i # l1 # l2 # q"
    by (cases p; cases "tl p"; cases "tl (tl p)"; cases "tl (tl (tl p))") auto
  then show ?thesis
  proof cases
    case 1
    then show ?thesis by (auto simp: fsm_input_def split: list.split)
  next
    case 2
    with assms show ?thesis by (auto simp: fsm_input_def Let_def)
  qed
qed

text \<open>
  Property C31.  A request is answered at most once: after a good Configure-Ack for the outstanding request, in REQSENT as well as
  in ACKSENT, every further Ack, Nak or Reject is ignored until a new request is sent.  In REQSENT the automaton goes to
  ACKRCVD; in ACKSENT it goes to OPENED and calls \<open>up\<close>, and what is assumed of this callback is that it sends no new request, which
  would allow answers again.
\<close>

theorem fsm_ack_once:
  assumes "st f w = REQSENT \<or> st f w = ACKSENT" "reqid (fsms w f) = idn" "\<not> seen_ack (fsms w f)"
    "case cb_ackci cb of Some a \<Rightarrow> a w p \<noteq> 0 | None \<Rightarrow> p = []"
    "\<And>v. seen_ack (fsms v f) \<Longrightarrow> seen_ack (fsms (callback (cb_up cb) v) f)"
  shows "(if st f w = REQSENT then st f (fsm_rconfack cb f idn p w) = ACKRCVD
      else \<exists>v. st f v = OPENED \<and> fsm_rconfack cb f idn p w = callback (cb_up cb) v) \<and>
    fsm_rconfack cb f i q (fsm_rconfack cb f idn p w) = fsm_rconfack cb f idn p w \<and>
    fsm_rconfnakrej cb f code i q (fsm_rconfack cb f idn p w) = fsm_rconfack cb f idn p w"
proof -
  let ?u = "upd_fsm f (\<lambda>x. x\<lparr>seen_ack := True, rnakloops := 0\<rparr>) w"
  let ?v = "upd_fsm f (\<lambda>x. x\<lparr>state := OPENED, retransmits := maxconfreqtransmits x\<rparr>) (UNTIMEOUT_fsm f ?u)"
  have eq: "fsm_rconfack cb f idn p w = (if st f w = REQSENT
      then upd_fsm f (\<lambda>x. x\<lparr>state := ACKRCVD, retransmits := maxconfreqtransmits x\<rparr>) ?u else callback (cb_up cb) ?v)"
    using assms(1-4) by (auto simp: fsm_rconfack_def Let_def)
  have "seen_ack (fsms (callback (cb_up cb) ?v) f)" by (rule assms(5)) simp
  then have seen: "seen_ack (fsms (fsm_rconfack cb f idn p w) f)" by (simp add: eq)
  have "if st f w = REQSENT then st f (fsm_rconfack cb f idn p w) = ACKRCVD
      else \<exists>v. st f v = OPENED \<and> fsm_rconfack cb f idn p w = callback (cb_up cb) v"
    by (auto simp: eq intro!: exI [of _ ?v])
  with seen show ?thesis by (simp add: fsm_rconfack_def [of cb f i] fsm_rconfnakrej_def)
qed

end
