(* ===== verification/Lcp.thy ===== *)
theory Lcp
  imports Lcp_Options Fsm_Props
begin

text \<open>
  The Link Control Protocol, \<^verbatim>\<open>pppd/lcp.c\<close>: its entry points, its callbacks for the automaton and the
  echo requests that watch the link.

  The static variables of \<open>lcp.c\<close> and the option variables it reads are fields of \<open>lcp_world\<close>.  The
  functions of \<^verbatim>\<open>auth.c\<close> that LCP calls and the table of the protocols are the record \<open>lcp_ext\<close>, an
  argument of the operations (\<open>Auth\<close> gives the functions of the program for it).  Calls to the channel
  (\<open>ppp_send_config\<close>, \<open>ppp_recv_config\<close>, \<open>netif_set_mtu\<close>) are recorded in \<open>chan\<close>, and \<open>chan_errs\<close> says which of
  them fail.  \<open>magic_src\<close> is the sequence of the numbers \<open>magic()\<close> returns.

  \<open>lcp_close\<close> is called from callbacks of the same automaton (when a loop is detected, when the peer
  does not answer).  The callbacks \<open>fsm_close\<close> and \<open>fsm_lowerdown\<close> use are the three of
  \<open>lcp_down_callbacks\<close>, which come first.
\<close>

section \<open>State\<close>

datatype chan_op =
    Send_config int u32 bool bool
  | Recv_config int u32 bool bool
  | Set_mtu int

record lcp_world = fsm_world +
  lcp_wantoptions :: lcp_options
  lcp_gotoptions :: lcp_options
  lcp_allowoptions :: lcp_options
  lcp_hisoptions :: lcp_options
  lcp_echos_pending :: int
  lcp_echo_number :: int
  lcp_echo_timer_running :: bool
  lcp_echo_interval :: int
  lcp_echo_fails :: int
  lcp_loopbackfail :: int
  lax_recv :: bool
  noendpoint :: bool
  multilink :: bool
  listen_time :: int
  phase :: int
  status :: int
  magic_src :: "u32 stream"
  chan :: "chan_op list"
  chan_errs :: "bool stream"

text \<open>One entry of \<open>protocols[]\<close> (\<open>struct protent\<close>): null function pointers are \<open>None\<close>.\<close>

record 'w protent =
  pe_protocol :: int
  pe_enabled :: bool
  pe_input :: "packet \<Rightarrow> 'w \<Rightarrow> 'w"
  pe_datainput :: "(packet \<Rightarrow> 'w \<Rightarrow> 'w) option"
  pe_protrej :: "'w \<Rightarrow> 'w"
  pe_lowerup :: "('w \<Rightarrow> 'w) option"
  pe_lowerdown :: "('w \<Rightarrow> 'w) option"
  pe_open :: "('w \<Rightarrow> 'w) option"
  pe_close :: "(packet \<Rightarrow> 'w \<Rightarrow> 'w) option"

record 'w lcp_ext =
  x_link_required :: "'w \<Rightarrow> 'w"
  x_link_terminated :: "'w \<Rightarrow> 'w"
  x_link_down :: "'w \<Rightarrow> 'w"
  x_link_established :: "'w \<Rightarrow> 'w"
  x_auth_reset :: "'w \<Rightarrow> 'w"
  x_protocols :: "'w protent list"

abbreviation PHASE_DEAD :: int where "PHASE_DEAD \<equiv> 0"
abbreviation PHASE_ESTABLISH :: int where "PHASE_ESTABLISH \<equiv> 4"
abbreviation PHASE_AUTHENTICATE :: int where "PHASE_AUTHENTICATE \<equiv> 5"
abbreviation PHASE_CALLBACK :: int where "PHASE_CALLBACK \<equiv> 6"
abbreviation PHASE_NETWORK :: int where "PHASE_NETWORK \<equiv> 7"
abbreviation PHASE_RUNNING :: int where "PHASE_RUNNING \<equiv> 8"
abbreviation PHASE_TERMINATE :: int where "PHASE_TERMINATE \<equiv> 9"
abbreviation PHASE_DISCONNECT :: int where "PHASE_DISCONNECT \<equiv> 10"
abbreviation PHASE_MASTER :: int where "PHASE_MASTER \<equiv> 12"

abbreviation EXIT_OK :: int where "EXIT_OK \<equiv> 0"
abbreviation EXIT_PEER_AUTH_FAILED :: int where "EXIT_PEER_AUTH_FAILED \<equiv> 11"
abbreviation EXIT_PEER_DEAD :: int where "EXIT_PEER_DEAD \<equiv> 15"
abbreviation EXIT_LOOPBACK :: int where "EXIT_LOOPBACK \<equiv> 17"
abbreviation EXIT_AUTH_TOPEER_FAILED :: int where "EXIT_AUTH_TOPEER_FAILED \<equiv> 19"

abbreviation PROTREJ :: int where "PROTREJ \<equiv> 8"
abbreviation ECHOREQ :: int where "ECHOREQ \<equiv> 9"
abbreviation ECHOREP :: int where "ECHOREP \<equiv> 10"
abbreviation DISCREQ :: int where "DISCREQ \<equiv> 11"
abbreviation IDENTIF :: int where "IDENTIF \<equiv> 12"
abbreviation TIMEREM :: int where "TIMEREM \<equiv> 13"
abbreviation MDTYPE_ALL :: byte where "MDTYPE_ALL \<equiv> 7"

definition cstr :: "string \<Rightarrow> packet" where
  "cstr s = map of_char s"

definition new_phase :: "int \<Rightarrow> 'z lcp_world_scheme \<Rightarrow> 'z lcp_world_scheme" where
  "new_phase p w = w\<lparr>phase := p\<rparr>"

text \<open>A call to the channel: the log of the calls, and whether it returns -1.\<close>

definition chan_call :: "chan_op \<Rightarrow> 'z lcp_world_scheme \<Rightarrow> bool \<times> 'z lcp_world_scheme" where
  "chan_call c w = (shd (chan_errs w), w\<lparr>chan := chan w @ [c], chan_errs := stl (chan_errs w)\<rparr>)"

definition ppp_send_config :: "int \<Rightarrow> u32 \<Rightarrow> bool \<Rightarrow> bool \<Rightarrow> 'z lcp_world_scheme \<Rightarrow> bool \<times> 'z lcp_world_scheme" where
  "ppp_send_config mtu accm pcomp accomp = chan_call (Send_config mtu accm pcomp accomp)"

definition ppp_recv_config :: "int \<Rightarrow> u32 \<Rightarrow> bool \<Rightarrow> bool \<Rightarrow> 'z lcp_world_scheme \<Rightarrow> bool \<times> 'z lcp_world_scheme" where
  "ppp_recv_config m accm pcomp accomp = chan_call (Recv_config m accm pcomp accomp)"

definition netif_set_mtu :: "int \<Rightarrow> 'z lcp_world_scheme \<Rightarrow> 'z lcp_world_scheme" where
  "netif_set_mtu m w = w\<lparr>chan := chan w @ [Set_mtu m]\<rparr>"

definition set_flag :: "u32 \<Rightarrow> 'z fsm_world_scheme \<Rightarrow> 'z fsm_world_scheme" where
  "set_flag b = upd_fsm lcp_fsm (\<lambda>x. x\<lparr>flags := flags x OR b\<rparr>)"

definition clear_flag :: "u32 \<Rightarrow> 'z fsm_world_scheme \<Rightarrow> 'z fsm_world_scheme" where
  "clear_flag b = upd_fsm lcp_fsm (\<lambda>x. x\<lparr>flags := flags x AND NOT b\<rparr>)"

abbreviation delayed :: "'z fsm_world_scheme \<Rightarrow> bool" where
  "delayed w \<equiv> has_flag lcp_fsm DELAYED_UP w"

section \<open>Going down\<close>

definition lcp_echo_lowerdown :: "'z lcp_world_scheme \<Rightarrow> 'z lcp_world_scheme" where
  "lcp_echo_lowerdown w =
     (if lcp_echo_timer_running w
      then (UNTIMEOUT Fn_LcpEchoTimeout (Fsm_arg lcp_fsm) w)\<lparr>lcp_echo_timer_running := False\<rparr>
      else w)"

definition lcp_down :: "'z lcp_world_scheme lcp_ext \<Rightarrow> 'z lcp_world_scheme \<Rightarrow> 'z lcp_world_scheme" where
  "lcp_down ext w =
     (let w = lcp_echo_lowerdown w;
          w = x_link_down ext w;
          w = snd (ppp_send_config PPP_MRU 0xFFFFFFFF False False w);
          go = lcp_gotoptions w;
          w = snd (ppp_recv_config PPP_MRU (if neg_asyncmap go then asyncmap go else 0xFFFFFFFF)
                (neg_pcompression go) (neg_accompression go) w)
      in w\<lparr>peer_mru := PPP_MRU\<rparr>)"

definition lcp_starting :: "'z lcp_world_scheme lcp_ext \<Rightarrow> 'z lcp_world_scheme \<Rightarrow> 'z lcp_world_scheme" where
  "lcp_starting ext w = x_link_required ext w"

definition lcp_finished :: "'z lcp_world_scheme lcp_ext \<Rightarrow> 'z lcp_world_scheme \<Rightarrow> 'z lcp_world_scheme" where
  "lcp_finished ext w = x_link_terminated ext w"

definition lcp_down_callbacks :: "'z lcp_world_scheme lcp_ext \<Rightarrow> 'z lcp_world_scheme fsm_callbacks" where
  "lcp_down_callbacks ext =
     \<lparr>cb_resetci = None, cb_cilen = None, cb_addci = None, cb_ackci = None, cb_nakci = None,
      cb_rejci = None, cb_reqci = None, cb_up = None,
      cb_down = Some (lcp_down ext), cb_starting = Some (lcp_starting ext),
      cb_finished = Some (lcp_finished ext), cb_retransmit = None, cb_extcode = None\<rparr>"

definition lcp_close :: "'z lcp_world_scheme lcp_ext \<Rightarrow> packet \<Rightarrow> 'z lcp_world_scheme \<Rightarrow> 'z lcp_world_scheme" where
  "lcp_close ext reason w =
     (let w = (if phase w \<noteq> PHASE_DEAD \<and> phase w \<noteq> PHASE_MASTER then new_phase PHASE_TERMINATE w else w);
          w = (if delayed w
               then set_state lcp_fsm STOPPED (UNTIMEOUT Fn_lcp_delayed_up (Fsm_arg lcp_fsm) w)
               else w);
          oldstate = st lcp_fsm w;
          w = fsm_close (lcp_down_callbacks ext) lcp_fsm reason w
      in if oldstate = STOPPED \<and> has_flag lcp_fsm (OPT_PASSIVE OR OPT_SILENT OR DELAYED_UP) w
         then lcp_finished ext (clear_flag DELAYED_UP w)
         else w)"

definition lcp_lowerdown :: "'z lcp_world_scheme lcp_ext \<Rightarrow> 'z lcp_world_scheme \<Rightarrow> 'z lcp_world_scheme" where
  "lcp_lowerdown ext w =
     (if delayed w
      then UNTIMEOUT Fn_lcp_delayed_up (Fsm_arg lcp_fsm) (clear_flag DELAYED_UP w)
      else fsm_lowerdown (lcp_down_callbacks ext) lcp_fsm w)"

definition lcp_protrej :: "'z lcp_world_scheme lcp_ext \<Rightarrow> 'z lcp_world_scheme \<Rightarrow> 'z lcp_world_scheme" where
  "lcp_protrej ext w = fsm_protreject (lcp_down_callbacks ext) lcp_fsm w"

section \<open>Echo requests\<close>

definition LcpLinkFailure :: "'z lcp_world_scheme lcp_ext \<Rightarrow> 'z lcp_world_scheme \<Rightarrow> 'z lcp_world_scheme" where
  "LcpLinkFailure ext w =
     (if st lcp_fsm w = OPENED
      then lcp_close ext (cstr ''Peer not responding'') (w\<lparr>status := EXIT_PEER_DEAD\<rparr>)
      else w)"

definition LcpSendEchoRequest :: "'z lcp_world_scheme lcp_ext \<Rightarrow> 'z lcp_world_scheme \<Rightarrow> 'z lcp_world_scheme" where
  "LcpSendEchoRequest ext w =
     (let w = (if lcp_echo_fails w \<noteq> 0 \<and> lcp_echos_pending w \<ge> lcp_echo_fails w
               then (LcpLinkFailure ext w)\<lparr>lcp_echos_pending := 0\<rparr>
               else w)
      in if st lcp_fsm w = OPENED
         then (let n = lcp_echo_number w;
                   w = w\<lparr>lcp_echo_number := n + 1\<rparr>;
                   w = fsm_sdata lcp_fsm ECHOREQ (word_of_int n) (PUTLONG (magicnumber (lcp_gotoptions w))) w
               in w\<lparr>lcp_echos_pending := lcp_echos_pending w + 1\<rparr>)
         else w)"

definition LcpEchoCheck :: "'z lcp_world_scheme lcp_ext \<Rightarrow> 'z lcp_world_scheme \<Rightarrow> 'z lcp_world_scheme" where
  "LcpEchoCheck ext w =
     (let w = LcpSendEchoRequest ext w
      in if st lcp_fsm w \<noteq> OPENED then w
         else (TIMEOUT Fn_LcpEchoTimeout (Fsm_arg lcp_fsm) (lcp_echo_interval w) w)
                \<lparr>lcp_echo_timer_running := True\<rparr>)"

definition LcpEchoTimeout :: "'z lcp_world_scheme lcp_ext \<Rightarrow> 'z lcp_world_scheme \<Rightarrow> 'z lcp_world_scheme" where
  "LcpEchoTimeout ext w =
     (if lcp_echo_timer_running w then LcpEchoCheck ext (w\<lparr>lcp_echo_timer_running := False\<rparr>) else w)"

definition lcp_received_echo_reply :: "packet \<Rightarrow> 'z lcp_world_scheme \<Rightarrow> 'z lcp_world_scheme" where
  "lcp_received_echo_reply inp w =
     (case inp of
        a # b # c # d # _ \<Rightarrow>
          (if neg_magicnumber (lcp_gotoptions w) \<and> GETLONG a b c d = magicnumber (lcp_gotoptions w)
           then w else w\<lparr>lcp_echos_pending := 0\<rparr>)
      | _ \<Rightarrow> w)"

definition lcp_echo_lowerup :: "'z lcp_world_scheme lcp_ext \<Rightarrow> 'z lcp_world_scheme \<Rightarrow> 'z lcp_world_scheme" where
  "lcp_echo_lowerup ext w =
     (let w = w\<lparr>lcp_echos_pending := 0, lcp_echo_number := 0, lcp_echo_timer_running := False\<rparr>
      in if lcp_echo_interval w \<noteq> 0 then LcpEchoCheck ext w else w)"

section \<open>Callbacks\<close>

definition lcp_resetci :: "'z lcp_world_scheme lcp_ext \<Rightarrow> 'z lcp_world_scheme \<Rightarrow> 'z lcp_world_scheme" where
  "lcp_resetci ext w =
     (let w = w\<lparr>lcp_wantoptions := (lcp_wantoptions w)\<lparr>magicnumber := shd (magic_src w), numloops := 0\<rparr>,
                magic_src := stl (magic_src w)\<rparr>;
          go = lcp_wantoptions w;
          go = (if \<not> multilink w then go\<lparr>neg_mrru := False, neg_ssnhf := False, neg_endpoint := False\<rparr> else go);
          w = w\<lparr>lcp_gotoptions := go\<rparr>;
          w = (if noendpoint w then w\<lparr>lcp_allowoptions := (lcp_allowoptions w)\<lparr>neg_endpoint := False\<rparr>\<rparr> else w)
      in x_auth_reset ext (w\<lparr>peer_mru := PPP_MRU\<rparr>))"

definition lcp_cilen :: "'z lcp_world_scheme \<Rightarrow> int \<times> 'z lcp_world_scheme" where
  "lcp_cilen w = (lcp_cilen_of (lcp_gotoptions w), w)"

definition lcp_addci :: "'z lcp_world_scheme \<Rightarrow> int \<Rightarrow> packet \<times> int \<times> 'z lcp_world_scheme" where
  "lcp_addci w len = (lcp_addci_of (lcp_gotoptions w), len, w)"

definition lcp_ackci :: "'z lcp_world_scheme \<Rightarrow> packet \<Rightarrow> int" where
  "lcp_ackci w p = (if lcp_ackci_of (lcp_gotoptions w) p then 1 else 0)"

definition lcp_nakci ::
    "'z lcp_world_scheme lcp_ext \<Rightarrow> 'z lcp_world_scheme \<Rightarrow> packet \<Rightarrow> bool \<Rightarrow> int \<times> 'z lcp_world_scheme" where
  "lcp_nakci ext w p treat_as_reject =
     (let (looped_back, r) =
            nakci_scan (lcp_gotoptions w) (lcp_wantoptions w) treat_as_reject (shd (magic_src w)) p;
          w = (if looped_back then w\<lparr>magic_src := stl (magic_src w)\<rparr> else w)
      in case r of
           None \<Rightarrow> (0, w)
         | Some try \<Rightarrow>
             (if st lcp_fsm w \<noteq> OPENED then
                (if looped_back then
                   (let try = try\<lparr>numloops := numloops try + 1\<rparr>;
                        w = (if numloops try \<ge> lcp_loopbackfail w
                             then lcp_close ext (cstr ''Loopback detected'') (w\<lparr>status := EXIT_LOOPBACK\<rparr>)
                             else w)
                    in (1, w\<lparr>lcp_gotoptions := try\<rparr>))
                 else (1, w\<lparr>lcp_gotoptions := try\<lparr>numloops := 0\<rparr>\<rparr>))
              else (1, w)))"

definition lcp_rejci :: "'z lcp_world_scheme \<Rightarrow> packet \<Rightarrow> int \<times> 'z lcp_world_scheme" where
  "lcp_rejci w p =
     (case lcp_rejci_of (lcp_gotoptions w) p of
        None \<Rightarrow> (0, w)
      | Some try \<Rightarrow> (1, if st lcp_fsm w \<noteq> OPENED then w\<lparr>lcp_gotoptions := try\<rparr> else w))"

definition lcp_reqci ::
    "'z lcp_world_scheme \<Rightarrow> packet \<Rightarrow> bool \<Rightarrow> int \<times> packet \<times> 'z lcp_world_scheme" where
  "lcp_reqci w inp reject_if_disagree =
     (let a = reqci_run reject_if_disagree (multilink w) (lcp_gotoptions w) (lcp_allowoptions w) (magic_src w) inp
      in (rc a, reqci_reply inp a, w\<lparr>lcp_hisoptions := his a, magic_src := magics a\<rparr>))"

definition lcp_up :: "'z lcp_world_scheme lcp_ext \<Rightarrow> 'z lcp_world_scheme \<Rightarrow> 'z lcp_world_scheme" where
  "lcp_up ext w =
     (let go = lcp_gotoptions w; ho = lcp_hisoptions w; wo = lcp_wantoptions w; ao = lcp_allowoptions w;
          go = (if \<not> neg_magicnumber go then go\<lparr>magicnumber := 0\<rparr> else go);
          ho = (if \<not> neg_magicnumber ho then ho\<lparr>magicnumber := 0\<rparr> else ho);
          w = w\<lparr>lcp_gotoptions := go, lcp_hisoptions := ho\<rparr>;
          mtu_c = (if neg_mru ho then mru ho else PPP_MRU);
          mru_c = (if neg_mru go then max (mru wo) (mru go) else PPP_MRU);
          w = (if \<not> (multilink w \<and> neg_mrru go \<and> neg_mrru ho)
               then netif_set_mtu (min (min mtu_c mru_c) (mru ao)) w else w);
          w = snd (ppp_send_config mtu_c (if neg_asyncmap ho then asyncmap ho else 0xFFFFFFFF)
                (neg_pcompression ho) (neg_accompression ho) w);
          w = snd (ppp_recv_config mru_c
                (if lax_recv w then 0 else if neg_asyncmap go then asyncmap go else 0xFFFFFFFF)
                (neg_pcompression go) (neg_accompression go) w);
          w = (if neg_mru ho then w\<lparr>peer_mru := mru ho\<rparr> else w);
          w = lcp_echo_lowerup ext w
      in x_link_established ext w)"

definition lcp_rprotrej :: "'z lcp_world_scheme lcp_ext \<Rightarrow> packet \<Rightarrow> 'z lcp_world_scheme \<Rightarrow> 'z lcp_world_scheme" where
  "lcp_rprotrej ext inp w =
     (case inp of
        a # b # _ \<Rightarrow>
          (if st lcp_fsm w \<noteq> OPENED then w
           else
             (case find (\<lambda>p. pe_protocol p = GETSHORT a b \<and> pe_enabled p) (x_protocols ext) of
                Some p \<Rightarrow> pe_protrej p w
              | None \<Rightarrow> w))
      | _ \<Rightarrow> w)"

text \<open>
  In the answer to an Echo-Request the first four octets are overwritten with our magic number; \<open>len\<close>
  stays, so of a shorter request only \<open>len\<close> octets are sent.
\<close>

definition lcp_extcode ::
    "'z lcp_world_scheme lcp_ext \<Rightarrow> 'z lcp_world_scheme \<Rightarrow> int \<Rightarrow> byte \<Rightarrow> packet \<Rightarrow> bool \<times> 'z lcp_world_scheme" where
  "lcp_extcode ext w code idn inp =
     (if code = PROTREJ then (True, lcp_rprotrej ext inp w)
      else if code = ECHOREQ then
        (True,
         if st lcp_fsm w \<noteq> OPENED then w
         else fsm_sdata lcp_fsm ECHOREP idn
                (take (length inp) (PUTLONG (magicnumber (lcp_gotoptions w)) @ drop 4 inp)) w)
      else if code = ECHOREP then (True, lcp_received_echo_reply inp w)
      else if code = DISCREQ \<or> code = IDENTIF \<or> code = TIMEREM then (True, w)
      else (False, w))"

definition lcp_callbacks :: "'z lcp_world_scheme lcp_ext \<Rightarrow> 'z lcp_world_scheme fsm_callbacks" where
  "lcp_callbacks ext =
     \<lparr>cb_resetci = Some (lcp_resetci ext), cb_cilen = Some lcp_cilen, cb_addci = Some lcp_addci,
      cb_ackci = Some lcp_ackci, cb_nakci = Some (lcp_nakci ext), cb_rejci = Some lcp_rejci,
      cb_reqci = Some lcp_reqci, cb_up = Some (lcp_up ext), cb_down = Some (lcp_down ext),
      cb_starting = Some (lcp_starting ext), cb_finished = Some (lcp_finished ext),
      cb_retransmit = None, cb_extcode = Some (lcp_extcode ext)\<rparr>"

section \<open>Entry points\<close>

definition lcp_init :: "'z lcp_world_scheme \<Rightarrow> 'z lcp_world_scheme" where
  "lcp_init w =
     (let w = upd_fsm lcp_fsm (\<lambda>x. x\<lparr>protocol := PPP_LCP\<rparr>) w;
          w = fsm_init lcp_fsm w
      in w\<lparr>lcp_wantoptions := lcp_zero\<lparr>neg_mru := True, mru := DEFMRU, neg_asyncmap := True,
             neg_magicnumber := True, neg_pcompression := True, neg_accompression := True\<rparr>,
           lcp_allowoptions := lcp_zero\<lparr>neg_mru := True, mru := MAXMRU, neg_asyncmap := True,
             neg_chap := True, chap_mdtype := MDTYPE_ALL, neg_upap := True, neg_eap := True,
             neg_magicnumber := True, neg_pcompression := True, neg_accompression := True,
             neg_endpoint := True\<rparr>\<rparr>)"

definition lcp_open :: "'z lcp_world_scheme lcp_ext \<Rightarrow> 'z lcp_world_scheme \<Rightarrow> 'z lcp_world_scheme" where
  "lcp_open ext w =
     (let wo = lcp_wantoptions w;
          w = clear_flag (OPT_PASSIVE OR OPT_SILENT) w;
          w = (if opt_passive wo then set_flag OPT_PASSIVE w else w);
          w = (if opt_silent wo then set_flag OPT_SILENT w else w)
      in fsm_open (lcp_callbacks ext) lcp_fsm w)"

definition lcp_lowerup :: "'z lcp_world_scheme lcp_ext \<Rightarrow> 'z lcp_world_scheme \<Rightarrow> 'z lcp_world_scheme" where
  "lcp_lowerup ext w =
     (let wo = lcp_wantoptions w;
          (err, w) = ppp_send_config PPP_MRU 0xFFFFFFFF False False w
      in if err then w
         else
           (let (err, w) = ppp_recv_config PPP_MRU (if lax_recv w then 0 else 0xFFFFFFFF)
                             (neg_pcompression wo) (neg_accompression wo) w
            in if err then w
               else
                 (let w = w\<lparr>peer_mru := PPP_MRU\<rparr>
                  in if listen_time w \<noteq> 0
                     then timeout Fn_lcp_delayed_up (Fsm_arg lcp_fsm) 0 (listen_time w * 1000) (set_flag DELAYED_UP w)
                     else fsm_lowerup (lcp_callbacks ext) lcp_fsm w)))"

definition lcp_delayed_up :: "'z lcp_world_scheme lcp_ext \<Rightarrow> 'z lcp_world_scheme \<Rightarrow> 'z lcp_world_scheme" where
  "lcp_delayed_up ext w =
     (if delayed w then fsm_lowerup (lcp_callbacks ext) lcp_fsm (clear_flag DELAYED_UP w) else w)"

definition lcp_input :: "'z lcp_world_scheme lcp_ext \<Rightarrow> packet \<Rightarrow> 'z lcp_world_scheme \<Rightarrow> 'z lcp_world_scheme" where
  "lcp_input ext p w =
     (let w = (if delayed w
               then fsm_lowerup (lcp_callbacks ext) lcp_fsm
                      (UNTIMEOUT Fn_lcp_delayed_up (Fsm_arg lcp_fsm) (clear_flag DELAYED_UP w))
               else w)
      in fsm_input (lcp_callbacks ext) lcp_fsm p w)"

definition lcp_sprotrej :: "packet \<Rightarrow> 'z lcp_world_scheme \<Rightarrow> 'z lcp_world_scheme" where
  "lcp_sprotrej p w =
     (let w = upd_fsm lcp_fsm (\<lambda>x. x\<lparr>fid := fid x + 1\<rparr>) w
      in fsm_sdata lcp_fsm PROTREJ (fid (fsms w lcp_fsm)) (drop 2 p) w)"

text \<open>Building a request only reads the options.\<close>

lemma lcp_confreq_eq:
  "confreq_data (lcp_callbacks ext) w =
     (take (nat (min (lcp_cilen_of (lcp_gotoptions w)) (peer_mru w - HEADERLEN))) (lcp_addci_of (lcp_gotoptions w)), w)"
  by (simp add: confreq_data_def lcp_callbacks_def lcp_cilen_def lcp_addci_def Let_def min_def)

lemma lcp_confreq_data [simp]: "snd (confreq_data (lcp_callbacks ext) w) = w"
  by (simp add: lcp_confreq_eq)

end
