(* ===== verification/Upap.thy ===== *)
theory Upap
  imports Lcp
begin

text \<open>
  The password authentication protocol, \<^verbatim>\<open>pppd/upap.c\<close>: the client that sends our name and password and
  the server that checks the peer's.

  What \<open>upap.c\<close> and \<open>chap-new.c\<close> call of \<^verbatim>\<open>auth.c\<close> is the record \<open>auth_ext\<close>, an argument of the operations.
  \<open>char\<close> pointers with a length are lists of octets.
\<close>

section \<open>Interface to auth.c\<close>

record 'w auth_ext =
  x_auth_peer_success :: "int \<Rightarrow> int \<Rightarrow> packet \<Rightarrow> 'w \<Rightarrow> 'w"
  x_auth_peer_fail :: "int \<Rightarrow> 'w \<Rightarrow> 'w"
  x_auth_withpeer_success :: "int \<Rightarrow> int \<Rightarrow> 'w \<Rightarrow> 'w"
  x_auth_withpeer_fail :: "int \<Rightarrow> 'w \<Rightarrow> 'w"
  x_check_passwd :: "packet \<Rightarrow> packet \<Rightarrow> 'w \<Rightarrow> int \<times> packet \<times> 'w"
  x_auth_number :: "'w \<Rightarrow> bool"

section \<open>State\<close>

datatype upap_clientstate =
  UPAPCS_INITIAL | UPAPCS_CLOSED | UPAPCS_PENDING | UPAPCS_AUTHREQ | UPAPCS_OPEN | UPAPCS_BADAUTH

datatype upap_serverstate =
  UPAPSS_INITIAL | UPAPSS_CLOSED | UPAPSS_PENDING | UPAPSS_LISTEN | UPAPSS_OPEN | UPAPSS_BADAUTH

record upap_state =
  us_user :: packet
  us_passwd :: packet
  us_clientstate :: upap_clientstate
  us_serverstate :: upap_serverstate
  us_id :: byte
  us_timeouttime :: int
  us_transmits :: int
  us_maxtransmits :: int
  us_reqtimeout :: int

record upap_world = lcp_world +
  upap :: upap_state

abbreviation UPAP_HEADERLEN :: int where "UPAP_HEADERLEN \<equiv> 4"
abbreviation UPAP_AUTHREQ :: int where "UPAP_AUTHREQ \<equiv> 1"
abbreviation UPAP_AUTHACK :: int where "UPAP_AUTHACK \<equiv> 2"
abbreviation UPAP_AUTHNAK :: int where "UPAP_AUTHNAK \<equiv> 3"
abbreviation UPAP_DEFTIMEOUT :: int where "UPAP_DEFTIMEOUT \<equiv> 3"
abbreviation UPAP_DEFREQTIME :: int where "UPAP_DEFREQTIME \<equiv> 30"

definition upd_upap :: "(upap_state \<Rightarrow> upap_state) \<Rightarrow> 'z upap_world_scheme \<Rightarrow> 'z upap_world_scheme" where
  "upd_upap g w = w\<lparr>upap := g (upap w)\<rparr>"

abbreviation set_client :: "upap_clientstate \<Rightarrow> 'z upap_world_scheme \<Rightarrow> 'z upap_world_scheme" where
  "set_client s \<equiv> upd_upap (\<lambda>u. u\<lparr>us_clientstate := s\<rparr>)"

abbreviation set_server :: "upap_serverstate \<Rightarrow> 'z upap_world_scheme \<Rightarrow> 'z upap_world_scheme" where
  "set_server s \<equiv> upd_upap (\<lambda>u. u\<lparr>us_serverstate := s\<rparr>)"

abbreviation upap_cs :: "'z upap_world_scheme \<Rightarrow> upap_clientstate" where
  "upap_cs w \<equiv> us_clientstate (upap w)"

abbreviation upap_ss :: "'z upap_world_scheme \<Rightarrow> upap_serverstate" where
  "upap_ss w \<equiv> us_serverstate (upap w)"

definition output_frame :: "packet \<Rightarrow> 'z fsm_world_scheme \<Rightarrow> 'z fsm_world_scheme" where
  "output_frame p w = w\<lparr>sent := sent w @ [p]\<rparr>"

section \<open>Sending\<close>

definition upap_sauthreq :: "'z upap_world_scheme \<Rightarrow> 'z upap_world_scheme" where
  "upap_sauthreq w =
     (let w = upd_upap (\<lambda>u. u\<lparr>us_id := us_id u + 1\<rparr>) w;
          u = upap w;
          outlen = UPAP_HEADERLEN + 2 + int (length (us_user u)) + int (length (us_passwd u));
          w = output_frame (MAKEHEADER PPP_PAP @ PUTCHAR UPAP_AUTHREQ @ [us_id u] @ PUTSHORT outlen @
                      PUTCHAR (int (length (us_user u))) @ us_user u @
                      PUTCHAR (int (length (us_passwd u))) @ us_passwd u) w;
          w = TIMEOUT Fn_upap_timeout Upap_arg (us_timeouttime u) w
      in upd_upap (\<lambda>u. u\<lparr>us_transmits := us_transmits u + 1, us_clientstate := UPAPCS_AUTHREQ\<rparr>) w)"

definition upap_sresp :: "int \<Rightarrow> byte \<Rightarrow> packet \<Rightarrow> 'z upap_world_scheme \<Rightarrow> 'z upap_world_scheme" where
  "upap_sresp code idn msg w =
     (let outlen = UPAP_HEADERLEN + 1 + int (length msg)
      in output_frame (MAKEHEADER PPP_PAP @ PUTCHAR code @ [idn] @ PUTSHORT outlen @
                 PUTCHAR (int (length msg)) @ msg) w)"

section \<open>Operations\<close>

definition upap_init :: "'z upap_world_scheme \<Rightarrow> 'z upap_world_scheme" where
  "upap_init = upd_upap (\<lambda>u. u\<lparr>us_user := [], us_passwd := [], us_clientstate := UPAPCS_INITIAL,
     us_serverstate := UPAPSS_INITIAL, us_id := 0, us_timeouttime := UPAP_DEFTIMEOUT,
     us_maxtransmits := 10, us_reqtimeout := UPAP_DEFREQTIME\<rparr>)"

definition upap_authwithpeer :: "packet \<Rightarrow> packet \<Rightarrow> 'z upap_world_scheme \<Rightarrow> 'z upap_world_scheme" where
  "upap_authwithpeer user password w =
     (let w = upd_upap (\<lambda>u. u\<lparr>us_user := user, us_passwd := password, us_transmits := 0\<rparr>) w
      in if upap_cs w = UPAPCS_INITIAL \<or> upap_cs w = UPAPCS_PENDING
         then set_client UPAPCS_PENDING w
         else upap_sauthreq w)"

text \<open>The last lines of \<open>upap_authpeer\<close>, which \<open>upap_lowerup\<close> repeats.\<close>

definition upap_listen :: "'z upap_world_scheme \<Rightarrow> 'z upap_world_scheme" where
  "upap_listen w =
     (let w = set_server UPAPSS_LISTEN w
      in if us_reqtimeout (upap w) > 0
         then TIMEOUT Fn_upap_reqtimeout Upap_arg (us_reqtimeout (upap w)) w else w)"

definition upap_authpeer :: "'z upap_world_scheme \<Rightarrow> 'z upap_world_scheme" where
  "upap_authpeer w =
     (if upap_ss w = UPAPSS_INITIAL \<or> upap_ss w = UPAPSS_PENDING
      then set_server UPAPSS_PENDING w
      else upap_listen w)"

definition upap_timeout :: "'z upap_world_scheme auth_ext \<Rightarrow> 'z upap_world_scheme \<Rightarrow> 'z upap_world_scheme" where
  "upap_timeout ext w =
     (if upap_cs w \<noteq> UPAPCS_AUTHREQ then w
      else if us_transmits (upap w) \<ge> us_maxtransmits (upap w)
      then x_auth_withpeer_fail ext PPP_PAP (set_client UPAPCS_BADAUTH w)
      else upap_sauthreq w)"

definition upap_reqtimeout :: "'z upap_world_scheme auth_ext \<Rightarrow> 'z upap_world_scheme \<Rightarrow> 'z upap_world_scheme" where
  "upap_reqtimeout ext w =
     (if upap_ss w \<noteq> UPAPSS_LISTEN then w
      else set_server UPAPSS_BADAUTH (x_auth_peer_fail ext PPP_PAP w))"

definition upap_lowerup :: "'z upap_world_scheme \<Rightarrow> 'z upap_world_scheme" where
  "upap_lowerup w =
     (let w = (if upap_cs w = UPAPCS_INITIAL then set_client UPAPCS_CLOSED w
               else if upap_cs w = UPAPCS_PENDING then upap_sauthreq w
               else w)
      in if upap_ss w = UPAPSS_INITIAL then set_server UPAPSS_CLOSED w
         else if upap_ss w = UPAPSS_PENDING then upap_listen w
         else w)"

definition upap_lowerdown :: "'z upap_world_scheme \<Rightarrow> 'z upap_world_scheme" where
  "upap_lowerdown w =
     (let w = (if upap_cs w = UPAPCS_AUTHREQ then UNTIMEOUT Fn_upap_timeout Upap_arg w else w);
          w = (if upap_ss w = UPAPSS_LISTEN \<and> us_reqtimeout (upap w) > 0
               then UNTIMEOUT Fn_upap_reqtimeout Upap_arg w else w)
      in set_server UPAPSS_INITIAL (set_client UPAPCS_INITIAL w))"

definition upap_protrej :: "'z upap_world_scheme auth_ext \<Rightarrow> 'z upap_world_scheme \<Rightarrow> 'z upap_world_scheme" where
  "upap_protrej ext w =
     (let w = (if upap_cs w = UPAPCS_AUTHREQ then x_auth_withpeer_fail ext PPP_PAP w else w);
          w = (if upap_ss w = UPAPSS_LISTEN then x_auth_peer_fail ext PPP_PAP w else w)
      in upap_lowerdown w)"

section \<open>Receiving\<close>

text \<open>The name and the password in the data of an Authenticate-Request, or \<open>None\<close> if it is too short.\<close>

definition parse_authreq :: "packet \<Rightarrow> (packet \<times> packet) option" where
  "parse_authreq inp =
     (case inp of
        [] \<Rightarrow> None
      | ruserlen # q \<Rightarrow>
          (let len = int (length inp) - (1 + uint ruserlen + 1)
           in if len < 0 then None
              else
                (let ruser = take (unat ruserlen) q
                 in case drop (unat ruserlen) q of
                      [] \<Rightarrow> None
                    | rpasswdlen # r \<Rightarrow>
                        (if len < uint rpasswdlen then None else Some (ruser, take (unat rpasswdlen) r)))))"

definition upap_rauthreq ::
    "'z upap_world_scheme auth_ext \<Rightarrow> packet \<Rightarrow> byte \<Rightarrow> 'z upap_world_scheme \<Rightarrow> 'z upap_world_scheme" where
  "upap_rauthreq ext inp idn w =
     (if upap_ss w = UPAPSS_INITIAL \<or> upap_ss w = UPAPSS_CLOSED \<or> upap_ss w = UPAPSS_PENDING then w
      else if upap_ss w = UPAPSS_OPEN then upap_sresp UPAP_AUTHACK idn [] w
      else if upap_ss w = UPAPSS_BADAUTH then upap_sresp UPAP_AUTHNAK idn [] w
      else
        (case parse_authreq inp of
           None \<Rightarrow> w
         | Some (ruser, rpasswd) \<Rightarrow>
             (let (retcode, msg, w) = x_check_passwd ext ruser rpasswd w;
                  retcode = (if retcode = UPAP_AUTHACK \<and> \<not> x_auth_number ext w then UPAP_AUTHNAK else retcode);
                  w = upap_sresp retcode idn (take 255 msg) w;
                  w = (if retcode = UPAP_AUTHACK
                       then x_auth_peer_success ext PPP_PAP 0 ruser (set_server UPAPSS_OPEN w)
                       else x_auth_peer_fail ext PPP_PAP (set_server UPAPSS_BADAUTH w))
              in if us_reqtimeout (upap w) > 0 then UNTIMEOUT Fn_upap_reqtimeout Upap_arg w else w)))"

text \<open>The message of an Ack or Nak: its length octet must not exceed what follows.\<close>

definition message_ok :: "packet \<Rightarrow> bool" where
  "message_ok inp =
     (case inp of [] \<Rightarrow> True | msglen # q \<Rightarrow> msglen = 0 \<or> int (length q) \<ge> uint msglen)"

definition upap_rauthack ::
    "'z upap_world_scheme auth_ext \<Rightarrow> packet \<Rightarrow> byte \<Rightarrow> 'z upap_world_scheme \<Rightarrow> 'z upap_world_scheme" where
  "upap_rauthack ext inp idn w =
     (if upap_cs w \<noteq> UPAPCS_AUTHREQ \<or> \<not> message_ok inp then w
      else x_auth_withpeer_success ext PPP_PAP 0 (set_client UPAPCS_OPEN w))"

definition upap_rauthnak ::
    "'z upap_world_scheme auth_ext \<Rightarrow> packet \<Rightarrow> byte \<Rightarrow> 'z upap_world_scheme \<Rightarrow> 'z upap_world_scheme" where
  "upap_rauthnak ext inp idn w =
     (if upap_cs w \<noteq> UPAPCS_AUTHREQ \<or> \<not> message_ok inp then w
      else x_auth_withpeer_fail ext PPP_PAP (set_client UPAPCS_BADAUTH w))"

definition upap_input ::
    "'z upap_world_scheme auth_ext \<Rightarrow> packet \<Rightarrow> 'z upap_world_scheme \<Rightarrow> 'z upap_world_scheme" where
  "upap_input ext inpacket w =
     (case inpacket of
        code # idn # l1 # l2 # inp \<Rightarrow>
          (let len = GETSHORT l1 l2
           in if len < UPAP_HEADERLEN then w
              else if len > int (length inpacket) then w
              else
                (let inp = take (nat (len - UPAP_HEADERLEN)) inp
                 in if uint code = UPAP_AUTHREQ then upap_rauthreq ext inp idn w
                    else if uint code = UPAP_AUTHACK then upap_rauthack ext inp idn w
                    else if uint code = UPAP_AUTHNAK then upap_rauthnak ext inp idn w
                    else w))
      | _ \<Rightarrow> w)"

end
