(* ===== verification/Utils.thy ===== *)
theory Utils
  imports Pppd_Prelude
begin

text \<open>
  The conversions \<open>%v\<close> and \<open>%q\<close> of \<open>vslprintf\<close> in \<^verbatim>\<open>pppd/utils.c\<close>, which turn a name received from the
  peer into printable characters, and the conversion \<open>%d\<close>.  CHAP uses the result of \<open>%.*v\<close> as the name of the peer.
\<close>

text \<open>The digits \<open>vslprintf\<close> writes for \<open>%d\<close> and \<open>%u\<close> of a number that is not negative, last digit first.\<close>

definition digit_char :: "nat \<Rightarrow> char" where
  "digit_char d = char_of (48 + d)"

fun print_nat :: "nat \<Rightarrow> string" where
  "print_nat val = (if val < 10 then [digit_char val] else print_nat (val div 10) @ [digit_char (val mod 10)])"

declare print_nat.simps [simp del]

definition print_int :: "int \<Rightarrow> string" where
  "print_int i = (if i < 0 then ''-'' @ print_nat (nat (- i)) else print_nat (nat i))"

text \<open>An array of characters as a string.\<close>

definition text_of :: "packet \<Rightarrow> string" where
  "text_of p = map (\<lambda>b. char_of (unat b)) p"

definition hexchar :: "byte \<Rightarrow> byte" where
  "hexchar d = (if d < 10 then 0x30 + d else 0x57 + d)"

text \<open>The characters written for one octet.\<close>

definition visible_char :: "bool \<Rightarrow> byte \<Rightarrow> packet" where
  "visible_char quoted c0 =
     (let meta = (\<not> quoted \<and> c0 \<ge> 0x80);
          c = (if meta then c0 - 0x80 else c0)
      in (if meta then [0x4D, 0x2D] else []) @
         (if quoted \<and> (c = 0x22 \<or> c = 0x5C) then [0x5C] else []) @
         (if c < 0x20 \<or> 0x7F \<le> c \<and> c < 0xA0 then
            (if quoted then
               [0x5C] @
               (if c = 9 then [0x74] else if c = 10 then [0x6E] else if c = 8 then [0x62]
                else if c = 12 then [0x66] else [0x78, hexchar (drop_bit 4 c), hexchar (c AND 0xF)])
             else if c = 9 then [c] else [0x5E, c XOR 0x40])
          else [c]))"

text \<open>
  The whole conversion: \<open>prec\<close> bounds the octets read, a null octet ends the string, and at most
  \<open>buflen - 1\<close> characters are written.
\<close>

definition vslprintf_v :: "bool \<Rightarrow> nat \<Rightarrow> nat \<Rightarrow> packet \<Rightarrow> packet" where
  "vslprintf_v quoted buflen prec p =
     take (buflen - 1) (concat (map (visible_char quoted) (takeWhile (\<lambda>c. c \<noteq> 0) (take prec p))))"

section \<open>Properties\<close>

definition printable :: "byte \<Rightarrow> bool" where
  "printable c \<longleftrightarrow> 0x20 \<le> c \<and> c < 0x7F \<or> c = 9"

lemma visible_char_printable: "c \<in> set (visible_char False b) \<Longrightarrow> printable c"
proof -
  have "\<forall>b :: byte. \<forall>c \<in> set (visible_char False b). printable c"
  proof
    fix b :: byte
    have "unat b < 256" using unsigned_less [of b, where ?'a = nat] by simp
    then have "b \<in> set (map word_of_nat [0..<256])"
      by (auto intro!: image_eqI [of _ _ "unat b"])
    moreover have "\<forall>b \<in> set (map word_of_nat [0..<256]). \<forall>c \<in> set (visible_char False (b :: byte)). printable c"
      by code_simp
    ultimately show "\<forall>c \<in> set (visible_char False b). printable c" by blast
  qed
  then show "c \<in> set (visible_char False b) \<Longrightarrow> printable c" by blast
qed

text \<open>
  What \<open>%.*v\<close> makes of a name from the network fits its buffer with the terminating null,
  and has only printable characters and tabs: no control character and no null octet of the peer's gets
  into the name under which it is authenticated and logged.
\<close>

lemma vslprintf_v_clean:
  "length (vslprintf_v False buflen prec p) \<le> buflen - 1 \<and>
   list_all printable (vslprintf_v False buflen prec p)"
  by (auto simp: vslprintf_v_def list_all_iff dest!: in_set_takeD visible_char_printable)

end
