(* ===== verification/Chap.thy ===== *)
theory Chap
  imports Upap Utils
begin

text \<open>
  The challenge handshake authentication protocol, \<^verbatim>\<open>pppd/chap-new.c\<close>: the server that challenges the peer
  and the client that answers the peer's challenges.

  A digest type (\<open>struct chap_digest_type\<close>) is the record \<open>chap_digest\<close>; the list \<open>chap_digests\<close> and what
  CHAP needs of \<^verbatim>\<open>auth.c\<close> besides \<open>auth_ext\<close> are the record \<open>chap_ext\<close>.  The state holds the code of the
  selected digest where the C holds a pointer to it.  \<open>drand48\<close> and \<open>mrand48\<close> draw from one generator, so
  the first identifier comes from \<open>magic_src\<close>: its top eight bits.  \<open>exited\<close> records a call of \<open>fatal\<close>.
\<close>

section \<open>State\<close>

record 'w chap_digest =
  dg_code :: int
  dg_generate_challenge :: "'w \<Rightarrow> packet \<times> 'w"
  dg_verify_response :: "byte \<Rightarrow> packet \<Rightarrow> packet \<Rightarrow> packet \<Rightarrow> packet \<Rightarrow> packet \<Rightarrow> 'w \<Rightarrow> bool \<times> packet \<times> 'w"
  dg_make_response :: "byte \<Rightarrow> packet \<Rightarrow> packet \<Rightarrow> packet \<Rightarrow> 'w \<Rightarrow> packet \<times> 'w"
  dg_check_success :: "(byte \<Rightarrow> packet \<Rightarrow> 'w \<Rightarrow> bool \<times> 'w) option"
  dg_handle_failure :: "(packet \<Rightarrow> 'w \<Rightarrow> 'w) option"

record 'w chap_ext =
  ch_auth :: "'w auth_ext"
  x_chap_digests :: "'w chap_digest list"
  x_get_secret :: "packet \<Rightarrow> packet \<Rightarrow> bool \<Rightarrow> 'w \<Rightarrow> packet option \<times> 'w"
  x_chap_verify_hook ::
    "(packet \<Rightarrow> packet \<Rightarrow> byte \<Rightarrow> int \<Rightarrow> packet \<Rightarrow> packet \<Rightarrow> packet \<Rightarrow> 'w \<Rightarrow> bool \<times> packet \<times> 'w) option"
  x_session_denied :: "packet \<Rightarrow> 'w \<Rightarrow> bool"

record chap_client_state =
  cs_flags :: u32
  cs_name :: packet
  cs_digest :: int

record chap_server_state =
  ss_flags :: u32
  ss_id :: int
  ss_name :: packet
  ss_digest :: int
  challenge_xmits :: int
  challenge :: packet
  message :: packet

record chap_world = upap_world +
  chap_client :: chap_client_state
  chap_server :: chap_server_state
  chap_timeout_time :: int
  chap_max_transmits :: int
  chap_rechallenge_time :: int
  explicit_remote :: bool
  remote_name :: packet
  exited :: bool

abbreviation CHAP_HDRLEN :: int where "CHAP_HDRLEN \<equiv> 4"
abbreviation CHAP_CHALLENGE :: int where "CHAP_CHALLENGE \<equiv> 1"
abbreviation CHAP_RESPONSE :: int where "CHAP_RESPONSE \<equiv> 2"
abbreviation CHAP_SUCCESS :: int where "CHAP_SUCCESS \<equiv> 3"
abbreviation CHAP_FAILURE :: int where "CHAP_FAILURE \<equiv> 4"

abbreviation LOWERUP :: u32 where "LOWERUP \<equiv> 1"
abbreviation AUTH_STARTED :: u32 where "AUTH_STARTED \<equiv> 2"
abbreviation AUTH_DONE :: u32 where "AUTH_DONE \<equiv> 4"
abbreviation AUTH_FAILED :: u32 where "AUTH_FAILED \<equiv> 8"
abbreviation TIMEOUT_PENDING :: u32 where "TIMEOUT_PENDING \<equiv> 0x10"
abbreviation CHALLENGE_VALID :: u32 where "CHALLENGE_VALID \<equiv> 0x20"

abbreviation MAXNAMELEN :: nat where "MAXNAMELEN \<equiv> 256"

definition upd_server :: "(chap_server_state \<Rightarrow> chap_server_state) \<Rightarrow> 'z chap_world_scheme \<Rightarrow> 'z chap_world_scheme" where
  "upd_server g w = w\<lparr>chap_server := g (chap_server w)\<rparr>"

definition upd_client :: "(chap_client_state \<Rightarrow> chap_client_state) \<Rightarrow> 'z chap_world_scheme \<Rightarrow> 'z chap_world_scheme" where
  "upd_client g w = w\<lparr>chap_client := g (chap_client w)\<rparr>"

abbreviation ss_on :: "u32 \<Rightarrow> 'z chap_world_scheme \<Rightarrow> 'z chap_world_scheme" where
  "ss_on b \<equiv> upd_server (\<lambda>s. s\<lparr>ss_flags := ss_flags s OR b\<rparr>)"

abbreviation ss_off :: "u32 \<Rightarrow> 'z chap_world_scheme \<Rightarrow> 'z chap_world_scheme" where
  "ss_off b \<equiv> upd_server (\<lambda>s. s\<lparr>ss_flags := ss_flags s AND NOT b\<rparr>)"

abbreviation cs_on :: "u32 \<Rightarrow> 'z chap_world_scheme \<Rightarrow> 'z chap_world_scheme" where
  "cs_on b \<equiv> upd_client (\<lambda>s. s\<lparr>cs_flags := cs_flags s OR b\<rparr>)"

abbreviation cs_off :: "u32 \<Rightarrow> 'z chap_world_scheme \<Rightarrow> 'z chap_world_scheme" where
  "cs_off b \<equiv> upd_client (\<lambda>s. s\<lparr>cs_flags := cs_flags s AND NOT b\<rparr>)"

abbreviation ss_has :: "u32 \<Rightarrow> 'z chap_world_scheme \<Rightarrow> bool" where
  "ss_has b w \<equiv> ss_flags (chap_server w) AND b \<noteq> 0"

text \<open>The search through \<open>chap_digests\<close>.\<close>

definition find_digest :: "'w chap_ext \<Rightarrow> int \<Rightarrow> 'w chap_digest option" where
  "find_digest ext digest_code = find (\<lambda>d. dg_code d = digest_code) (x_chap_digests ext)"

section \<open>The server\<close>

definition chap_init :: "'z chap_world_scheme \<Rightarrow> 'z chap_world_scheme" where
  "chap_init w = w\<lparr>
     chap_client := \<lparr>cs_flags = 0, cs_name = [], cs_digest = 0\<rparr>,
     chap_server := \<lparr>ss_flags = 0, ss_id = 0, ss_name = [], ss_digest = 0, challenge_xmits = 0,
       challenge = [], message = []\<rparr>\<rparr>"

text \<open>
  \<open>generate_challenge\<close> of the digest writes a length octet and that many octets behind it; the name
  follows them.
\<close>

definition chap_generate_challenge ::
    "'z chap_world_scheme chap_ext \<Rightarrow> 'z chap_world_scheme \<Rightarrow> 'z chap_world_scheme" where
  "chap_generate_challenge ext w =
     (case find_digest ext (ss_digest (chap_server w)) of
        None \<Rightarrow> w
      | Some dp \<Rightarrow>
          (let (g, w) = dg_generate_challenge dp w;
               clen = unat (hd g);
               nm = ss_name (chap_server w);
               len = CHAP_HDRLEN + 1 + int clen + int (length nm);
               w = upd_server (\<lambda>s. s\<lparr>ss_id := ss_id s + 1\<rparr>) w
           in upd_server (\<lambda>s. s\<lparr>challenge :=
                MAKEHEADER PPP_CHAP @ PUTCHAR CHAP_CHALLENGE @ PUTCHAR (ss_id s) @ PUTSHORT len @
                take (1 + clen) g @ nm\<rparr>) w))"

text \<open>The part of \<open>chap_timeout\<close> that sends the challenge.\<close>

definition send_challenge :: "'z chap_world_scheme \<Rightarrow> 'z chap_world_scheme" where
  "send_challenge w =
     (let w = output_frame (challenge (chap_server w)) w;
          w = upd_server (\<lambda>s. s\<lparr>challenge_xmits := challenge_xmits s + 1\<rparr>) w;
          w = ss_on TIMEOUT_PENDING w
      in TIMEOUT Fn_chap_timeout Chap_server_arg (chap_timeout_time w) w)"

definition chap_timeout :: "'z chap_world_scheme chap_ext \<Rightarrow> 'z chap_world_scheme \<Rightarrow> 'z chap_world_scheme" where
  "chap_timeout ext w =
     (let w = ss_off TIMEOUT_PENDING w
      in if \<not> ss_has CHALLENGE_VALID w
         then send_challenge
                (ss_on CHALLENGE_VALID
                  (chap_generate_challenge ext (upd_server (\<lambda>s. s\<lparr>challenge_xmits := 0\<rparr>) w)))
         else if challenge_xmits (chap_server w) \<ge> chap_max_transmits w
         then x_auth_peer_fail (ch_auth ext) PPP_CHAP
                (ss_on (AUTH_DONE OR AUTH_FAILED) (ss_off CHALLENGE_VALID w))
         else send_challenge w)"

definition chap_lowerup :: "'z chap_world_scheme chap_ext \<Rightarrow> 'z chap_world_scheme \<Rightarrow> 'z chap_world_scheme" where
  "chap_lowerup ext w =
     (let w = ss_on LOWERUP (cs_on LOWERUP w)
      in if ss_has AUTH_STARTED w then chap_timeout ext w else w)"

definition chap_lowerdown :: "'z chap_world_scheme \<Rightarrow> 'z chap_world_scheme" where
  "chap_lowerdown w =
     (let w = upd_client (\<lambda>s. s\<lparr>cs_flags := 0\<rparr>) w;
          w = (if ss_has TIMEOUT_PENDING w then UNTIMEOUT Fn_chap_timeout Chap_server_arg w else w)
      in upd_server (\<lambda>s. s\<lparr>ss_flags := 0\<rparr>) w)"

definition chap_auth_peer ::
    "'z chap_world_scheme chap_ext \<Rightarrow> packet \<Rightarrow> int \<Rightarrow> 'z chap_world_scheme \<Rightarrow> 'z chap_world_scheme" where
  "chap_auth_peer ext our_name digest_code w =
     (if ss_has AUTH_STARTED w then w
      else
        (case find_digest ext digest_code of
           None \<Rightarrow> w\<lparr>exited := True\<rparr>
         | Some dp \<Rightarrow>
             (let w = upd_server (\<lambda>s. s\<lparr>ss_digest := dg_code dp, ss_name := our_name,
                        ss_id := uint (drop_bit 24 (shd (magic_src w)))\<rparr>) w;
                  w = w\<lparr>magic_src := stl (magic_src w)\<rparr>;
                  w = ss_on AUTH_STARTED w
              in if ss_has LOWERUP w then chap_timeout ext w else w)))"

definition chap_auth_with_peer ::
    "'z chap_world_scheme chap_ext \<Rightarrow> packet \<Rightarrow> int \<Rightarrow> 'z chap_world_scheme \<Rightarrow> 'z chap_world_scheme" where
  "chap_auth_with_peer ext our_name digest_code w =
     (if cs_flags (chap_client w) AND AUTH_STARTED \<noteq> 0 then w
      else
        (case find_digest ext digest_code of
           None \<Rightarrow> w\<lparr>exited := True\<rparr>
         | Some dp \<Rightarrow>
             cs_on AUTH_STARTED (upd_client (\<lambda>s. s\<lparr>cs_digest := dg_code dp, cs_name := our_name\<rparr>) w)))"

definition chap_verify_response ::
    "'z chap_world_scheme chap_ext \<Rightarrow> packet \<Rightarrow> packet \<Rightarrow> byte \<Rightarrow> int \<Rightarrow> packet \<Rightarrow> packet \<Rightarrow> packet \<Rightarrow>
     'z chap_world_scheme \<Rightarrow> bool \<times> packet \<times> 'z chap_world_scheme" where
  "chap_verify_response ext name ourname idn digest chal resp msg w =
     (let (s, w) = x_get_secret ext name ourname True w
      in case s of
           None \<Rightarrow> (False, msg, w)
         | Some secret \<Rightarrow>
             (case find_digest ext digest of
                None \<Rightarrow> (False, msg, w)
              | Some dp \<Rightarrow> dg_verify_response dp idn name secret chal resp msg w))"

text \<open>
  \<open>chap_handle_response\<close>.  First the part that checks an answer to a challenge that is out, with the name
  it authenticates; then the reply; then what follows the reply to a checked answer.
\<close>

definition check_response ::
    "'z chap_world_scheme chap_ext \<Rightarrow> byte \<Rightarrow> packet \<Rightarrow> packet \<Rightarrow> 'z chap_world_scheme \<Rightarrow> packet \<times> 'z chap_world_scheme" where
  "check_response ext idn resp nm w =
     (let w = (if ss_has TIMEOUT_PENDING w
               then UNTIMEOUT Fn_chap_timeout Chap_server_arg (ss_off TIMEOUT_PENDING w) else w);
          name = (if explicit_remote w then remote_name w
                  else vslprintf_v False (MAXNAMELEN + 1) (length nm) nm);
          ss = chap_server w;
          verifier = (case x_chap_verify_hook ext of Some h \<Rightarrow> h | None \<Rightarrow> chap_verify_response ext);
          (ok, msg, w) = verifier name (ss_name ss) idn (ss_digest ss) (drop 8 (challenge ss)) resp (message ss) w;
          w = upd_server (\<lambda>s. s\<lparr>message := msg\<rparr>) w
      in (name, if \<not> ok \<or> \<not> x_auth_number (ch_auth ext) w then ss_on AUTH_FAILED w else w))"

definition send_status :: "byte \<Rightarrow> 'z chap_world_scheme \<Rightarrow> 'z chap_world_scheme" where
  "send_status idn w =
     (let msg = message (chap_server w);
          len = CHAP_HDRLEN + int (length msg)
      in output_frame (MAKEHEADER PPP_CHAP @
           PUTCHAR (if ss_has AUTH_FAILED w then CHAP_FAILURE else CHAP_SUCCESS) @ [idn] @ PUTSHORT len @ msg) w)"

definition conclude_response ::
    "'z chap_world_scheme chap_ext \<Rightarrow> packet \<Rightarrow> 'z chap_world_scheme \<Rightarrow> 'z chap_world_scheme" where
  "conclude_response ext name w =
     (let w = ss_off CHALLENGE_VALID w;
          w = (if \<not> ss_has AUTH_DONE w \<and> \<not> ss_has AUTH_FAILED w \<and> x_session_denied ext name w
               then ss_on AUTH_FAILED w else w);
          w = (if ss_has AUTH_FAILED w then x_auth_peer_fail (ch_auth ext) PPP_CHAP w
               else
                 (let w = (if \<not> ss_has AUTH_DONE w
                           then x_auth_peer_success (ch_auth ext) PPP_CHAP (ss_digest (chap_server w)) name w
                           else w)
                  in if chap_rechallenge_time w \<noteq> 0
                     then TIMEOUT Fn_chap_timeout Chap_server_arg (chap_rechallenge_time w) (ss_on TIMEOUT_PENDING w)
                     else w))
      in ss_on AUTH_DONE w)"

definition chap_handle_response ::
    "'z chap_world_scheme chap_ext \<Rightarrow> byte \<Rightarrow> packet \<Rightarrow> 'z chap_world_scheme \<Rightarrow> 'z chap_world_scheme" where
  "chap_handle_response ext idn pkt w =
     (if \<not> ss_has LOWERUP w then w
      else if idn \<noteq> (if length (challenge (chap_server w)) > 5 then challenge (chap_server w) ! 5 else 0)
              \<or> length pkt < 2 then w
      else if ss_has CHALLENGE_VALID w then
        (let response_len = unat (hd pkt)
         in if length pkt < response_len + 1 then w
            else
              (let (name, w) = check_response ext idn pkt (drop (response_len + 1) pkt) w;
                   w = send_status idn w
               in if ss_has CHALLENGE_VALID w then conclude_response ext name w else w))
      else if \<not> ss_has AUTH_DONE w then w
      else send_status idn w)"

section \<open>The client\<close>

definition chap_respond ::
    "'z chap_world_scheme chap_ext \<Rightarrow> byte \<Rightarrow> packet \<Rightarrow> 'z chap_world_scheme \<Rightarrow> 'z chap_world_scheme" where
  "chap_respond ext idn pkt w =
     (let cs = chap_client w
      in if cs_flags cs AND (LOWERUP OR AUTH_STARTED) \<noteq> (LOWERUP OR AUTH_STARTED) then w
         else if length pkt < 2 \<or> length pkt < unat (hd pkt) + 1 then w
         else
           (let clen = unat (hd pkt);
                nm = drop (clen + 1) pkt;
                rname = vslprintf_v False (MAXNAMELEN + 1) (length nm) nm;
                rname = (if explicit_remote w \<or> remote_name w \<noteq> [] \<and> rname = []
                         then take MAXNAMELEN (remote_name w) else rname);
                (s, w) = x_get_secret ext (cs_name cs) rname False w;
                secret = (case s of None \<Rightarrow> [] | Some s \<Rightarrow> s)
            in case find_digest ext (cs_digest cs) of
                 None \<Rightarrow> w
               | Some dp \<Rightarrow>
                   (let (r, w) = dg_make_response dp idn (cs_name cs) pkt secret w;
                        clen = unat (hd r);
                        len = CHAP_HDRLEN + int clen + 1 + int (length (cs_name cs))
                    in output_frame (MAKEHEADER PPP_CHAP @ PUTCHAR CHAP_RESPONSE @ [idn] @ PUTSHORT len @
                         take (clen + 1) r @ cs_name cs) w)))"

definition chap_handle_status ::
    "'z chap_world_scheme chap_ext \<Rightarrow> int \<Rightarrow> byte \<Rightarrow> packet \<Rightarrow> 'z chap_world_scheme \<Rightarrow> 'z chap_world_scheme" where
  "chap_handle_status ext code idn pkt w =
     (if cs_flags (chap_client w) AND (AUTH_DONE OR AUTH_STARTED OR LOWERUP) \<noteq> (AUTH_STARTED OR LOWERUP) then w
      else
        (let w = cs_on AUTH_DONE w;
             digest = cs_digest (chap_client w);
             dp = find_digest ext digest;
             (code, w) =
               (if code = CHAP_SUCCESS then
                  (case Option.bind dp dg_check_success of
                     Some chk \<Rightarrow> (let (ok, w) = chk idn pkt w in (if ok then code else CHAP_FAILURE, w))
                   | None \<Rightarrow> (code, w))
                else
                  (case Option.bind dp dg_handle_failure of
                     Some h \<Rightarrow> (code, h pkt w)
                   | None \<Rightarrow> (code, w)))
         in if code = CHAP_SUCCESS then x_auth_withpeer_success (ch_auth ext) PPP_CHAP digest w
            else x_auth_withpeer_fail (ch_auth ext) PPP_CHAP (cs_on AUTH_FAILED w)))"

section \<open>Entry points\<close>

definition chap_input ::
    "'z chap_world_scheme chap_ext \<Rightarrow> packet \<Rightarrow> 'z chap_world_scheme \<Rightarrow> 'z chap_world_scheme" where
  "chap_input ext pkt w =
     (case pkt of
        code # idn # l1 # l2 # inp \<Rightarrow>
          (let len = GETSHORT l1 l2
           in if len < CHAP_HDRLEN \<or> len > int (length pkt) then w
              else
                (let inp = take (nat (len - CHAP_HDRLEN)) inp
                 in if uint code = CHAP_CHALLENGE then chap_respond ext idn inp w
                    else if uint code = CHAP_RESPONSE then chap_handle_response ext idn inp w
                    else if uint code = CHAP_FAILURE \<or> uint code = CHAP_SUCCESS
                    then chap_handle_status ext (uint code) idn inp w
                    else w))
      | _ \<Rightarrow> w)"

definition chap_protrej :: "'z chap_world_scheme chap_ext \<Rightarrow> 'z chap_world_scheme \<Rightarrow> 'z chap_world_scheme" where
  "chap_protrej ext w =
     (let w = (if ss_has TIMEOUT_PENDING w
               then UNTIMEOUT Fn_chap_timeout Chap_server_arg (ss_off TIMEOUT_PENDING w) else w);
          w = (if ss_has AUTH_STARTED w
               then x_auth_peer_fail (ch_auth ext) PPP_CHAP (upd_server (\<lambda>s. s\<lparr>ss_flags := 0\<rparr>) w) else w)
      in if cs_flags (chap_client w) AND (AUTH_STARTED OR AUTH_DONE) = AUTH_STARTED
         then x_auth_withpeer_fail (ch_auth ext) PPP_CHAP (cs_off AUTH_STARTED w) else w)"

end
