(* ===== verification/Process.thy ===== *)
theory Process
  imports Chap
begin

text \<open>
  Child processes and their environment, \<^verbatim>\<open>pppd/main.c\<close>: \<open>run_program\<close>, the list of children (\<open>record_child\<close>,
  \<open>forget_child\<close>, \<open>reap_kids\<close>), and the environment of the scripts (\<open>script_setenv\<close>, \<open>script_unsetenv\<close>,
  \<open>update_script_environment\<close>).

  What the operating system answers is read from a stream: \<open>execs\<close> holds the outcome of the successive calls of
  \<open>run_program\<close>.  \<open>programs\<close> records the programs that were started with their arguments.  The function to call when a
  child has exited is named by \<open>done_fn\<close>.  \<open>script_env\<close> is the array of strings, each with the flag in front of it; a null
  array and an empty one are the same.  \<open>real_user\<close> is the name of the user who runs the daemon.  \<open>malloc\<close> succeeds, and the database of connections (\<open>USE_TDB\<close>) is not modelled.
\<close>

section \<open>State\<close>

datatype done_fn = Fn_ipcp_script_done | Fn_ipv6cp_script_done | Fn_auth_script_done

record subprocess =
  ch_pid :: int
  ch_prog :: string
  ch_done :: "done_fn option"
  ch_killable :: bool

text \<open>A program is missing or not executable, the fork fails, or a child is created.\<close>

datatype exec_result = Not_executable | Fork_failed | Forked int

record proc_world = chap_world +
  children :: "subprocess list"
  n_children :: int
  execs :: "exec_result stream"
  programs :: "string list list"
  script_env :: "(bool \<times> string) list"
  baud_rate :: int
  ifname :: string
  devnam :: string
  real_user :: string

section \<open>The environment\<close>

text \<open>\<open>strncmp(p, var, varl) == 0 && p[varl] == '='\<close>.\<close>

definition env_entry :: "string \<Rightarrow> string \<Rightarrow> bool" where
  "env_entry var p \<longleftrightarrow> take (length var + 1) p = var @ ''=''"

fun setenv_loop :: "string \<Rightarrow> bool \<times> string \<Rightarrow> (bool \<times> string) list \<Rightarrow> (bool \<times> string) list" where
  "setenv_loop var new [] = [new]"
| "setenv_loop var new (p # env) = (if env_entry var (snd p) then new # env else p # setenv_loop var new env)"

fun unsetenv_loop :: "string \<Rightarrow> (bool \<times> string) list \<Rightarrow> (bool \<times> string) list" where
  "unsetenv_loop var [] = []"
| "unsetenv_loop var (p # env) = (if env_entry var (snd p) then env else p # unsetenv_loop var env)"

definition script_setenv :: "string \<Rightarrow> string \<Rightarrow> bool \<Rightarrow> 'z proc_world_scheme \<Rightarrow> 'z proc_world_scheme" where
  "script_setenv var val iskey w = w\<lparr>script_env := setenv_loop var (iskey, var @ ''='' @ val) (script_env w)\<rparr>"

definition script_unsetenv :: "string \<Rightarrow> 'z proc_world_scheme \<Rightarrow> 'z proc_world_scheme" where
  "script_unsetenv var w = w\<lparr>script_env := unsetenv_loop var (script_env w)\<rparr>"

text \<open>
  \<open>update_script_environment\<close>, in the child before \<open>execve\<close>: the options \<open>set\<close> and \<open>unset\<close> of the user, in order.
  \<open>remove_script_env\<close> of the index behind the last string takes the terminating null pointer for a string and
  frees an address in front of it: undefined behaviour, \<open>None\<close>.
\<close>

datatype userenv = Set_env string string | Unset_env string

definition remove_script_env :: "string \<Rightarrow> (bool \<times> string) list \<Rightarrow> (bool \<times> string) list option" where
  "remove_script_env var env = (if \<exists>p \<in> set env. env_entry var (snd p) then Some (unsetenv_loop var env) else None)"

fun update_script_environment :: "userenv list \<Rightarrow> (bool \<times> string) list \<Rightarrow> (bool \<times> string) list option" where
  "update_script_environment [] env = Some env"
| "update_script_environment (Set_env var val # ue) env =
     update_script_environment ue (setenv_loop var (False, var @ ''='' @ val) env)"
| "update_script_environment (Unset_env var # ue) env =
     (case remove_script_env var env of None \<Rightarrow> None | Some env \<Rightarrow> update_script_environment ue env)"

section \<open>Children\<close>

definition record_child :: "int \<Rightarrow> string \<Rightarrow> done_fn option \<Rightarrow> bool \<Rightarrow> 'z proc_world_scheme \<Rightarrow> 'z proc_world_scheme" where
  "record_child pid prog dn killable w =
     w\<lparr>n_children := n_children w + 1,
       children := \<lparr>ch_pid = pid, ch_prog = prog, ch_done = dn, ch_killable = killable\<rparr> # children w\<rparr>"

text \<open>\<open>unlink\<close> takes the first child with a process id out of the list.\<close>

fun unlink :: "int \<Rightarrow> subprocess list \<Rightarrow> subprocess option \<times> subprocess list" where
  "unlink pid [] = (None, [])"
| "unlink pid (c # cs) = (if ch_pid c = pid then (Some c, cs) else (let (r, cs') = unlink pid cs in (r, c # cs')))"

definition forget_child :: "(done_fn \<Rightarrow> 'z proc_world_scheme \<Rightarrow> 'z proc_world_scheme) \<Rightarrow> int \<Rightarrow>
    'z proc_world_scheme \<Rightarrow> 'z proc_world_scheme" where
  "forget_child call pid w =
     (case unlink pid (children w) of
        (None, _) \<Rightarrow> w
      | (Some chp, cs) \<Rightarrow>
          (let w = w\<lparr>n_children := n_children w - 1, children := cs\<rparr>
           in case ch_done chp of None \<Rightarrow> w | Some fn \<Rightarrow> call fn w))"

text \<open>\<open>reap_kids\<close>, with the process ids \<open>waitpid\<close> returns.\<close>

definition reap_kids :: "(done_fn \<Rightarrow> 'z proc_world_scheme \<Rightarrow> 'z proc_world_scheme) \<Rightarrow> int list \<Rightarrow>
    'z proc_world_scheme \<Rightarrow> 'z proc_world_scheme" where
  "reap_kids call pids w = (if n_children w = 0 then w else fold (forget_child call) pids w)"

text \<open>
  \<open>run_program\<close>, the parent's side.  A child that is waited for has no function to call, so it is recorded and
  forgotten again.
\<close>

definition run_program :: "string list \<Rightarrow> done_fn option \<Rightarrow> bool \<Rightarrow> 'z proc_world_scheme \<Rightarrow> int \<times> 'z proc_world_scheme" where
  "run_program argv dn wait w =
     (let r = shd (execs w); w = w\<lparr>execs := stl (execs w)\<rparr>
      in case r of
           Not_executable \<Rightarrow> (0, w)
         | Fork_failed \<Rightarrow> (-1, w)
         | Forked pid \<Rightarrow>
             (let w = record_child pid (hd argv) dn False (w\<lparr>programs := programs w @ [argv]\<rparr>);
                  w = (if wait then forget_child (\<lambda>_ w. w) pid w else w)
              in (pid, w)))"

section \<open>Properties\<close>

subsection \<open>The environment\<close>

text \<open>What a script reads: the first string for the variable.\<close>

definition getenv :: "string \<Rightarrow> (bool \<times> string) list \<Rightarrow> string option" where
  "getenv var env = map_option (drop (length var + 1) \<circ> snd) (find (env_entry var \<circ> snd) env)"

lemma env_entry_self [simp]: "env_entry var (var @ CHR ''='' # val)"
  by (simp add: env_entry_def)

lemma env_entry_iff: "env_entry var p \<longleftrightarrow> (\<exists>val. p = var @ CHR ''='' # val)"
  unfolding env_entry_def using append_take_drop_id [of "length var + 1" p]
  by (metis append.assoc append_Cons append_Nil append_eq_conv_conj length_append_singleton Suc_eq_plus1)

lemma same_variable:
  assumes "env_entry u p" "env_entry v p" "CHR ''='' \<notin> set u" "CHR ''='' \<notin> set v"
  shows "u = v"
proof -
  from assms(1) obtain a where a: "p = u @ CHR ''='' # a" by (auto simp: env_entry_iff)
  from assms(2) obtain b where b: "p = v @ CHR ''='' # b" by (auto simp: env_entry_iff)
  have "takeWhile (\<lambda>c. c \<noteq> CHR ''='') p = u" using a assms(3) by (auto simp: takeWhile_tail)
  moreover have "takeWhile (\<lambda>c. c \<noteq> CHR ''='') p = v" using b assms(4) by (auto simp: takeWhile_tail)
  ultimately show ?thesis by simp
qed

lemma env_entry_var:
  assumes "CHR ''='' \<notin> set u" "CHR ''='' \<notin> set var"
  shows "env_entry u (var @ CHR ''='' # val) \<longleftrightarrow> u = var"
  using same_variable [of u "var @ CHR ''='' # val" var] assms by auto

text \<open>Names without an equals sign, and at most one string for each of them.\<close>

definition one_each :: "(bool \<times> string) list \<Rightarrow> bool" where
  "one_each env \<longleftrightarrow> (\<forall>var. CHR ''='' \<notin> set var \<longrightarrow> length (filter (env_entry var \<circ> snd) env) \<le> 1)"

lemma getenv_set:
  assumes "CHR ''='' \<notin> set u" "CHR ''='' \<notin> set var"
  shows "getenv u (setenv_loop var (k, var @ CHR ''='' # val) env) = (if u = var then Some val else getenv u env)"
  using assms same_variable [of u _ var]
  by (induction env) (auto simp: getenv_def env_entry_var)

lemma filter_set:
  assumes "CHR ''='' \<notin> set u" "CHR ''='' \<notin> set var"
  shows "length (filter (env_entry u \<circ> snd) (setenv_loop var (k, var @ CHR ''='' # val) env)) =
    (if u = var then max 1 (length (filter (env_entry u \<circ> snd) env)) else length (filter (env_entry u \<circ> snd) env))"
  using assms same_variable [of u _ var]
  by (induction env) (auto simp: env_entry_var)

lemma filter_unset:
  assumes "CHR ''='' \<notin> set u" "CHR ''='' \<notin> set var"
  shows "length (filter (env_entry u \<circ> snd) (unsetenv_loop var env)) =
    (if u = var then length (filter (env_entry u \<circ> snd) env) - 1 else length (filter (env_entry u \<circ> snd) env))"
  using assms same_variable [of u _ var]
  by (induction env) auto

lemma getenv_None: "getenv var env = None \<longleftrightarrow> filter (env_entry var \<circ> snd) env = []"
  by (auto simp: getenv_def find_None_iff filter_empty_conv)

lemma getenv_unset_other:
  assumes "CHR ''='' \<notin> set u" "CHR ''='' \<notin> set var" "u \<noteq> var"
  shows "getenv u (unsetenv_loop var env) = getenv u env"
  using assms same_variable [of u _ var] by (induction env) (auto simp: getenv_def)

lemma getenv_unset_same:
  assumes "CHR ''='' \<notin> set var" "one_each env"
  shows "getenv var (unsetenv_loop var env) = None"
  using assms filter_unset [of var var env] by (auto simp: getenv_None one_each_def)

lemma one_each_keeps:
  assumes "one_each env" "CHR ''='' \<notin> set var"
  shows "one_each (setenv_loop var (k, var @ CHR ''='' # val) env)" "one_each (unsetenv_loop var env)"
  using assms by (auto simp: one_each_def filter_set filter_unset diff_le_mono le_diff_conv)

text \<open>
  Property C25.  The environment of the scripts behaves as a map: after \<open>script_setenv\<close> a script reads the new value for the
  variable and the old one for every other, after \<open>script_unsetenv\<close> it does not find the variable, and in both cases there
  is still at most one string for each name, so that the first one is the only one.
\<close>

theorem script_environment_map:
  assumes "CHR ''='' \<notin> set u" "CHR ''='' \<notin> set var" "one_each (script_env w)"
  shows "getenv u (script_env (script_setenv var val k w)) = (if u = var then Some val else getenv u (script_env w)) \<and>
    getenv u (script_env (script_unsetenv var w)) = (if u = var then None else getenv u (script_env w)) \<and>
    one_each (script_env (script_setenv var val k w)) \<and> one_each (script_env (script_unsetenv var w))"
  using assms
  by (auto simp: script_setenv_def script_unsetenv_def getenv_set getenv_unset_other getenv_unset_same one_each_keeps)

text \<open>
  The option \<open>unset\<close> with a variable that is not set runs into undefined behaviour in the child, before it has
  executed its program: the index of the terminating null pointer is passed to \<open>remove_script_env\<close>, which frees the address
  in front of it.
\<close>

lemma unset_absent_undefined:
  assumes "getenv var env = None"
  shows "update_script_environment (Unset_env var # ue) env = None"
  using assms by (auto simp: remove_script_env_def getenv_None filter_empty_conv)

theorem script_environment_map_witness:
  "\<forall>w :: proc_world. getenv ''DNS1'' (script_env (script_setenv ''DNS1'' ''10.0.0.1'' False (w\<lparr>script_env := []\<rparr>))) = Some ''10.0.0.1''"
  using script_environment_map [of "''DNS1''" "''DNS1''" "w\<lparr>script_env := []\<rparr>" "''10.0.0.1''" False for w :: proc_world]
  by (simp add: one_each_def)

end
