(* ===== verification/Auth.thy ===== *)
theory Auth
  imports Process
begin

text \<open>
  The link's life above LCP, \<^verbatim>\<open>pppd/auth.c\<close>: what happens when LCP comes up and goes down, the bookkeeping
  of the authentications in progress, the start of the network protocols and the end of the link.

  The record \<open>sys_ext\<close> holds what is outside: the protocols other than LCP, PAP and CHAP (their entries of
  \<open>protocols[]\<close> and EAP's entry points), the secrets files, the digest functions, multilink and statistics.
  Calls that only act on the operating system are recorded in \<open>acts\<close>.

  \<open>auth.c\<close> and \<open>lcp.c\<close> call each other.  The cycle is opened along the calls that are really made:
  \<open>link_down\<close>, \<open>auth_reset\<close> and \<open>link_required\<close> call nothing of LCP (\<open>lcp_ext0\<close>); \<open>link_terminated\<close> calls
  \<open>lcp_lowerdown\<close>, which needs only those; with it (\<open>lcp_ext1\<close>) \<open>lcp_close\<close> is complete, and everything
  that closes LCP uses it; \<open>link_established\<close> and the table of protocols come last (\<open>lcp_ext_of\<close>).
  The hooks for plugins are null and \<open>CBCP_SUPPORT\<close> is off, as in the Linux build.
\<close>

section \<open>State\<close>

datatype sys_act =
    Session_end | Remove_pidfiles | Disestablish int | Mp_exit_bundle | Unsetenv_ifname
  | Channel_disconnect | Channel_cleanup | Detach | Mp_bundle_terminated
  | Multilink_joined

record auth_world = proc_world +
  auth_up :: bool
  auth_script_up :: bool
  auth_script_pid :: int
  auth_pending :: u32
  auth_done :: u32
  peer_authname :: packet
  auth_required :: bool
  has_noauth_addrs :: bool
  uselogin :: bool
  refuse_pap :: bool
  refuse_chap :: bool
  refuse_mschap :: bool
  refuse_mschap_v2 :: bool
  refuse_eap :: bool
  our_name :: packet
  user :: packet
  passwd :: packet
  explicit_passwd :: bool
  passwd_from_file :: bool
  num_np_open :: int
  num_np_up :: int
  idle_time_limit :: int
  maxconnect :: int
  maxoctets :: int
  maxoctets_timeout :: int
  unsuccess :: int
  need_holdoff :: bool
  holdoff :: int
  updetach :: bool
  nodetach :: bool
  demand :: bool
  hungup :: bool
  doing_multilink :: bool
  multilink_master :: bool
  bundle_eof :: bool
  bundle_terminating :: bool
  master_detach :: bool
  detached :: bool
  fd_ppp :: int
  devfd :: int
  has_disconnect :: bool
  has_cleanup :: bool
  acts :: "sys_act list"

record 'w sys_ext =
  other_protocols :: "'w protent list"
  eap_authpeer :: "packet \<Rightarrow> 'w \<Rightarrow> 'w"
  eap_authwithpeer :: "packet \<Rightarrow> 'w \<Rightarrow> 'w"
  null_login :: "'w \<Rightarrow> bool \<times> 'w"
  set_allowed_addrs :: "'w \<Rightarrow> 'w"
  get_pap_passwd :: "'w \<Rightarrow> packet option"
  have_pap_secret :: "'w \<Rightarrow> bool"
  have_chap_secret :: "packet option \<Rightarrow> packet option \<Rightarrow> bool \<Rightarrow> 'w \<Rightarrow> bool"
  have_srp_secret :: "packet option \<Rightarrow> packet option \<Rightarrow> bool \<Rightarrow> 'w \<Rightarrow> bool"
  check_passwd :: "packet \<Rightarrow> packet \<Rightarrow> 'w \<Rightarrow> int \<times> packet \<times> 'w"
  auth_number :: "'w \<Rightarrow> bool"
  get_secret :: "packet \<Rightarrow> packet \<Rightarrow> bool \<Rightarrow> 'w \<Rightarrow> packet option \<times> 'w"
  digests :: "'w chap_digest list"
  session_denied :: "packet \<Rightarrow> 'w \<Rightarrow> bool"
  apply_extra_options :: "'w \<Rightarrow> 'w"
  mp_join_bundle :: "'w \<Rightarrow> bool \<times> 'w"
  ecp_required :: "'w \<Rightarrow> bool"
  mppe_required :: "'w \<Rightarrow> bool"
  idle_time :: "'w \<Rightarrow> int option"
  octets_used :: "'w \<Rightarrow> int"

abbreviation PAP_WITHPEER :: u32 where "PAP_WITHPEER \<equiv> 0x1"
abbreviation PAP_PEER :: u32 where "PAP_PEER \<equiv> 0x2"
abbreviation CHAP_WITHPEER :: u32 where "CHAP_WITHPEER \<equiv> 0x4"
abbreviation CHAP_PEER :: u32 where "CHAP_PEER \<equiv> 0x8"
abbreviation EAP_WITHPEER :: u32 where "EAP_WITHPEER \<equiv> 0x10"
abbreviation EAP_PEER :: u32 where "EAP_PEER \<equiv> 0x20"
abbreviation CHAP_MD5_WITHPEER :: u32 where "CHAP_MD5_WITHPEER \<equiv> 0x40"
abbreviation CHAP_MD5_PEER :: u32 where "CHAP_MD5_PEER \<equiv> 0x80"
abbreviation CHAP_MS_WITHPEER :: u32 where "CHAP_MS_WITHPEER \<equiv> 0x100"
abbreviation CHAP_MS_PEER :: u32 where "CHAP_MS_PEER \<equiv> 0x200"
abbreviation CHAP_MS2_WITHPEER :: u32 where "CHAP_MS2_WITHPEER \<equiv> 0x400"
abbreviation CHAP_MS2_PEER :: u32 where "CHAP_MS2_PEER \<equiv> 0x800"

abbreviation PPP_CCP :: int where "PPP_CCP \<equiv> 0x80FD"
abbreviation PPP_ECP :: int where "PPP_ECP \<equiv> 0x8053"
abbreviation EXIT_CONNECT_FAILED :: int where "EXIT_CONNECT_FAILED \<equiv> 8"
abbreviation EXIT_FATAL_ERROR :: int where "EXIT_FATAL_ERROR \<equiv> 1"
abbreviation EXIT_NEGOTIATION_FAILED :: int where "EXIT_NEGOTIATION_FAILED \<equiv> 10"
abbreviation PHASE_SERIALCONN :: int where "PHASE_SERIALCONN \<equiv> 2"
abbreviation PHASE_DORMANT :: int where "PHASE_DORMANT \<equiv> 3"
abbreviation PHASE_HOLDOFF :: int where "PHASE_HOLDOFF \<equiv> 11"
abbreviation EXIT_IDLE_TIMEOUT :: int where "EXIT_IDLE_TIMEOUT \<equiv> 12"
abbreviation EXIT_CONNECT_TIME :: int where "EXIT_CONNECT_TIME \<equiv> 13"
abbreviation EXIT_TRAFFIC_LIMIT :: int where "EXIT_TRAFFIC_LIMIT \<equiv> 20"

definition act :: "sys_act \<Rightarrow> 'z auth_world_scheme \<Rightarrow> 'z auth_world_scheme" where
  "act a w = w\<lparr>acts := acts w @ [a]\<rparr>"

section \<open>Scripts\<close>

text \<open>
  \<open>auth-up\<close> and \<open>auth-down\<close>.  \<open>auth_up\<close> is \<open>auth_state == s_up\<close> and \<open>auth_script_up\<close> is \<open>auth_script_state == s_up\<close>, the script that was
  started last.
\<close>

abbreviation PATH_AUTHUP :: string where "PATH_AUTHUP \<equiv> ''/etc/ppp/auth-up''"
abbreviation PATH_AUTHDOWN :: string where "PATH_AUTHDOWN \<equiv> ''/etc/ppp/auth-down''"

definition auth_script :: "string \<Rightarrow> 'z auth_world_scheme \<Rightarrow> 'z auth_world_scheme" where
  "auth_script script w =
     (let argv = [script, ifname w, text_of (peer_authname w), real_user w, devnam w, print_int (baud_rate w)];
          (pid, w) = run_program argv (Some Fn_auth_script_done) False w
      in w\<lparr>auth_script_pid := pid\<rparr>)"

definition auth_script_done :: "'z auth_world_scheme \<Rightarrow> 'z auth_world_scheme" where
  "auth_script_done w =
     (let w = w\<lparr>auth_script_pid := 0\<rparr>
      in if auth_script_up w
         then (if \<not> auth_up w then auth_script PATH_AUTHDOWN (w\<lparr>auth_script_up := False\<rparr>) else w)
         else (if auth_up w then auth_script PATH_AUTHUP (w\<lparr>auth_script_up := True\<rparr>) else w))"

lemma auth_script_fields [simp]:
  "doing_multilink (auth_script s w) = doing_multilink w" "chap_server (auth_script s w) = chap_server w"
  "fsms (auth_script s w) = fsms w" "auth_script_up (auth_script s w) = auth_script_up w" "auth_up (auth_script s w) = auth_up w"
  by (simp_all add: auth_script_def run_program_def record_child_def Let_def split: exec_result.split)

section \<open>Without LCP\<close>

definition link_required :: "'z auth_world_scheme \<Rightarrow> 'z auth_world_scheme" where
  "link_required w = w"

text \<open>
  One round of the loop of \<open>upper_layers_down\<close>, and the loop: PAP and CHAP are enabled and have no
  \<open>close\<close>, LCP is skipped.
\<close>

definition proto_down :: "'w protent \<Rightarrow> 'w \<Rightarrow> 'w" where
  "proto_down p w =
     (if \<not> pe_enabled p then w
      else
        (let w = (case pe_lowerdown p of
                    Some g \<Rightarrow> if pe_protocol p \<noteq> PPP_LCP then g w else w
                  | None \<Rightarrow> w)
         in case pe_close p of
              Some g \<Rightarrow> if pe_protocol p < 0xC000 then g (cstr ''LCP down'') w else w
            | None \<Rightarrow> w))"

definition upper_layers_down :: "'z auth_world_scheme sys_ext \<Rightarrow> 'z auth_world_scheme \<Rightarrow> 'z auth_world_scheme" where
  "upper_layers_down sys w =
     (let w = chap_lowerdown (upap_lowerdown w);
          w = fold proto_down (other_protocols sys) w
      in w\<lparr>num_np_open := 0, num_np_up := 0\<rparr>)"

definition link_down :: "'z auth_world_scheme sys_ext \<Rightarrow> 'z auth_world_scheme \<Rightarrow> 'z auth_world_scheme" where
  "link_down sys w =
     (let w = (if auth_up w
               then (let w = w\<lparr>auth_up := False\<rparr>
                     in if auth_script_up w \<and> auth_script_pid w = 0
                        then auth_script PATH_AUTHDOWN (w\<lparr>auth_script_up := False\<rparr>) else w)
               else w)
      in if \<not> doing_multilink w
         then (let w = upper_layers_down sys w
               in if phase w \<noteq> PHASE_DEAD \<and> phase w \<noteq> PHASE_MASTER then new_phase PHASE_ESTABLISH w else w)
         else w)"

definition remote_if_explicit :: "'z auth_world_scheme \<Rightarrow> packet option" where
  "remote_if_explicit w = (if explicit_remote w then Some (remote_name w) else None)"

definition auth_reset :: "'z auth_world_scheme sys_ext \<Rightarrow> 'z auth_world_scheme \<Rightarrow> 'z auth_world_scheme" where
  "auth_reset sys w =
     (let ao = lcp_allowoptions w; go = lcp_gotoptions w;
          chap = have_chap_secret sys (Some (user w)) (remote_if_explicit w) False w;
          srp = have_srp_secret sys (Some (user w)) (remote_if_explicit w) False w;
          chap_p = have_chap_secret sys (remote_if_explicit w) (Some (our_name w)) True w;
          srp_p = have_srp_secret sys (remote_if_explicit w) (Some (our_name w)) True w;
          ao = ao\<lparr>neg_upap := \<not> refuse_pap w \<and> (passwd w \<noteq> [] \<or> get_pap_passwd sys w \<noteq> None),
                  neg_chap := (\<not> refuse_chap w \<or> \<not> refuse_mschap w \<or> \<not> refuse_mschap_v2 w) \<and>
                              (passwd w \<noteq> [] \<or> chap),
                  neg_eap := \<not> refuse_eap w \<and> (passwd w \<noteq> [] \<or> chap \<or> srp)\<rparr>;
          go = (if neg_upap go \<and> \<not> uselogin w \<and> \<not> have_pap_secret sys w then go\<lparr>neg_upap := False\<rparr> else go);
          go = (if neg_chap go \<and> \<not> chap_p then go\<lparr>neg_chap := False\<rparr> else go);
          go = (if neg_eap go \<and> \<not> chap_p \<and> \<not> srp_p then go\<lparr>neg_eap := False\<rparr> else go)
      in w\<lparr>lcp_allowoptions := ao, lcp_gotoptions := go\<rparr>)"

definition lcp_ext0 :: "'z auth_world_scheme sys_ext \<Rightarrow> 'z auth_world_scheme lcp_ext" where
  "lcp_ext0 sys = \<lparr>x_link_required = link_required, x_link_terminated = id, x_link_down = link_down sys,
     x_link_established = id, x_auth_reset = auth_reset sys, x_protocols = []\<rparr>"

section \<open>The end of the link\<close>

text \<open>\<open>link_terminated\<close>: the part before and the part behind \<open>lcp_lowerdown\<close>, and the whole.\<close>

definition release_link :: "'z auth_world_scheme \<Rightarrow> 'z auth_world_scheme" where
  "release_link w =
     (let w = act Session_end (new_phase PHASE_DISCONNECT w);
          w = (if \<not> doing_multilink w \<and> \<not> demand w then act Remove_pidfiles w else w)
      in if fd_ppp w \<ge> 0
         then (let w = act (Disestablish (devfd w)) w;
                   w = (if doing_multilink w then act Mp_exit_bundle w else w)
               in w\<lparr>fd_ppp := -1\<rparr>)
         else w)"

definition finish_link :: "'z auth_world_scheme \<Rightarrow> 'z auth_world_scheme" where
  "finish_link w =
     (let w = (if \<not> doing_multilink w \<and> \<not> demand w then act Unsetenv_ifname w else w);
          w = (if devfd w \<ge> 0 \<and> has_disconnect w then (act Channel_disconnect w)\<lparr>devfd := -1\<rparr> else w);
          w = (if has_cleanup w then act Channel_cleanup w else w)
      in if doing_multilink w \<and> multilink_master w
         then (if \<not> bundle_terminating w
               then (let w = new_phase PHASE_MASTER w
                     in if master_detach w \<and> \<not> detached w then act Detach w else w)
               else act Mp_bundle_terminated w)
         else new_phase PHASE_DEAD w)"

definition link_terminated :: "'z auth_world_scheme sys_ext \<Rightarrow> 'z auth_world_scheme \<Rightarrow> 'z auth_world_scheme" where
  "link_terminated sys w =
     (if phase w = PHASE_DEAD \<or> phase w = PHASE_MASTER then w
      else
        (let w = release_link w;
             w = (if \<not> hungup w then lcp_lowerdown (lcp_ext0 sys) w else w)
         in finish_link w))"

definition lcp_ext1 :: "'z auth_world_scheme sys_ext \<Rightarrow> 'z auth_world_scheme lcp_ext" where
  "lcp_ext1 sys = (lcp_ext0 sys)\<lparr>x_link_terminated := link_terminated sys\<rparr>"

text \<open>\<open>lcp_close(0, reason)\<close> as the rest of the program calls it.\<close>

definition close_link :: "'z auth_world_scheme sys_ext \<Rightarrow> string \<Rightarrow> 'z auth_world_scheme \<Rightarrow> 'z auth_world_scheme" where
  "close_link sys reason = lcp_close (lcp_ext1 sys) (cstr reason)"

section \<open>The network phase\<close>

definition continue_networks :: "'z auth_world_scheme sys_ext \<Rightarrow> 'z auth_world_scheme \<Rightarrow> 'z auth_world_scheme" where
  "continue_networks sys w =
     (let w = fold (\<lambda>p w.
            case pe_open p of
              Some g \<Rightarrow> if pe_protocol p < 0xC000 \<and> pe_protocol p \<noteq> PPP_CCP \<and> pe_protocol p \<noteq> PPP_ECP \<and> pe_enabled p
                     then (let w = g w in w\<lparr>num_np_open := num_np_open w + 1\<rparr>) else w
            | None \<Rightarrow> w) (other_protocols sys) w
      in if num_np_open w = 0 then close_link sys ''No network protocols running'' w else w)"

definition start_networks :: "'z auth_world_scheme sys_ext \<Rightarrow> 'z auth_world_scheme \<Rightarrow> 'z auth_world_scheme" where
  "start_networks sys w =
     (let w = new_phase PHASE_NETWORK w;
          (joined, w) = (if multilink w then mp_join_bundle sys w else (False, w))
      in if joined
         then (let w = act Multilink_joined w
               in if updetach w \<and> \<not> nodetach w then act Detach w else w)
         else
           (let w = fold (\<lambda>p w.
                  case pe_open p of
                    Some g \<Rightarrow> if (pe_protocol p = PPP_ECP \<or> pe_protocol p = PPP_CCP) \<and> pe_enabled p then g w else w
                  | None \<Rightarrow> w) (other_protocols sys) w
            in if \<not> ecp_required sys w \<and> \<not> mppe_required sys w then continue_networks sys w else w))"

definition network_phase :: "'z auth_world_scheme sys_ext \<Rightarrow> 'z auth_world_scheme \<Rightarrow> 'z auth_world_scheme" where
  "network_phase sys w =
     (let go = lcp_gotoptions w;
          w = (if neg_chap go \<or> neg_upap go \<or> neg_eap go
               then (let w = w\<lparr>auth_up := True\<rparr>
                     in if \<not> auth_script_up w \<and> auth_script_pid w = 0
                        then auth_script PATH_AUTHUP (w\<lparr>auth_script_up := True\<rparr>) else w)
               else w)
      in start_networks sys (apply_extra_options sys w))"

section \<open>The result of an authentication\<close>

definition auth_peer_fail :: "'z auth_world_scheme sys_ext \<Rightarrow> int \<Rightarrow> 'z auth_world_scheme \<Rightarrow> 'z auth_world_scheme" where
  "auth_peer_fail sys proto w = close_link sys ''Authentication failed'' (w\<lparr>status := EXIT_PEER_AUTH_FAILED\<rparr>)"

definition peer_bit :: "int \<Rightarrow> int \<Rightarrow> u32 option" where
  "peer_bit proto prot_flavor =
     (if proto = PPP_CHAP then
        Some (CHAP_PEER OR
          (if prot_flavor = uint CHAP_MD5 then CHAP_MD5_PEER
           else if prot_flavor = uint CHAP_MICROSOFT then CHAP_MS_PEER
           else if prot_flavor = uint CHAP_MICROSOFT_V2 then CHAP_MS2_PEER else 0))
      else if proto = PPP_PAP then Some PAP_PEER
      else if proto = PPP_EAP then Some EAP_PEER
      else None)"

definition auth_peer_success ::
    "'z auth_world_scheme sys_ext \<Rightarrow> int \<Rightarrow> int \<Rightarrow> packet \<Rightarrow> 'z auth_world_scheme \<Rightarrow> 'z auth_world_scheme" where
  "auth_peer_success sys proto prot_flavor name w =
     (case peer_bit proto prot_flavor of
        None \<Rightarrow> w
      | Some b \<Rightarrow>
          (let w = w\<lparr>peer_authname := take (MAXNAMELEN - 1) name, auth_done := auth_done w OR b,
                     auth_pending := auth_pending w AND NOT b\<rparr>
           in if auth_pending w = 0 then network_phase sys w else w))"

definition auth_withpeer_fail :: "'z auth_world_scheme sys_ext \<Rightarrow> int \<Rightarrow> 'z auth_world_scheme \<Rightarrow> 'z auth_world_scheme" where
  "auth_withpeer_fail sys proto w =
     (let w = (if passwd_from_file w then w\<lparr>passwd := []\<rparr> else w)
      in close_link sys ''Failed to authenticate ourselves to peer'' (w\<lparr>status := EXIT_AUTH_TOPEER_FAILED\<rparr>))"

definition withpeer_bit :: "int \<Rightarrow> int \<Rightarrow> u32" where
  "withpeer_bit proto prot_flavor =
     (if proto = PPP_CHAP then
        CHAP_WITHPEER OR
          (if prot_flavor = uint CHAP_MD5 then CHAP_MD5_WITHPEER
           else if prot_flavor = uint CHAP_MICROSOFT then CHAP_MS_WITHPEER
           else if prot_flavor = uint CHAP_MICROSOFT_V2 then CHAP_MS2_WITHPEER else 0)
      else if proto = PPP_PAP then PAP_WITHPEER
      else if proto = PPP_EAP then EAP_WITHPEER
      else 0)"

definition auth_withpeer_success ::
    "'z auth_world_scheme sys_ext \<Rightarrow> int \<Rightarrow> int \<Rightarrow> 'z auth_world_scheme \<Rightarrow> 'z auth_world_scheme" where
  "auth_withpeer_success sys proto prot_flavor w =
     (let w = (if proto = PPP_PAP \<and> passwd_from_file w then w\<lparr>passwd := []\<rparr> else w);
          b = withpeer_bit proto prot_flavor;
          w = w\<lparr>auth_done := auth_done w OR b, auth_pending := auth_pending w AND NOT b\<rparr>
      in if auth_pending w = 0 then network_phase sys w else w)"

definition auth_ext_of :: "'z auth_world_scheme sys_ext \<Rightarrow> 'z auth_world_scheme auth_ext" where
  "auth_ext_of sys = \<lparr>x_auth_peer_success = auth_peer_success sys, x_auth_peer_fail = auth_peer_fail sys,
     x_auth_withpeer_success = auth_withpeer_success sys, x_auth_withpeer_fail = auth_withpeer_fail sys,
     x_check_passwd = check_passwd sys, x_auth_number = auth_number sys\<rparr>"

definition chap_ext_of :: "'z auth_world_scheme sys_ext \<Rightarrow> 'z auth_world_scheme chap_ext" where
  "chap_ext_of sys = \<lparr>ch_auth = auth_ext_of sys, x_chap_digests = digests sys, x_get_secret = get_secret sys,
     x_chap_verify_hook = None, x_session_denied = session_denied sys\<rparr>"


section \<open>LCP is up\<close>

text \<open>
  The entries of LCP, PAP and CHAP in \<open>protocols[]\<close>.  The loops of \<open>auth.c\<close> skip LCP by its number, and
  \<open>get_input\<close> is the only caller of \<open>input\<close>; so LCP's entry carries the functions that can be reached
  through the table from here, and \<open>System\<close> completes it with \<open>input\<close>.
\<close>

definition lcp_protent :: "'z auth_world_scheme sys_ext \<Rightarrow> 'z auth_world_scheme protent" where
  "lcp_protent sys = \<lparr>pe_protocol = PPP_LCP, pe_enabled = True, pe_input = (\<lambda>p w. w), pe_datainput = None,
     pe_protrej = lcp_protrej (lcp_ext1 sys), pe_lowerup = None,
     pe_lowerdown = Some (lcp_lowerdown (lcp_ext1 sys)), pe_open = None,
     pe_close = Some (lcp_close (lcp_ext1 sys))\<rparr>"

definition pap_protent :: "'z auth_world_scheme sys_ext \<Rightarrow> 'z auth_world_scheme protent" where
  "pap_protent sys = \<lparr>pe_protocol = PPP_PAP, pe_enabled = True, pe_input = upap_input (auth_ext_of sys),
     pe_datainput = None, pe_protrej = upap_protrej (auth_ext_of sys), pe_lowerup = Some upap_lowerup,
     pe_lowerdown = Some upap_lowerdown, pe_open = None, pe_close = None\<rparr>"

definition chap_protent :: "'z auth_world_scheme sys_ext \<Rightarrow> 'z auth_world_scheme protent" where
  "chap_protent sys = \<lparr>pe_protocol = PPP_CHAP, pe_enabled = True, pe_input = chap_input (chap_ext_of sys),
     pe_datainput = None, pe_protrej = chap_protrej (chap_ext_of sys),
     pe_lowerup = Some (chap_lowerup (chap_ext_of sys)),
     pe_lowerdown = Some chap_lowerdown, pe_open = None, pe_close = None\<rparr>"

definition protocols :: "'z auth_world_scheme sys_ext \<Rightarrow> 'z auth_world_scheme protent list" where
  "protocols sys = [lcp_protent sys, pap_protent sys, chap_protent sys] @ other_protocols sys"

text \<open>The authentications \<open>link_established\<close> starts, with the bits of those that are now pending.\<close>

definition start_auth_peer :: "'z auth_world_scheme sys_ext \<Rightarrow> 'z auth_world_scheme \<Rightarrow> u32 \<times> 'z auth_world_scheme" where
  "start_auth_peer sys w =
     (let go = lcp_gotoptions w
      in if neg_eap go then (EAP_PEER, eap_authpeer sys (our_name w) w)
         else if neg_chap go
         then (CHAP_PEER, chap_auth_peer (chap_ext_of sys) (our_name w) (uint (CHAP_DIGEST (chap_mdtype go))) w)
         else if neg_upap go then (PAP_PEER, upap_authpeer w)
         else (0, w))"

definition start_auth_withpeer :: "'z auth_world_scheme sys_ext \<Rightarrow> 'z auth_world_scheme \<Rightarrow> u32 \<times> 'z auth_world_scheme" where
  "start_auth_withpeer sys w =
     (let ho = lcp_hisoptions w
      in if neg_eap ho then (EAP_WITHPEER, eap_authwithpeer sys (user w) w)
         else if neg_chap ho
         then (CHAP_WITHPEER, chap_auth_with_peer (chap_ext_of sys) (user w) (uint (CHAP_DIGEST (chap_mdtype ho))) w)
         else if neg_upap ho
         then (let w = (if passwd w = [] \<and> \<not> explicit_passwd w
                        then (let w = w\<lparr>passwd_from_file := True\<rparr>
                              in case get_pap_passwd sys w of Some p \<Rightarrow> w\<lparr>passwd := p\<rparr> | None \<Rightarrow> w)
                        else w)
               in (PAP_WITHPEER, upap_authwithpeer (user w) (passwd w) w))
         else (0, w))"

definition proceed_auth :: "'z auth_world_scheme sys_ext \<Rightarrow> 'z auth_world_scheme \<Rightarrow> 'z auth_world_scheme" where
  "proceed_auth sys w =
     (let w = new_phase PHASE_AUTHENTICATE w;
          (a, w) = start_auth_peer sys w;
          (b, w) = start_auth_withpeer sys w;
          w = w\<lparr>auth_pending := a OR b, auth_done := 0\<rparr>
      in if a OR b = 0 then network_phase sys w else w)"

definition link_established :: "'z auth_world_scheme sys_ext \<Rightarrow> 'z auth_world_scheme \<Rightarrow> 'z auth_world_scheme" where
  "link_established sys w =
     (let w = (if \<not> doing_multilink w
               then fold (\<lambda>p w.
                      case pe_lowerup p of
                        Some g \<Rightarrow> if pe_protocol p \<noteq> PPP_LCP \<and> pe_enabled p then g w else w
                      | None \<Rightarrow> w) (protocols sys) w
               else w);
          w = (if \<not> auth_required w \<and> has_noauth_addrs w then set_allowed_addrs sys w else w);
          go = lcp_gotoptions w; wo = lcp_wantoptions w
      in if auth_required w \<and> \<not> (neg_upap go \<or> neg_chap go \<or> neg_eap go)
         then
           (if has_noauth_addrs w then proceed_auth sys (set_allowed_addrs sys w)
            else
              (let (ok, w) = (if \<not> neg_upap wo \<or> uselogin w then (False, w) else null_login sys w)
               in if \<not> ok
                  then close_link sys ''peer refused to authenticate'' (w\<lparr>status := EXIT_PEER_AUTH_FAILED\<rparr>)
                  else proceed_auth sys w))
         else proceed_auth sys w)"

definition lcp_ext_of :: "'z auth_world_scheme sys_ext \<Rightarrow> 'z auth_world_scheme lcp_ext" where
  "lcp_ext_of sys = (lcp_ext1 sys)\<lparr>x_link_established := link_established sys, x_protocols := protocols sys\<rparr>"

section \<open>Network protocols coming and going\<close>

definition np_up :: "'z auth_world_scheme \<Rightarrow> 'z auth_world_scheme" where
  "np_up w =
     (let w = (if num_np_up w = 0
               then
                 (let w = new_phase PHASE_RUNNING (w\<lparr>status := EXIT_OK, unsuccess := 0\<rparr>);
                      w = (if idle_time_limit w > 0 then TIMEOUT Fn_check_idle Null_arg (idle_time_limit w) w else w);
                      w = (if maxconnect w > 0 then TIMEOUT Fn_connect_time_expired Null_arg (maxconnect w) w else w);
                      w = (if maxoctets w > 0 then TIMEOUT Fn_check_maxoctets Null_arg (maxoctets_timeout w) w else w)
                  in if updetach w \<and> \<not> nodetach w then act Detach w else w)
               else w)
      in w\<lparr>num_np_up := num_np_up w + 1\<rparr>)"

definition np_down :: "'z auth_world_scheme \<Rightarrow> 'z auth_world_scheme" where
  "np_down w =
     (let w = w\<lparr>num_np_up := num_np_up w - 1\<rparr>
      in if num_np_up w = 0
         then (let w = UNTIMEOUT Fn_check_idle Null_arg w;
                   w = UNTIMEOUT Fn_connect_time_expired Null_arg w;
                   w = UNTIMEOUT Fn_check_maxoctets Null_arg w
               in new_phase PHASE_NETWORK w)
         else w)"

definition np_finished :: "'z auth_world_scheme sys_ext \<Rightarrow> 'z auth_world_scheme \<Rightarrow> 'z auth_world_scheme" where
  "np_finished sys w =
     (let w = w\<lparr>num_np_open := num_np_open w - 1\<rparr>
      in if num_np_open w \<le> 0 then close_link sys ''No network protocols running'' w else w)"

definition check_maxoctets :: "'z auth_world_scheme sys_ext \<Rightarrow> 'z auth_world_scheme \<Rightarrow> 'z auth_world_scheme" where
  "check_maxoctets sys w =
     (if octets_used sys w > maxoctets w
      then (close_link sys ''Traffic limit'' (w\<lparr>status := EXIT_TRAFFIC_LIMIT\<rparr>))\<lparr>need_holdoff := False\<rparr>
      else TIMEOUT Fn_check_maxoctets Null_arg (maxoctets_timeout w) w)"

definition check_idle :: "'z auth_world_scheme sys_ext \<Rightarrow> 'z auth_world_scheme \<Rightarrow> 'z auth_world_scheme" where
  "check_idle sys w =
     (case idle_time sys w of
        None \<Rightarrow> w
      | Some itime \<Rightarrow>
          (let tlim = idle_time_limit w - itime
           in if tlim \<le> 0
              then (close_link sys ''Link inactive'' (w\<lparr>status := EXIT_IDLE_TIMEOUT\<rparr>))\<lparr>need_holdoff := False\<rparr>
              else TIMEOUT Fn_check_idle Null_arg tlim w))"

definition connect_time_expired :: "'z auth_world_scheme sys_ext \<Rightarrow> 'z auth_world_scheme \<Rightarrow> 'z auth_world_scheme" where
  "connect_time_expired sys w = close_link sys ''Connect time expired'' (w\<lparr>status := EXIT_CONNECT_TIME\<rparr>)"

end
