(* ===== verification/System.thy ===== *)
theory System
  imports Auth
begin

text \<open>
  The daemon as one system, \<^verbatim>\<open>pppd/main.c\<close>: the distribution of received frames (\<open>get_input\<close>), the dispatch
  of expired callouts to their functions, bringing the link up (\<open>start_link\<close> of \<^verbatim>\<open>auth.c\<close>), and the steps of
  the main loop as a transition relation.
\<close>

section \<open>Input\<close>

text \<open>
  What \<open>read_packet\<close> returns: an error, the end of the line (and whether it sets \<open>bundle_eof\<close>), or a frame.
\<close>

datatype read_result = Read_error | Read_eof bool | Read_frame packet

record 'w main_ext =
  env_sys :: "'w sys_ext"
  parse_options :: "'w \<Rightarrow> 'w"
  mp_bundle_terminated :: "'w \<Rightarrow> 'w"
  channel_connect :: "'w \<Rightarrow> int \<times> 'w"
  channel_establish :: "int \<Rightarrow> 'w \<Rightarrow> int \<times> 'w"
  other_timer :: "timer_fn \<Rightarrow> timer_arg \<Rightarrow> 'w \<Rightarrow> 'w"
  other_done :: "done_fn \<Rightarrow> 'w \<Rightarrow> 'w"

abbreviation EXIT_HANGUP :: int where "EXIT_HANGUP \<equiv> 16"
abbreviation EXIT_USER_REQUEST :: int where "EXIT_USER_REQUEST \<equiv> 5"

abbreviation lcp_cbs :: "'z auth_world_scheme main_ext \<Rightarrow> 'z auth_world_scheme fsm_callbacks" where
  "lcp_cbs m \<equiv> lcp_callbacks (lcp_ext_of (env_sys m))"

text \<open>The whole table, with the input function of LCP.\<close>

definition proto_table :: "'z auth_world_scheme main_ext \<Rightarrow> 'z auth_world_scheme protent list" where
  "proto_table m =
     [(lcp_protent (env_sys m))\<lparr>pe_input := lcp_input (lcp_ext_of (env_sys m))\<rparr>, pap_protent (env_sys m), chap_protent (env_sys m)]
     @ other_protocols (env_sys m)"

text \<open>The loop over the protocols in \<open>get_input\<close>: the first entry that takes the frame, if any.\<close>

fun upcall :: "int \<Rightarrow> packet \<Rightarrow> 'w protent list \<Rightarrow> ('w \<Rightarrow> 'w) option" where
  "upcall proto p [] = None"
| "upcall proto p (e # es) =
     (if pe_protocol e = proto \<and> pe_enabled e then Some (pe_input e p)
      else
        (case pe_datainput e of
           Some g \<Rightarrow> if proto = pe_protocol e mod 0x8000 \<and> pe_enabled e then Some (g p) else upcall proto p es
         | None \<Rightarrow> upcall proto p es))"

definition get_input :: "'z auth_world_scheme main_ext \<Rightarrow> read_result \<Rightarrow> 'z auth_world_scheme \<Rightarrow> 'z auth_world_scheme" where
  "get_input m r w =
     (case r of
        Read_error \<Rightarrow> w
      | Read_eof be \<Rightarrow>
          (let w = w\<lparr>bundle_eof := bundle_eof w \<or> be\<rparr>
           in if bundle_eof w \<and> multilink_master w then mp_bundle_terminated m w
           else
             (let w = w\<lparr>hungup := True, status := EXIT_HANGUP\<rparr>;
                  w = lcp_lowerdown (lcp_ext_of (env_sys m)) w
              in link_terminated (env_sys m) w))
      | Read_frame frame \<Rightarrow>
          (case frame of
             a # c # p1 # p2 # p \<Rightarrow>
               (let proto = GETSHORT p1 p2
                in if proto \<noteq> PPP_LCP \<and> st lcp_fsm w \<noteq> OPENED then w
                   else if phase w \<le> PHASE_AUTHENTICATE \<and>
                     \<not> (proto = PPP_LCP \<or> proto = PPP_LQR \<or> proto = PPP_PAP \<or> proto = PPP_CHAP \<or> proto = PPP_EAP)
                   then w
                   else (case upcall proto p (proto_table m) of
                           Some g \<Rightarrow> g w
                         | None \<Rightarrow> lcp_sprotrej frame w))
           | _ \<Rightarrow> w))"

section \<open>Timers\<close>

definition timer_call ::
    "'z auth_world_scheme main_ext \<Rightarrow> timer_fn \<Rightarrow> timer_arg \<Rightarrow> 'z auth_world_scheme \<Rightarrow> 'z auth_world_scheme" where
  "timer_call m fn arg w =
     (case fn of
        Fn_fsm_timeout \<Rightarrow>
          (if arg = Fsm_arg lcp_fsm then fsm_timeout (lcp_cbs m) lcp_fsm w else other_timer m fn arg w)
      | Fn_lcp_delayed_up \<Rightarrow> lcp_delayed_up (lcp_ext_of (env_sys m)) w
      | Fn_LcpEchoTimeout \<Rightarrow> LcpEchoTimeout (lcp_ext_of (env_sys m)) w
      | Fn_upap_timeout \<Rightarrow> upap_timeout (auth_ext_of (env_sys m)) w
      | Fn_upap_reqtimeout \<Rightarrow> upap_reqtimeout (auth_ext_of (env_sys m)) w
      | Fn_chap_timeout \<Rightarrow> chap_timeout (chap_ext_of (env_sys m)) w
      | Fn_check_idle \<Rightarrow> check_idle (env_sys m) w
      | Fn_connect_time_expired \<Rightarrow> connect_time_expired (env_sys m) w
      | Fn_check_maxoctets \<Rightarrow> check_maxoctets (env_sys m) w
      | Fn_holdoff_end \<Rightarrow> new_phase PHASE_DORMANT w)"

text \<open>One round of the loop of \<open>calltimeout\<close>: the first callout is due, is unlinked and called.\<close>

definition expire_first ::
    "'z auth_world_scheme main_ext \<Rightarrow> 'z auth_world_scheme \<Rightarrow> 'z auth_world_scheme" where
  "expire_first m w =
     (case callout w of
        [] \<Rightarrow> w
      | p # rest \<Rightarrow> timer_call m (c_func p) (c_arg p) ((gettimeofday w)\<lparr>callout := rest\<rparr>))"

text \<open>The function that is called when a child has exited.\<close>

definition done_call :: "'z auth_world_scheme main_ext \<Rightarrow> done_fn \<Rightarrow> 'z auth_world_scheme \<Rightarrow> 'z auth_world_scheme" where
  "done_call m fn w = (if fn = Fn_auth_script_done then auth_script_done w else other_done m fn w)"

section \<open>Bringing the link up\<close>

definition start_link :: "'z auth_world_scheme main_ext \<Rightarrow> 'z auth_world_scheme \<Rightarrow> 'z auth_world_scheme" where
  "start_link m w =
     (let fail = (\<lambda>w. let w = new_phase PHASE_DEAD w in if has_cleanup w then act Channel_cleanup w else w);
          w = new_phase PHASE_SERIALCONN (w\<lparr>status := EXIT_CONNECT_FAILED\<rparr>);
          w = w\<lparr>hungup := False\<rparr>;
          (fd, w) = channel_connect m w;
          w = w\<lparr>devfd := fd\<rparr>
      in if fd < 0 then fail w
         else
           (let (pfd, w) = channel_establish m fd w;
                w = w\<lparr>fd_ppp := pfd\<rparr>
            in if pfd < 0
               then fail (let w = new_phase PHASE_DISCONNECT (w\<lparr>status := EXIT_FATAL_ERROR\<rparr>)
                          in if has_disconnect w then act Channel_disconnect w else w)
               else
                 (let w = new_phase PHASE_ESTABLISH (w\<lparr>status := EXIT_NEGOTIATION_FAILED\<rparr>)
                  in lcp_lowerup (lcp_ext_of (env_sys m)) w)))"

section \<open>Steps\<close>

text \<open>
  The outer loop of \<open>main\<close>.  \<open>attempt\<close> is its head: the variables of an attempt are reset, LCP is opened and
  the link started.  \<open>link_over\<close> is what follows the inner loop: \<open>lcp_close(0, "")\<close> and, if there is a time
  to wait, the callout that ends it.
\<close>

definition attempt :: "'z auth_world_scheme main_ext \<Rightarrow> 'z auth_world_scheme \<Rightarrow> 'z auth_world_scheme" where
  "attempt m w =
     (let w = w\<lparr>bundle_eof := False, bundle_terminating := False, listen_time := 0, need_holdoff := True,
               devfd := -1, status := EXIT_OK, unsuccess := unsuccess w + 1\<rparr>
      in start_link m (lcp_open (lcp_ext_of (env_sys m)) w))"

definition link_over :: "'z auth_world_scheme main_ext \<Rightarrow> 'z auth_world_scheme \<Rightarrow> 'z auth_world_scheme" where
  "link_over m w =
     (let w = lcp_close (lcp_ext1 (env_sys m)) [] w;
          t = (if need_holdoff w then holdoff w else 0)
      in if t > 0 then TIMEOUT Fn_holdoff_end Null_arg t (new_phase PHASE_HOLDOFF w) else w)"

definition init_protocols :: "'z auth_world_scheme \<Rightarrow> 'z auth_world_scheme" where
  "init_protocols w = chap_init (upap_init (lcp_init w))"

text \<open>
  Signals.  \<open>handle_events\<close> notes a hangup signal or a termination signal in \<open>status\<close>; the inner loop then
  closes LCP, and on termination also ends the bundle.  On SIGUSR2 it opens CCP again, if the network phase has been
  reached.
\<close>

definition sighup_noted :: "'z auth_world_scheme \<Rightarrow> 'z auth_world_scheme" where
  "sighup_noted w = (if status w \<noteq> EXIT_HANGUP then w\<lparr>status := EXIT_USER_REQUEST\<rparr> else w)"

definition sigterm_noted :: "'z auth_world_scheme \<Rightarrow> 'z auth_world_scheme" where
  "sigterm_noted w = w\<lparr>status := EXIT_USER_REQUEST\<rparr>"

definition quit_bundle :: "'z auth_world_scheme main_ext \<Rightarrow> 'z auth_world_scheme \<Rightarrow> 'z auth_world_scheme" where
  "quit_bundle m w =
     (let w = w\<lparr>bundle_terminating := True\<rparr>
      in if phase w = PHASE_MASTER then mp_bundle_terminated m w else w)"

definition restart_ccp :: "'z auth_world_scheme main_ext \<Rightarrow> 'z auth_world_scheme \<Rightarrow> 'z auth_world_scheme" where
  "restart_ccp m w =
     (case find (\<lambda>p. pe_protocol p = PPP_CCP) (other_protocols (env_sys m)) of
        None \<Rightarrow> w
      | Some ccp_protent \<Rightarrow>
          (if phase w = PHASE_NETWORK \<or> phase w = PHASE_RUNNING
           then callback (pe_open ccp_protent) (upd_fsm ccp_fsm (\<lambda>x. x\<lparr>flags := OPT_RESTART\<rparr>) w)
           else w))"

text \<open>
  Where \<open>main\<close> is: in the inner loop, which serves a link, or waiting for the next attempt (the hold-off
  and, with demand dialling, the wait for traffic).
\<close>

datatype main_pc = Link_loop | Waiting

text \<open>
  The calls of the loops as single steps: \<open>get_input\<close>, the expiry of a callout, the signals, the children that have exited,
  the request of the user (a signal sets \<open>kill_link\<close>), the end of the inner loop and the next attempt.  The relation lets them
  come in any order, so every run of the loops is a run of the relation.
\<close>

inductive sys_step ::
    "'z auth_world_scheme main_ext \<Rightarrow> main_pc \<Rightarrow> 'z auth_world_scheme \<Rightarrow> main_pc \<Rightarrow> 'z auth_world_scheme \<Rightarrow> bool"
    for m :: "'z auth_world_scheme main_ext" where
  read_in: "sys_step m Link_loop w Link_loop (get_input m r w)"
| expiry: "callout w = p # rest \<Longrightarrow> sys_step m pc w pc (expire_first m w)"
| user_close: "sys_step m Link_loop w Link_loop (lcp_close (lcp_ext1 (env_sys m)) (cstr ''User request'') w)"
| sighup: "sys_step m pc w pc (sighup_noted w)"
| sigterm: "sys_step m pc w pc (sigterm_noted w)"
| quitting: "sys_step m Link_loop w Link_loop (quit_bundle m w)"
| sigchld: "sys_step m pc w pc (reap_kids (done_call m) pids w)"
| sigusr2: "sys_step m Link_loop w Link_loop (restart_ccp m w)"
| loop_end: "phase w = PHASE_DEAD \<Longrightarrow> sys_step m Link_loop w Waiting (link_over m w)"
| dormant: "sys_step m Waiting w Waiting (new_phase PHASE_DORMANT w)"
| again: "phase w \<noteq> PHASE_HOLDOFF \<Longrightarrow> sys_step m Waiting w Link_loop (attempt m w)"

text \<open>
  \<open>boot\<close> is the state in which \<open>main\<close> enters the outer loop: nothing is scheduled, no network protocol is
  open, the protocols have been initialised and the options read.
\<close>

inductive sys_reach :: "'z auth_world_scheme main_ext \<Rightarrow> main_pc \<Rightarrow> 'z auth_world_scheme \<Rightarrow> bool"
    for m :: "'z auth_world_scheme main_ext" where
  boot: "callout w = [] \<Longrightarrow> num_np_open w = 0 \<Longrightarrow> sys_reach m Waiting (parse_options m (init_protocols w))"
| step: "sys_reach m pc w \<Longrightarrow> sys_step m pc w pc' w' \<Longrightarrow> sys_reach m pc' w'"

inductive_cases sys_stepE: "sys_step m pc w pc' w'"

end
