(* ===== verification/Fsm_Layer.thy ===== *)
theory Fsm_Layer
  imports Fsm_Props
begin

text \<open>
  The promise of the automaton to the layer that uses it: \<open>up\<close> and \<open>down\<close> bracket the time in which the
  automaton is OPENED.  The client has a predicate \<open>early\<close> for the time the lower layer is down (INITIAL,
  STARTING), a predicate \<open>opn\<close> for the time the automaton is OPENED and a predicate \<open>shut\<close> for the states
  between.  If its callbacks turn one into the other as the locale says, then every entry point keeps
  the predicate that belongs to the state.  \<open>fsm_down_layer\<close> is the part of the contract that the
  operations that take the layer down rely on; \<open>fsm_layer\<close> extends it for the others.
\<close>

fun early_state :: "fsm_state \<Rightarrow> bool" where
  "early_state INITIAL = True" | "early_state STARTING = True" | "early_state _ = False"

definition in_layer ::
    "fsm_ref \<Rightarrow> ('z fsm_world_scheme \<Rightarrow> bool) \<Rightarrow> ('z fsm_world_scheme \<Rightarrow> bool) \<Rightarrow> ('z fsm_world_scheme \<Rightarrow> bool) \<Rightarrow>
     'z fsm_world_scheme \<Rightarrow> bool" where
  "in_layer f early shut opn w \<longleftrightarrow>
     (if st f w = OPENED then opn w else if early_state (st f w) then early w else shut w)"

section \<open>Going down\<close>

locale fsm_down_layer =
  fixes cb :: "'z fsm_world_scheme fsm_callbacks" and f :: fsm_ref
    and early shut opn :: "'z fsm_world_scheme \<Rightarrow> bool"
  assumes fsm_frame: "(\<And>x. flags (h x) = flags x) \<Longrightarrow>
          early (upd_fsm f h w) = early w \<and> shut (upd_fsm f h w) = shut w \<and> opn (upd_fsm f h w) = opn w"
    and sdata_frame [simp]: "early (fsm_sdata f c i d w) = early w" "shut (fsm_sdata f c i d w) = shut w"
          "opn (fsm_sdata f c i d w) = opn w"
    and timeout_frame [simp]: "early (timeout Fn_fsm_timeout a s us w) = early w"
          "shut (timeout Fn_fsm_timeout a s us w) = shut w" "opn (timeout Fn_fsm_timeout a s us w) = opn w"
    and untimeout_frame [simp]: "early (untimeout Fn_fsm_timeout a w) = early w"
          "shut (untimeout Fn_fsm_timeout a w) = shut w" "opn (untimeout Fn_fsm_timeout a w) = opn w"
    and shut_early: "shut w \<Longrightarrow> early w"
    and down_layer: "cb_down cb = Some g \<Longrightarrow> st f (g w) = st f w \<and> (opn w \<or> shut w \<longrightarrow> shut (g w))"
    and no_down: "cb_down cb = None \<Longrightarrow> opn w \<Longrightarrow> shut w"
    and starting_layer: "cb_starting cb = Some g \<Longrightarrow>
          st f (g w) = st f w \<and> (early w \<longrightarrow> early (g w)) \<and> (shut w \<longrightarrow> shut (g w))"
    and finished_layer: "cb_finished cb = Some g \<Longrightarrow> st f w = CLOSED \<or> st f w = STOPPED \<Longrightarrow> shut w \<Longrightarrow>
          in_layer f early shut opn (g w) \<and> st f (g w) \<noteq> OPENED"
begin

abbreviation layer :: "'z fsm_world_scheme \<Rightarrow> bool" where
  "layer \<equiv> in_layer f early shut opn"

lemma upd_frame [simp]:
  "(\<And>x. flags (h x) = flags x) \<Longrightarrow> early (upd_fsm f h w) = early w"
  "(\<And>x. flags (h x) = flags x) \<Longrightarrow> shut (upd_fsm f h w) = shut w"
  "(\<And>x. flags (h x) = flags x) \<Longrightarrow> opn (upd_fsm f h w) = opn w"
  by (simp_all add: fsm_frame)

lemma req_frame [simp]:
  "early (new_reqid f w) = early w" "shut (new_reqid f w) = shut w" "opn (new_reqid f w) = opn w"
  "early (send_termreq f w) = early w" "shut (send_termreq f w) = shut w" "opn (send_termreq f w) = opn w"
  by (simp_all add: new_reqid_def send_termreq_def Let_def)

lemma layer_steps [simp]:
  "layer (fsm_sdata f c i d w) = layer w"
  "layer (timeout Fn_fsm_timeout a s us w) = layer w" "layer (untimeout Fn_fsm_timeout a w) = layer w"
  "(\<And>x. state (h x) = state x) \<Longrightarrow> (\<And>x. flags (h x) = flags x) \<Longrightarrow> layer (upd_fsm f h w) = layer w"
  "layer (set_state f s' w) = (if s' = OPENED then opn w else if early_state s' then early w else shut w)"
  "layer (send_termreq f w) = layer w"
  by (auto simp: in_layer_def)

lemma layerD:
  "layer w \<Longrightarrow> st f w = OPENED \<Longrightarrow> opn w"
  "layer w \<Longrightarrow> \<not> early_state (st f w) \<Longrightarrow> st f w \<noteq> OPENED \<Longrightarrow> shut w"
  "layer w \<Longrightarrow> st f w \<noteq> OPENED \<Longrightarrow> early w"
  using shut_early [of w] by (auto simp: in_layer_def split: if_splits)

lemma down_step: "opn w \<or> shut w \<Longrightarrow> shut (callback (cb_down cb) w)" "st f (callback (cb_down cb) w) = st f w"
  using down_layer [of _ w] no_down [of w] by (auto simp: callback_def split: option.split)

lemma starting_step:
  "early w \<Longrightarrow> early (callback (cb_starting cb) w)" "shut w \<Longrightarrow> shut (callback (cb_starting cb) w)"
  "st f (callback (cb_starting cb) w) = st f w"
  using starting_layer [of _ w] by (auto simp: callback_def split: option.split)

lemma starting_in: "st f w = STARTING \<Longrightarrow> early w \<Longrightarrow> layer (callback (cb_starting cb) w)"
  by (simp add: in_layer_def starting_step)

lemma finished_step:
  assumes "st f w = CLOSED \<or> st f w = STOPPED" "shut w"
  shows "layer (callback (cb_finished cb) w)" "st f (callback (cb_finished cb) w) \<noteq> OPENED"
  using finished_layer [of _ w] assms by (auto simp: callback_def in_layer_def split: option.split)

lemmas down_steps = down_step starting_step starting_in finished_step

lemma lowerdown_layer:
  assumes "layer w"
  shows "layer (fsm_lowerdown cb f w)" "st f (fsm_lowerdown cb f w) \<noteq> OPENED"
    "\<not> early_state (st f w) \<Longrightarrow> shut (fsm_lowerdown cb f w)"
  using layerD [OF assms] assms shut_early
  by (cases "st f w"; simp add: fsm_lowerdown_def down_steps)+

lemma terminate_layer_keeps:
  assumes "st f w = OPENED \<and> opn w \<or> shut w" "s' \<noteq> OPENED" "\<not> early_state s'"
  shows "layer (terminate_layer cb f s' w)" "st f (terminate_layer cb f s' w) \<noteq> OPENED"
  using assms by (auto simp: terminate_layer_def Let_def down_steps)

lemma close_layer:
  assumes "layer w \<or> shut w"
  shows "layer (fsm_close cb f reason w)" "st f (fsm_close cb f reason w) \<noteq> OPENED"
  using assms shut_early [of w] layerD [of w]
  by (cases "st f w"; auto simp: fsm_close_def Let_def terminate_layer_keeps in_layer_def [of f early shut opn "upd_fsm f h u" for h u])+

lemma protreject_layer:
  assumes "layer w"
  shows "layer (fsm_protreject cb f w)" "st f (fsm_protreject cb f w) \<noteq> OPENED"
  using layerD [OF assms] assms
  by (cases "st f w"; auto simp: fsm_protreject_def down_steps terminate_layer_keeps)+

end


section \<open>All entry points\<close>

locale fsm_layer = fsm_down_layer +
  assumes resetci_layer: "cb_resetci cb = Some g \<Longrightarrow> st f (g w) = st f w \<and> (shut w \<longrightarrow> shut (g w))"
    and retransmit_layer: "cb_retransmit cb = Some g \<Longrightarrow> st f (g w) = st f w \<and> (shut w \<longrightarrow> shut (g w))"
    and data_layer: "st f (snd (confreq_data cb w)) = st f w \<and> (shut w \<longrightarrow> shut (snd (confreq_data cb w)))"
    and reqci_layer: "cb_reqci cb = Some rq \<Longrightarrow> rq w p r = (c, p', w') \<Longrightarrow> st f w' = st f w \<and> (shut w \<longrightarrow> shut w')"
    and up_layer: "cb_up cb = Some g \<Longrightarrow> st f w = OPENED \<Longrightarrow> shut w \<Longrightarrow> in_layer f early shut opn (g w)"
    and no_up: "cb_up cb = None \<Longrightarrow> shut w \<Longrightarrow> opn w"
    and nakci_layer: "cb_nakci cb = Some n \<Longrightarrow> n w p r = (ret, w') \<Longrightarrow>
          in_layer f early shut opn w \<Longrightarrow> in_layer f early shut opn w'"
    and rejci_layer: "cb_rejci cb = Some j \<Longrightarrow> j w p = (ret, w') \<Longrightarrow>
          in_layer f early shut opn w \<Longrightarrow> in_layer f early shut opn w'"
    and extcode_layer: "cb_extcode cb = Some x \<Longrightarrow> x w c i p = (b, w') \<Longrightarrow>
          in_layer f early shut opn w \<Longrightarrow> in_layer f early shut opn w'"
begin

lemma up_step: "st f w = OPENED \<Longrightarrow> shut w \<Longrightarrow> layer (callback (cb_up cb) w)"
  using up_layer [of _ w] no_up [of w] by (auto simp: callback_def in_layer_def split: option.split)

lemma resetci_step:
  "shut w \<Longrightarrow> shut (callback (cb_resetci cb) w)" "st f (callback (cb_resetci cb) w) = st f w"
  "shut w \<Longrightarrow> shut (callback (cb_retransmit cb) w)" "st f (callback (cb_retransmit cb) w) = st f w"
  using resetci_layer [of _ w] retransmit_layer [of _ w] by (auto simp: callback_def split: option.split)

lemma data_step:
  "confreq_data cb w = (d, w') \<Longrightarrow> shut w \<Longrightarrow> shut w'" "confreq_data cb w = (d, w') \<Longrightarrow> st f w' = st f w"
  using data_layer [of w] by simp_all

lemma sconfreq_step: "shut w \<Longrightarrow> shut (fsm_sconfreq cb f r w)" "st f (fsm_sconfreq cb f r w) = st f w"
  by (auto simp: fsm_sconfreq_def Let_def resetci_step data_step split: prod.splits)

lemma sconfreq_in:
  "shut w \<Longrightarrow> st f w \<noteq> OPENED \<Longrightarrow> layer (fsm_sconfreq cb f r w)"
  using shut_early [OF sconfreq_step(1)] by (simp add: in_layer_def sconfreq_step)

lemmas steps = down_steps up_step resetci_step sconfreq_step sconfreq_in

lemma lowerup_layer: "layer w \<Longrightarrow> shut w \<Longrightarrow> layer (fsm_lowerup cb f w)"
  by (cases "st f w") (auto simp: fsm_lowerup_def steps)

lemma restart_layer:
  assumes "layer w" "\<not> early_state (st f w)"
  shows "layer (fsm_open_restart cb f w)"
  using lowerdown_layer [OF assms(1)] assms by (auto simp: fsm_open_restart_def intro!: lowerup_layer)

lemma open_layer: "layer w \<Longrightarrow> layer (fsm_open cb f w)"
  using layerD [of w] by (cases "st f w") (auto simp: fsm_open_def steps intro!: restart_layer)

lemma timeout_layer: "layer w \<Longrightarrow> layer (fsm_timeout cb f w)"
  using layerD [of w]
  by (cases "st f w")
     (auto simp: fsm_timeout_def timeout_terminating_def timeout_negotiating_def Let_def steps)

lemma answer_layer:
  assumes "shut w" "st f w \<noteq> OPENED" "\<not> early_state (st f w)"
  shows "layer (rconfreq_answer cb f idn inp w)"
proof -
  obtain code inp' w' where rq: "(case cb_reqci cb of
      Some rq \<Rightarrow> rq w inp (nakloops (fsms w f) \<ge> maxnakloops (fsms w f))
    | None \<Rightarrow> (if inp \<noteq> [] then (CONFREJ, inp, w) else (CONFACK, inp, w))) = (code, inp', w')"
    by (metis prod_cases3)
  then have "st f w' = st f w" "shut w'"
    using reqci_layer assms(1) by (auto split: option.splits if_splits)
  with assms show ?thesis
    unfolding rconfreq_answer_def Let_def rq
    by (auto simp: steps in_layer_def [of f early shut opn w'])
qed

lemma rconfreq_layer: "layer w \<Longrightarrow> \<not> early_state (st f w) \<Longrightarrow> layer (fsm_rconfreq cb f idn inp w)"
  using layerD [of w] by (cases "st f w") (auto simp: fsm_rconfreq_def steps intro!: answer_layer)

lemma rconfack_layer: "layer w \<Longrightarrow> layer (fsm_rconfack cb f idn inp w)"
  using layerD [of w] unfolding fsm_rconfack_def Let_def
  by (cases "st f w") (auto simp: steps in_layer_def [of f early shut opn "upd_fsm f h u" for h u] intro!: up_step)

lemma check_layer: "layer w \<Longrightarrow> rconfnakrej_check cb f code inp w = (ret, w') \<Longrightarrow> layer w'"
  by (auto simp: rconfnakrej_check_def Let_def split: if_splits option.splits
      elim!: nakci_layer rejci_layer)

lemma rconfnakrej_layer:
  assumes "layer w"
  shows "layer (fsm_rconfnakrej cb f code idn inp w)"
proof -
  obtain ret w' where ck: "rconfnakrej_check cb f code inp w = (ret, w')" by (metis surj_pair)
  with assms have "layer w'" by (rule check_layer)
  with assms layerD [of w'] show ?thesis
    unfolding fsm_rconfnakrej_def ck Let_def
    by (cases "st f w'") (auto simp: steps)
qed

lemma rtermreq_layer: "layer w \<Longrightarrow> layer (fsm_rtermreq cb f idn p w)"
  using layerD [of w]
  by (cases "st f w")
     (auto simp: fsm_rtermreq_def Let_def steps in_layer_def [of f early shut opn "callback (cb_down cb) u" for u])

lemma rtermack_layer: "layer w \<Longrightarrow> layer (fsm_rtermack cb f w)"
  using layerD [of w] by (cases "st f w") (auto simp: fsm_rtermack_def steps)

lemma rcoderej_layer: "layer w \<Longrightarrow> layer (fsm_rcoderej f inp w)"
  using layerD [of w] by (auto simp: fsm_rcoderej_def)

lemma dispatch_layer:
  "layer w \<Longrightarrow> \<not> early_state (st f w) \<Longrightarrow> layer (input_dispatch cb f whole code idn inp w)"
  unfolding input_dispatch_def Let_def
  by (auto simp: rconfreq_layer rconfack_layer rconfnakrej_layer rtermreq_layer rtermack_layer rcoderej_layer
      split: option.splits prod.splits elim!: extcode_layer)

lemma input_layer: "layer w \<Longrightarrow> layer (fsm_input cb f p w)"
  unfolding fsm_input_def Let_def
  by (cases "st f w") (auto simp: dispatch_layer split: list.split)

end

end
