(* ===== verification/Auth_Layer.thy ===== *)
theory Auth_Layer
  imports Auth Fsm_Layer
begin

text \<open>
  No network protocol before authentication.  The bookkeeping of \<^verbatim>\<open>auth.c\<close> (\<open>num_np_open\<close>, \<open>auth_pending\<close>,
  \<open>auth_done\<close>) is tied to the state of the LCP automaton by the two predicates \<open>net_open\<close> and
  \<open>net_shut\<close>; LCP's callbacks satisfy the contract \<open>fsm_layer\<close> for them, so they hold in every reachable
  state of the system.
\<close>

section \<open>The predicates\<close>

abbreviation PEER_BITS :: u32 where "PEER_BITS \<equiv> 0x2A"

definition must_auth :: "'z auth_world_scheme \<Rightarrow> bool" where
  "must_auth w \<longleftrightarrow> auth_required w \<and> \<not> has_noauth_addrs w"

definition cfg_ok :: "'z auth_world_scheme \<Rightarrow> bool" where
  "cfg_ok w \<longleftrightarrow> \<not> multilink w \<and> \<not> doing_multilink w \<and> 0 \<le> lcp_echo_fails w"

abbreviation started :: "'z chap_world_scheme \<Rightarrow> bool" where
  "started w \<equiv> ss_has AUTH_STARTED w"

definition alive :: "'z auth_world_scheme \<Rightarrow> bool" where
  "alive w \<longleftrightarrow> phase w \<noteq> PHASE_DEAD \<and> \<not> hungup w"

lemma alive_frames [simp]:
  "alive (upd_fsm f h w) = alive w" "alive (upd_server sg w) = alive w" "alive (fsm_sdata f c i d w) = alive w"
  "alive (timeout fn a s us w) = alive w" "alive (untimeout fn a w) = alive w"
  "alive (w\<lparr>num_np_open := n\<rparr>) = alive w" "alive (w\<lparr>auth_done := x\<rparr>) = alive w"
  "alive (w\<lparr>auth_pending := x\<rparr>) = alive w" "alive (w\<lparr>peer_authname := p\<rparr>) = alive w"
  "alive (w\<lparr>magic_src := ms\<rparr>) = alive w"
  by (simp_all add: alive_def upd_fsm_def upd_server_def fsm_sdata_def timeout_def untimeout_def
      gettimeofday_def Let_def)

definition net_early :: "'z auth_world_scheme \<Rightarrow> bool" where
  "net_early w \<longleftrightarrow> cfg_ok w \<and> num_np_open w \<le> 0 \<and> \<not> started w \<and> (delayed w \<longrightarrow> alive w)"

definition net_shut :: "'z auth_world_scheme \<Rightarrow> bool" where
  "net_shut w \<longleftrightarrow> net_early w \<and> \<not> delayed w \<and> alive w"

definition net_open :: "'z auth_world_scheme \<Rightarrow> bool" where
  "net_open w \<longleftrightarrow> cfg_ok w \<and> \<not> delayed w \<and> alive w \<and> (num_np_open w > 0 \<longrightarrow> auth_pending w = 0) \<and>
     (must_auth w \<longrightarrow> (auth_pending w OR auth_done w) AND PEER_BITS \<noteq> 0)"

text \<open>Less is known while LCP comes up: \<open>net_up\<close> holds there, and in the other two cases.\<close>

definition net_up :: "'z auth_world_scheme \<Rightarrow> bool" where
  "net_up w \<longleftrightarrow> cfg_ok w \<and> \<not> delayed w \<and> alive w"

abbreviation net_layer0 :: "'z auth_world_scheme \<Rightarrow> bool" where
  "net_layer0 \<equiv> in_layer lcp_fsm net_early net_shut net_up"

abbreviation net_layer :: "'z auth_world_scheme \<Rightarrow> bool" where
  "net_layer \<equiv> in_layer lcp_fsm net_early net_shut net_open"

text \<open>All of the state these predicates depend on.\<close>

definition view where
  "view w = (st lcp_fsm w, (num_np_open w, auth_pending w, auth_done w), (auth_required w, has_noauth_addrs w),
     (multilink w, doing_multilink w, lcp_echo_fails w), delayed w, started w,
     phase w = PHASE_DEAD, hungup w)"

lemma view_net:
  "view v = view w \<Longrightarrow> net_layer v = net_layer w" "view v = view w \<Longrightarrow> net_open v = net_open w"
  "view v = view w \<Longrightarrow> net_shut v = net_shut w" "view v = view w \<Longrightarrow> net_early v = net_early w"
  "view v = view w \<Longrightarrow> st lcp_fsm v = st lcp_fsm w" "view v = view w \<Longrightarrow> cfg_ok v = cfg_ok w"
  "view v = view w \<Longrightarrow> started v = started w" "view v = view w \<Longrightarrow> delayed v = delayed w"
  "view v = view w \<Longrightarrow> net_up v = net_up w" "view v = view w \<Longrightarrow> net_layer0 v = net_layer0 w"
  "view v = view w \<Longrightarrow> alive v = alive w"
  by (simp_all add: view_def in_layer_def alive_def net_open_def net_shut_def net_early_def net_up_def must_auth_def cfg_ok_def)

lemma net_layers:
  "net_layer w \<Longrightarrow> net_layer0 w" "st lcp_fsm w \<noteq> OPENED \<Longrightarrow> net_layer w = net_layer0 w"
  "net_shut w \<Longrightarrow> net_layer0 w" "st lcp_fsm w = OPENED \<Longrightarrow> net_up w \<Longrightarrow> net_layer0 w"
  by (auto simp: in_layer_def net_open_def net_shut_def net_up_def net_early_def)

section \<open>What leaves the view alone\<close>

text \<open>A sequence of steps, each of which leaves the view alone.\<close>

lemma view_let:
  "view a = v \<Longrightarrow> (\<And>x. view x = v \<Longrightarrow> view (f x) = v) \<Longrightarrow> view (let x = a in f x) = v"
  by (simp add: Let_def)

named_theorems view_simps

lemma view_timers [simp, view_simps]:
  "view (timeout fn a s us w) = view w" "view (untimeout fn a w) = view w"
  "view (gettimeofday w) = view w"
  by (simp_all add: view_def timeout_def untimeout_def gettimeofday_def Let_def)

lemma view_frames [simp, view_simps]:
  "view (output_frame p w) = view w" "view (fsm_sdata f c i d w) = view w"
  "view (upd_upap ug w) = view w" "view (upd_client cg w) = view w"
  "view (act x w) = view w" "view (snd (chan_call c' w)) = view w"
  "view (netif_set_mtu n w) = view w"
  by (simp_all add: view_def output_frame_def fsm_sdata_def upd_upap_def upd_client_def act_def chan_call_def netif_set_mtu_def Let_def)

lemma view_phase [simp, view_simps]: "n \<noteq> PHASE_DEAD \<Longrightarrow> phase w \<noteq> PHASE_DEAD \<Longrightarrow> view (new_phase n w) = view w"
  by (simp add: view_def new_phase_def)

lemma flag_bits:
  "((x :: u32) OR 4) AND 2 = x AND 2" "(x OR 8) AND 2 = x AND 2" "(x OR 12) AND 2 = x AND 2"
  "(x OR 0x10) AND 2 = x AND 2" "(x OR 0x20) AND 2 = x AND 2" "(x OR 1) AND 2 = x AND 2"
  "x AND NOT 0x10 AND 2 = x AND 2" "x AND NOT 0x20 AND 2 = x AND 2"
  by (simp_all add: bit.conj_disj_distrib2 and.assoc)

lemma view_server:
  "(\<And>s. ss_flags (sg s) AND AUTH_STARTED = ss_flags s AND AUTH_STARTED) \<Longrightarrow> view (upd_server sg w) = view w"
  by (simp add: view_def upd_server_def)

lemma view_server_flags [simp, view_simps]:
  "view (ss_on AUTH_DONE w) = view w" "view (ss_on AUTH_FAILED w) = view w"
  "view (ss_on (AUTH_DONE OR AUTH_FAILED) w) = view w" "view (ss_on TIMEOUT_PENDING w) = view w"
  "view (ss_on CHALLENGE_VALID w) = view w" "view (ss_on LOWERUP w) = view w"
  "view (ss_off TIMEOUT_PENDING w) = view w" "view (ss_off CHALLENGE_VALID w) = view w"
  by (intro view_server; simp add: flag_bits and.assoc)+

text \<open>The same with the constants the simplifier makes of the masks.\<close>

lemma view_server_masks [simp, view_simps]:
  "view (upd_server (\<lambda>s. s\<lparr>ss_flags := ss_flags s AND - 17\<rparr>) w) = view w"
  "view (upd_server (\<lambda>s. s\<lparr>ss_flags := ss_flags s AND - 33\<rparr>) w) = view w"
  "view (upd_server (\<lambda>s. s\<lparr>ss_flags := ss_flags s OR 12\<rparr>) w) = view w"
  by (intro view_server; simp add: flag_bits and.assoc)+

lemma view_server_fields [simp, view_simps]:
  "view (upd_server (\<lambda>s. s\<lparr>challenge_xmits := xm s\<rparr>) w) = view w"
  "view (upd_server (\<lambda>s. s\<lparr>ss_id := si s\<rparr>) w) = view w"
  "view (upd_server (\<lambda>s. s\<lparr>challenge := ch s\<rparr>) w) = view w"
  "view (upd_server (\<lambda>s. s\<lparr>message := mg\<rparr>) w) = view w"
  "view (upd_server (\<lambda>s. s\<lparr>ss_digest := n1, ss_name := p1, ss_id := n2\<rparr>) w) = view w"
  by (intro view_server; simp)+

lemma view_fields [simp, view_simps]:
  "view (w\<lparr>status := n\<rparr>) = view w" "view (w\<lparr>passwd := p\<rparr>) = view w" "view (w\<lparr>passwd_from_file := b\<rparr>) = view w"
  "view (w\<lparr>exited := b\<rparr>) = view w" "view (w\<lparr>magic_src := ms\<rparr>) = view w" "view (w\<lparr>peer_mru := n\<rparr>) = view w"
  "view (w\<lparr>lcp_echos_pending := n\<rparr>) = view w" "view (w\<lparr>lcp_echo_number := n\<rparr>) = view w"
  "view (w\<lparr>lcp_echo_timer_running := b\<rparr>) = view w" "view (w\<lparr>lcp_gotoptions := o1\<rparr>) = view w"
  "view (w\<lparr>lcp_wantoptions := o1\<rparr>) = view w" "view (w\<lparr>lcp_allowoptions := o1\<rparr>) = view w"
  "view (w\<lparr>lcp_hisoptions := o1\<rparr>) = view w" "view (w\<lparr>auth_up := b\<rparr>) = view w"
  "view (w\<lparr>auth_script_up := b\<rparr>) = view w" "view (w\<lparr>peer_authname := p\<rparr>) = view w"
  "view (w\<lparr>fd_ppp := n\<rparr>) = view w" "view (w\<lparr>devfd := n\<rparr>) = view w"
  "view (w\<lparr>need_holdoff := b\<rparr>) = view w" "view (w\<lparr>callout := cs\<rparr>) = view w"
  by (simp_all add: view_def)

lemma view_script [simp, view_simps]: "view (auth_script s w) = view w" "view (auth_script_done w) = view w"
proof -
  have s: "view (auth_script s w) = view w" for s and w :: "'a auth_world_scheme"
    by (simp add: view_def auth_script_def run_program_def record_child_def Let_def split: exec_result.split)
  show "view (auth_script s w) = view w" by (rule s)
  have "view (w\<lparr>auth_script_pid := n\<rparr>) = view w" for n by (simp add: view_def)
  then show "view (auth_script_done w) = view w" by (simp add: auth_script_done_def Let_def s)
qed

lemma view_channel [simp, view_simps]:
  "view (snd (ppp_send_config n a b c w)) = view w" "view (snd (ppp_recv_config n a b c w)) = view w"
  by (simp_all add: ppp_send_config_def ppp_recv_config_def)

lemma view_upap [simp, view_simps]:
  "view (upap_sauthreq w) = view w" "view (upap_sresp cd i p w) = view w" "view (upap_listen w) = view w"
  "view (upap_lowerup w) = view w" "view (upap_lowerdown w) = view w" "view (upap_authpeer w) = view w"
  "view (upap_authwithpeer us pw w) = view w"
  by (simp_all add: upap_sauthreq_def upap_sresp_def upap_listen_def upap_lowerup_def upap_lowerdown_def
      upap_authpeer_def upap_authwithpeer_def Let_def)

lemma view_chap_simple [simp, view_simps]:
  "view (send_challenge w) = view w" "view (send_status i w) = view w"
  "view (chap_auth_with_peer ext nm dc w) = view w"
  by (simp_all add: send_challenge_def send_status_def chap_auth_with_peer_def Let_def
      split: option.split)

lemma view_echo [simp, view_simps]: "view (lcp_echo_lowerdown w) = view w"
  by (simp add: lcp_echo_lowerdown_def)


section \<open>What the system relies on\<close>

text \<open>
  The contract of the code that is a parameter: the other protocols, the digests and the functions of
  the environment.  \<open>quiet\<close> functions leave the view alone; \<open>mild\<close> ones may change the phase, but not to
  \<open>PHASE_DEAD\<close>; \<open>safe\<close> ones, which are only called while LCP is
  OPENED, may end an authentication or close the link, but through the functions of \<open>auth.c\<close>.
\<close>

definition quiet :: "('z auth_world_scheme \<Rightarrow> 'z auth_world_scheme) \<Rightarrow> bool" where
  "quiet g \<longleftrightarrow> (\<forall>w. view (g w) = view w)"

definition mild :: "('z auth_world_scheme \<Rightarrow> 'z auth_world_scheme) \<Rightarrow> bool" where
  "mild g \<longleftrightarrow> (\<forall>w. view ((g w)\<lparr>phase := PHASE_DEAD\<rparr>) = view (w\<lparr>phase := PHASE_DEAD\<rparr>) \<and>
     (phase w \<noteq> PHASE_DEAD \<longrightarrow> phase (g w) \<noteq> PHASE_DEAD))"

definition safe :: "('z auth_world_scheme \<Rightarrow> 'z auth_world_scheme) \<Rightarrow> bool" where
  "safe g \<longleftrightarrow> (\<forall>w. st lcp_fsm w = OPENED \<longrightarrow> net_layer w \<longrightarrow> net_layer (g w))"

definition layered :: "('z auth_world_scheme \<Rightarrow> 'z auth_world_scheme) \<Rightarrow> bool" where
  "layered g \<longleftrightarrow> (\<forall>w. net_layer w \<longrightarrow> net_layer (g w))"

definition proto_ok :: "'z auth_world_scheme protent \<Rightarrow> bool" where
  "proto_ok p \<longleftrightarrow> mild (proto_down p) \<and> (\<forall>g. pe_lowerup p = Some g \<longrightarrow> mild g) \<and>
     (\<forall>g. pe_open p = Some g \<longrightarrow> mild g) \<and> safe (pe_protrej p) \<and> (\<forall>x. safe (pe_input p x)) \<and>
     (\<forall>g x. pe_datainput p = Some g \<longrightarrow> safe (g x))"

definition digest_ok :: "'z auth_world_scheme chap_digest \<Rightarrow> bool" where
  "digest_ok d \<longleftrightarrow> quiet (\<lambda>w. snd (dg_generate_challenge d w)) \<and>
     (\<forall>i n s c r m. quiet (\<lambda>w. snd (snd (dg_verify_response d i n s c r m w)))) \<and>
     (\<forall>i n c s. quiet (\<lambda>w. snd (dg_make_response d i n c s w))) \<and>
     (\<forall>g i p. dg_check_success d = Some g \<longrightarrow> quiet (\<lambda>w. snd (g i p w))) \<and>
     (\<forall>g p. dg_handle_failure d = Some g \<longrightarrow> quiet (g p))"

text \<open>
  A password check leaves the state of the daemon alone, or fails and keeps the invariant (the real one closes LCP
  after ten failures).
\<close>

definition passwd_ok :: "'z auth_world_scheme sys_ext \<Rightarrow> bool" where
  "passwd_ok sys \<longleftrightarrow> (\<forall>u p w. let (k, msg, v) = check_passwd sys u p w
     in view v = view w \<or> k = UPAP_AUTHNAK \<and> (net_layer w \<longrightarrow> net_layer v))"

definition sys_ok :: "'z auth_world_scheme sys_ext \<Rightarrow> bool" where
  "sys_ok sys \<longleftrightarrow> list_all proto_ok (other_protocols sys) \<and> list_all digest_ok (digests sys) \<and>
     (\<forall>n. quiet (eap_authpeer sys n)) \<and> (\<forall>n. quiet (eap_authwithpeer sys n)) \<and>
     quiet (\<lambda>w. snd (null_login sys w)) \<and> (\<forall>w. \<not> fst (null_login sys w)) \<and>
     quiet (set_allowed_addrs sys) \<and> passwd_ok sys \<and>
     (\<forall>c s b. quiet (\<lambda>w. snd (get_secret sys c s b w))) \<and>
     quiet (apply_extra_options sys)"

lemma quietD: "quiet g \<Longrightarrow> view (g w) = view w"
  by (simp add: quiet_def)

lemma quiet_fold: "(\<And>p. p \<in> set ps \<Longrightarrow> quiet (g p)) \<Longrightarrow> view (fold g ps w) = view w"
  by (induction ps arbitrary: w) (auto simp: quiet_def)

lemma quiet_mild: "quiet g \<Longrightarrow> mild g"
  by (simp add: quiet_def mild_def view_def)

lemma mild_view: "mild g \<Longrightarrow> phase w \<noteq> PHASE_DEAD \<Longrightarrow> view (g w) = view w"
  by (auto simp: mild_def view_def)

lemma mildD:
  assumes "mild g"
  shows "st lcp_fsm (g w) = st lcp_fsm w" "cfg_ok (g w) = cfg_ok w" "delayed (g w) = delayed w" "started (g w) = started w"
    "num_np_open (g w) = num_np_open w" "alive w \<Longrightarrow> alive (g w)" "phase w \<noteq> PHASE_DEAD \<Longrightarrow> phase (g w) \<noteq> PHASE_DEAD"
  using assms by (simp_all add: mild_def view_def cfg_ok_def alive_def)

lemma mild_step:
  "mild g \<Longrightarrow> view ((g w)\<lparr>phase := PHASE_DEAD\<rparr>) = view (w\<lparr>phase := PHASE_DEAD\<rparr>)"
  by (simp add: mild_def)

lemma mild_comp: "mild g \<Longrightarrow> mild h \<Longrightarrow> mild (g \<circ> h)"
  using mildD(7) [of g] mildD(7) [of h] unfolding mild_def [of "g \<circ> h"] by (auto simp: mild_step)

lemma mild_fold: "(\<And>p. p \<in> set ps \<Longrightarrow> mild (g p)) \<Longrightarrow> mild (fold g ps)"
  by (induction ps) (auto simp: mild_comp mild_def [of id])

section \<open>Going down\<close>

lemma upper_layers_down_shut:
  assumes "sys_ok sys"
  shows "st lcp_fsm (upper_layers_down sys w) = st lcp_fsm w" "cfg_ok (upper_layers_down sys w) = cfg_ok w"
    "delayed (upper_layers_down sys w) = delayed w" "alive w \<Longrightarrow> alive (upper_layers_down sys w)"
    "num_np_open (upper_layers_down sys w) = 0" "\<not> started (upper_layers_down sys w)"
proof -
  let ?c = "chap_lowerdown (upap_lowerdown w)"
  let ?v = "fold proto_down (other_protocols sys) ?c"
  have "mild (fold proto_down (other_protocols sys))"
    using assms by (intro mild_fold) (auto simp: sys_ok_def list_all_iff proto_ok_def)
  note v = mildD [OF this, of ?c]
  have u: "view (upap_lowerdown w) = view w" by simp
  have c: "\<not> started ?c" "st lcp_fsm ?c = st lcp_fsm w" "cfg_ok ?c = cfg_ok w" "delayed ?c = delayed w" "alive ?c = alive w"
    using view_net(5,6,8,11) [OF u] by (simp_all add: chap_lowerdown_def upd_server_def upd_client_def Let_def cfg_ok_def
        untimeout_def alive_def)
  show "st lcp_fsm (upper_layers_down sys w) = st lcp_fsm w" "cfg_ok (upper_layers_down sys w) = cfg_ok w"
    "delayed (upper_layers_down sys w) = delayed w" "alive w \<Longrightarrow> alive (upper_layers_down sys w)"
    "num_np_open (upper_layers_down sys w) = 0" "\<not> started (upper_layers_down sys w)"
    using c v by (simp_all add: upper_layers_down_def Let_def cfg_ok_def alive_def)
qed

lemma link_down_shut:
  assumes "sys_ok sys"
  shows "st lcp_fsm (link_down sys w) = st lcp_fsm w" "cfg_ok (link_down sys w) = cfg_ok w"
    "delayed (link_down sys w) = delayed w" "alive w \<Longrightarrow> alive (link_down sys w)"
    "cfg_ok w \<Longrightarrow> num_np_open (link_down sys w) = 0" "cfg_ok w \<Longrightarrow> \<not> started (link_down sys w)"
proof -
  define u where "u = (if auth_up w
               then (let w = w\<lparr>auth_up := False\<rparr>
                     in if auth_script_up w \<and> auth_script_pid w = 0
                        then auth_script PATH_AUTHDOWN (w\<lparr>auth_script_up := False\<rparr>) else w)
               else w)"
  have u: "view u = view w" by (simp add: u_def Let_def)
  note ul = upper_layers_down_shut [OF assms(1), of u]
  define l where "l = upper_layers_down sys u"
  define v where "v = (if phase l \<noteq> PHASE_DEAD \<and> phase l \<noteq> PHASE_MASTER then new_phase PHASE_ESTABLISH l else l)"
  have ld: "link_down sys w = (if \<not> doing_multilink u then v else u)"
    by (simp add: link_down_def u_def l_def v_def Let_def)
  have v: "view v = view l" by (simp add: v_def)
  show "st lcp_fsm (link_down sys w) = st lcp_fsm w" "cfg_ok (link_down sys w) = cfg_ok w"
    "delayed (link_down sys w) = delayed w" "alive w \<Longrightarrow> alive (link_down sys w)"
    "cfg_ok w \<Longrightarrow> num_np_open (link_down sys w) = 0" "cfg_ok w \<Longrightarrow> \<not> started (link_down sys w)"
    using ul [folded l_def] view_net(5,6,7,8,11) [OF u] view_net(5,6,7,8,11) [OF v] u v
    by (auto simp: ld cfg_ok_def view_def)
qed

lemma lcp_down_shut:
  assumes "sys_ok sys" "x_link_down ext = link_down sys"
  shows "st lcp_fsm (lcp_down ext w) = st lcp_fsm w" "cfg_ok (lcp_down ext w) = cfg_ok w"
    "delayed (lcp_down ext w) = delayed w" "alive w \<Longrightarrow> alive (lcp_down ext w)"
    "cfg_ok w \<Longrightarrow> num_np_open (lcp_down ext w) = 0" "cfg_ok w \<Longrightarrow> \<not> started (lcp_down ext w)"
    "net_up w \<Longrightarrow> net_shut (lcp_down ext w)"
proof -
  let ?e = "lcp_echo_lowerdown w"
  have e: "view ?e = view w" by simp
  have v: "view (lcp_down ext w) = view (link_down sys ?e)"
    by (simp add: lcp_down_def Let_def assms(2))
  note ld = link_down_shut [OF assms(1), of ?e]
  show all: "st lcp_fsm (lcp_down ext w) = st lcp_fsm w" "cfg_ok (lcp_down ext w) = cfg_ok w"
    "delayed (lcp_down ext w) = delayed w" "alive w \<Longrightarrow> alive (lcp_down ext w)"
    "cfg_ok w \<Longrightarrow> num_np_open (lcp_down ext w) = 0" "cfg_ok w \<Longrightarrow> \<not> started (lcp_down ext w)"
    using view_net(5,6,7,8,11) [OF v] view_net(5,6,8,11) [OF e] ld v by (auto simp: view_def)
  show "net_up w \<Longrightarrow> net_shut (lcp_down ext w)"
    using all by (auto simp: net_up_def net_shut_def net_early_def)
qed

lemma net_upd_fsm:
  assumes "\<And>x. flags (h x) = flags x"
  shows "net_early (upd_fsm lcp_fsm h w) = net_early w \<and> net_shut (upd_fsm lcp_fsm h w) = net_shut w \<and>
    net_open (upd_fsm lcp_fsm h w) = net_open w \<and> net_up (upd_fsm lcp_fsm h w) = net_up w"
  using assms by (simp add: net_early_def net_shut_def net_open_def net_up_def cfg_ok_def must_auth_def alive_def upd_fsm_def)

lemma net_frames [simp]:
  "net_early (fsm_sdata f c i d w) = net_early w" "net_shut (fsm_sdata f c i d w) = net_shut w"
  "net_open (fsm_sdata f c i d w) = net_open w" "net_early (timeout fn a s us w) = net_early w"
  "net_shut (timeout fn a s us w) = net_shut w" "net_open (timeout fn a s us w) = net_open w"
  "net_early (untimeout fn a w) = net_early w" "net_shut (untimeout fn a w) = net_shut w"
  "net_open (untimeout fn a w) = net_open w" "net_up (fsm_sdata f c i d w) = net_up w"
  "net_up (timeout fn a s us w) = net_up w" "net_up (untimeout fn a w) = net_up w"
  by (simp_all add: view_net(2-4,9) [OF view_frames(2)] view_net(2-4,9) [OF view_timers(1)]
      view_net(2-4,9) [OF view_timers(2)])

lemma clear_delayed [simp]:
  "st lcp_fsm (clear_flag b w) = st lcp_fsm w" "net_early w \<Longrightarrow> net_early (clear_flag DELAYED_UP w)"
  "\<not> delayed (clear_flag DELAYED_UP w)" "alive (clear_flag b w) = alive w"
  by (simp_all add: clear_flag_def net_early_def cfg_ok_def alive_def upd_fsm_def and.assoc)

text \<open>LCP going down keeps the contract, with any \<open>link_terminated\<close> that does.\<close>

lemma lcp_down_layer:
  fixes ext :: "'z auth_world_scheme lcp_ext"
  assumes "sys_ok sys" "x_link_down ext = link_down sys" "x_link_required ext = link_required"
    and "\<And>w. st lcp_fsm w = CLOSED \<or> st lcp_fsm w = STOPPED \<Longrightarrow> net_shut w \<Longrightarrow>
      net_layer0 (x_link_terminated ext w) \<and> st lcp_fsm (x_link_terminated ext w) \<noteq> OPENED"
  shows "fsm_down_layer (lcp_down_callbacks ext) lcp_fsm net_early net_shut net_up"
proof
  fix h :: "fsm \<Rightarrow> fsm" and w :: "'z auth_world_scheme" assume "\<And>x. flags (h x) = flags x"
  then show "net_early (upd_fsm lcp_fsm h w) = net_early w \<and> net_shut (upd_fsm lcp_fsm h w) = net_shut w \<and>
    net_up (upd_fsm lcp_fsm h w) = net_up w" using net_upd_fsm [of h w] by simp
next
  fix g and w :: "'z auth_world_scheme" assume "cb_down (lcp_down_callbacks ext) = Some g"
  then show "st lcp_fsm (g w) = st lcp_fsm w \<and> (net_up w \<or> net_shut w \<longrightarrow> net_shut (g w))"
    using lcp_down_shut(1,7) [OF assms(1,2), of w] by (auto simp: lcp_down_callbacks_def net_shut_def net_early_def net_up_def)
next
  fix g and w :: "'z auth_world_scheme" assume "cb_finished (lcp_down_callbacks ext) = Some g" "st lcp_fsm w = CLOSED \<or> st lcp_fsm w = STOPPED"
    "net_shut w"
  then show "net_layer0 (g w) \<and> st lcp_fsm (g w) \<noteq> OPENED"
    using assms(4) by (auto simp: lcp_down_callbacks_def lcp_finished_def)
qed (auto simp: lcp_down_callbacks_def lcp_starting_def assms(3) link_required_def net_shut_def)

lemma layer_delayed: "net_layer0 w \<Longrightarrow> delayed w \<Longrightarrow> early_state (st lcp_fsm w) \<and> net_early w \<and> alive w"
  by (auto simp: in_layer_def net_up_def net_shut_def net_early_def split: if_splits)

lemma lcp_lowerdown_layer:
  assumes "fsm_down_layer (lcp_down_callbacks ext) lcp_fsm net_early net_shut net_up" "net_layer0 w"
  shows "net_layer0 (lcp_lowerdown ext w)" "st lcp_fsm (lcp_lowerdown ext w) \<noteq> OPENED"
  using fsm_down_layer.lowerdown_layer [OF assms] layer_delayed [OF assms(2)]
  by (auto simp: lcp_lowerdown_def in_layer_def)

lemma ext0_layer:
  "sys_ok sys \<Longrightarrow> fsm_down_layer (lcp_down_callbacks (lcp_ext0 sys)) lcp_fsm net_early net_shut net_up"
  by (rule lcp_down_layer) (auto simp: lcp_ext0_def in_layer_def)

text \<open>LCP is down, and will not come up by itself.\<close>

definition grounded :: "'z auth_world_scheme \<Rightarrow> bool" where
  "grounded w \<longleftrightarrow> early_state (st lcp_fsm w) \<and> \<not> delayed w"

lemma grounded_view: "view v = view w \<Longrightarrow> grounded v = grounded w"
  by (simp add: view_def grounded_def)

lemma dead_grounded: "net_layer0 w \<Longrightarrow> \<not> alive w \<Longrightarrow> grounded w"
  by (auto simp: in_layer_def net_shut_def net_up_def net_early_def grounded_def split: if_splits)

lemma grounded_layer: "grounded w \<Longrightarrow> net_layer0 w \<longleftrightarrow> cfg_ok w \<and> num_np_open w \<le> 0 \<and> \<not> started w"
  "grounded w \<Longrightarrow> net_layer w \<longleftrightarrow> cfg_ok w \<and> num_np_open w \<le> 0 \<and> \<not> started w"
  by (auto simp: in_layer_def net_early_def grounded_def)

lemma net_simps [simp]:
  "cfg_ok (upd_fsm f h w) = cfg_ok w" "num_np_open (upd_fsm f h w) = num_np_open w" "chap_server (upd_fsm f h w) = chap_server w"
  "cfg_ok (untimeout fn a w) = cfg_ok w" "num_np_open (untimeout fn a w) = num_np_open w"
  "chap_server (untimeout fn a w) = chap_server w"
  by (simp_all add: upd_fsm_def untimeout_def cfg_ok_def)

lemma lcp_lowerdown_grounds:
  assumes "sys_ok sys" "x_link_down ext = link_down sys" "x_link_required ext = link_required"
    and "cfg_ok w" "st lcp_fsm w = OPENED \<or> num_np_open w \<le> 0 \<and> \<not> started w" "delayed w \<Longrightarrow> early_state (st lcp_fsm w)"
  shows "grounded (lcp_lowerdown ext w)" "net_layer0 (lcp_lowerdown ext w)"
proof -
  note ld = lcp_down_shut [OF assms(1,2), of w]
  have "grounded (lcp_lowerdown ext w) \<and> cfg_ok (lcp_lowerdown ext w) \<and> num_np_open (lcp_lowerdown ext w) \<le> 0 \<and>
    \<not> started (lcp_lowerdown ext w)"
  proof (cases "delayed w")
    case True
    then show ?thesis using assms(5,6)
      by (cases "st lcp_fsm w") (auto simp: lcp_lowerdown_def grounded_def clear_flag_def assms(4) and.assoc)
  next
    case False
    then show ?thesis using assms(4,5) ld
      by (cases "st lcp_fsm w") (auto simp: lcp_lowerdown_def fsm_lowerdown_def grounded_def callback_def
          lcp_down_callbacks_def lcp_starting_def assms(3) link_required_def)
  qed
  then show "grounded (lcp_lowerdown ext w)" "net_layer0 (lcp_lowerdown ext w)" by (simp_all add: grounded_layer)
qed

lemma layer0_facts:
  "net_layer0 w \<Longrightarrow> cfg_ok w \<and> (st lcp_fsm w = OPENED \<or> num_np_open w \<le> 0 \<and> \<not> started w) \<and>
     (delayed w \<longrightarrow> early_state (st lcp_fsm w))"
  by (auto simp: in_layer_def net_shut_def net_up_def net_early_def split: if_splits)

lemma finish_link_view:
  assumes "cfg_ok w" "grounded w" "net_layer0 w"
  shows "grounded (finish_link w)" "net_layer0 (finish_link w)"
proof -
  define u1 where "u1 = (if \<not> doing_multilink w \<and> \<not> demand w then act Unsetenv_ifname w else w)"
  define u2 where "u2 = (if devfd u1 \<ge> 0 \<and> has_disconnect u1 then (act Channel_disconnect u1)\<lparr>devfd := -1\<rparr> else u1)"
  define u where "u = (if has_cleanup u2 then act Channel_cleanup u2 else u2)"
  have "view u = view u2" "view u2 = view u1" "view u1 = view w" by (simp_all add: u_def u1_def u2_def)
  then have u1: "view u = view w" by simp
  then have "\<not> doing_multilink u" using assms(1) view_net(6) [OF u1] by (simp add: cfg_ok_def)
  then have u2: "finish_link w = new_phase PHASE_DEAD u"
    by (simp only: finish_link_def Let_def u_def u2_def u1_def) simp
  note u = u1 u2
  have g: "grounded u" "net_layer0 u" using assms(2,3) grounded_view [OF u(1)] view_net(10) [OF u(1)] by auto
  then show gf: "grounded (finish_link w)" by (simp add: u(2) new_phase_def grounded_def)
  show "net_layer0 (finish_link w)"
    using g(2) unfolding grounded_layer(1) [OF g(1)] grounded_layer(1) [OF gf] by (simp add: u(2) new_phase_def cfg_ok_def)
qed

lemma link_terminated_layer:
  assumes "sys_ok sys" "net_layer0 w"
  shows "net_layer0 (link_terminated sys w)"
    "st lcp_fsm w \<noteq> OPENED \<Longrightarrow> st lcp_fsm (link_terminated sys w) \<noteq> OPENED"
proof -
  define u where "u = release_link w"
  define v where "v = (if \<not> hungup u then lcp_lowerdown (lcp_ext0 sys) u else u)"
  have "net_layer0 (link_terminated sys w) \<and> (st lcp_fsm w \<noteq> OPENED \<longrightarrow> st lcp_fsm (link_terminated sys w) \<noteq> OPENED)"
  proof (cases "phase w = PHASE_DEAD \<or> phase w = PHASE_MASTER")
    case True
    then show ?thesis using assms(2) by (auto simp: link_terminated_def)
  next
    case False
    then have "view (new_phase PHASE_DISCONNECT w) = view w" by simp
    then have u: "view u = view w" unfolding u_def release_link_def by (intro view_let) (simp_all add: Let_def)
    then have u0: "net_layer0 u" using assms(2) view_net(10) by blast
    have v: "grounded v" "net_layer0 v"
      using lcp_lowerdown_grounds [OF assms(1), of "lcp_ext0 sys" u] layer0_facts [OF u0] dead_grounded [OF u0] u0
      by (auto simp: v_def lcp_ext0_def alive_def)
    have "link_terminated sys w = finish_link v"
      using False by (simp add: link_terminated_def Let_def u_def v_def)
    then show ?thesis using finish_link_view [of v] v layer0_facts [OF v(2)] by (auto simp: grounded_def)
  qed
  then show "net_layer0 (link_terminated sys w)"
    "st lcp_fsm w \<noteq> OPENED \<Longrightarrow> st lcp_fsm (link_terminated sys w) \<noteq> OPENED" by auto
qed

lemma ext1_layer:
  fixes sys :: "'z auth_world_scheme sys_ext"
  assumes "sys_ok sys"
  shows "fsm_down_layer (lcp_down_callbacks (lcp_ext1 sys)) lcp_fsm net_early net_shut net_up"
proof (rule lcp_down_layer)
  fix w :: "'z auth_world_scheme" assume "st lcp_fsm w = CLOSED \<or> st lcp_fsm w = STOPPED" "net_shut w"
  then show "net_layer0 (x_link_terminated (lcp_ext1 sys) w) \<and> st lcp_fsm (x_link_terminated (lcp_ext1 sys) w) \<noteq> OPENED"
    using link_terminated_layer [OF assms, of w] by (auto simp: lcp_ext1_def in_layer_def)
qed (auto simp: lcp_ext1_def lcp_ext0_def assms)

lemma delayed_any: "(x :: u32) AND 0x100 \<noteq> 0 \<Longrightarrow> x AND 0x105 \<noteq> 0"
proof
  assume "x AND 0x105 = 0" "x AND 0x100 \<noteq> 0"
  then have "(x AND 0x105) AND 0x100 = 0" by simp
  then have "x AND 0x100 = 0" by (simp add: and.assoc)
  with \<open>x AND 0x100 \<noteq> 0\<close> show False by simp
qed

text \<open>\<open>lcp_close\<close>, from a state that satisfies the invariant, or while LCP comes up.\<close>

lemma lcp_close_layer:
  assumes "sys_ok sys" "net_layer0 w"
  shows "net_layer0 (lcp_close (lcp_ext1 sys) reason w)" "st lcp_fsm (lcp_close (lcp_ext1 sys) reason w) \<noteq> OPENED"
proof -
  note D = ext1_layer [OF assms(1)]
  let ?cb = "lcp_down_callbacks (lcp_ext1 sys)"
  define u where "u = (if phase w \<noteq> PHASE_DEAD \<and> phase w \<noteq> PHASE_MASTER then new_phase PHASE_TERMINATE w else w)"
  have "view u = view w" by (simp add: u_def)
  with assms(2) have u: "net_layer0 u" using view_net(10) by blast
  have fin: "net_layer0 (lcp_finished (lcp_ext1 sys) x) \<and> st lcp_fsm (lcp_finished (lcp_ext1 sys) x) \<noteq> OPENED"
    if "st lcp_fsm x = CLOSED" "net_shut x" for x
    using fsm_down_layer.finished_step [OF D, of x] that by (simp add: lcp_down_callbacks_def)
  have "net_layer0 (lcp_close (lcp_ext1 sys) reason w) \<and> st lcp_fsm (lcp_close (lcp_ext1 sys) reason w) \<noteq> OPENED"
  proof (cases "delayed u")
    case True
    then have e: "net_early u" "alive u" using u layer_delayed by (auto simp: net_shut_def)
    let ?x = "clear_flag DELAYED_UP (fsm_close ?cb lcp_fsm reason
       (set_state lcp_fsm STOPPED (UNTIMEOUT Fn_lcp_delayed_up (Fsm_arg lcp_fsm) u)))"
    have "st lcp_fsm ?x = CLOSED" "net_shut ?x"
      using e by (simp_all add: fsm_close_def Let_def net_shut_def net_upd_fsm)
    moreover have "lcp_close (lcp_ext1 sys) reason w = lcp_finished (lcp_ext1 sys) ?x"
      using True by (simp add: lcp_close_def u_def [symmetric] Let_def fsm_close_def delayed_any)
    ultimately show ?thesis using fin by simp
  next
    case False
    let ?v = "fsm_close ?cb lcp_fsm reason u"
    have v: "net_layer0 ?v" "st lcp_fsm ?v \<noteq> OPENED"
      using fsm_down_layer.close_layer [OF D disjI1 [OF u]] by auto
    have "st lcp_fsm u = STOPPED \<Longrightarrow> st lcp_fsm (clear_flag DELAYED_UP ?v) = CLOSED \<and> net_shut (clear_flag DELAYED_UP ?v)"
      using u by (auto simp: fsm_close_def Let_def net_shut_def net_upd_fsm in_layer_def)
    with v fin [of "clear_flag DELAYED_UP ?v"] False show ?thesis
      by (simp add: lcp_close_def u_def [symmetric] Let_def)
  qed
  then show "net_layer0 (lcp_close (lcp_ext1 sys) reason w)" "st lcp_fsm (lcp_close (lcp_ext1 sys) reason w) \<noteq> OPENED"
    by auto
qed

lemma close_link_layer:
  assumes "sys_ok sys" "net_layer0 w"
  shows "net_layer (close_link sys r w)" "st lcp_fsm (close_link sys r w) \<noteq> OPENED"
  using lcp_close_layer [OF assms, of "cstr r"] net_layers(2) by (auto simp: close_link_def)


section \<open>The network phase and the results of authentications\<close>

lemma fold_keeps:
  "(\<And>p w. p \<in> set ps \<Longrightarrow> P w \<Longrightarrow> P (g p w)) \<Longrightarrow> P w \<Longrightarrow> P (fold g ps w)"
  by (induction ps arbitrary: w) auto

text \<open>LCP is up and nothing is pending: here the network protocols may be opened.\<close>

definition authed :: "'z auth_world_scheme \<Rightarrow> bool" where
  "authed w \<longleftrightarrow> st lcp_fsm w = OPENED \<and> net_open w \<and> auth_pending w = 0"

lemma authed_view: "view v = view w \<Longrightarrow> authed v = authed w"
  using view_net(2,5) [of v w] by (auto simp: authed_def view_def)

lemma authed_mild:
  assumes "mild g" "authed w"
  shows "authed (g w)"
proof -
  have "phase w \<noteq> PHASE_DEAD" using assms(2) by (simp add: authed_def net_open_def alive_def)
  then show ?thesis using authed_view [OF mild_view [OF assms(1)]] assms(2) by simp
qed

lemma authed_layer: "authed w \<Longrightarrow> net_layer w" "authed w \<Longrightarrow> net_layer0 w"
  by (auto simp: authed_def in_layer_def net_open_def net_up_def)

lemma authed_count: "authed w \<Longrightarrow> authed (w\<lparr>num_np_open := n\<rparr>)"
  by (auto simp: authed_def net_open_def cfg_ok_def must_auth_def)

lemma continue_networks_layer:
  fixes sys :: "'z auth_world_scheme sys_ext"
  assumes "sys_ok sys" "authed w"
  shows "net_layer (continue_networks sys w)"
proof -
  define v where "v = fold (\<lambda>p w.
            case pe_open p of
              Some g \<Rightarrow> if pe_protocol p < 0xC000 \<and> pe_protocol p \<noteq> PPP_CCP \<and> pe_protocol p \<noteq> PPP_ECP \<and> pe_enabled p
                     then (let w = g w in w\<lparr>num_np_open := num_np_open w + 1\<rparr>) else w
            | None \<Rightarrow> w) (other_protocols sys) w"
  have "authed v" unfolding v_def
  proof (rule fold_keeps [where P = authed, OF _ assms(2)])
    fix p and x :: "'z auth_world_scheme" assume p: "p \<in> set (other_protocols sys)" "authed x"
    have "authed (g x)" if "pe_open p = Some g" for g
      using p that assms(1) by (auto simp: sys_ok_def list_all_iff proto_ok_def intro: authed_mild [of g])
    with p(2) show "authed (case pe_open p of
              Some g \<Rightarrow> if pe_protocol p < 0xC000 \<and> pe_protocol p \<noteq> PPP_CCP \<and> pe_protocol p \<noteq> PPP_ECP \<and> pe_enabled p
                     then (let w = g x in w\<lparr>num_np_open := num_np_open w + 1\<rparr>) else x
            | None \<Rightarrow> x)"
      by (auto simp: Let_def authed_count split: option.split)
  qed
  then show ?thesis
    using close_link_layer(1) [OF assms(1) authed_layer(2), of v] authed_layer(1) [of v]
    by (simp add: continue_networks_def v_def [symmetric] Let_def)
qed

lemma start_networks_layer:
  assumes "sys_ok sys" "authed w"
  shows "net_layer (start_networks sys w)"
proof -
  let ?w = "new_phase PHASE_NETWORK w"
  define v where "v = fold (\<lambda>p w.
                  case pe_open p of
                    Some g \<Rightarrow> if (pe_protocol p = PPP_ECP \<or> pe_protocol p = PPP_CCP) \<and> pe_enabled p then g w else w
                  | None \<Rightarrow> w) (other_protocols sys) ?w"
  have "view ?w = view w" using assms(2) by (simp add: authed_def net_open_def alive_def)
  then have "authed ?w" using assms(2) authed_view [of ?w w] by simp
  moreover have "authed (g x)" if "p \<in> set (other_protocols sys)" "pe_open p = Some g" "authed x" for p g x
    using that assms(1) by (auto simp: sys_ok_def list_all_iff proto_ok_def intro: authed_mild [of g])
  ultimately have "authed v"
    unfolding v_def by (intro fold_keeps [where P = authed]) (auto split: option.split)
  moreover have "authed ?w" using \<open>authed ?w\<close> .
  ultimately have v: "authed v" "\<not> multilink ?w"
    by (auto simp: authed_def net_open_def cfg_ok_def)
  then show ?thesis
    using continue_networks_layer [OF assms(1), of v] authed_layer(1) [of v]
    by (simp add: start_networks_def v_def [symmetric])
qed

lemma network_phase_layer:
  assumes "sys_ok sys" "authed w"
  shows "net_layer (network_phase sys w)"
proof -
  have q: "quiet (apply_extra_options sys)" using assms(1) by (simp add: sys_ok_def)
  define u where "u = (let go = lcp_gotoptions w
      in if neg_chap go \<or> neg_upap go \<or> neg_eap go
               then (let w = w\<lparr>auth_up := True\<rparr>
                     in if \<not> auth_script_up w \<and> auth_script_pid w = 0
                        then auth_script PATH_AUTHUP (w\<lparr>auth_script_up := True\<rparr>) else w)
               else w)"
  have "view u = view w" by (simp add: u_def Let_def)
  moreover have "network_phase sys w = start_networks sys (apply_extra_options sys u)"
    by (simp add: network_phase_def u_def Let_def)
  ultimately show ?thesis
    using start_networks_layer [OF assms(1), of "apply_extra_options sys u"] assms(2)
      authed_view [of "apply_extra_options sys u" w] quietD [OF q, of u] by simp
qed

lemma bits_moved:
  assumes "((p :: u32) OR d) AND P \<noteq> 0"
  shows "(p AND NOT b OR (d OR b)) AND P \<noteq> 0"
proof
  have eq: "(p AND NOT b) OR (d OR b) = (p OR d) OR b"
    by (rule bit_word_eqI) (auto simp: bit_simps)
  assume "(p AND NOT b OR (d OR b)) AND P = 0"
  then have "((p OR d) OR b) AND P = 0" by (simp only: eq)
  then have "((p OR d) AND P) OR (b AND P) = 0" by (simp add: bit.conj_disj_distrib2)
  with assms show False by (simp add: or_eq_0_iff)
qed

lemma net_open_moved:
  assumes "net_open w"
  shows "net_open (w\<lparr>auth_done := auth_done w OR b, auth_pending := auth_pending w AND NOT b\<rparr>)"
    "net_open (w\<lparr>peer_authname := nm, auth_done := auth_done w OR b, auth_pending := auth_pending w AND NOT b\<rparr>)"
  using assms bits_moved [of "auth_pending w" "auth_done w" PEER_BITS b]
  by (auto simp: net_open_def cfg_ok_def must_auth_def)

lemma open_layer_iff: "st lcp_fsm w = OPENED \<Longrightarrow> net_layer w = net_open w"
  by (simp add: in_layer_def)

lemma auth_peer_success_layer:
  assumes "sys_ok sys" "st lcp_fsm w = OPENED" "net_open w"
  shows "net_layer (auth_peer_success sys proto fl nm w)"
proof (cases "peer_bit proto fl")
  case (Some b)
  let ?w = "w\<lparr>peer_authname := take (MAXNAMELEN - 1) nm, auth_done := auth_done w OR b,
                     auth_pending := auth_pending w AND NOT b\<rparr>"
  have "net_open ?w" "st lcp_fsm ?w = OPENED" using assms(2,3) net_open_moved by auto
  then show ?thesis
    using Some network_phase_layer [OF assms(1), of ?w]
    by (auto simp: auth_peer_success_def Let_def authed_def open_layer_iff)
qed (use assms in \<open>simp add: auth_peer_success_def open_layer_iff\<close>)

lemma auth_withpeer_success_layer:
  assumes "sys_ok sys" "st lcp_fsm w = OPENED" "net_open w"
  shows "net_layer (auth_withpeer_success sys proto fl w)"
proof -
  let ?b = "withpeer_bit proto fl"
  define u where "u = (if proto = PPP_PAP \<and> passwd_from_file w then w\<lparr>passwd := []\<rparr> else w)"
  have u: "view u = view w" "auth_withpeer_success sys proto fl w =
     (let w = u\<lparr>auth_done := auth_done u OR ?b, auth_pending := auth_pending u AND NOT ?b\<rparr>
      in if auth_pending w = 0 then network_phase sys w else w)"
    by (simp_all add: u_def auth_withpeer_success_def Let_def)
  let ?w = "u\<lparr>auth_done := auth_done u OR ?b, auth_pending := auth_pending u AND NOT ?b\<rparr>"
  have "net_open ?w" "st lcp_fsm ?w = OPENED"
    using assms(2,3) net_open_moved(1) [of u ?b] view_net(2,5) [OF u(1)] by auto
  then show ?thesis
    using network_phase_layer [OF assms(1), of ?w] by (auto simp: u(2) Let_def authed_def open_layer_iff)
qed

lemma auth_fail_layer:
  assumes "sys_ok sys" "net_layer0 w"
  shows "net_layer (auth_peer_fail sys proto w)" "st lcp_fsm (auth_peer_fail sys proto w) \<noteq> OPENED"
    "net_layer (auth_withpeer_fail sys proto w)" "st lcp_fsm (auth_withpeer_fail sys proto w) \<noteq> OPENED"
proof -
  have "net_layer0 (w\<lparr>status := n\<rparr>)" "net_layer0 (w\<lparr>passwd := [], status := n\<rparr>)" for n
    using assms(2) view_net(10) [of "w\<lparr>status := n\<rparr>" w] view_net(10) [of "w\<lparr>passwd := [], status := n\<rparr>" w] by simp_all
  then show "net_layer (auth_peer_fail sys proto w)" "st lcp_fsm (auth_peer_fail sys proto w) \<noteq> OPENED"
    "net_layer (auth_withpeer_fail sys proto w)" "st lcp_fsm (auth_withpeer_fail sys proto w) \<noteq> OPENED"
    using close_link_layer [OF assms(1)]
    by (simp_all add: auth_peer_fail_def auth_withpeer_fail_def)
qed


section \<open>PAP and CHAP\<close>

lemma auth_ext_sel [simp]:
  "x_auth_peer_fail (auth_ext_of sys) = auth_peer_fail sys"
  "x_auth_withpeer_fail (auth_ext_of sys) = auth_withpeer_fail sys"
  "x_auth_peer_success (auth_ext_of sys) = auth_peer_success sys"
  "x_auth_withpeer_success (auth_ext_of sys) = auth_withpeer_success sys"
  "x_check_passwd (auth_ext_of sys) = check_passwd sys" "x_auth_number (auth_ext_of sys) = auth_number sys"
  by (simp_all add: auth_ext_of_def)

lemma chap_ext_sel [simp]:
  "ch_auth (chap_ext_of sys) = auth_ext_of sys" "x_get_secret (chap_ext_of sys) = get_secret sys"
  "x_chap_verify_hook (chap_ext_of sys) = None" "x_session_denied (chap_ext_of sys) = session_denied sys"
  by (simp_all add: chap_ext_of_def)

lemma layer_view:
  "view v = view w \<Longrightarrow> net_layer w \<Longrightarrow> net_layer v" "view v = view w \<Longrightarrow> net_layer w \<Longrightarrow> net_layer0 v"
  "view v = view w \<Longrightarrow> net_layer0 w \<Longrightarrow> net_layer0 v"
  using view_net(1,10) [of v w] net_layers(1) [of w] by auto

lemma layer_if: "net_layer x \<Longrightarrow> net_layer y \<Longrightarrow> net_layer (if b then x else y)"
  by simp

lemma upap_timeout_layer: "sys_ok sys \<Longrightarrow> net_layer w \<Longrightarrow> net_layer (upap_timeout (auth_ext_of sys) w)"
  by (auto simp: upap_timeout_def intro!: auth_fail_layer(3) intro: layer_view)

lemma upap_reqtimeout_layer: "sys_ok sys \<Longrightarrow> net_layer w \<Longrightarrow> net_layer (upap_reqtimeout (auth_ext_of sys) w)"
  using auth_fail_layer(1) [of sys w PPP_PAP] net_layers(1) [of w]
    layer_view(1) [of "set_server UPAPSS_BADAUTH (auth_peer_fail sys PPP_PAP w)" "auth_peer_fail sys PPP_PAP w"]
  by (simp add: upap_reqtimeout_def)

lemma upap_protrej_layer:
  assumes "sys_ok sys" "net_layer w"
  shows "net_layer (upap_protrej (auth_ext_of sys) w)"
proof -
  define u where "u = (if upap_cs w = UPAPCS_AUTHREQ then auth_withpeer_fail sys PPP_PAP w else w)"
  define v where "v = (if upap_ss u = UPAPSS_LISTEN then auth_peer_fail sys PPP_PAP u else u)"
  have "net_layer u" using assms by (auto simp: u_def intro: auth_fail_layer(3) net_layers(1))
  then have "net_layer v" using assms(1) by (auto simp: v_def intro: auth_fail_layer(1) net_layers(1))
  moreover have "upap_protrej (auth_ext_of sys) w = upap_lowerdown v"
    by (simp only: upap_protrej_def Let_def u_def v_def auth_ext_sel)
  ultimately show ?thesis by (simp add: layer_view(1))
qed

lemma passwd_cases:
  assumes "sys_ok sys" "net_layer w" "check_passwd sys u p w = (k, msg, v)"
  shows "view v = view w \<or> k = UPAP_AUTHNAK \<and> net_layer v"
proof -
  have "passwd_ok sys" using assms(1) by (simp add: sys_ok_def)
  then have "let (k, msg, v) = check_passwd sys u p w in view v = view w \<or> k = UPAP_AUTHNAK \<and> (net_layer w \<longrightarrow> net_layer v)"
    unfolding passwd_ok_def by blast
  then show ?thesis unfolding assms(3) Let_def prod.case using assms(2) by blast
qed

lemma upap_input_safe:
  assumes "sys_ok sys"
  shows "safe (upap_input (auth_ext_of sys) p)"
proof -
  have req: "net_layer (upap_rauthreq (auth_ext_of sys) inp idn w)"
    if w: "st lcp_fsm w = OPENED" "net_layer w" for inp idn w
  proof (cases "upap_ss w = UPAPSS_LISTEN \<and> parse_authreq inp \<noteq> None")
    case False
    then show ?thesis using w by (cases "upap_ss w") (auto simp: upap_rauthreq_def intro: layer_view(1) split: option.split)
  next
    case True
    then obtain us pw where pa: "parse_authreq inp = Some (us, pw)" "upap_ss w = UPAPSS_LISTEN" by auto
    obtain rc msg v where ck: "check_passwd sys us pw w = (rc, msg, v)" by (metis prod_cases3)
    have v: "view v = view w \<or> rc = UPAP_AUTHNAK \<and> net_layer v" by (rule passwd_cases [OF assms w(2) ck])
    let ?ret = "if rc = UPAP_AUTHACK \<and> \<not> auth_number sys v then UPAP_AUTHNAK else rc"
    define u where "u = (if ?ret = UPAP_AUTHACK
       then auth_peer_success sys PPP_PAP 0 us (set_server UPAPSS_OPEN (upap_sresp ?ret idn (take 255 msg) v))
       else auth_peer_fail sys PPP_PAP (set_server UPAPSS_BADAUTH (upap_sresp ?ret idn (take 255 msg) v)))"
    let ?x = "set_server UPAPSS_OPEN (upap_sresp ?ret idn (take 255 msg) v)"
    have "net_layer v" using v w(2) view_net(1) [of v w] by auto
    then have fail: "net_layer (auth_peer_fail sys PPP_PAP (set_server UPAPSS_BADAUTH (upap_sresp r idn (take 255 msg) v)))" for r
      by (intro auth_fail_layer(1) [OF assms layer_view(2), of _ v]) simp_all
    have "net_layer u"
    proof (cases "?ret = UPAP_AUTHACK")
      case True
      then have x: "view ?x = view w" using v by (auto split: if_splits)
      have "st lcp_fsm ?x = OPENED" "net_open ?x" using view_net(2,5) [OF x] w by (simp_all add: open_layer_iff)
      then show ?thesis using auth_peer_success_layer [OF assms, of ?x] True by (simp add: u_def)
    qed (simp only: u_def if_False fail)
    moreover have "upap_rauthreq (auth_ext_of sys) inp idn w =
       (if us_reqtimeout (upap u) > 0 then UNTIMEOUT Fn_upap_reqtimeout Upap_arg u else u)"
      by (simp only: upap_rauthreq_def pa ck u_def auth_ext_sel Let_def prod.case option.case) simp
    ultimately show ?thesis by (auto intro: layer_view(1))
  qed
  have ack: "net_layer (upap_rauthack (auth_ext_of sys) inp idn w)"
    if w: "st lcp_fsm w = OPENED" "net_layer w" for inp idn w
  proof -
    have x: "view (set_client UPAPCS_OPEN w) = view w" by simp
    show ?thesis using w auth_withpeer_success_layer [OF assms, of "set_client UPAPCS_OPEN w"] view_net(2,5) [OF x]
      by (auto simp: upap_rauthack_def open_layer_iff)
  qed
  have nak: "net_layer (upap_rauthnak (auth_ext_of sys) inp idn w)"
    if w: "net_layer w" for inp idn w
    using w by (auto simp: upap_rauthnak_def intro!: auth_fail_layer(3) assms intro: layer_view)
  show ?thesis
    by (auto simp: safe_def upap_input_def Let_def req ack nak split: list.split)
qed

lemma find_digest_ok:
  "sys_ok sys \<Longrightarrow> find_digest (chap_ext_of sys) c = Some d \<Longrightarrow> digest_ok d"
  by (auto simp: find_digest_def chap_ext_of_def find_Some_iff sys_ok_def list_all_iff)

lemma view_generate:
  assumes "sys_ok sys"
  shows "view (chap_generate_challenge (chap_ext_of sys) w) = view w"
proof (cases "find_digest (chap_ext_of sys) (ss_digest (chap_server w))")
  case (Some d)
  obtain g v where g: "dg_generate_challenge d w = (g, v)" by (metis surj_pair)
  have "view v = view w"
    using find_digest_ok [OF assms Some] quietD [of "\<lambda>w. snd (dg_generate_challenge d w)" w] g
    by (simp add: digest_ok_def)
  then show ?thesis by (simp add: chap_generate_challenge_def Some g Let_def)
qed (simp add: chap_generate_challenge_def)

lemma chap_timeout_cases:
  assumes "sys_ok sys"
  shows "\<exists>v. view v = view w \<and> (chap_timeout (chap_ext_of sys) w = v \<or>
    chap_timeout (chap_ext_of sys) w = auth_peer_fail sys PPP_CHAP v)"
proof -
  let ?u = "ss_off TIMEOUT_PENDING w"
  let ?g = "send_challenge (ss_on CHALLENGE_VALID
              (chap_generate_challenge (chap_ext_of sys) (upd_server (\<lambda>s. s\<lparr>challenge_xmits := 0\<rparr>) ?u)))"
  let ?f = "ss_on (AUTH_DONE OR AUTH_FAILED) (ss_off CHALLENGE_VALID ?u)"
  have "chap_timeout (chap_ext_of sys) w \<in> {?g, auth_peer_fail sys PPP_CHAP ?f, send_challenge ?u}"
    by (simp add: chap_timeout_def Let_def)
  moreover have "view ?g = view w" "view ?f = view w" "view (send_challenge ?u) = view w"
    using view_generate [OF assms] by simp_all
  ultimately show ?thesis by blast
qed

lemma chap_timeout_layer:
  assumes "sys_ok sys" "net_layer w"
  shows "net_layer (chap_timeout (chap_ext_of sys) w)"
proof -
  obtain v where v: "view v = view w" "chap_timeout (chap_ext_of sys) w = v \<or>
    chap_timeout (chap_ext_of sys) w = auth_peer_fail sys PPP_CHAP v"
    using chap_timeout_cases [OF assms(1)] by blast
  show ?thesis using v(2) layer_view(1,2) [OF v(1) assms(2)] auth_fail_layer(1) [OF assms(1), of v] by auto
qed

lemma chap_flags_zero:
  assumes "net_layer w"
  shows "net_layer (upd_server (\<lambda>s. s\<lparr>ss_flags := 0\<rparr>) w)"
proof -
  let ?v = "upd_server (\<lambda>s. s\<lparr>ss_flags := 0\<rparr>) w"
  have "st lcp_fsm ?v = st lcp_fsm w" "net_open ?v = net_open w" "net_early w \<Longrightarrow> net_early ?v" "net_shut w \<Longrightarrow> net_shut ?v"
    by (simp_all add: upd_server_def net_open_def net_early_def net_shut_def cfg_ok_def must_auth_def alive_def)
  with assms show ?thesis by (auto simp: in_layer_def)
qed

lemma chap_protrej_layer:
  assumes "sys_ok sys" "net_layer w"
  shows "net_layer (chap_protrej (chap_ext_of sys) w)"
proof -
  define u where "u = (if ss_has TIMEOUT_PENDING w
               then UNTIMEOUT Fn_chap_timeout Chap_server_arg (ss_off TIMEOUT_PENDING w) else w)"
  define v where "v = (if ss_has AUTH_STARTED u
               then auth_peer_fail sys PPP_CHAP (upd_server (\<lambda>s. s\<lparr>ss_flags := 0\<rparr>) u) else u)"
  have "view u = view w" by (simp add: u_def)
  then have "net_layer u" using assms(2) by (rule layer_view(1))
  then have "net_layer v" using assms(1) by (auto simp: v_def intro!: auth_fail_layer(1) net_layers(1) chap_flags_zero)
  moreover have "chap_protrej (chap_ext_of sys) w =
     (if cs_flags (chap_client v) AND (AUTH_STARTED OR AUTH_DONE) = AUTH_STARTED
      then auth_withpeer_fail sys PPP_CHAP (cs_off AUTH_STARTED v) else v)"
    by (simp only: chap_protrej_def Let_def u_def v_def auth_ext_sel chap_ext_sel)
  ultimately show ?thesis
    using auth_fail_layer(3) [OF assms(1) layer_view(2), of "cs_off AUTH_STARTED v" v] by simp
qed


lemma secret_view:
  assumes "sys_ok sys" "get_secret sys c s b w = (k, v)"
  shows "view v = view w"
proof -
  have "quiet (\<lambda>w. snd (get_secret sys c s b w))" using assms(1) by (simp add: sys_ok_def)
  from quietD [OF this, of w] show ?thesis using assms(2) by simp
qed

lemma view_check_response:
  assumes "sys_ok sys"
  shows "view (snd (check_response (chap_ext_of sys) idn resp nm w)) = view w"
proof -
  define u where "u = (if ss_has TIMEOUT_PENDING w
               then UNTIMEOUT Fn_chap_timeout Chap_server_arg (ss_off TIMEOUT_PENDING w) else w)"
  have u: "view u = view w" by (simp add: u_def)
  have ver: "view (snd (snd (chap_verify_response (chap_ext_of sys) n o1 idn dg ch rs mg x))) = view x"
    for n o1 dg ch rs mg x
  proof (cases "find_digest (chap_ext_of sys) dg")
    case (Some d)
    then show ?thesis
      using find_digest_ok [OF assms Some] secret_view [OF assms]
      by (auto simp: chap_verify_response_def digest_ok_def quiet_def split: option.split prod.split)
  qed (auto simp: chap_verify_response_def dest: secret_view [OF assms] split: option.split prod.split)
  obtain nm' ok msg v where ck: "chap_verify_response (chap_ext_of sys) nm' (ss_name (chap_server u)) idn
       (ss_digest (chap_server u)) (drop 8 (challenge (chap_server u))) resp (message (chap_server u)) u = (ok, msg, v)"
    and nm': "nm' = (if explicit_remote u then remote_name u else vslprintf_v False (MAXNAMELEN + 1) (length nm) nm)"
    by (metis prod_cases3)
  have v: "view v = view u" using ver ck by (metis snd_conv)
  have "check_response (chap_ext_of sys) idn resp nm w =
     (nm', if \<not> ok \<or> \<not> auth_number sys (upd_server (\<lambda>s. s\<lparr>message := msg\<rparr>) v)
           then ss_on AUTH_FAILED (upd_server (\<lambda>s. s\<lparr>message := msg\<rparr>) v) else upd_server (\<lambda>s. s\<lparr>message := msg\<rparr>) v)"
    using ck by (simp add: check_response_def u_def [symmetric] nm' Let_def)
  then show ?thesis using u v by simp
qed

lemma conclude_response_layer:
  assumes "sys_ok sys" "st lcp_fsm w = OPENED" "net_open w"
  shows "net_layer (conclude_response (chap_ext_of sys) nm w)"
proof -
  define u where "u = (let w = ss_off CHALLENGE_VALID w
     in if \<not> ss_has AUTH_DONE w \<and> \<not> ss_has AUTH_FAILED w \<and> session_denied sys nm w then ss_on AUTH_FAILED w else w)"
  define v where "v = (if \<not> ss_has AUTH_DONE u
     then auth_peer_success sys PPP_CHAP (ss_digest (chap_server u)) nm u else u)"
  have u: "view u = view w" by (simp add: u_def Let_def)
  have uo: "st lcp_fsm u = OPENED" "net_open u" using view_net(2,5) [OF u] assms by auto
  then have v: "net_layer v"
    using auth_peer_success_layer [OF assms(1) uo] by (auto simp: v_def open_layer_iff)
  have f: "net_layer (auth_peer_fail sys PPP_CHAP u)"
    using uo by (intro auth_fail_layer(1) assms net_layers(1)) (simp add: open_layer_iff)
  have "conclude_response (chap_ext_of sys) nm w = ss_on AUTH_DONE
     (if ss_has AUTH_FAILED u then auth_peer_fail sys PPP_CHAP u
      else if chap_rechallenge_time v \<noteq> 0
           then TIMEOUT Fn_chap_timeout Chap_server_arg (chap_rechallenge_time v) (ss_on TIMEOUT_PENDING v)
           else v)"
    by (simp only: conclude_response_def Let_def u_def v_def auth_ext_sel chap_ext_sel)
  then show ?thesis using v f by (auto intro!: layer_view(1) [OF view_server_flags(1)] intro: layer_view(1))
qed

lemma chap_input_safe:
  assumes "sys_ok sys"
  shows "safe (chap_input (chap_ext_of sys) p)"
proof -
  have resp: "net_layer (chap_handle_response (chap_ext_of sys) idn pkt w)"
    if w: "st lcp_fsm w = OPENED" "net_layer w" for idn pkt w
  proof -
    obtain nm v where ck: "check_response (chap_ext_of sys) idn pkt (drop (unat (hd pkt) + 1) pkt) w = (nm, v)"
      by (metis surj_pair)
    let ?v = "send_status idn v"
    have v: "view ?v = view w" using view_check_response [OF assms] ck by (metis snd_conv view_chap_simple(2))
    have "st lcp_fsm ?v = OPENED" "net_open ?v" using view_net(2,5) [OF v] w by (simp_all add: open_layer_iff)
    then have "net_layer (conclude_response (chap_ext_of sys) nm ?v)" "net_layer ?v"
      using conclude_response_layer [OF assms] by (simp_all add: open_layer_iff)
    then show ?thesis using w layer_view(1) [OF view_chap_simple(2) w(2), of idn]
      unfolding chap_handle_response_def Let_def ck prod.case by (intro layer_if)
  qed
  have stat: "net_layer (chap_handle_status (chap_ext_of sys) code idn pkt w)"
    if w: "st lcp_fsm w = OPENED" "net_layer w" for code idn pkt w
  proof -
    let ?w = "cs_on AUTH_DONE w"
    let ?d = "cs_digest (chap_client ?w)"
    let ?dp = "find_digest (chap_ext_of sys) ?d"
    obtain code' v where cv: "(if code = CHAP_SUCCESS then
                  (case Option.bind ?dp dg_check_success of
                     Some chk \<Rightarrow> (let (ok, w) = chk idn pkt ?w in (if ok then code else CHAP_FAILURE, w))
                   | None \<Rightarrow> (code, ?w))
                else
                  (case Option.bind ?dp dg_handle_failure of
                     Some h \<Rightarrow> (code, h pkt ?w)
                   | None \<Rightarrow> (code, ?w))) = (code', v)" by (rule prod.exhaust)
    have "view v = view ?w"
    proof (cases ?dp)
      case None
      then show ?thesis using cv by (auto split: if_splits)
    next
      case (Some d)
      from find_digest_ok [OF assms this] have q:
        "\<And>g. dg_check_success d = Some g \<Longrightarrow> view (snd (g idn pkt ?w)) = view ?w"
        "\<And>g. dg_handle_failure d = Some g \<Longrightarrow> view (g pkt ?w) = view ?w"
        by (auto simp: digest_ok_def quiet_def)
      show ?thesis using cv Some q by (auto split: if_splits option.splits prod.splits)
    qed
    then have v: "view v = view w" "view (cs_on AUTH_FAILED v) = view w" by simp_all
    have "net_layer (auth_withpeer_success sys PPP_CHAP ?d v)"
      using view_net(2,5) [OF v(1)] w by (intro auth_withpeer_success_layer assms) (simp_all add: open_layer_iff)
    moreover have "net_layer (auth_withpeer_fail sys PPP_CHAP (cs_on AUTH_FAILED v))"
      by (intro auth_fail_layer(3) assms layer_view(2) [OF v(2) w(2)])
    ultimately show ?thesis using w cv
      by (simp only: chap_handle_status_def Let_def prod.case auth_ext_sel chap_ext_sel split: if_split)
        (simp add: Let_def)
  qed
  have res: "view (chap_respond (chap_ext_of sys) idn pkt w) = view w" for idn pkt w
  proof (cases "find_digest (chap_ext_of sys) (cs_digest (chap_client w))")
    case (Some d)
    have "view (snd (dg_make_response d idn n c s x)) = view x" for n c s x
      using find_digest_ok [OF assms Some] quietD [of "\<lambda>w. snd (dg_make_response d idn n c s w)" x]
      by (simp add: digest_ok_def)
    then show ?thesis
      unfolding chap_respond_def Let_def by (simp add: split_def Some secret_view [OF assms prod.collapse [symmetric]])
  qed (simp add: chap_respond_def Let_def split_def secret_view [OF assms prod.collapse [symmetric]])
  show ?thesis
    by (auto simp: safe_def chap_input_def Let_def resp stat intro: layer_view(1) [OF res] split: list.split)
qed


section \<open>LCP coming up\<close>

lemma ext_of_sel [simp]:
  "x_link_down (lcp_ext_of sys) = link_down sys" "x_link_required (lcp_ext_of sys) = link_required"
  "x_link_terminated (lcp_ext_of sys) = link_terminated sys"
  "x_link_established (lcp_ext_of sys) = link_established sys"
  "x_auth_reset (lcp_ext_of sys) = auth_reset sys" "x_protocols (lcp_ext_of sys) = protocols sys"
  "x_link_down (lcp_ext1 sys) = link_down sys" "x_link_required (lcp_ext1 sys) = link_required"
  "x_link_terminated (lcp_ext1 sys) = link_terminated sys"
  by (simp_all add: lcp_ext_of_def lcp_ext1_def lcp_ext0_def)

text \<open>The functions that take LCP down do not depend on what is missing in \<open>lcp_ext1\<close>.\<close>

lemma ext_of_down:
  "lcp_down_callbacks (lcp_ext_of sys) = lcp_down_callbacks (lcp_ext1 sys)"
  "lcp_close (lcp_ext_of sys) = lcp_close (lcp_ext1 sys)"
  "lcp_lowerdown (lcp_ext_of sys) = lcp_lowerdown (lcp_ext1 sys)"
proof -
  have d: "lcp_down (lcp_ext_of sys) = lcp_down (lcp_ext1 sys)" "lcp_finished (lcp_ext_of sys) = lcp_finished (lcp_ext1 sys)"
    "lcp_starting (lcp_ext_of sys) = lcp_starting (lcp_ext1 sys)"
    by (simp_all add: fun_eq_iff lcp_down_def lcp_finished_def lcp_starting_def Let_def)
  show c: "lcp_down_callbacks (lcp_ext_of sys) = lcp_down_callbacks (lcp_ext1 sys)"
    by (simp add: lcp_down_callbacks_def d)
  show "lcp_close (lcp_ext_of sys) = lcp_close (lcp_ext1 sys)"
    "lcp_lowerdown (lcp_ext_of sys) = lcp_lowerdown (lcp_ext1 sys)"
    by (simp_all add: fun_eq_iff lcp_close_def lcp_lowerdown_def c d Let_def)
qed

text \<open>LCP has just come up: as \<open>net_shut\<close>, but CHAP may have been started.\<close>

definition rising :: "'z auth_world_scheme \<Rightarrow> bool" where
  "rising w \<longleftrightarrow> st lcp_fsm w = OPENED \<and> net_up w \<and> num_np_open w \<le> 0"

lemma rising_view: "view v = view w \<Longrightarrow> rising v = rising w"
  using view_net(5,9) [of v w] by (auto simp: rising_def view_def)

lemma rising_layer0: "rising w \<Longrightarrow> net_layer0 w"
  by (auto simp: rising_def intro: net_layers(4))

lemma rising_shut: "st lcp_fsm w = OPENED \<Longrightarrow> net_shut w \<Longrightarrow> rising w"
  by (auto simp: rising_def net_shut_def net_early_def net_up_def)

text \<open>Starting an authentication leaves LCP rising, or closes the link.\<close>

definition rising_or_closed :: "'z auth_world_scheme \<Rightarrow> 'z auth_world_scheme \<Rightarrow> bool" where
  "rising_or_closed w v \<longleftrightarrow> (rising v \<and> must_auth v = must_auth w) \<or> (st lcp_fsm v \<noteq> OPENED \<and> net_layer v)"

lemma must_auth_view: "view v = view w \<Longrightarrow> must_auth v = must_auth w"
  by (simp add: view_def must_auth_def)

lemma view_rising: "rising w \<Longrightarrow> view v = view w \<Longrightarrow> rising_or_closed w v"
  using rising_view [of v w] must_auth_view [of v w] by (simp add: rising_or_closed_def)

lemma chap_auth_peer_rises:
  assumes "sys_ok sys" "rising w"
  shows "rising_or_closed w (chap_auth_peer (chap_ext_of sys) nm dc w)"
proof (cases "ss_has AUTH_STARTED w \<or> find_digest (chap_ext_of sys) dc = None")
  case True
  then show ?thesis using assms(2)
    by (auto simp: chap_auth_peer_def intro!: view_rising split: option.split)
next
  case False
  then obtain d where d: "\<not> ss_has AUTH_STARTED w" "find_digest (chap_ext_of sys) dc = Some d" by auto
  define u where "u = ss_on AUTH_STARTED ((upd_server (\<lambda>s. s\<lparr>ss_digest := dg_code d, ss_name := nm,
                        ss_id := uint (drop_bit 24 (shd (magic_src w)))\<rparr>) w)\<lparr>magic_src := stl (magic_src w)\<rparr>)"
  have u: "rising u" "must_auth u = must_auth w"
    using assms(2) by (simp_all add: u_def rising_def net_up_def cfg_ok_def must_auth_def upd_server_def alive_def)
  have eq: "chap_auth_peer (chap_ext_of sys) nm dc w = (if ss_has LOWERUP u then chap_timeout (chap_ext_of sys) u else u)"
    using d by (simp add: chap_auth_peer_def u_def Let_def upd_server_def)
  obtain v where v: "view v = view u" "chap_timeout (chap_ext_of sys) u = v \<or>
    chap_timeout (chap_ext_of sys) u = auth_peer_fail sys PPP_CHAP v"
    using chap_timeout_cases [OF assms(1)] by blast
  have "rising v" "must_auth v = must_auth w" using v(1) u rising_view must_auth_view by blast+
  then show ?thesis
    using u v(2) auth_fail_layer(1,2) [OF assms(1) rising_layer0 [of v]]
    by (auto simp: eq rising_or_closed_def)
qed

lemma start_auth_peer_rises:
  assumes "sys_ok sys" "rising w" "start_auth_peer sys w = (a, v)"
  shows "rising_or_closed w v" "a AND PEER_BITS = a"
    "neg_eap (lcp_gotoptions w) \<or> neg_chap (lcp_gotoptions w) \<or> neg_upap (lcp_gotoptions w) \<longleftrightarrow> a \<noteq> 0"
    "st lcp_fsm v \<noteq> OPENED \<Longrightarrow> a \<noteq> 0"
proof -
  have q: "view (eap_authpeer sys n x) = view x" for n x
    using assms(1) by (simp add: sys_ok_def quiet_def)
  note r = view_rising [OF assms(2)]
  show roc: "rising_or_closed w v"
    using assms(3) chap_auth_peer_rises [OF assms(1,2)] q r [of v]
    by (auto simp: start_auth_peer_def Let_def split: if_splits)
  show "a AND PEER_BITS = a"
    "neg_eap (lcp_gotoptions w) \<or> neg_chap (lcp_gotoptions w) \<or> neg_upap (lcp_gotoptions w) \<longleftrightarrow> a \<noteq> 0"
    using assms(3) by (auto simp: start_auth_peer_def Let_def split: if_splits)
  show "st lcp_fsm v \<noteq> OPENED \<Longrightarrow> a \<noteq> 0"
    using assms(2,3) by (auto simp: start_auth_peer_def Let_def rising_def split: if_splits)
qed

lemma start_auth_withpeer_view:
  assumes "sys_ok sys" "start_auth_withpeer sys w = (b, v)"
  shows "view v = view w"
proof -
  have q: "view (eap_authwithpeer sys n x) = view x" for n x
    using assms(1) by (simp add: sys_ok_def quiet_def)
  show ?thesis using assms(2) q
    by (auto simp: start_auth_withpeer_def Let_def split: if_splits option.splits)
qed

end
