(* ===== verification/System_Props.thy ===== *)
theory System_Props
  imports System Auth_Layer
begin

text \<open>
  The whole system: LCP coming up, LCP's callbacks satisfy the contract \<open>fsm_layer\<close>, and with it every
  step of the main loop keeps the network layer shut until the authentications are done.
\<close>

section \<open>LCP has come up\<close>

lemma proceed_auth_layer:
  assumes "sys_ok sys" "rising w"
    "must_auth w \<Longrightarrow> neg_eap (lcp_gotoptions w) \<or> neg_chap (lcp_gotoptions w) \<or> neg_upap (lcp_gotoptions w)"
  shows "net_layer (proceed_auth sys w)"
proof -
  let ?w = "new_phase PHASE_AUTHENTICATE w"
  have "view ?w = view w" using assms(2) by (simp add: rising_def net_up_def alive_def)
  then have w: "rising ?w" "must_auth ?w = must_auth w"
    using assms(2) rising_view [of ?w w] must_auth_view [of ?w w] by simp_all
  have go: "lcp_gotoptions ?w = lcp_gotoptions w" by (simp add: new_phase_def)
  obtain a v where av: "start_auth_peer sys ?w = (a, v)" by (rule prod.exhaust)
  obtain b u where bu: "start_auth_withpeer sys v = (b, u)" by (rule prod.exhaust)
  note sa = start_auth_peer_rises [OF assms(1) w(1) av]
  have u: "view u = view v" by (rule start_auth_withpeer_view [OF assms(1) bu])
  let ?x = "u\<lparr>auth_pending := a OR b, auth_done := 0\<rparr>"
  have eq: "proceed_auth sys w = (if a OR b = 0 then network_phase sys ?x else ?x)"
    by (simp add: proceed_auth_def Let_def av bu)
  from sa(1) consider "rising v" "must_auth v = must_auth w" | "st lcp_fsm v \<noteq> OPENED" "net_layer v"
    by (auto simp: rising_or_closed_def w(2))
  then show ?thesis
  proof cases
    case 1
    then have u1: "rising u" "must_auth u = must_auth w"
      using rising_view [OF u] must_auth_view [OF u] by auto
    have "(a OR b) AND PEER_BITS \<noteq> 0" if "must_auth w"
    proof -
      have "a \<noteq> 0" using sa(3) assms(3) that go by auto
      moreover have "(a OR b) AND PEER_BITS = a OR (b AND PEER_BITS)"
        using sa(2) by (simp add: bit.conj_disj_distrib2)
      ultimately show ?thesis by (simp add: or_eq_0_iff)
    qed
    then have "st lcp_fsm ?x = OPENED" "net_open ?x"
      using u1 by (simp_all add: rising_def net_open_def net_up_def cfg_ok_def must_auth_def)
    then show ?thesis
      using network_phase_layer [OF assms(1), of ?x] by (simp add: eq authed_def open_layer_iff)
  next
    case 2
    then have "a OR b \<noteq> 0" using sa(4) by (simp add: or_eq_0_iff)
    moreover have "st lcp_fsm ?x = st lcp_fsm u" "net_early ?x = net_early u" "net_shut ?x = net_shut u"
      by (simp_all add: net_early_def net_shut_def cfg_ok_def)
    ultimately show ?thesis
      using 2 view_net(1,5) [OF u] by (auto simp: eq in_layer_def)
  qed
qed

lemma lowerups_view:
  fixes sys :: "'z auth_world_scheme sys_ext"
  assumes "sys_ok sys" "\<not> started w" "alive w"
  shows "view (fold (\<lambda>p w.
                      case pe_lowerup p of
                        Some g \<Rightarrow> if pe_protocol p \<noteq> PPP_LCP \<and> pe_enabled p then g w else w
                      | None \<Rightarrow> w) (protocols sys) w) = view w"
proof (rule fold_keeps [where P = "\<lambda>x. view x = view w"])
  fix p and x :: "'z auth_world_scheme" assume p: "p \<in> set (protocols sys)" and x: "view x = view w"
  have ch: "view (chap_lowerup (chap_ext_of sys) x) = view x"
    using view_net(7) [of "ss_on LOWERUP (cs_on LOWERUP x)" w] x assms(2)
    by (simp add: chap_lowerup_def Let_def)
  have oth: "view (g x) = view x" if "p \<in> set (other_protocols sys)" "pe_lowerup p = Some g" for g
    using that assms(1,3) view_net(11) [OF x] mild_view [of g x]
    by (auto simp: sys_ok_def list_all_iff proto_ok_def alive_def)
  show "view (case pe_lowerup p of
                        Some g \<Rightarrow> if pe_protocol p \<noteq> PPP_LCP \<and> pe_enabled p then g x else x
                      | None \<Rightarrow> x) = view w"
    using p x ch oth
    by (auto simp: protocols_def lcp_protent_def pap_protent_def chap_protent_def split: option.split)
qed simp

lemma link_established_layer:
  assumes "sys_ok sys" "st lcp_fsm w = OPENED" "net_shut w"
  shows "net_layer (link_established sys w)"
proof -
  define u where "u = (if \<not> doing_multilink w
               then fold (\<lambda>p w.
                      case pe_lowerup p of
                        Some g \<Rightarrow> if pe_protocol p \<noteq> PPP_LCP \<and> pe_enabled p then g w else w
                      | None \<Rightarrow> w) (protocols sys) w
               else w)"
  define v where "v = (if \<not> auth_required u \<and> has_noauth_addrs u then set_allowed_addrs sys u else u)"
  have q: "view (set_allowed_addrs sys x) = view x" "view (snd (null_login sys x)) = view x"
    "\<not> fst (null_login sys x)" for x
    using assms(1) by (simp_all add: sys_ok_def quiet_def)
  have "\<not> started w" "alive w" using assms(3) by (simp_all add: net_shut_def net_early_def)
  then have v: "view v = view w" using lowerups_view [OF assms(1)] q by (simp add: u_def v_def)
  have r: "rising x" if "view x = view v" for x
    using rising_shut [OF assms(2,3)] rising_view [of x w] that v by simp
  let ?go = "lcp_gotoptions v"
  have A: "net_layer (proceed_auth sys (set_allowed_addrs sys v))" if "has_noauth_addrs v"
  proof (rule proceed_auth_layer [OF assms(1)])
    show "rising (set_allowed_addrs sys v)" using q by (intro r) simp
  qed (use that must_auth_view [of "set_allowed_addrs sys v" v] q in \<open>simp add: must_auth_def\<close>)
  have C: "net_layer (close_link sys rs (x\<lparr>status := n\<rparr>))" if "view x = view v" for x rs n
    using r [of "x\<lparr>status := n\<rparr>"] that close_link_layer(1) [OF assms(1) rising_layer0] by simp
  have P: "net_layer (proceed_auth sys v)" if "\<not> (auth_required v \<and> \<not> (neg_upap ?go \<or> neg_chap ?go \<or> neg_eap ?go))"
    using that by (intro proceed_auth_layer assms(1) r) (auto simp: must_auth_def)
  obtain ok x where nl: "(if \<not> neg_upap (lcp_wantoptions v) \<or> uselogin v then (False, v) else null_login sys v) = (ok, x)"
    by (rule prod.exhaust)
  have x: "view x = view v" "\<not> ok" using nl q by (auto split: if_splits) (metis snd_conv, metis fst_conv)
  have "link_established sys w =
     (if auth_required v \<and> \<not> (neg_upap ?go \<or> neg_chap ?go \<or> neg_eap ?go)
      then (if has_noauth_addrs v then proceed_auth sys (set_allowed_addrs sys v)
            else close_link sys ''peer refused to authenticate'' (x\<lparr>status := EXIT_PEER_AUTH_FAILED\<rparr>))
      else proceed_auth sys v)"
    using x(2) by (simp only: link_established_def Let_def u_def [symmetric] v_def [symmetric] nl prod.case) simp
  then show ?thesis using A P C [OF x(1)] by simp
qed

lemma echo_lowerup_view:
  assumes "0 \<le> lcp_echo_fails w"
  shows "view (lcp_echo_lowerup ext w) = view w"
proof -
  have "view (LcpSendEchoRequest ext x) = view x" if "lcp_echos_pending x = 0" "0 \<le> lcp_echo_fails x" for x
    using that by (simp add: LcpSendEchoRequest_def Let_def)
  then show ?thesis using assms
    by (simp add: lcp_echo_lowerup_def LcpEchoCheck_def Let_def)
qed


lemma lcp_up_layer:
  assumes "sys_ok sys" "st lcp_fsm w = OPENED" "net_shut w"
  shows "net_layer (lcp_up (lcp_ext_of sys) w)"
proof -
  have echo: "view (lcp_echo_lowerup ext v) = view w" if "view v = view w" for ext v
    using echo_lowerup_view [of v ext] view_net(6) [OF that] that assms(3)
    by (simp add: net_shut_def net_early_def cfg_ok_def)
  have "\<exists>u. view u = view w \<and> lcp_up (lcp_ext_of sys) w = link_established sys u"
    unfolding lcp_up_def Let_def ext_of_sel
    by (rule exI, rule conjI, rule echo, rule_tac [2] refl) simp
  then obtain u where u: "view u = view w" "lcp_up (lcp_ext_of sys) w = link_established sys u" by blast
  then show ?thesis
    using link_established_layer [OF assms(1), of u] view_net(3,5) [OF u(1)] assms(2,3) by simp
qed

section \<open>LCP's other callbacks\<close>

lemma lcp_close_full_layer:
  assumes "sys_ok sys" "net_layer w"
  shows "net_layer (lcp_close (lcp_ext_of sys) r w)" "st lcp_fsm (lcp_close (lcp_ext_of sys) r w) \<noteq> OPENED"
  using lcp_close_layer [OF assms(1) net_layers(1) [OF assms(2)], of r] net_layers(2)
  by (auto simp: ext_of_down(2))

lemma view_resetci [simp]: "view (lcp_resetci (lcp_ext_of sys) w) = view w"
proof -
  have "view (auth_reset sys x) = view x" for x by (simp add: auth_reset_def Let_def)
  then show ?thesis by (simp add: lcp_resetci_def Let_def)
qed

lemma view_reqci: "lcp_reqci w p r = (c, p', w') \<Longrightarrow> view w' = view w"
  by (auto simp: lcp_reqci_def Let_def)

lemma view_rejci: "lcp_rejci w p = (c, w') \<Longrightarrow> view w' = view w"
  by (auto simp: lcp_rejci_def split: option.splits)

lemma lcp_nakci_layer:
  assumes "sys_ok sys" "net_layer w" "lcp_nakci (lcp_ext_of sys) w p r = (c, w')"
  shows "net_layer w'"
proof -
  obtain lb t where sc: "nakci_scan (lcp_gotoptions w) (lcp_wantoptions w) r (shd (magic_src w)) p = (lb, t)"
    by (rule prod.exhaust)
  define u where "u = (if lb then w\<lparr>magic_src := stl (magic_src w)\<rparr> else w)"
  have "view u = view w" by (simp add: u_def)
  then have u: "net_layer u" using assms(2) by (rule layer_view(1))
  have cl: "net_layer (lcp_close (lcp_ext_of sys) s (u\<lparr>status := n\<rparr>))" for s n
    using u by (intro lcp_close_full_layer assms(1)) (rule layer_view(1), simp_all)
  have g: "net_layer (x\<lparr>lcp_gotoptions := o1\<rparr>)" if "net_layer x" for x o1
    using layer_view(1) [OF view_fields(10) that] .
  show ?thesis
    using assms(3) u cl g unfolding u_def
    by (cases lb) (auto simp: lcp_nakci_def sc Let_def split: option.splits if_splits)
qed

lemma link_failure_layer:
  "sys_ok sys \<Longrightarrow> net_layer w \<Longrightarrow> net_layer (LcpLinkFailure (lcp_ext_of sys) w)"
  by (auto simp: LcpLinkFailure_def intro!: lcp_close_full_layer intro: layer_view(1))

lemma echo_timeout_layer:
  assumes "sys_ok sys" "net_layer w"
  shows "net_layer (LcpEchoTimeout (lcp_ext_of sys) w)"
proof -
  have sr: "net_layer (LcpSendEchoRequest (lcp_ext_of sys) x)" if x: "net_layer x" for x
  proof -
    define u where "u = (if lcp_echo_fails x \<noteq> 0 \<and> lcp_echos_pending x \<ge> lcp_echo_fails x
               then (LcpLinkFailure (lcp_ext_of sys) x)\<lparr>lcp_echos_pending := 0\<rparr> else x)"
    have "net_layer u"
      using link_failure_layer [OF assms(1) x] x by (auto simp: u_def intro: layer_view(1))
    then show ?thesis
      by (simp add: LcpSendEchoRequest_def u_def [symmetric] Let_def layer_view(1))
  qed
  let ?y = "LcpSendEchoRequest (lcp_ext_of sys) (w\<lparr>lcp_echo_timer_running := False\<rparr>)"
  have y: "net_layer ?y"
    by (rule sr, rule layer_view(1) [OF _ assms(2)]) simp
  have "net_layer ((TIMEOUT Fn_LcpEchoTimeout (Fsm_arg lcp_fsm) n ?y)\<lparr>lcp_echo_timer_running := True\<rparr>)" for n
    by (rule layer_view(1) [OF _ y]) simp
  with y assms(2) show ?thesis
    by (simp add: LcpEchoTimeout_def LcpEchoCheck_def Let_def)
qed

lemma lcp_protrej_layer:
  assumes "sys_ok sys" "net_layer w"
  shows "net_layer (lcp_protrej (lcp_ext1 sys) w)"
  using fsm_down_layer.protreject_layer [OF ext1_layer [OF assms(1)] net_layers(1) [OF assms(2)]] net_layers(2)
  by (auto simp: lcp_protrej_def)

lemma lcp_extcode_layer:
  assumes "sys_ok sys" "net_layer w" "lcp_extcode (lcp_ext_of sys) w c i p = (b, w')"
  shows "net_layer w'"
proof -
  have rej: "net_layer (pe_protrej q w)" if "q \<in> set (protocols sys)" "st lcp_fsm w = OPENED" for q
  proof -
    have "safe (pe_protrej q)" if "q \<in> set (other_protocols sys)"
      using that assms(1) by (auto simp: sys_ok_def list_all_iff proto_ok_def)
    then show ?thesis
      using that lcp_protrej_layer [OF assms(1,2)] upap_protrej_layer [OF assms(1,2)] chap_protrej_layer [OF assms(1,2)] assms(2)
      by (auto simp: protocols_def lcp_protent_def pap_protent_def chap_protent_def safe_def)
  qed
  have "net_layer (lcp_rprotrej (lcp_ext_of sys) p w)"
    using rej assms(2) by (auto simp: lcp_rprotrej_def find_Some_iff split: list.split option.split)
  moreover have "net_layer (lcp_received_echo_reply p w)"
    using assms(2) by (auto simp: lcp_received_echo_reply_def intro: layer_view(1) split: list.split)
  ultimately show ?thesis
    using assms(2,3) by (auto simp: lcp_extcode_def intro: layer_view(1) split: if_splits)
qed


section \<open>LCP satisfies the contract of the automaton\<close>

lemma lcp_layer:
  fixes sys :: "'z auth_world_scheme sys_ext"
  assumes "sys_ok sys"
  shows "fsm_layer (lcp_callbacks (lcp_ext_of sys)) lcp_fsm net_early net_shut net_open"
proof
  fix h :: "fsm \<Rightarrow> fsm" and w :: "'z auth_world_scheme" assume "\<And>x. flags (h x) = flags x"
  then show "net_early (upd_fsm lcp_fsm h w) = net_early w \<and> net_shut (upd_fsm lcp_fsm h w) = net_shut w \<and>
    net_open (upd_fsm lcp_fsm h w) = net_open w" using net_upd_fsm [of h w] by simp
next
  fix g and w :: "'z auth_world_scheme" assume "cb_down (lcp_callbacks (lcp_ext_of sys)) = Some g"
  then show "st lcp_fsm (g w) = st lcp_fsm w \<and> (net_open w \<or> net_shut w \<longrightarrow> net_shut (g w))"
    using lcp_down_shut(1,7) [OF assms, of "lcp_ext_of sys" w]
    by (auto simp: lcp_callbacks_def net_shut_def net_early_def net_up_def net_open_def)
next
  fix g and w :: "'z auth_world_scheme"
  assume g: "cb_finished (lcp_callbacks (lcp_ext_of sys)) = Some g" and s: "st lcp_fsm w = CLOSED \<or> st lcp_fsm w = STOPPED"
    and sh: "net_shut w"
  have "g = link_terminated sys" using g by (auto simp: lcp_callbacks_def lcp_finished_def)
  then show "net_layer (g w) \<and> st lcp_fsm (g w) \<noteq> OPENED"
    using link_terminated_layer [OF assms net_layers(3) [OF sh]] s net_layers(2) [of "link_terminated sys w"] by auto
next
  fix g and w :: "'z auth_world_scheme" assume "cb_resetci (lcp_callbacks (lcp_ext_of sys)) = Some g"
  then show "st lcp_fsm (g w) = st lcp_fsm w \<and> (net_shut w \<longrightarrow> net_shut (g w))"
    using view_net(3,5) [OF view_resetci, of sys w] by (auto simp: lcp_callbacks_def)
next
  fix w :: "'z auth_world_scheme"
  let ?w = "snd (confreq_data (lcp_callbacks (lcp_ext_of sys)) w)"
  show "st lcp_fsm ?w = st lcp_fsm w \<and> (net_shut w \<longrightarrow> net_shut ?w)" by simp
next
  fix rq and w w' :: "'z auth_world_scheme" and p r c p'
  assume "cb_reqci (lcp_callbacks (lcp_ext_of sys)) = Some rq" "rq w p r = (c, p', w')"
  then show "st lcp_fsm w' = st lcp_fsm w \<and> (net_shut w \<longrightarrow> net_shut w')"
    using view_net(3,5) [OF view_reqci, of w p r c p' w'] by (auto simp: lcp_callbacks_def)
next
  fix n and w w' :: "'z auth_world_scheme" and p r c
  assume "cb_nakci (lcp_callbacks (lcp_ext_of sys)) = Some n" "n w p r = (c, w')" "net_layer w"
  then show "net_layer w'" using lcp_nakci_layer [OF assms] by (auto simp: lcp_callbacks_def)
next
  fix j and w w' :: "'z auth_world_scheme" and p c
  assume "cb_rejci (lcp_callbacks (lcp_ext_of sys)) = Some j" "j w p = (c, w')" "net_layer w"
  then show "net_layer w'" using layer_view(1) [OF view_rejci] by (auto simp: lcp_callbacks_def)
next
  fix x and w w' :: "'z auth_world_scheme" and c i p b
  assume "cb_extcode (lcp_callbacks (lcp_ext_of sys)) = Some x" "x w c i p = (b, w')" "net_layer w"
  then show "net_layer w'" using lcp_extcode_layer [OF assms] by (auto simp: lcp_callbacks_def)
next
  fix g and w :: "'z auth_world_scheme"
  assume "cb_up (lcp_callbacks (lcp_ext_of sys)) = Some g" "st lcp_fsm w = OPENED" "net_shut w"
  then show "net_layer (g w)" using lcp_up_layer [OF assms] by (auto simp: lcp_callbacks_def)
qed (auto simp: lcp_callbacks_def lcp_starting_def link_required_def net_shut_def)


text \<open>
  The environments that satisfy the contract, as a type: for each of them LCP's callbacks are a client
  in the sense of \<open>fsm_layer\<close>.
\<close>

definition idle_sys :: "'z auth_world_scheme sys_ext" where
  "idle_sys = \<lparr>other_protocols = [], eap_authpeer = (\<lambda>_ w. w), eap_authwithpeer = (\<lambda>_ w. w),
     null_login = (\<lambda>w. (False, w)), set_allowed_addrs = id, get_pap_passwd = (\<lambda>_. None),
     have_pap_secret = (\<lambda>_. True), have_chap_secret = (\<lambda>_ _ _ _. True), have_srp_secret = (\<lambda>_ _ _ _. False),
     check_passwd = (\<lambda>_ _ w. (UPAP_AUTHACK, [], w)), auth_number = (\<lambda>_. True), get_secret = (\<lambda>_ _ _ w. (None, w)),
     digests = [], session_denied = (\<lambda>_ _. False), apply_extra_options = id, mp_join_bundle = (\<lambda>w. (False, w)),
     ecp_required = (\<lambda>_. False), mppe_required = (\<lambda>_. False), idle_time = (\<lambda>_. None), octets_used = (\<lambda>_. 0)\<rparr>"

lemma idle_sys_ok: "sys_ok idle_sys"
  by (simp add: sys_ok_def passwd_ok_def idle_sys_def quiet_def)

typedef 'z net_env = "{sys :: 'z auth_world_scheme sys_ext. sys_ok sys}"
  using idle_sys_ok by blast

lemma env_ok: "sys_ok (Rep_net_env e)"
  using Rep_net_env by simp

lemma env_rep: "sys_ok sys \<Longrightarrow> Rep_net_env (Abs_net_env sys) = sys"
  by (simp add: Abs_net_env_inverse)

interpretation lcp_net: fsm_layer "lcp_callbacks (lcp_ext_of (Rep_net_env e))" lcp_fsm net_early net_shut net_open
  for e :: "'z net_env"
  by (rule lcp_layer) (rule env_ok)

interpretation lcp_off: fsm_down_layer "lcp_down_callbacks (lcp_ext1 (Rep_net_env e))" lcp_fsm net_early net_shut net_up
  for e :: "'z net_env"
  by (rule ext1_layer) (rule env_ok)

lemma lcp_entries_layer:
  assumes "sys_ok sys"
  shows "net_layer w \<Longrightarrow> net_layer (fsm_open (lcp_callbacks (lcp_ext_of sys)) lcp_fsm w)"
    "net_layer w \<Longrightarrow> net_shut w \<Longrightarrow> net_layer (fsm_lowerup (lcp_callbacks (lcp_ext_of sys)) lcp_fsm w)"
    "net_layer w \<Longrightarrow> net_layer (fsm_input (lcp_callbacks (lcp_ext_of sys)) lcp_fsm p w)"
    "net_layer w \<Longrightarrow> net_layer (fsm_timeout (lcp_callbacks (lcp_ext_of sys)) lcp_fsm w)"
  using lcp_net.open_layer [of w "Abs_net_env sys"] lcp_net.lowerup_layer [of w "Abs_net_env sys"]
    lcp_net.input_layer [of w "Abs_net_env sys" p] lcp_net.timeout_layer [of w "Abs_net_env sys"]
  unfolding env_rep [OF assms] by simp_all

lemma act_layer [simp]: "grounded (act a w) = grounded w" "net_layer (act a w) = net_layer w"
  by (rule grounded_view [OF view_frames(5)], rule view_net(1) [OF view_frames(5)])

section \<open>The contract of the rest of the program\<close>

text \<open>
  \<open>sys_ok\<close>, and for the functions only \<open>main\<close> calls: the options leave LCP and the protocols as they are
  initialised and give a configuration in the scope of the theorem; the callouts of the other protocols
  keep the invariant, and do not bring LCP up when it is down.
\<close>

definition main_ok :: "'z auth_world_scheme main_ext \<Rightarrow> bool" where
  "main_ok m \<longleftrightarrow> sys_ok (env_sys m) \<and> layered (mp_bundle_terminated m) \<and>
     (\<forall>w. grounded w \<and> num_np_open w \<le> 0 \<and> \<not> started w \<longrightarrow>
        grounded (parse_options m w) \<and> net_layer (parse_options m w)) \<and>
     quiet (\<lambda>w. snd (channel_connect m w)) \<and> (\<forall>fd. quiet (\<lambda>w. snd (channel_establish m fd w))) \<and>
     (\<forall>fn a. layered (other_timer m fn a)) \<and>
     (\<forall>fn a w. grounded w \<and> net_layer w \<longrightarrow> grounded (other_timer m fn a w)) \<and>
     (\<forall>fn. layered (other_done m fn)) \<and>
     (\<forall>fn w. grounded w \<and> net_layer w \<longrightarrow> grounded (other_done m fn w))"

lemma main_okD:
  assumes "main_ok m"
  shows "sys_ok (env_sys m)" "net_layer w \<Longrightarrow> net_layer (mp_bundle_terminated m w)"
    "view (snd (channel_connect m w)) = view w" "view (snd (channel_establish m fd w)) = view w"
    "net_layer w \<Longrightarrow> net_layer (other_timer m fn a w)"
    "grounded w \<Longrightarrow> net_layer w \<Longrightarrow> grounded (other_timer m fn a w)"
    "net_layer w \<Longrightarrow> net_layer (other_done m dn w)"
    "grounded w \<Longrightarrow> net_layer w \<Longrightarrow> grounded (other_done m dn w)"
  using assms by (auto simp: main_ok_def quiet_def layered_def)

section \<open>The entry points\<close>

lemma flag_masks:
  "((x :: u32) OR 1) AND 0x100 = x AND 0x100" "(x OR 4) AND 0x100 = x AND 0x100" "x AND - 6 AND 0x100 = x AND 0x100"
  by (simp_all add: bit.conj_disj_distrib2 and.assoc)

lemma view_flags [simp]:
  "view (clear_flag 5 w) = view w"
  "view (set_flag OPT_PASSIVE w) = view w" "view (set_flag OPT_SILENT w) = view w"
  by (simp_all add: view_def clear_flag_def set_flag_def upd_fsm_def flag_masks and.assoc)

lemma lcp_open_layer:
  assumes "sys_ok sys" "net_layer w"
  shows "net_layer (lcp_open (lcp_ext_of sys) w)" "grounded w \<Longrightarrow> grounded (lcp_open (lcp_ext_of sys) w)"
proof -
  define u where "u = (let wo = lcp_wantoptions w;
          w = clear_flag (OPT_PASSIVE OR OPT_SILENT) w;
          w = (if opt_passive wo then set_flag OPT_PASSIVE w else w)
      in (if opt_silent wo then set_flag OPT_SILENT w else w))"
  have u: "view u = view w" unfolding u_def Let_def by simp
  have eq: "lcp_open (lcp_ext_of sys) w = fsm_open (lcp_callbacks (lcp_ext_of sys)) lcp_fsm u"
    by (simp add: lcp_open_def u_def Let_def)
  show "net_layer (lcp_open (lcp_ext_of sys) w)"
    unfolding eq by (rule lcp_entries_layer(1) [OF assms(1) layer_view(1) [OF u assms(2)]])
  assume "grounded w"
  then have "grounded u" using grounded_view [OF u] by simp
  then show "grounded (lcp_open (lcp_ext_of sys) w)" unfolding eq
    by (cases "st lcp_fsm u") (auto simp: fsm_open_def grounded_def callback_def lcp_callbacks_def
        lcp_starting_def link_required_def)
qed

lemma delay_layer:
  assumes "net_layer w" "grounded w" "alive w"
  shows "net_layer (timeout fn a s us (set_flag DELAYED_UP w))"
proof (rule layer_view(1))
  show "net_layer (set_flag DELAYED_UP w)"
    using assms by (auto simp: in_layer_def set_flag_def grounded_def net_early_def)
qed simp

lemma lcp_lowerup_layer:
  assumes "sys_ok sys" "net_layer w" "grounded w" "alive w"
  shows "net_layer (lcp_lowerup (lcp_ext_of sys) w)"
proof -
  let ?a = "snd (ppp_send_config PPP_MRU 0xFFFFFFFF False False w)"
  let ?b = "snd (ppp_recv_config PPP_MRU (if lax_recv ?a then 0 else 0xFFFFFFFF)
      (neg_pcompression (lcp_wantoptions w)) (neg_accompression (lcp_wantoptions w)) ?a)"
  let ?c = "?b\<lparr>peer_mru := PPP_MRU\<rparr>"
  have v: "view ?a = view w" "view ?b = view w" "view ?c = view w" by simp_all
  have c: "net_layer ?c" "grounded ?c" "alive ?c"
    using layer_view(1) [OF v(3) assms(2)] grounded_view [OF v(3)] view_net(11) [OF v(3)] assms(3,4) by auto
  then have sh: "net_shut ?c" by (auto simp: grounded_layer grounded_def net_shut_def net_early_def)
  have up: "net_layer (fsm_lowerup (lcp_callbacks (lcp_ext_of sys)) lcp_fsm ?c)"
    by (rule lcp_entries_layer(2) [OF assms(1) c(1) sh])
  let ?d = "timeout Fn_lcp_delayed_up (Fsm_arg lcp_fsm) 0 (listen_time ?c * 1000) (set_flag DELAYED_UP ?c)"
  have "net_layer ?d" by (rule delay_layer [OF c])
  moreover have "lcp_lowerup (lcp_ext_of sys) w \<in> {?a, ?b, ?d, fsm_lowerup (lcp_callbacks (lcp_ext_of sys)) lcp_fsm ?c}"
    by (auto simp: lcp_lowerup_def Let_def split: prod.splits)
  ultimately show ?thesis
    using up layer_view(1) [OF v(1) assms(2)] layer_view(1) [OF v(2) assms(2)] by auto
qed


lemma lcp_undelay_layer:
  assumes "sys_ok sys" "net_layer w" "delayed w"
  shows "net_layer (fsm_lowerup (lcp_callbacks (lcp_ext_of sys)) lcp_fsm (clear_flag DELAYED_UP w))"
proof (rule lcp_entries_layer(2) [OF assms(1)])
  note ld = layer_delayed [OF net_layers(1) [OF assms(2)] assms(3)]
  then show "net_layer (clear_flag DELAYED_UP w)" by (auto simp: in_layer_def)
  from ld show "net_shut (clear_flag DELAYED_UP w)" by (simp add: net_shut_def)
qed

lemma lcp_delayed_up_layer:
  "sys_ok sys \<Longrightarrow> net_layer w \<Longrightarrow> net_layer (lcp_delayed_up (lcp_ext_of sys) w)"
  by (auto simp: lcp_delayed_up_def intro: lcp_undelay_layer)

lemma lcp_input_layer:
  assumes "sys_ok sys" "net_layer w"
  shows "net_layer (lcp_input (lcp_ext_of sys) p w)"
proof -
  define u where "u = (if delayed w
               then fsm_lowerup (lcp_callbacks (lcp_ext_of sys)) lcp_fsm
                      (UNTIMEOUT Fn_lcp_delayed_up (Fsm_arg lcp_fsm) (clear_flag DELAYED_UP w))
               else w)"
  have "UNTIMEOUT fn a (clear_flag b w) = clear_flag b (UNTIMEOUT fn a w)" for fn a b
    by (simp add: untimeout_def clear_flag_def upd_fsm_def)
  moreover have "net_layer (UNTIMEOUT Fn_lcp_delayed_up (Fsm_arg lcp_fsm) w)"
    by (rule layer_view(1) [OF _ assms(2)]) simp
  ultimately have "net_layer u" using assms by (auto simp: u_def intro!: lcp_undelay_layer)
  then show ?thesis
    using lcp_entries_layer(3) [OF assms(1), of u p]
    by (simp add: lcp_input_def u_def [symmetric] Let_def)
qed

section \<open>Callouts\<close>

lemma lcp_close_grounded:
  assumes "grounded w"
  shows "grounded (lcp_close ext r w)"
  using assms
  by (cases "st lcp_fsm w") (auto simp: lcp_close_def Let_def fsm_close_def grounded_def new_phase_def)

lemma close_link_grounded: "grounded w \<Longrightarrow> grounded (close_link sys r w)"
  by (simp add: close_link_def lcp_close_grounded)

lemma fail_grounded:
  assumes "grounded w"
  shows "grounded (auth_peer_fail sys pr w)" "grounded (auth_withpeer_fail sys pr w)"
proof -
  have "grounded (w\<lparr>status := n\<rparr>)" "grounded (w\<lparr>passwd := [], status := n\<rparr>)" for n
    using assms by (simp_all add: grounded_def)
  then show "grounded (auth_peer_fail sys pr w)" "grounded (auth_withpeer_fail sys pr w)"
    by (auto simp: auth_peer_fail_def auth_withpeer_fail_def Let_def intro!: close_link_grounded)
qed

lemma new_phase_layer:
  assumes "n \<noteq> PHASE_DEAD" "net_layer w"
  shows "net_layer (new_phase n w)"
proof (cases "phase w = PHASE_DEAD")
  case True
  then have g: "grounded w" using assms(2) by (auto intro!: dead_grounded net_layers(1) simp: alive_def)
  then have "grounded (new_phase n w)" by (simp add: grounded_def new_phase_def)
  then show ?thesis using assms(2) g by (simp add: grounded_layer) (simp add: new_phase_def cfg_ok_def)
qed (use assms in \<open>auto intro: layer_view(1)\<close>)

lemma close_then_layer:
  assumes "sys_ok sys" "net_layer w" "view v = view w"
  shows "net_layer (close_link sys r v)" "grounded w \<Longrightarrow> grounded (close_link sys r v)"
  using close_link_layer(1) [OF assms(1) layer_view(2) [OF assms(3,2)]] close_link_grounded [of v] grounded_view [OF assms(3)]
  by auto

lemma auth_timers_layer:
  fixes w :: "'z auth_world_scheme"
  assumes "sys_ok sys" "net_layer w"
  shows "net_layer (check_idle sys w)" "grounded w \<Longrightarrow> grounded (check_idle sys w)"
    "net_layer (check_maxoctets sys w)" "grounded w \<Longrightarrow> grounded (check_maxoctets sys w)"
    "net_layer (connect_time_expired sys w)" "grounded w \<Longrightarrow> grounded (connect_time_expired sys w)"
proof -
  have h: "view (x\<lparr>need_holdoff := b\<rparr>) = view x" for x :: "'z auth_world_scheme" and b by simp
  note c = close_then_layer [OF assms, of "w\<lparr>status := n\<rparr>" for n, simplified]
  have ch: "net_layer ((close_link sys r (w\<lparr>status := n\<rparr>))\<lparr>need_holdoff := b\<rparr>)"
    "grounded ((close_link sys r (w\<lparr>status := n\<rparr>))\<lparr>need_holdoff := b\<rparr>) = grounded (close_link sys r (w\<lparr>status := n\<rparr>))" for r n b
    using layer_view(1) [OF h c(1)] grounded_view [OF h] by auto
  have t: "net_layer (timeout fn a x y w)" "grounded (timeout fn a x y w) = grounded w" for fn a x y
    by (rule layer_view(1) [OF view_timers(1) assms(2)], rule grounded_view [OF view_timers(1)])
  show "net_layer (check_idle sys w)" "net_layer (check_maxoctets sys w)" "net_layer (connect_time_expired sys w)"
    using assms(2) c(1) ch(1) t(1)
    by (simp_all add: check_idle_def check_maxoctets_def connect_time_expired_def Let_def split: option.split)
  assume "grounded w"
  then show "grounded (check_idle sys w)" "grounded (check_maxoctets sys w)" "grounded (connect_time_expired sys w)"
    using c(2) ch(2) t(2)
    by (simp_all add: check_idle_def check_maxoctets_def connect_time_expired_def Let_def split: option.split)
qed

lemma timeouts_grounded:
  fixes sys :: "'z auth_world_scheme sys_ext"
  assumes "sys_ok sys" "grounded w"
  shows "fsm_timeout (lcp_callbacks ext) lcp_fsm w = w" "lcp_delayed_up ext w = w"
    "grounded (LcpEchoTimeout ext w)" "grounded (upap_timeout (auth_ext_of sys) w)"
    "grounded (upap_reqtimeout (auth_ext_of sys) w)" "grounded (chap_timeout (chap_ext_of sys) w)"
proof -
  show "fsm_timeout (lcp_callbacks ext) lcp_fsm w = w" "lcp_delayed_up ext w = w"
    using assms(2) by (cases "st lcp_fsm w"; simp add: grounded_def fsm_timeout_def lcp_delayed_up_def)+
  have "st lcp_fsm w \<noteq> OPENED" using assms(2) by (auto simp: grounded_def)
  then have "view (LcpEchoTimeout ext w) = view w"
    by (simp add: LcpEchoTimeout_def LcpEchoCheck_def LcpSendEchoRequest_def LcpLinkFailure_def Let_def)
  then show "grounded (LcpEchoTimeout ext w)" using grounded_view assms(2) by blast
  have v: "grounded v" if "view v = view w" for v using grounded_view [OF that] assms(2) by simp
  have g: "view v = view u \<Longrightarrow> grounded u \<Longrightarrow> grounded v" for u v :: "'z auth_world_scheme"
    using grounded_view [of v u] by simp
  show "grounded (upap_timeout (auth_ext_of sys) w)"
    by (auto simp: upap_timeout_def assms(2) intro!: fail_grounded intro: v)
  show "grounded (upap_reqtimeout (auth_ext_of sys) w)"
    by (auto simp: upap_reqtimeout_def assms(2) intro!: g [OF _ fail_grounded(1) [OF assms(2)]])
  obtain u where u: "view u = view w" "chap_timeout (chap_ext_of sys) w = u \<or>
    chap_timeout (chap_ext_of sys) w = auth_peer_fail sys PPP_CHAP u"
    using chap_timeout_cases [OF assms(1)] by blast
  then show "grounded (chap_timeout (chap_ext_of sys) w)" using fail_grounded(1) [OF v [OF u(1)]] v [OF u(1)] by auto
qed

lemma timer_call_layer:
  assumes "main_ok m" "net_layer w"
  shows "net_layer (timer_call m fn arg w)"
proof -
  note S = main_okD(1) [OF assms(1)]
  show ?thesis
    by (cases fn)
      (auto simp: timer_call_def intro!: lcp_entries_layer(4) [OF S assms(2)] main_okD(5) [OF assms]
        lcp_delayed_up_layer [OF S assms(2)] echo_timeout_layer [OF S assms(2)] upap_timeout_layer [OF S assms(2)]
        upap_reqtimeout_layer [OF S assms(2)] chap_timeout_layer [OF S assms(2)] auth_timers_layer(1,3,5) [OF S assms(2)]
        new_phase_layer assms(2))
qed

lemma timer_call_grounded:
  assumes "main_ok m" "net_layer w" "grounded w"
  shows "grounded (timer_call m fn arg w)"
proof -
  note S = main_okD(1) [OF assms(1)]
  have "grounded (new_phase n w)" for n using assms(3) by (simp add: grounded_def new_phase_def)
  then show ?thesis
    using main_okD(6) [OF assms(1,3,2)] timeouts_grounded [OF S assms(3)] auth_timers_layer(2,4,6) [OF S assms(2,3)] assms(3)
    by (cases fn) (simp_all add: timer_call_def)
qed

section \<open>Steps\<close>

definition sys_inv :: "main_pc \<Rightarrow> 'z auth_world_scheme \<Rightarrow> bool" where
  "sys_inv pc w \<longleftrightarrow> net_layer w \<and> (pc = Waiting \<longrightarrow> grounded w)"

lemma expire_first_inv:
  assumes "main_ok m" "sys_inv pc w"
  shows "sys_inv pc (expire_first m w)"
proof (cases "callout w")
  case (Cons p rest)
  let ?u = "(gettimeofday w)\<lparr>callout := rest\<rparr>"
  have u: "view ?u = view w" by simp
  show ?thesis
    using timer_call_layer [OF assms(1) layer_view(1) [OF u]] timer_call_grounded [OF assms(1) layer_view(1) [OF u]]
      grounded_view [OF u] assms(2)
    by (auto simp: expire_first_def Cons sys_inv_def)
qed (use assms in \<open>simp add: expire_first_def\<close>)

lemma eof_layer:
  assumes "sys_ok sys" "net_layer w"
  shows "net_layer (link_terminated sys (lcp_lowerdown (lcp_ext_of sys) (w\<lparr>hungup := True, status := n\<rparr>)))"
proof -
  let ?u = "lcp_lowerdown (lcp_ext_of sys) (w\<lparr>hungup := True, status := n\<rparr>)"
  have u: "grounded ?u" "net_layer0 ?u"
    using lcp_lowerdown_grounds [OF assms(1), of "lcp_ext_of sys" "w\<lparr>hungup := True, status := n\<rparr>"]
      layer0_facts [OF net_layers(1) [OF assms(2)]]
    by (auto simp: cfg_ok_def)
  from u(1) have "st lcp_fsm ?u \<noteq> OPENED" by (auto simp: grounded_def)
  then show ?thesis
    using link_terminated_layer [OF assms(1) u(2)] net_layers(2) [of "link_terminated sys ?u"] by blast
qed

lemma upcall_entry:
  "upcall proto p es = Some g \<Longrightarrow> \<exists>e\<in>set es. pe_protocol e = proto \<and> g = pe_input e p \<or> (\<exists>h. pe_datainput e = Some h \<and> g = h p)"
  by (induction es) (auto split: if_splits option.splits)

lemma upcall_layer:
  assumes "sys_ok (env_sys m)" "net_layer w" "upcall proto p (proto_table m) = Some g" "proto \<noteq> PPP_LCP \<longrightarrow> st lcp_fsm w = OPENED"
  shows "net_layer (g w)"
proof -
  have oth: "safe (pe_input e p)" "pe_datainput e = Some h \<Longrightarrow> safe (h p)" if "e \<in> set (other_protocols (env_sys m))" for e h
    using that assms(1) by (auto simp: sys_ok_def list_all_iff proto_ok_def)
  show ?thesis
  proof (cases "proto = PPP_LCP")
    case True
    then have "g = lcp_input (lcp_ext_of (env_sys m)) p"
      using assms(3) by (simp add: proto_table_def lcp_protent_def)
    then show ?thesis using lcp_input_layer [OF assms(1,2)] by simp
  next
    case False
    then have op: "st lcp_fsm w = OPENED" using assms(4) by simp
    from upcall_entry [OF assms(3)] obtain e where e: "e \<in> set (proto_table m)"
      "pe_protocol e = proto \<and> g = pe_input e p \<or> (\<exists>h. pe_datainput e = Some h \<and> g = h p)" by blast
    then have "safe g"
      using False oth upap_input_safe [OF assms(1), of p] chap_input_safe [OF assms(1), of p]
      by (auto simp: proto_table_def lcp_protent_def pap_protent_def chap_protent_def)
    then show ?thesis using op assms(2) by (simp add: safe_def)
  qed
qed

lemma get_input_layer:
  assumes "main_ok m" "net_layer w"
  shows "net_layer (get_input m r w)"
proof -
  note S = main_okD(1) [OF assms(1)]
  have be: "net_layer (w\<lparr>bundle_eof := b\<rparr>)" for b
    by (rule layer_view(1) [OF _ assms(2)]) (simp add: view_def)
  have "net_layer (lcp_sprotrej p w)" for p
    by (rule layer_view(1) [OF _ assms(2)]) (simp add: lcp_sprotrej_def Let_def, simp add: view_def upd_fsm_def)
  then show ?thesis
    using assms(2) eof_layer [OF S be] main_okD(2) [OF assms(1) be] upcall_layer [OF S assms(2)]
    by (auto simp: get_input_def Let_def split: read_result.split list.split option.split)
qed

lemma grounded_sel:
  assumes "grounded w" "net_layer w" "st lcp_fsm v = st lcp_fsm w" "delayed v = delayed w" "cfg_ok v = cfg_ok w"
    "num_np_open v = num_np_open w" "started v = started w"
  shows "grounded v" "net_layer v"
proof -
  show v: "grounded v" using assms by (simp add: grounded_def)
  show "net_layer v" using assms(2) unfolding grounded_layer(2) [OF v] grounded_layer(2) [OF assms(1)] by (simp add: assms)
qed

lemma start_link_layer:
  fixes m :: "'z auth_world_scheme main_ext"
  assumes "main_ok m" "net_layer w" "grounded w"
  shows "net_layer (start_link m w)"
proof -
  note S = main_okD(1) [OF assms(1)]
  have ph: "grounded (new_phase n x)" "net_layer (new_phase n x)" if "grounded x" "net_layer x" for n and x :: "'z auth_world_scheme"
    using grounded_sel [OF that, of "new_phase n x"] by (simp_all add: new_phase_def cfg_ok_def)
  have fl: "net_layer (let x = new_phase PHASE_DEAD x in if has_cleanup x then act Channel_cleanup x else x)"
    if "grounded x" "net_layer x" for x :: "'z auth_world_scheme"
    using ph [OF that, of PHASE_DEAD] by (auto simp: Let_def intro: layer_view(1))
  let ?u = "(new_phase PHASE_SERIALCONN (w\<lparr>status := EXIT_CONNECT_FAILED\<rparr>))\<lparr>hungup := False\<rparr>"
  have u: "grounded ?u" "net_layer ?u" "alive ?u"
    using grounded_sel [OF assms(3,2), of ?u] by (simp_all add: new_phase_def cfg_ok_def alive_def)
  obtain fd x where cc: "channel_connect m ?u = (fd, x)" by (rule prod.exhaust)
  let ?x = "x\<lparr>devfd := fd\<rparr>"
  have "view ?x = view ?u" using main_okD(3) [OF assms(1), of ?u] cc by simp
  then have x: "grounded ?x" "net_layer ?x" "alive ?x"
    using u grounded_view layer_view(1) view_net(11) by blast+
  obtain pfd y where ce: "channel_establish m fd ?x = (pfd, y)" by (rule prod.exhaust)
  let ?y = "y\<lparr>fd_ppp := pfd\<rparr>"
  have "view ?y = view ?x" using main_okD(4) [OF assms(1), of fd ?x] ce by simp
  then have y: "grounded ?y" "net_layer ?y" "alive ?y"
    using x grounded_view layer_view(1) view_net(11) by blast+
  have st: "grounded (?y\<lparr>status := n\<rparr>)" "net_layer (?y\<lparr>status := n\<rparr>)" "alive (?y\<lparr>status := n\<rparr>)" for n
    using y layer_view(1) [OF view_fields(1) y(2)] by (simp_all add: grounded_def alive_def)
  let ?z = "new_phase PHASE_ESTABLISH (?y\<lparr>status := EXIT_NEGOTIATION_FAILED\<rparr>)"
  have up: "net_layer (lcp_lowerup (lcp_ext_of (env_sys m)) ?z)"
    using st(3) by (intro lcp_lowerup_layer S ph st) (simp add: alive_def new_phase_def)
  let ?d = "let w = new_phase PHASE_DISCONNECT (?y\<lparr>status := EXIT_FATAL_ERROR\<rparr>)
            in if has_disconnect w then act Channel_disconnect w else w"
  have d: "grounded ?d" "net_layer ?d"
    using ph [OF st(1,2), of PHASE_DISCONNECT EXIT_FATAL_ERROR]
    by (simp_all add: Let_def)
  show ?thesis
    using fl [OF x(1,2)] fl [OF d] up unfolding start_link_def Let_def cc prod.case ce
    by (cases "fd < 0"; cases "pfd < 0"; simp only: if_True if_False simp_thms)
qed

lemma attempt_layer:
  assumes "main_ok m" "net_layer w" "grounded w"
  shows "net_layer (attempt m w)"
proof -
  let ?u = "w\<lparr>bundle_eof := False, bundle_terminating := False, listen_time := 0, need_holdoff := True,
               devfd := -1, status := EXIT_OK, unsuccess := unsuccess w + 1\<rparr>"
  have u: "view ?u = view w" by (simp add: view_def)
  show ?thesis
    using lcp_open_layer [OF main_okD(1) [OF assms(1)] layer_view(1) [OF u assms(2)]] grounded_view [OF u] assms(3)
      start_link_layer [OF assms(1)]
    by (simp add: attempt_def)
qed

lemma link_over_inv:
  assumes "main_ok m" "net_layer w" "phase w = PHASE_DEAD"
  shows "sys_inv Waiting (link_over m w)"
proof -
  let ?u = "lcp_close (lcp_ext1 (env_sys m)) [] w"
  have "grounded w" using assms(2,3) by (auto intro!: dead_grounded net_layers(1) simp: alive_def)
  then have u: "grounded ?u" "net_layer ?u"
    using lcp_close_full_layer [OF main_okD(1) [OF assms(1)] assms(2)] lcp_close_grounded by (auto simp: ext_of_down)
  have "grounded (timeout fn a s us (new_phase n ?u))" "net_layer (timeout fn a s us (new_phase n ?u))" for fn a s us n
    using grounded_sel [OF u, of "timeout fn a s us (new_phase n ?u)"]
    by (simp_all add: new_phase_def cfg_ok_def timeout_def gettimeofday_def Let_def)
  then show ?thesis using u by (auto simp: sys_inv_def link_over_def Let_def)
qed

lemma signals_inv:
  assumes "sys_inv pc w"
  shows "sys_inv pc (sighup_noted w)" "sys_inv pc (sigterm_noted w)"
proof -
  have v: "view (w\<lparr>status := n\<rparr>) = view w" for n by simp
  have "sys_inv pc (w\<lparr>status := n\<rparr>)" for n
    using assms layer_view(1) [OF v] grounded_view [OF v] by (auto simp: sys_inv_def)
  then show "sys_inv pc (sighup_noted w)" "sys_inv pc (sigterm_noted w)"
    using assms by (simp_all add: sighup_noted_def sigterm_noted_def)
qed

lemma quit_bundle_layer: "main_ok m \<Longrightarrow> net_layer w \<Longrightarrow> net_layer (quit_bundle m w)"
proof -
  assume m: "main_ok m" and w: "net_layer w"
  have "net_layer (w\<lparr>bundle_terminating := True\<rparr>)" by (rule layer_view(1) [OF _ w]) (simp add: view_def)
  then show ?thesis using main_okD(2) [OF m] by (simp add: quit_bundle_def Let_def)
qed

lemma restart_ccp_layer:
  assumes "main_ok m" "net_layer w"
  shows "net_layer (restart_ccp m w)"
proof (cases "find (\<lambda>p. pe_protocol p = PPP_CCP) (other_protocols (env_sys m))")
  case (Some p)
  then have "p \<in> set (other_protocols (env_sys m))" by (auto simp: find_Some_iff)
  with main_okD(1) [OF assms(1)] have "proto_ok p" by (auto simp: sys_ok_def list_all_iff)
  then have q: "mild g" if "pe_open p = Some g" for g using that by (simp add: proto_ok_def)
  have v: "view (upd_fsm ccp_fsm h w) = view w" for h by (simp add: view_def upd_fsm_def)
  have "view (callback (pe_open p) (upd_fsm ccp_fsm h w)) = view w" if "phase w \<noteq> PHASE_DEAD" for h
    using q mild_view [of _ "upd_fsm ccp_fsm h w"] v that by (cases "pe_open p") (simp_all add: callback_def upd_fsm_def)
  then have "view (restart_ccp m w) = view w" using Some by (auto simp: restart_ccp_def)
  then show ?thesis using assms(2) by (rule layer_view(1))
qed (use assms(2) in \<open>simp add: restart_ccp_def\<close>)

lemma done_call_inv:
  assumes "main_ok m" "sys_inv pc w"
  shows "sys_inv pc (done_call m fn w)"
proof -
  have v: "view (auth_script_done w) = view w" by simp
  show ?thesis
    using assms layer_view(1) [OF v] grounded_view [OF v] main_okD(7,8) [OF assms(1)]
    by (auto simp: done_call_def sys_inv_def)
qed

lemma reap_kids_inv:
  assumes "main_ok m" "sys_inv pc w"
  shows "sys_inv pc (reap_kids (done_call m) pids w)"
proof -
  have "sys_inv pc (forget_child (done_call m) pid v)" if "sys_inv pc v" for pid v
  proof -
    have u: "view (v\<lparr>n_children := n, children := cs\<rparr>) = view v" for n cs by (simp add: view_def)
    have "sys_inv pc (v\<lparr>n_children := n, children := cs\<rparr>)" for n cs
      using that layer_view(1) [OF u] grounded_view [OF u] by (auto simp: sys_inv_def)
    then show ?thesis
      using that done_call_inv [OF assms(1)] by (simp add: forget_child_def Let_def split: prod.split option.split)
  qed
  then have "sys_inv pc (fold (forget_child (done_call m)) pids w)"
    using assms(2) by (induction pids arbitrary: w) simp_all
  then show ?thesis using assms(2) by (simp add: reap_kids_def)
qed

lemma sys_step_inv:
  assumes "main_ok m" "sys_step m pc w pc' w'" "sys_inv pc w"
  shows "sys_inv pc' w'"
  using assms(2,3)
proof (cases rule: sys_step.cases)
  case dormant
  then show ?thesis using assms(3)
    by (auto simp: sys_inv_def intro!: new_phase_layer) (simp add: grounded_def new_phase_def)
next
  case expiry
  then show ?thesis using expire_first_inv [OF assms(1,3)] by simp
next
  case loop_end
  then show ?thesis using link_over_inv [OF assms(1)] assms(3) by (simp add: sys_inv_def)
next
  case sigchld
  then show ?thesis using reap_kids_inv [OF assms(1,3)] by simp
next
  case sighup
  then show ?thesis using signals_inv(1) assms(3) by simp
next
  case sigterm
  then show ?thesis using signals_inv(2) assms(3) by simp
qed (use assms(1,3) in \<open>auto simp: sys_inv_def ext_of_down(2) [symmetric] intro: get_input_layer attempt_layer
      lcp_close_full_layer main_okD(1) quit_bundle_layer restart_ccp_layer\<close>)

lemma init_grounded: "grounded (init_protocols w)" "num_np_open (init_protocols w) = num_np_open w" "\<not> started (init_protocols w)"
  by (simp_all add: grounded_def init_protocols_def chap_init_def upap_init_def lcp_init_def fsm_init_def upd_upap_def upd_fsm_def Let_def)

lemma sys_reach_inv: "main_ok m \<Longrightarrow> sys_reach m pc w \<Longrightarrow> sys_inv pc w"
proof (rotate_tac, induction rule: sys_reach.induct)
  case (boot w)
  then show ?case using init_grounded [of w] by (auto simp: sys_inv_def main_ok_def)
qed (rule sys_step_inv)


section \<open>The theorem\<close>

lemma open_needs_authentication:
  assumes "main_ok m" "sys_reach m pc w" "num_np_open w > 0"
  shows "st lcp_fsm w = OPENED \<and> auth_pending w = 0 \<and>
    (auth_required w \<and> \<not> has_noauth_addrs w \<longrightarrow> auth_done w AND (PAP_PEER OR CHAP_PEER OR EAP_PEER) \<noteq> 0)"
proof -
  have "net_layer w" using sys_reach_inv [OF assms(1,2)] by (simp add: sys_inv_def)
  with assms(3) show ?thesis
    by (auto simp: in_layer_def net_open_def net_shut_def net_early_def must_auth_def split: if_splits)
qed

text \<open>
  Property C1.  A network protocol is only open on an authenticated link.  In every state the daemon can
  reach, if \<open>num_np_open\<close> counts an open network protocol then LCP is OPENED, no authentication is
  pending, and, when authentication of the peer is required (and the peer is not excused by a list of
  addresses that need no authentication), one of the peer's authentications has succeeded on this link.
  The runs include any received bytes, any order and time of callouts, hang-ups, signals, failing
  system calls and repeated attempts, without multilink and with secrets files that admit no peer without a name
  (\<open>null_login\<close> fails).
\<close>

theorem networks_need_authentication:
  assumes "main_ok m" "sys_reach m pc w" "num_np_open w > 0"
  shows "st lcp_fsm w = OPENED \<and> auth_pending w = 0 \<and>
    (auth_required w \<and> \<not> has_noauth_addrs w \<longrightarrow> auth_done w AND (PAP_PEER OR CHAP_PEER OR EAP_PEER) \<noteq> 0)"
  by (rule open_needs_authentication [OF assms])

end
