(* ===== verification/Timer_Layer.thy ===== *)
theory Timer_Layer
  imports Auth
begin

text \<open>
  LCP keeps the contract \<open>fsm_client\<close> of the automaton, with the functions of \<^verbatim>\<open>auth.c\<close> behind its callbacks:
  although they close LCP from within its own callbacks, its retransmission timer runs exactly in the
  states that need it.
\<close>

section \<open>What leaves LCP's automaton alone\<close>

definition tview :: "'z fsm_world_scheme \<Rightarrow> fsm \<times> nat" where
  "tview w = (fsms w lcp_fsm, fpend lcp_fsm w)"

lemma same_tview: "same_fsm lcp_fsm w v \<longleftrightarrow> tview v = tview w"
  by (auto simp: same_fsm_def tview_def)

abbreviation tinv :: "'z fsm_world_scheme \<Rightarrow> bool" where
  "tinv \<equiv> timer_inv lcp_fsm"

lemma tinv_tview: "tview v = tview w \<Longrightarrow> tinv v = tinv w"
  by (simp add: tview_def timer_inv_def)

lemma tinv_keep: "tview v = tview w \<Longrightarrow> tinv w \<Longrightarrow> tinv v"
  using tinv_tview by blast

lemma tview_let:
  "tview a = v \<Longrightarrow> (\<And>x. tview x = v \<Longrightarrow> tview (f x) = v) \<Longrightarrow> tview (let x = a in f x) = v"
  by (simp add: Let_def)

lemma tview_timers [simp]:
  fixes w :: "'z auth_world_scheme"
  shows "fn \<noteq> Fn_fsm_timeout \<Longrightarrow> tview (timeout fn a s us w) = tview w"
  "fn \<noteq> Fn_fsm_timeout \<Longrightarrow> tview (untimeout fn a w) = tview w"
  by (simp_all add: tview_def)

lemma tview_frames [simp]:
  fixes w :: "'z auth_world_scheme"
  shows "tview (output_frame p w) = tview w" "tview (fsm_sdata f c i d w) = tview w"
  "tview (upd_upap ug w) = tview w" "tview (upd_client cg w) = tview w" "tview (upd_server sg w) = tview w"
  "tview (act x w) = tview w" "tview (snd (chan_call c' w)) = tview w" "tview (netif_set_mtu n w) = tview w"
  "tview (new_phase n w) = tview w"
  "tview (snd (ppp_send_config k a b b2 w)) = tview w" "tview (snd (ppp_recv_config k a b b2 w)) = tview w"
  by (simp_all add: tview_def pending_def output_frame_def fsm_sdata_def upd_upap_def upd_client_def upd_server_def
      act_def chan_call_def netif_set_mtu_def new_phase_def ppp_send_config_def ppp_recv_config_def Let_def)

lemma tview_fields [simp]:
  fixes w :: "'z auth_world_scheme"
  shows "tview (w\<lparr>status := n\<rparr>) = tview w" "tview (w\<lparr>passwd := p\<rparr>) = tview w" "tview (w\<lparr>passwd_from_file := b\<rparr>) = tview w"
  "tview (w\<lparr>exited := b\<rparr>) = tview w" "tview (w\<lparr>magic_src := ms\<rparr>) = tview w" "tview (w\<lparr>peer_mru := n\<rparr>) = tview w"
  "tview (w\<lparr>lcp_echos_pending := n\<rparr>) = tview w" "tview (w\<lparr>lcp_echo_number := n\<rparr>) = tview w"
  "tview (w\<lparr>lcp_echo_timer_running := b\<rparr>) = tview w" "tview (w\<lparr>lcp_gotoptions := o1\<rparr>) = tview w"
  "tview (w\<lparr>lcp_wantoptions := o1\<rparr>) = tview w" "tview (w\<lparr>lcp_allowoptions := o1\<rparr>) = tview w"
  "tview (w\<lparr>lcp_hisoptions := o1\<rparr>) = tview w" "tview (w\<lparr>auth_up := b\<rparr>) = tview w"
  "tview (w\<lparr>auth_script_up := b\<rparr>) = tview w" "tview (w\<lparr>peer_authname := p\<rparr>) = tview w"
  "tview (w\<lparr>fd_ppp := n\<rparr>) = tview w" "tview (w\<lparr>devfd := n\<rparr>) = tview w" "tview (w\<lparr>auth_done := x\<rparr>) = tview w"
  "tview (w\<lparr>auth_pending := x\<rparr>) = tview w" "tview (w\<lparr>num_np_open := n\<rparr>) = tview w" "tview (w\<lparr>num_np_up := n\<rparr>) = tview w"
  by (simp_all add: tview_def pending_def)

lemma tview_script [simp]:
  fixes w :: "'z auth_world_scheme"
  shows "tview (auth_script s w) = tview w"
  by (simp add: tview_def pending_def auth_script_def run_program_def record_child_def Let_def split: exec_result.split)

lemma tview_upap [simp]:
  fixes w :: "'z auth_world_scheme"
  shows "tview (upap_sauthreq w) = tview w" "tview (upap_sresp cd i p w) = tview w" "tview (upap_listen w) = tview w"
  "tview (upap_lowerup w) = tview w" "tview (upap_lowerdown w) = tview w" "tview (upap_authpeer w) = tview w"
  "tview (upap_authwithpeer us pw w) = tview w"
  by (simp_all add: upap_sauthreq_def upap_sresp_def upap_listen_def upap_lowerup_def upap_lowerdown_def
      upap_authpeer_def upap_authwithpeer_def Let_def)

lemma tview_chap [simp]:
  fixes w :: "'z auth_world_scheme"
  shows "tview (send_challenge w) = tview w" "tview (chap_auth_with_peer ext nm dc w) = tview w"
  "tview (chap_lowerdown w) = tview w"
  by (simp_all add: send_challenge_def chap_auth_with_peer_def chap_lowerdown_def Let_def split: option.split)

lemma tview_echo [simp]:
  fixes w :: "'z auth_world_scheme"
  shows "tview (lcp_echo_lowerdown w) = tview w" "tview (lcp_received_echo_reply p w) = tview w"
  by (simp_all add: lcp_echo_lowerdown_def lcp_received_echo_reply_def split: list.split)

lemmas tinv_simps [simp] = tview_timers [THEN tinv_tview] tview_frames [THEN tinv_tview] tview_fields [THEN tinv_tview]
  tview_upap [THEN tinv_tview] tview_chap [THEN tinv_tview] tview_echo [THEN tinv_tview]

section \<open>The contract of the rest of the program\<close>

definition calm :: "('z fsm_world_scheme \<Rightarrow> 'z fsm_world_scheme) \<Rightarrow> bool" where
  "calm g \<longleftrightarrow> (\<forall>w. tview (g w) = tview w)"

definition held :: "('z fsm_world_scheme \<Rightarrow> 'z fsm_world_scheme) \<Rightarrow> bool" where
  "held g \<longleftrightarrow> (\<forall>w. tinv w \<longrightarrow> tinv (g w))"

lemma calm_held: "calm g \<Longrightarrow> held g"
  by (auto simp: calm_def held_def intro: tinv_keep)

definition timer_ok :: "'z auth_world_scheme sys_ext \<Rightarrow> bool" where
  "timer_ok sys \<longleftrightarrow>
     list_all (\<lambda>p. calm (proto_down p) \<and> (\<forall>g. pe_lowerup p = Some g \<longrightarrow> held g) \<and>
        (\<forall>g. pe_open p = Some g \<longrightarrow> held g) \<and> held (pe_protrej p)) (other_protocols sys) \<and>
     list_all (\<lambda>d. calm (\<lambda>w. snd (dg_generate_challenge d w))) (digests sys) \<and>
     (\<forall>n. held (eap_authpeer sys n)) \<and> (\<forall>n. held (eap_authwithpeer sys n)) \<and>
     held (\<lambda>w. snd (null_login sys w)) \<and> held (set_allowed_addrs sys) \<and> held (apply_extra_options sys) \<and>
     held (\<lambda>w. snd (mp_join_bundle sys w))"

lemma fold_holds:
  "(\<And>p w. p \<in> set ps \<Longrightarrow> P w \<Longrightarrow> P (g p w)) \<Longrightarrow> P w \<Longrightarrow> P (fold g ps w)"
  by (induction ps arbitrary: w) auto

section \<open>Going down\<close>

lemma tview_link_down:
  assumes "timer_ok sys"
  shows "tview (link_down sys w) = tview w"
proof -
  have "tview (fold proto_down (other_protocols sys) v) = tview v" for v
    by (rule fold_holds [where P = "\<lambda>x. tview x = tview v"])
      (use assms in \<open>auto simp: timer_ok_def list_all_iff calm_def\<close>)
  then show ?thesis by (simp add: link_down_def upper_layers_down_def Let_def)
qed

lemma down_client:
  fixes ext :: "'z auth_world_scheme lcp_ext"
  assumes "timer_ok sys" "x_link_down ext = link_down sys" "x_link_required ext = link_required"
    "held (x_link_terminated ext)"
  shows "fsm_client (lcp_down_callbacks ext) lcp_fsm"
proof
  fix g and w :: "'z auth_world_scheme" assume "cb_down (lcp_down_callbacks ext) = Some g"
  then show "same_fsm lcp_fsm w (g w)"
    using tview_link_down [OF assms(1)] assms(2)
    by (auto simp: lcp_down_callbacks_def lcp_down_def Let_def same_tview)
qed (use assms in \<open>auto simp: lcp_down_callbacks_def lcp_starting_def lcp_finished_def link_required_def held_def confreq_data_def same_fsm_def\<close>)

lemma lcp_lowerdown_holds:
  assumes "fsm_client (lcp_down_callbacks ext) lcp_fsm"
  shows "held (lcp_lowerdown ext)"
  using fsm_client.lowerdown_inv [OF assms] by (auto simp: held_def lcp_lowerdown_def timer_inv_def)

lemma lcp_close_holds:
  fixes ext :: "'z auth_world_scheme lcp_ext"
  assumes "fsm_client (lcp_down_callbacks ext) lcp_fsm" "held (x_link_terminated ext)"
  shows "held (lcp_close ext r)"
proof -
  have cl: "tinv (clear_flag DELAYED_UP w)" if "tinv w" for w :: "'z auth_world_scheme"
    using that by (simp add: timer_inv_def clear_flag_def and.assoc)
  show ?thesis
    unfolding held_def
  proof (intro allI impI)
    fix w :: "'z auth_world_scheme" assume w: "tinv w"
    define u where "u = (if phase w \<noteq> PHASE_DEAD \<and> phase w \<noteq> PHASE_MASTER then new_phase PHASE_TERMINATE w else w)"
    have u: "tinv u" by (rule tinv_keep [OF _ w]) (simp add: u_def)
    then have "\<not> delayed u" by (simp add: timer_inv_def)
    moreover have "tinv (fsm_close (lcp_down_callbacks ext) lcp_fsm r u)" by (rule fsm_client.close_inv [OF assms(1) u])
    ultimately show "tinv (lcp_close ext r w)"
      using assms(2) cl by (simp add: lcp_close_def u_def [symmetric] Let_def lcp_finished_def held_def)
  qed
qed

lemma ext0_client: "timer_ok sys \<Longrightarrow> fsm_client (lcp_down_callbacks (lcp_ext0 sys)) lcp_fsm"
  by (rule down_client) (auto simp: lcp_ext0_def held_def)

lemma link_terminated_holds:
  fixes sys :: "'z auth_world_scheme sys_ext"
  assumes "timer_ok sys"
  shows "held (link_terminated sys)"
proof -
  have r: "tview (release_link w) = tview w" "tview (finish_link w) = tview w" for w :: "'z auth_world_scheme"
    unfolding release_link_def finish_link_def by (intro tview_let; simp add: Let_def)+
  show ?thesis
    using lcp_lowerdown_holds [OF ext0_client [OF assms]]
    by (auto simp: held_def link_terminated_def Let_def intro!: tinv_keep [OF r(2)] tinv_keep [OF r(1)])
qed

lemma ext1_client:
  assumes "timer_ok sys"
  shows "fsm_client (lcp_down_callbacks (lcp_ext1 sys)) lcp_fsm"
  using link_terminated_holds [OF assms] by (intro down_client [OF assms]) (simp_all add: lcp_ext1_def lcp_ext0_def)

lemma close_link_holds: "timer_ok sys \<Longrightarrow> tinv w \<Longrightarrow> tinv (close_link sys r w)"
  using lcp_close_holds [OF ext1_client] link_terminated_holds
  by (auto simp: close_link_def held_def lcp_ext1_def)


section \<open>The functions of auth.c\<close>

lemma network_phase_holds:
  fixes sys :: "'z auth_world_scheme sys_ext"
  assumes "timer_ok sys" "tinv w"
  shows "tinv (network_phase sys w)"
proof -
  have op: "held g" if "p \<in> set (other_protocols sys)" "pe_open p = Some g" for p g
    using that assms(1) by (auto simp: timer_ok_def list_all_iff)
  have cn: "tinv (continue_networks sys v)" if v: "tinv v" for v
  proof -
    define u where "u = fold (\<lambda>p w.
            case pe_open p of
              Some g \<Rightarrow> if pe_protocol p < 0xC000 \<and> pe_protocol p \<noteq> PPP_CCP \<and> pe_protocol p \<noteq> PPP_ECP \<and> pe_enabled p
                     then (let w = g w in w\<lparr>num_np_open := num_np_open w + 1\<rparr>) else w
            | None \<Rightarrow> w) (other_protocols sys) v"
    have "tinv u" unfolding u_def
      by (rule fold_holds [where P = tinv, OF _ v])
        (use op in \<open>auto simp: held_def Let_def intro: tinv_keep [OF tview_fields(21)] split: option.split\<close>)
    then show ?thesis using close_link_holds [OF assms(1)] by (simp add: continue_networks_def u_def [symmetric] Let_def)
  qed
  have sn: "tinv (start_networks sys v)" if v: "tinv v" for v
  proof -
    obtain b x where jb: "(if multilink (new_phase PHASE_NETWORK v) then mp_join_bundle sys (new_phase PHASE_NETWORK v)
      else (False, new_phase PHASE_NETWORK v)) = (b, x)" by (rule prod.exhaust)
    have v': "tinv (new_phase PHASE_NETWORK v)" by (rule tinv_keep [OF _ v]) simp
    have "held (\<lambda>w. snd (mp_join_bundle sys w))" using assms(1) by (simp add: timer_ok_def)
    then have "tinv (snd (mp_join_bundle sys (new_phase PHASE_NETWORK v)))" using v' unfolding held_def by blast
    then have x: "tinv x" using jb v' by (auto split: if_splits)
    have "tinv (fold (\<lambda>p w. case pe_open p of
                    Some g \<Rightarrow> if (pe_protocol p = PPP_ECP \<or> pe_protocol p = PPP_CCP) \<and> pe_enabled p then g w else w
                  | None \<Rightarrow> w) (other_protocols sys) x)"
      by (rule fold_holds [where P = tinv, OF _ x]) (use op in \<open>auto simp: held_def split: option.split\<close>)
    with cn x show ?thesis
      unfolding start_networks_def jb Let_def prod.case by (auto intro: tinv_keep)
  qed
  define u where "u = (let go = lcp_gotoptions w
      in if neg_chap go \<or> neg_upap go \<or> neg_eap go
               then (let w = w\<lparr>auth_up := True\<rparr>
                     in if \<not> auth_script_up w \<and> auth_script_pid w = 0
                        then auth_script PATH_AUTHUP (w\<lparr>auth_script_up := True\<rparr>) else w)
               else w)"
  have "tinv u" by (rule tinv_keep [OF _ assms(2)]) (simp add: u_def Let_def)
  moreover have "network_phase sys w = start_networks sys (apply_extra_options sys u)"
    by (simp add: network_phase_def u_def Let_def)
  ultimately show ?thesis using sn assms(1) by (simp add: timer_ok_def held_def)
qed

lemma auth_results_hold:
  fixes w :: "'z auth_world_scheme"
  assumes "timer_ok sys" "tinv w"
  shows "tinv (auth_peer_fail sys pr w)" "tinv (auth_withpeer_fail sys pr w)"
  using assms by (auto simp: auth_peer_fail_def auth_withpeer_fail_def Let_def intro!: close_link_holds intro: tinv_keep)

lemma auth_ext_fails [simp]:
  "x_auth_peer_fail (auth_ext_of sys) = auth_peer_fail sys" "x_auth_withpeer_fail (auth_ext_of sys) = auth_withpeer_fail sys"
  "ch_auth (chap_ext_of sys) = auth_ext_of sys"
  by (simp_all add: auth_ext_of_def chap_ext_of_def)

lemma chap_timeout_holds:
  fixes w :: "'z auth_world_scheme"
  assumes "timer_ok sys" "tinv w"
  shows "tinv (chap_timeout (chap_ext_of sys) w)"
proof -
  have "tview (chap_generate_challenge (chap_ext_of sys) x) = tview x" for x :: "'z auth_world_scheme"
  proof (cases "find_digest (chap_ext_of sys) (ss_digest (chap_server x))")
    case (Some d)
    then have "calm (\<lambda>w. snd (dg_generate_challenge d w))"
      using assms(1) by (auto simp: find_digest_def chap_ext_of_def find_Some_iff timer_ok_def list_all_iff)
    then show ?thesis by (simp add: chap_generate_challenge_def Some calm_def Let_def split: prod.split) (metis snd_conv)
  qed (simp add: chap_generate_challenge_def)
  then show ?thesis
    using assms by (auto simp: chap_timeout_def Let_def intro!: auth_results_hold intro: tinv_keep)
qed

lemma protrej_holds:
  fixes w :: "'z auth_world_scheme"
  assumes "timer_ok sys" "tinv w"
  shows "tinv (upap_protrej (auth_ext_of sys) w)" "tinv (chap_protrej (chap_ext_of sys) w)"
proof -
  let ?u = "if upap_cs w = UPAPCS_AUTHREQ then auth_withpeer_fail sys PPP_PAP w else w"
  let ?v = "if upap_ss ?u = UPAPSS_LISTEN then auth_peer_fail sys PPP_PAP ?u else ?u"
  have "tinv ?v" using auth_results_hold [OF assms(1)] assms(2) by simp
  then show "tinv (upap_protrej (auth_ext_of sys) w)"
    by (simp only: upap_protrej_def Let_def auth_ext_fails) (rule tinv_keep [OF tview_upap(5)])
  let ?a = "if ss_has TIMEOUT_PENDING w then UNTIMEOUT Fn_chap_timeout Chap_server_arg (ss_off TIMEOUT_PENDING w) else w"
  let ?z = "upd_server (\<lambda>s. s\<lparr>ss_flags := 0\<rparr>) ?a"
  let ?b = "if ss_has AUTH_STARTED ?a then auth_peer_fail sys PPP_CHAP ?z else ?a"
  have a: "tinv ?a" "tinv ?z" by (rule tinv_keep [OF _ assms(2)], simp)+
  then have b: "tinv ?b" using auth_results_hold(1) [OF assms(1) a(2)] by (simp only: split: if_split) simp
  have "tinv (cs_off AUTH_STARTED ?b)" by (rule tinv_keep [OF tview_frames(4) b])
  with b show "tinv (chap_protrej (chap_ext_of sys) w)"
    using auth_results_hold(2) [OF assms(1), of "cs_off AUTH_STARTED ?b"]
    by (simp only: chap_protrej_def Let_def auth_ext_fails split: if_split) simp
qed


lemma chap_starts_hold:
  fixes w :: "'z auth_world_scheme"
  assumes "timer_ok sys" "tinv w"
  shows "tinv (chap_lowerup (chap_ext_of sys) w)" "tinv (chap_auth_peer (chap_ext_of sys) nm dc w)"
  using assms
  by (auto simp: chap_lowerup_def chap_auth_peer_def Let_def intro!: chap_timeout_holds intro: tinv_keep split: option.split)

lemma proceed_auth_holds:
  fixes w :: "'z auth_world_scheme"
  assumes "timer_ok sys" "tinv w"
  shows "tinv (proceed_auth sys w)"
proof -
  have q: "tinv x \<Longrightarrow> tinv (eap_authpeer sys n x)" "tinv x \<Longrightarrow> tinv (eap_authwithpeer sys n x)" for n x
    using assms(1) by (auto simp: timer_ok_def held_def)
  obtain a v where av: "start_auth_peer sys (new_phase PHASE_AUTHENTICATE w) = (a, v)" by (rule prod.exhaust)
  obtain b u where bu: "start_auth_withpeer sys v = (b, u)" by (rule prod.exhaust)
  have "tinv (new_phase PHASE_AUTHENTICATE w)" by (rule tinv_keep [OF _ assms(2)]) simp
  then have "tinv v"
    using av q chap_starts_hold(2) [OF assms(1)]
    by (auto simp: start_auth_peer_def Let_def intro: tinv_keep [OF tview_upap(6)] split: if_splits)
  then have "tinv u"
    using bu q by (auto simp: start_auth_withpeer_def Let_def intro: tinv_keep split: if_splits option.splits)
  then show ?thesis
    using network_phase_holds [OF assms(1), of "u\<lparr>auth_pending := n, auth_done := 0\<rparr>" for n] by (simp add: proceed_auth_def Let_def av bu)
qed

lemma link_established_holds:
  fixes w :: "'z auth_world_scheme"
  assumes "timer_ok sys" "tinv w"
  shows "tinv (link_established sys w)"
proof -
  define u where "u = (if \<not> doing_multilink w
               then fold (\<lambda>p w.
                      case pe_lowerup p of
                        Some g \<Rightarrow> if pe_protocol p \<noteq> PPP_LCP \<and> pe_enabled p then g w else w
                      | None \<Rightarrow> w) (protocols sys) w
               else w)"
  define v where "v = (if \<not> auth_required u \<and> has_noauth_addrs u then set_allowed_addrs sys u else u)"
  have lu: "tinv (g x)" if "p \<in> set (other_protocols sys)" "pe_lowerup p = Some g" "tinv x" for p g x
    using that assms(1) by (auto simp: timer_ok_def list_all_iff held_def)
  have "tinv u" unfolding u_def
    by (auto simp: protocols_def lcp_protent_def pap_protent_def chap_protent_def assms(2)
        intro!: fold_holds [where P = tinv] intro: chap_starts_hold(1) [OF assms(1)] tinv_keep [OF tview_upap(4)] assms(2)
        split: option.split elim: lu)
  moreover have q: "tinv x \<Longrightarrow> tinv (set_allowed_addrs sys x)" "tinv x \<Longrightarrow> tinv (snd (null_login sys x))" for x
    using assms(1) by (auto simp: timer_ok_def held_def)
  ultimately have v: "tinv v" by (simp add: v_def)
  obtain ok x where nl: "(if \<not> neg_upap (lcp_wantoptions v) \<or> uselogin v then (False, v) else null_login sys v) = (ok, x)"
    by (rule prod.exhaust)
  then have x: "tinv x" using v q(2) [OF v] by (auto split: if_splits)
  have cl: "tinv (close_link sys r (x\<lparr>status := n\<rparr>))" for r n
    by (rule close_link_holds [OF assms(1) tinv_keep [OF _ x]]) simp
  have "link_established sys w =
     (if auth_required v \<and> \<not> (neg_upap (lcp_gotoptions v) \<or> neg_chap (lcp_gotoptions v) \<or> neg_eap (lcp_gotoptions v))
      then (if has_noauth_addrs v then proceed_auth sys (set_allowed_addrs sys v)
            else if \<not> ok then close_link sys ''peer refused to authenticate'' (x\<lparr>status := EXIT_PEER_AUTH_FAILED\<rparr>)
            else proceed_auth sys x)
      else proceed_auth sys v)"
    by (simp only: link_established_def Let_def u_def [symmetric] v_def [symmetric] nl prod.case)
  then show ?thesis using v x cl q(1) [OF v] proceed_auth_holds [OF assms(1)] by simp
qed

section \<open>LCP's callbacks\<close>

lemma lcp_ext_fields [simp]:
  "x_link_down (lcp_ext_of sys) = link_down sys" "x_link_required (lcp_ext_of sys) = link_required"
  "x_link_terminated (lcp_ext_of sys) = link_terminated sys" "x_link_established (lcp_ext_of sys) = link_established sys"
  "x_auth_reset (lcp_ext_of sys) = auth_reset sys" "x_protocols (lcp_ext_of sys) = protocols sys"
  by (simp_all add: lcp_ext_of_def lcp_ext1_def lcp_ext0_def)

lemma full_close_holds: "timer_ok sys \<Longrightarrow> tinv w \<Longrightarrow> tinv (lcp_close (lcp_ext_of sys) r w)"
  using lcp_close_holds [OF down_client, of sys "lcp_ext_of sys"] link_terminated_holds [of sys] by (simp add: held_def)

lemma echo_holds:
  fixes w :: "'z auth_world_scheme"
  assumes "timer_ok sys" "tinv w"
  shows "tinv (lcp_echo_lowerup (lcp_ext_of sys) w)"
proof -
  have sr: "tinv (LcpSendEchoRequest (lcp_ext_of sys) x)" if x: "tinv x" for x :: "'z auth_world_scheme"
  proof -
    define u where "u = (if lcp_echo_fails x \<noteq> 0 \<and> lcp_echos_pending x \<ge> lcp_echo_fails x
               then (LcpLinkFailure (lcp_ext_of sys) x)\<lparr>lcp_echos_pending := 0\<rparr> else x)"
    have "tinv (LcpLinkFailure (lcp_ext_of sys) x)"
      using x by (auto simp: LcpLinkFailure_def intro!: full_close_holds [OF assms(1)] intro: tinv_keep)
    with x have "tinv u" by (auto simp: u_def intro: tinv_keep)
    then show ?thesis by (auto simp: LcpSendEchoRequest_def u_def [symmetric] Let_def intro: tinv_keep)
  qed
  let ?w = "w\<lparr>lcp_echos_pending := 0, lcp_echo_number := 0, lcp_echo_timer_running := False\<rparr>"
  have "tinv ?w" by (rule tinv_keep [OF _ assms(2)]) simp
  from sr [OF this] this show ?thesis
    by (auto simp: lcp_echo_lowerup_def LcpEchoCheck_def Let_def intro: tinv_keep)
qed

lemma lcp_up_holds:
  fixes w :: "'z auth_world_scheme"
  assumes "timer_ok sys" "tinv w"
  shows "tinv (lcp_up (lcp_ext_of sys) w)"
  unfolding lcp_up_def Let_def lcp_ext_fields
  by (rule link_established_holds [OF assms(1)], rule echo_holds [OF assms(1)], rule tinv_keep [OF _ assms(2)]) simp

lemma lcp_client:
  fixes sys :: "'z auth_world_scheme sys_ext"
  assumes "timer_ok sys"
  shows "fsm_client (lcp_callbacks (lcp_ext_of sys)) lcp_fsm"
proof
  fix g and w :: "'z auth_world_scheme" assume "cb_down (lcp_callbacks (lcp_ext_of sys)) = Some g"
  then show "same_fsm lcp_fsm w (g w)"
    using tview_link_down [OF assms] by (auto simp: lcp_callbacks_def lcp_down_def Let_def same_tview)
next
  fix g and w :: "'z auth_world_scheme" assume "cb_resetci (lcp_callbacks (lcp_ext_of sys)) = Some g"
  then show "same_fsm lcp_fsm w (g w)"
    by (auto simp: lcp_callbacks_def lcp_resetci_def auth_reset_def Let_def same_tview)
next
  fix w :: "'z auth_world_scheme"
  show "same_fsm lcp_fsm w (snd (confreq_data (lcp_callbacks (lcp_ext_of sys)) w))" by (simp add: same_fsm_def)
next
  fix rq and w w' :: "'z auth_world_scheme" and p r c p'
  assume "cb_reqci (lcp_callbacks (lcp_ext_of sys)) = Some rq" "rq w p r = (c, p', w')"
  then show "same_fsm lcp_fsm w w'" by (auto simp: lcp_callbacks_def lcp_reqci_def Let_def same_tview)
next
  fix g and w :: "'z auth_world_scheme" assume "cb_up (lcp_callbacks (lcp_ext_of sys)) = Some g" "tinv w"
  then show "tinv (g w)" using lcp_up_holds [OF assms] by (auto simp: lcp_callbacks_def)
next
  fix g and w :: "'z auth_world_scheme" assume "cb_finished (lcp_callbacks (lcp_ext_of sys)) = Some g" "tinv w"
  then show "tinv (g w)" using link_terminated_holds [OF assms] by (auto simp: lcp_callbacks_def lcp_finished_def held_def)
next
  fix n and w w' :: "'z auth_world_scheme" and p r c
  assume n: "cb_nakci (lcp_callbacks (lcp_ext_of sys)) = Some n" "n w p r = (c, w')" "tinv w"
  obtain lb t where sc: "nakci_scan (lcp_gotoptions w) (lcp_wantoptions w) r (shd (magic_src w)) p = (lb, t)"
    by (rule prod.exhaust)
  have cl: "tinv ((lcp_close (lcp_ext_of sys) s (w\<lparr>magic_src := ms, status := k\<rparr>))\<lparr>lcp_gotoptions := o1\<rparr>)" for s k ms o1
    by (rule tinv_keep [OF tview_fields(10)], rule full_close_holds [OF assms], rule tinv_keep [OF _ n(3)]) simp
  show "tinv w'" using n cl
    by (cases lb) (auto simp: lcp_callbacks_def lcp_nakci_def sc Let_def intro: tinv_keep split: option.splits if_splits)
next
  fix j and w w' :: "'z auth_world_scheme" and p c
  assume "cb_rejci (lcp_callbacks (lcp_ext_of sys)) = Some j" "j w p = (c, w')" "tinv w"
  then show "tinv w'" by (auto simp: lcp_callbacks_def lcp_rejci_def intro: tinv_keep split: option.splits)
next
  fix x and w w' :: "'z auth_world_scheme" and c i p b
  assume x: "cb_extcode (lcp_callbacks (lcp_ext_of sys)) = Some x" "x w c i p = (b, w')" "tinv w"
  have lp: "tinv (lcp_protrej (lcp_ext1 sys) w)"
    using fsm_client.protreject_inv [OF ext1_client [OF assms] x(3)] by (simp add: lcp_protrej_def)
  have rej: "tinv (pe_protrej q w)" if "q \<in> set (protocols sys)" for q
    using that lp protrej_holds [OF assms x(3)] x(3) assms
    by (auto simp: protocols_def lcp_protent_def pap_protent_def chap_protent_def timer_ok_def list_all_iff held_def)
  have "tinv (lcp_rprotrej (lcp_ext_of sys) p w)"
    using rej x(3) by (auto simp: lcp_rprotrej_def find_Some_iff split: list.split option.split)
  then show "tinv w'"
    using x by (auto simp: lcp_callbacks_def lcp_extcode_def intro: tinv_keep split: if_splits)
qed (auto simp: lcp_callbacks_def lcp_starting_def link_required_def)


section \<open>The timer of LCP\<close>

text \<open>The environments that satisfy the contract, as a type.\<close>

definition still_sys :: "'z auth_world_scheme sys_ext" where
  "still_sys = \<lparr>other_protocols = [], eap_authpeer = (\<lambda>_ w. w), eap_authwithpeer = (\<lambda>_ w. w),
     null_login = (\<lambda>w. (False, w)), set_allowed_addrs = id, get_pap_passwd = (\<lambda>_. None),
     have_pap_secret = (\<lambda>_. True), have_chap_secret = (\<lambda>_ _ _ _. True), have_srp_secret = (\<lambda>_ _ _ _. False),
     check_passwd = (\<lambda>_ _ w. (UPAP_AUTHACK, [], w)), auth_number = (\<lambda>_. True), get_secret = (\<lambda>_ _ _ w. (None, w)),
     digests = [], session_denied = (\<lambda>_ _. False), apply_extra_options = id, mp_join_bundle = (\<lambda>w. (False, w)),
     ecp_required = (\<lambda>_. False), mppe_required = (\<lambda>_. False), idle_time = (\<lambda>_. None), octets_used = (\<lambda>_. 0)\<rparr>"

lemma still_sys_ok: "timer_ok still_sys"
  by (simp add: timer_ok_def still_sys_def held_def)

typedef 'z timer_env = "{sys :: 'z auth_world_scheme sys_ext. timer_ok sys}"
  using still_sys_ok by blast

lemma timer_env_ok: "timer_ok (Rep_timer_env e)"
  using Rep_timer_env by simp

interpretation lcp_timer: fsm_client "lcp_callbacks (lcp_ext_of (Rep_timer_env e))" lcp_fsm
  for e :: "'z timer_env"
  by (rule lcp_client) (rule timer_env_ok)

text \<open>
  Property C5.  LCP's retransmission timer.  In every run of LCP's automaton with its real callbacks (which close
  LCP, start authentications and open network protocols from within the automaton) and with the options passive, silent and restart
  changing at any time, exactly one timeout
  of \<open>fsm_timeout\<close> for LCP is in the callout queue in the states CLOSING, STOPPING, REQSENT, ACKRCVD and ACKSENT, and
  none in the others: no timeout is lost or doubled.
\<close>

theorem lcp_one_timer:
  assumes "timer_ok sys" "fsm_reach (lcp_callbacks (lcp_ext_of sys)) lcp_fsm w"
  shows "pending Fn_fsm_timeout (Fsm_arg lcp_fsm) w =
    (if st lcp_fsm w \<in> {CLOSING, STOPPING, REQSENT, ACKRCVD, ACKSENT} then 1 else 0)"
proof -
  have "fsm_reach (lcp_callbacks (lcp_ext_of (Rep_timer_env (Abs_timer_env sys)))) lcp_fsm w"
    using assms by (simp add: Abs_timer_env_inverse)
  from lcp_timer.reach_inv [OF this] show ?thesis
    by (cases "st lcp_fsm w") (simp_all add: timer_inv_def)
qed

end
