(* ===== verification/System_Run.thy ===== *)
theory System_Run
  imports System_Props Timer_Layer
begin

text \<open>
  A complete run, evaluated: the daemon starts, requires PAP of the peer, the peer sends an empty
  Configure-Request and acknowledges ours, authenticates, and the network protocol is opened.  It shows that
  the hypotheses of the theorem about all runs can hold where it says most.
\<close>

definition demo_fsm :: fsm where
  "demo_fsm = \<lparr>protocol = 0, state = INITIAL, flags = 0, fid = 0, reqid = 0, seen_ack = False, timeouttime = 0,
     maxconfreqtransmits = 0, retransmits = 0, maxtermtransmits = 0, nakloops = 0, rnakloops = 0,
     maxnakloops = 0, term_reason = []\<rparr>"

definition demo_world :: auth_world where
  "demo_world = \<lparr>
     clock = sconst \<lparr>tv_sec = 0, tv_usec = 0\<rparr>, timenow = \<lparr>tv_sec = 0, tv_usec = 0\<rparr>, callout = [],
     fsms = (\<lambda>_. demo_fsm), peer_mru = 0, sent = [],
     lcp_wantoptions = lcp_zero, lcp_gotoptions = lcp_zero, lcp_allowoptions = lcp_zero, lcp_hisoptions = lcp_zero,
     lcp_echos_pending = 0, lcp_echo_number = 0, lcp_echo_timer_running = False, lcp_echo_interval = 0,
     lcp_echo_fails = 0, lcp_loopbackfail = 10, lax_recv = False, noendpoint = False, multilink = False,
     listen_time = 0, phase = PHASE_DEAD, status = EXIT_OK, magic_src = sconst 0, chan = [], chan_errs = sconst False,
     upap = \<lparr>us_user = [], us_passwd = [], us_clientstate = UPAPCS_INITIAL, us_serverstate = UPAPSS_INITIAL,
       us_id = 0, us_timeouttime = 0, us_transmits = 0, us_maxtransmits = 0, us_reqtimeout = 0\<rparr>,
     chap_client = \<lparr>cs_flags = 0, cs_name = [], cs_digest = 0\<rparr>,
     chap_server = \<lparr>ss_flags = 0, ss_id = 0, ss_name = [], ss_digest = 0, challenge_xmits = 0, challenge = [], message = []\<rparr>,
     chap_timeout_time = 3, chap_max_transmits = 10, chap_rechallenge_time = 0, explicit_remote = False,
     remote_name = [], exited = False,
     children = [], n_children = 0, execs = sconst (Forked 7), programs = [], script_env = [],
     baud_rate = 115200, ifname = ''ppp0'', devnam = ''ttyS0'', real_user = ''root'',
     auth_up = False, auth_script_up = False, auth_script_pid = 0, auth_pending = 0, auth_done = 0,
     peer_authname = [], auth_required = False, has_noauth_addrs = False, uselogin = False,
     refuse_pap = False, refuse_chap = False, refuse_mschap = False, refuse_mschap_v2 = False, refuse_eap = False,
     our_name = [], user = [], passwd = [], explicit_passwd = False, passwd_from_file = False,
     num_np_open = 0, num_np_up = 0, idle_time_limit = 0, maxconnect = 0, maxoctets = 0, maxoctets_timeout = 1,
     unsuccess = 0, need_holdoff = True, holdoff = 0, updetach = False, nodetach = False, demand = False,
     hungup = False, doing_multilink = False, multilink_master = False, bundle_eof = False,
     bundle_terminating = False, master_detach = False, detached = False,
     fd_ppp = -1, devfd = -1, has_disconnect = False, has_cleanup = False, acts = []\<rparr>"

lemma demo_sel [simp]:
  "clock demo_world = sconst \<lparr>tv_sec = 0, tv_usec = 0\<rparr>"
  "timenow demo_world = \<lparr>tv_sec = 0, tv_usec = 0\<rparr>"
  "callout demo_world = []"
  "fsms demo_world = (\<lambda>_. demo_fsm)"
  "peer_mru demo_world = 0"
  "sent demo_world = []"
  "lcp_wantoptions demo_world = lcp_zero"
  "lcp_gotoptions demo_world = lcp_zero"
  "lcp_allowoptions demo_world = lcp_zero"
  "lcp_hisoptions demo_world = lcp_zero"
  "lcp_echos_pending demo_world = 0"
  "lcp_echo_number demo_world = 0"
  "lcp_echo_timer_running demo_world = False"
  "lcp_echo_interval demo_world = 0"
  "lcp_echo_fails demo_world = 0"
  "lcp_loopbackfail demo_world = 10"
  "lax_recv demo_world = False"
  "noendpoint demo_world = False"
  "multilink demo_world = False"
  "listen_time demo_world = 0"
  "phase demo_world = PHASE_DEAD"
  "status demo_world = EXIT_OK"
  "magic_src demo_world = sconst 0"
  "chan demo_world = []"
  "chan_errs demo_world = sconst False"
  "upap demo_world = \<lparr>us_user = [], us_passwd = [], us_clientstate = UPAPCS_INITIAL, us_serverstate = UPAPSS_INITIAL, us_id = 0, us_timeouttime = 0, us_transmits = 0, us_maxtransmits = 0, us_reqtimeout = 0\<rparr>"
  "chap_client demo_world = \<lparr>cs_flags = 0, cs_name = [], cs_digest = 0\<rparr>"
  "chap_server demo_world = \<lparr>ss_flags = 0, ss_id = 0, ss_name = [], ss_digest = 0, challenge_xmits = 0, challenge = [], message = []\<rparr>"
  "chap_timeout_time demo_world = 3"
  "chap_max_transmits demo_world = 10"
  "chap_rechallenge_time demo_world = 0"
  "explicit_remote demo_world = False"
  "remote_name demo_world = []"
  "exited demo_world = False"
  "children demo_world = []"
  "n_children demo_world = 0"
  "execs demo_world = sconst (Forked 7)"
  "programs demo_world = []"
  "script_env demo_world = []"
  "baud_rate demo_world = 115200"
  "ifname demo_world = ''ppp0''"
  "devnam demo_world = ''ttyS0''"
  "real_user demo_world = ''root''"
  "auth_up demo_world = False"
  "auth_script_up demo_world = False"
  "auth_script_pid demo_world = 0"
  "auth_pending demo_world = 0"
  "auth_done demo_world = 0"
  "peer_authname demo_world = []"
  "auth_required demo_world = False"
  "has_noauth_addrs demo_world = False"
  "uselogin demo_world = False"
  "refuse_pap demo_world = False"
  "refuse_chap demo_world = False"
  "refuse_mschap demo_world = False"
  "refuse_mschap_v2 demo_world = False"
  "refuse_eap demo_world = False"
  "our_name demo_world = []"
  "user demo_world = []"
  "passwd demo_world = []"
  "explicit_passwd demo_world = False"
  "passwd_from_file demo_world = False"
  "num_np_open demo_world = 0"
  "num_np_up demo_world = 0"
  "idle_time_limit demo_world = 0"
  "maxconnect demo_world = 0"
  "maxoctets demo_world = 0"
  "maxoctets_timeout demo_world = 1"
  "unsuccess demo_world = 0"
  "need_holdoff demo_world = True"
  "holdoff demo_world = 0"
  "updetach demo_world = False"
  "nodetach demo_world = False"
  "demand demo_world = False"
  "hungup demo_world = False"
  "doing_multilink demo_world = False"
  "multilink_master demo_world = False"
  "bundle_eof demo_world = False"
  "bundle_terminating demo_world = False"
  "master_detach demo_world = False"
  "detached demo_world = False"
  "fd_ppp demo_world = -1"
  "devfd demo_world = -1"
  "has_disconnect demo_world = False"
  "has_cleanup demo_world = False"
  "acts demo_world = []"
  by (simp_all add: demo_world_def)

lemma zero_sel [simp]: "neg_mru lcp_zero = False" "neg_asyncmap lcp_zero = False" "neg_upap lcp_zero = False" "neg_chap lcp_zero = False"
  "neg_eap lcp_zero = False" "neg_magicnumber lcp_zero = False" "neg_pcompression lcp_zero = False" "neg_accompression lcp_zero = False"
  "neg_lqr lcp_zero = False" "neg_cbcp lcp_zero = False" "neg_mrru lcp_zero = False" "neg_ssnhf lcp_zero = False" "neg_endpoint lcp_zero = False"
  "opt_passive lcp_zero = False" "opt_silent lcp_zero = False" "mru lcp_zero = 0" "chap_mdtype lcp_zero = 0"
  by (simp_all add: lcp_zero_def)

definition demo_ncp :: "auth_world protent" where
  "demo_ncp = \<lparr>pe_protocol = 0x8021, pe_enabled = True, pe_input = (\<lambda>_ w. w), pe_datainput = None,
     pe_protrej = (\<lambda>w. w), pe_lowerup = None, pe_lowerdown = None, pe_open = Some (\<lambda>w. w), pe_close = None\<rparr>"

definition demo_sys :: "auth_world sys_ext" where
  "demo_sys = idle_sys\<lparr>other_protocols := [demo_ncp]\<rparr>"

lemma demo_sys_sel [simp]:
  "other_protocols demo_sys = [demo_ncp]" "get_pap_passwd demo_sys w = None" "have_pap_secret demo_sys w"
  "have_chap_secret demo_sys c s b w" "\<not> have_srp_secret demo_sys c s b w"
  "check_passwd demo_sys u p w = (UPAP_AUTHACK, [], w)" "auth_number demo_sys w"
  "apply_extra_options demo_sys w = w" "\<not> ecp_required demo_sys w" "\<not> mppe_required demo_sys w"
  by (simp_all add: demo_sys_def idle_sys_def)

definition demo_main :: "auth_world main_ext" where
  "demo_main = \<lparr>env_sys = demo_sys,
     parse_options = (\<lambda>w. w\<lparr>auth_required := True, has_noauth_addrs := False, multilink := False,
        doing_multilink := False, lcp_echo_fails := 0, lcp_wantoptions := lcp_zero\<lparr>neg_upap := True\<rparr>\<rparr>),
     mp_bundle_terminated = id, channel_connect = (\<lambda>w. (3, w)), channel_establish = (\<lambda>fd w. (4, w)),
     other_timer = (\<lambda>_ _ w. w), other_done = (\<lambda>_ w. w)\<rparr>"




lemma demo_main_sel [simp]:
  "env_sys demo_main = demo_sys"
  "parse_options demo_main w = w\<lparr>auth_required := True, has_noauth_addrs := False, multilink := False,
        doing_multilink := False, lcp_echo_fails := 0, lcp_wantoptions := lcp_zero\<lparr>neg_upap := True\<rparr>\<rparr>"
  "channel_connect demo_main w = (3, w)" "channel_establish demo_main fd w = (4, w)"
  by (simp_all add: demo_main_def)

lemmas run_simps = PUTCHAR_def PUTSHORT_def GETSHORT_def PUTLONG_def GETLONG_def MAKEHEADER_def gettimeofday_def expiry_def
    timeout_def untimeout_def upd_fsm_def callback_def new_reqid_def fsm_init_def fsm_sdata_def fsm_sconfreq_def lcp_confreq_eq [unfolded lcp_callbacks_def]
    fsm_lowerup_def fsm_lowerdown_def fsm_open_restart_def fsm_open_def send_termreq_def terminate_layer_def
    fsm_close_def timeout_terminating_def timeout_negotiating_def fsm_timeout_def rconfreq_answer_def
    fsm_rconfreq_def fsm_rconfack_def rconfnakrej_check_def fsm_rconfnakrej_def fsm_rtermreq_def fsm_rtermack_def
    fsm_rcoderej_def fsm_protreject_def input_dispatch_def fsm_input_def cstr_def new_phase_def chan_call_def
    ppp_send_config_def ppp_recv_config_def netif_set_mtu_def set_flag_def clear_flag_def lcp_echo_lowerdown_def
    lcp_down_def lcp_starting_def lcp_finished_def lcp_down_callbacks_def lcp_close_def lcp_lowerdown_def
    lcp_protrej_def LcpLinkFailure_def LcpSendEchoRequest_def LcpEchoCheck_def LcpEchoTimeout_def
    lcp_received_echo_reply_def lcp_echo_lowerup_def lcp_resetci_def lcp_cilen_def lcp_addci_def lcp_ackci_def
    lcp_nakci_def lcp_rejci_def lcp_reqci_def lcp_up_def lcp_rprotrej_def lcp_extcode_def lcp_callbacks_def
    lcp_init_def lcp_open_def lcp_lowerup_def lcp_delayed_up_def lcp_input_def lcp_sprotrej_def CHAP_DIGEST_def
    CHAP_MDTYPE_def CHAP_MDTYPE_D_def CHAP_CANDIGEST_def neq_CHAP_DIGEST_def ADDCIVOID_def ADDCISHORT_def
    ADDCICHAP_def ADDCILONG_def ADDCILQR_def ADDCICHAR_def ADDCIENDP_def lcp_cilen_of_def lcp_addci_of_def
    ACKCIVOID_def ACKCISHORT_def ACKCICHAR_def ACKCICHAP_def ACKCILONG_def ACKCILQR_def ACKCIENDP_def
    lcp_ackci_of_def nak_chap_def nak_pap_def nak_other_def nak_rest_ci_def nakci_first_def nakci_second_def
    nakci_third_def nakci_scan_def lcp_rejci_of_def auth_nak_eap_def auth_nak_chap_def auth_nak_pap_def
    reqci_authtype_def reqci_mru_def reqci_asyncmap_def reqci_quality_def reqci_magic_def reqci_mrru_def
    reqci_epdisc_def reqci_ci_def reqci_end_def draws_magic_def reqci_run_def reqci_reply_def upd_upap_def
    output_frame_def upap_sauthreq_def upap_sresp_def upap_init_def upap_authwithpeer_def upap_listen_def
    upap_authpeer_def upap_timeout_def upap_reqtimeout_def upap_lowerup_def upap_lowerdown_def upap_protrej_def
    parse_authreq_def upap_rauthreq_def message_ok_def upap_rauthack_def upap_rauthnak_def upap_input_def
    upd_server_def upd_client_def find_digest_def chap_init_def chap_generate_challenge_def send_challenge_def
    chap_timeout_def chap_lowerup_def chap_lowerdown_def chap_auth_peer_def chap_auth_with_peer_def
    chap_verify_response_def check_response_def send_status_def conclude_response_def chap_handle_response_def
    chap_respond_def chap_handle_status_def chap_input_def chap_protrej_def act_def link_required_def
    proto_down_def upper_layers_down_def link_down_def remote_if_explicit_def auth_reset_def 
    release_link_def finish_link_def link_terminated_def  close_link_def continue_networks_def
    start_networks_def network_phase_def auth_peer_fail_def peer_bit_def auth_peer_success_def
    auth_withpeer_fail_def withpeer_bit_def auth_withpeer_success_def  
    lcp_protent_def pap_protent_def chap_protent_def protocols_def start_auth_peer_def start_auth_withpeer_def
    proceed_auth_def link_established_def  np_up_def np_down_def np_finished_def check_maxoctets_def
    check_idle_def connect_time_expired_def proto_table_def get_input_def timer_call_def expire_first_def
    start_link_def attempt_def link_over_def init_protocols_def auth_script_def run_program_def record_child_def
  Let_def demo_fsm_def reqci_loop.simps  demo_ncp_def

definition run_boot :: auth_world where
  "run_boot = parse_options demo_main (init_protocols demo_world)"

definition run_up :: auth_world where
  "run_up = attempt demo_main run_boot"



definition run_req :: auth_world where
  "run_req = get_input demo_main (Read_frame [0xff, 0x03, 0xc0, 0x21, 1, 7, 0, 4]) run_up"


definition run_open :: auth_world where
  "run_open = get_input demo_main (Read_frame [0xff, 0x03, 0xc0, 0x21, 2, 1, 0, 8, 3, 4, 0xc0, 0x23]) run_req"

definition run_net :: auth_world where
  "run_net = get_input demo_main (Read_frame [0xff, 0x03, 0xc0, 0x23, 1, 9, 0, 8, 1, 0x75, 1, 0x70]) run_open"

lemma run_net: "num_np_open run_net = 1"
  by (simp add: run_simps run_net_def run_open_def run_req_def run_up_def run_boot_def cong: let_weak_cong)


lemma run_auth_required: "auth_required run_net" "\<not> has_noauth_addrs run_net"
  by (simp_all add: run_simps run_net_def run_open_def run_req_def run_up_def run_boot_def cong: let_weak_cong)

lemma run_reach: "sys_reach demo_main Link_loop run_net"
proof -
  have "sys_reach demo_main Waiting run_boot" unfolding run_boot_def by (rule sys_reach.boot) simp_all
  moreover have "sys_step demo_main Waiting run_boot Link_loop run_up" unfolding run_up_def
    by (rule sys_step.again) (simp add: run_simps run_boot_def)
  ultimately have "sys_reach demo_main Link_loop run_up" by (rule sys_reach.step)
  then have "sys_reach demo_main Link_loop run_req" unfolding run_req_def by (rule sys_reach.step) (rule sys_step.read_in)
  then have "sys_reach demo_main Link_loop run_open" unfolding run_open_def by (rule sys_reach.step) (rule sys_step.read_in)
  then show ?thesis unfolding run_net_def by (rule sys_reach.step) (rule sys_step.read_in)
qed

lemma demo_ncp_ok: "proto_ok demo_ncp"
  by (simp add: proto_ok_def demo_ncp_def mild_def quiet_def safe_def proto_down_def)

lemma demo_main_ok: "main_ok demo_main"
proof -
  have "sys_ok demo_sys" by (simp add: sys_ok_def passwd_ok_def demo_sys_def idle_sys_def quiet_def demo_ncp_ok)
  moreover have "grounded (parse_options demo_main w) \<and> net_layer (parse_options demo_main w)"
    if "grounded w" "num_np_open w \<le> 0" "\<not> started w" for w
  proof -
    have g: "grounded (parse_options demo_main w)" using that(1) by (simp add: grounded_def)
    then show ?thesis using that by (simp add: grounded_layer(2)) (simp add: cfg_ok_def)
  qed
  ultimately show ?thesis
    by (simp add: main_ok_def demo_main_def layered_def quiet_def)
qed

theorem networks_need_authentication_witness:
  "main_ok demo_main \<and> sys_reach demo_main Link_loop run_net \<and> num_np_open run_net > 0 \<and>
   auth_pending run_net = 0 \<and> auth_done run_net AND (PAP_PEER OR CHAP_PEER OR EAP_PEER) \<noteq> 0"
  using networks_need_authentication [OF demo_main_ok run_reach] demo_main_ok run_reach run_net run_auth_required
  by simp


section \<open>LCP's timer in a run\<close>

abbreviation demo_cbs :: "auth_world fsm_callbacks" where
  "demo_cbs \<equiv> lcp_callbacks (lcp_ext_of demo_sys)"

lemma demo_timer_ok: "timer_ok demo_sys"
  by (simp add: timer_ok_def demo_sys_def idle_sys_def held_def calm_def demo_ncp_def proto_down_def)

definition run_req_sent :: auth_world where
  "run_req_sent = fsm_lowerup demo_cbs lcp_fsm (fsm_open demo_cbs lcp_fsm (fsm_init lcp_fsm demo_world))"

lemma run_req_sent_reach: "fsm_reach demo_cbs lcp_fsm run_req_sent"
proof -
  have "fsm_reach demo_cbs lcp_fsm (fsm_init lcp_fsm demo_world)" by (rule fsm_reach.start) (simp add: pending_def)
  then have "fsm_reach demo_cbs lcp_fsm (fsm_open demo_cbs lcp_fsm (fsm_init lcp_fsm demo_world))"
    by (rule fsm_reach.step) (rule fsm_step.do_open)
  then show ?thesis unfolding run_req_sent_def by (rule fsm_reach.step) (rule fsm_step.low_up)
qed

lemma run_req_sent_state: "st lcp_fsm run_req_sent = REQSENT"
  by (simp add: run_req_sent_def run_simps cong: let_weak_cong)

theorem lcp_one_timer_witness: "pending Fn_fsm_timeout (Fsm_arg lcp_fsm) run_req_sent = 1"
  using lcp_one_timer [OF demo_timer_ok run_req_sent_reach] run_req_sent_state by simp

end
