(* ===== verification/Md5.thy ===== *)
theory Md5
  imports Pppd_Prelude
begin

text \<open>
  The MD5 message digest, \<^verbatim>\<open>pppd/md5.c\<close>.  \<open>MD5_CTX\<close> is the context of \<^verbatim>\<open>md5.h\<close>; \<open>MD5_Init\<close>, \<open>MD5_Update\<close>, \<open>MD5_Final\<close> and
  \<open>Transform\<close> are the functions of the file.  The message arrives in pieces of any length, is collected in a
  buffer of 64 octets, and the number of its bits is kept in two words.

  The reference is RFC 1321 on a whole message: padding, the division into blocks and the 64 steps of one block
  as a table.  The main result is that the buffered computation gives the digest of the concatenation
  of the pieces.
\<close>

section \<open>The code\<close>

record MD5_CTX =
  md_i0 :: u32
  md_i1 :: u32
  md_buf :: "u32 \<times> u32 \<times> u32 \<times> u32"
  md_in :: packet

definition md5_F :: "u32 \<Rightarrow> u32 \<Rightarrow> u32 \<Rightarrow> u32" where
  "md5_F x y z = (x AND y) OR (NOT x AND z)"

definition md5_G :: "u32 \<Rightarrow> u32 \<Rightarrow> u32 \<Rightarrow> u32" where
  "md5_G x y z = (x AND z) OR (y AND NOT z)"

definition md5_H :: "u32 \<Rightarrow> u32 \<Rightarrow> u32 \<Rightarrow> u32" where
  "md5_H x y z = x XOR y XOR z"

definition md5_I :: "u32 \<Rightarrow> u32 \<Rightarrow> u32 \<Rightarrow> u32" where
  "md5_I x y z = y XOR (x OR NOT z)"

definition ROTATE_LEFT :: "u32 \<Rightarrow> nat \<Rightarrow> u32" where
  "ROTATE_LEFT x n = push_bit n x OR drop_bit (32 - n) x"

text \<open>The macros assign to their first argument; the value is what is assigned.\<close>

definition md5_FF :: "u32 \<Rightarrow> u32 \<Rightarrow> u32 \<Rightarrow> u32 \<Rightarrow> u32 \<Rightarrow> nat \<Rightarrow> u32 \<Rightarrow> u32" where
  "md5_FF a b c d x s ac = ROTATE_LEFT (a + (md5_F b c d + x + ac)) s + b"

definition md5_GG :: "u32 \<Rightarrow> u32 \<Rightarrow> u32 \<Rightarrow> u32 \<Rightarrow> u32 \<Rightarrow> nat \<Rightarrow> u32 \<Rightarrow> u32" where
  "md5_GG a b c d x s ac = ROTATE_LEFT (a + (md5_G b c d + x + ac)) s + b"

definition md5_HH :: "u32 \<Rightarrow> u32 \<Rightarrow> u32 \<Rightarrow> u32 \<Rightarrow> u32 \<Rightarrow> nat \<Rightarrow> u32 \<Rightarrow> u32" where
  "md5_HH a b c d x s ac = ROTATE_LEFT (a + (md5_H b c d + x + ac)) s + b"

definition md5_II :: "u32 \<Rightarrow> u32 \<Rightarrow> u32 \<Rightarrow> u32 \<Rightarrow> u32 \<Rightarrow> nat \<Rightarrow> u32 \<Rightarrow> u32" where
  "md5_II a b c d x s ac = ROTATE_LEFT (a + (md5_I b c d + x + ac)) s + b"

definition Transform :: "u32 \<times> u32 \<times> u32 \<times> u32 \<Rightarrow> u32 list \<Rightarrow> u32 \<times> u32 \<times> u32 \<times> u32" where
  "Transform buf inp =
     (let (a, b, c, d) = buf;
          a = md5_FF a b c d (inp ! 0) 7 3614090360;
          d = md5_FF d a b c (inp ! 1) 12 3905402710;
          c = md5_FF c d a b (inp ! 2) 17 606105819;
          b = md5_FF b c d a (inp ! 3) 22 3250441966;
          a = md5_FF a b c d (inp ! 4) 7 4118548399;
          d = md5_FF d a b c (inp ! 5) 12 1200080426;
          c = md5_FF c d a b (inp ! 6) 17 2821735955;
          b = md5_FF b c d a (inp ! 7) 22 4249261313;
          a = md5_FF a b c d (inp ! 8) 7 1770035416;
          d = md5_FF d a b c (inp ! 9) 12 2336552879;
          c = md5_FF c d a b (inp ! 10) 17 4294925233;
          b = md5_FF b c d a (inp ! 11) 22 2304563134;
          a = md5_FF a b c d (inp ! 12) 7 1804603682;
          d = md5_FF d a b c (inp ! 13) 12 4254626195;
          c = md5_FF c d a b (inp ! 14) 17 2792965006;
          b = md5_FF b c d a (inp ! 15) 22 1236535329;
          a = md5_GG a b c d (inp ! 1) 5 4129170786;
          d = md5_GG d a b c (inp ! 6) 9 3225465664;
          c = md5_GG c d a b (inp ! 11) 14 643717713;
          b = md5_GG b c d a (inp ! 0) 20 3921069994;
          a = md5_GG a b c d (inp ! 5) 5 3593408605;
          d = md5_GG d a b c (inp ! 10) 9 38016083;
          c = md5_GG c d a b (inp ! 15) 14 3634488961;
          b = md5_GG b c d a (inp ! 4) 20 3889429448;
          a = md5_GG a b c d (inp ! 9) 5 568446438;
          d = md5_GG d a b c (inp ! 14) 9 3275163606;
          c = md5_GG c d a b (inp ! 3) 14 4107603335;
          b = md5_GG b c d a (inp ! 8) 20 1163531501;
          a = md5_GG a b c d (inp ! 13) 5 2850285829;
          d = md5_GG d a b c (inp ! 2) 9 4243563512;
          c = md5_GG c d a b (inp ! 7) 14 1735328473;
          b = md5_GG b c d a (inp ! 12) 20 2368359562;
          a = md5_HH a b c d (inp ! 5) 4 4294588738;
          d = md5_HH d a b c (inp ! 8) 11 2272392833;
          c = md5_HH c d a b (inp ! 11) 16 1839030562;
          b = md5_HH b c d a (inp ! 14) 23 4259657740;
          a = md5_HH a b c d (inp ! 1) 4 2763975236;
          d = md5_HH d a b c (inp ! 4) 11 1272893353;
          c = md5_HH c d a b (inp ! 7) 16 4139469664;
          b = md5_HH b c d a (inp ! 10) 23 3200236656;
          a = md5_HH a b c d (inp ! 13) 4 681279174;
          d = md5_HH d a b c (inp ! 0) 11 3936430074;
          c = md5_HH c d a b (inp ! 3) 16 3572445317;
          b = md5_HH b c d a (inp ! 6) 23 76029189;
          a = md5_HH a b c d (inp ! 9) 4 3654602809;
          d = md5_HH d a b c (inp ! 12) 11 3873151461;
          c = md5_HH c d a b (inp ! 15) 16 530742520;
          b = md5_HH b c d a (inp ! 2) 23 3299628645;
          a = md5_II a b c d (inp ! 0) 6 4096336452;
          d = md5_II d a b c (inp ! 7) 10 1126891415;
          c = md5_II c d a b (inp ! 14) 15 2878612391;
          b = md5_II b c d a (inp ! 5) 21 4237533241;
          a = md5_II a b c d (inp ! 12) 6 1700485571;
          d = md5_II d a b c (inp ! 3) 10 2399980690;
          c = md5_II c d a b (inp ! 10) 15 4293915773;
          b = md5_II b c d a (inp ! 1) 21 2240044497;
          a = md5_II a b c d (inp ! 8) 6 1873313359;
          d = md5_II d a b c (inp ! 15) 10 4264355552;
          c = md5_II c d a b (inp ! 6) 15 2734768916;
          b = md5_II b c d a (inp ! 13) 21 1309151649;
          a = md5_II a b c d (inp ! 4) 6 4149444226;
          d = md5_II d a b c (inp ! 11) 10 3174756917;
          c = md5_II c d a b (inp ! 2) 15 718787259;
          b = md5_II b c d a (inp ! 9) 21 3951481745
      in (fst buf + a, fst (snd buf) + b, fst (snd (snd buf)) + c, snd (snd (snd buf)) + d))"

text \<open>The word assembled from the four octets at \<open>ii\<close>, and the octets stored for a word.\<close>

definition md5_word :: "packet \<Rightarrow> nat \<Rightarrow> u32" where
  "md5_word bs ii =
     push_bit 24 (ucast (bs ! (ii + 3))) OR push_bit 16 (ucast (bs ! (ii + 2))) OR
     push_bit 8 (ucast (bs ! (ii + 1))) OR ucast (bs ! ii)"

definition md5_octets :: "u32 \<Rightarrow> packet" where
  "md5_octets v = [ucast (v AND 0xFF), ucast (drop_bit 8 v AND 0xFF), ucast (drop_bit 16 v AND 0xFF),
     ucast (drop_bit 24 v AND 0xFF)]"

definition MD5_Init :: "MD5_CTX \<Rightarrow> MD5_CTX" where
  "MD5_Init ctx = ctx\<lparr>md_i0 := 0, md_i1 := 0, md_buf := (0x67452301, 0xefcdab89, 0x98badcfe, 0x10325476)\<rparr>"

definition md5_mdi :: "MD5_CTX \<Rightarrow> nat" where
  "md5_mdi ctx = unat (drop_bit 3 (md_i0 ctx) AND 0x3F)"

text \<open>The loop of \<open>MD5_Update\<close>, with the index \<open>mdi\<close> of the next free octet of the buffer.\<close>

fun md5_loop :: "nat \<Rightarrow> packet \<Rightarrow> MD5_CTX \<Rightarrow> MD5_CTX" where
  "md5_loop mdi [] ctx = ctx"
| "md5_loop mdi (x # inBuf) ctx =
     (let ctx = ctx\<lparr>md_in := (md_in ctx)[mdi := x]\<rparr>; mdi = mdi + 1
      in if mdi = 0x40
         then md5_loop 0 inBuf
                (ctx\<lparr>md_buf := Transform (md_buf ctx) (map (\<lambda>i. md5_word (md_in ctx) (4 * i)) [0..<16])\<rparr>)
         else md5_loop mdi inBuf ctx)"

definition MD5_Update :: "packet \<Rightarrow> MD5_CTX \<Rightarrow> MD5_CTX" where
  "MD5_Update inBuf ctx =
     (let inLen = word_of_nat (length inBuf) :: u32;
          mdi = md5_mdi ctx;
          ctx = (if md_i0 ctx + push_bit 3 inLen < md_i0 ctx then ctx\<lparr>md_i1 := md_i1 ctx + 1\<rparr> else ctx);
          ctx = ctx\<lparr>md_i0 := md_i0 ctx + push_bit 3 inLen, md_i1 := md_i1 ctx + drop_bit 29 inLen\<rparr>
      in md5_loop mdi inBuf ctx)"

definition PADDING :: packet where
  "PADDING = 0x80 # replicate 63 0"

definition MD5_Final :: "MD5_CTX \<Rightarrow> packet \<times> MD5_CTX" where
  "MD5_Final ctx =
     (let in14 = md_i0 ctx; in15 = md_i1 ctx;
          mdi = md5_mdi ctx;
          padLen = (if mdi < 56 then 56 - mdi else 120 - mdi);
          ctx = MD5_Update (take padLen PADDING) ctx;
          ctx = ctx\<lparr>md_buf := Transform (md_buf ctx) (map (\<lambda>i. md5_word (md_in ctx) (4 * i)) [0..<14] @ [in14, in15])\<rparr>;
          (a, b, c, d) = md_buf ctx
      in (md5_octets a @ md5_octets b @ md5_octets c @ md5_octets d, ctx))"

section \<open>RFC 1321\<close>

definition md5_T :: "u32 list" where
  "md5_T = [
     3614090360, 3905402710, 606105819, 3250441966, 4118548399, 1200080426, 2821735955, 4249261313,
     1770035416, 2336552879, 4294925233, 2304563134, 1804603682, 4254626195, 2792965006, 1236535329,
     4129170786, 3225465664, 643717713, 3921069994, 3593408605, 38016083, 3634488961, 3889429448,
     568446438, 3275163606, 4107603335, 1163531501, 2850285829, 4243563512, 1735328473, 2368359562,
     4294588738, 2272392833, 1839030562, 4259657740, 2763975236, 1272893353, 4139469664, 3200236656,
     681279174, 3936430074, 3572445317, 76029189, 3654602809, 3873151461, 530742520, 3299628645,
     4096336452, 1126891415, 2878612391, 4237533241, 1700485571, 2399980690, 4293915773, 2240044497,
     1873313359, 4264355552, 2734768916, 1309151649, 4149444226, 3174756917, 718787259, 3951481745]"

definition md5_index :: "nat \<Rightarrow> nat \<Rightarrow> nat" where
  "md5_index r i = [i, 5 * i + 1, 3 * i + 5, 7 * i] ! r mod 16"

definition md5_shift :: "nat \<Rightarrow> nat \<Rightarrow> nat" where
  "md5_shift r i = [[7, 12, 17, 22], [5, 9, 14, 20], [4, 11, 16, 23], [6, 10, 15, 21]] ! r ! (i mod 4)"

text \<open>The operations of round \<open>r\<close>: the index of the message word, the shift and the constant.\<close>

definition md5_ops :: "nat \<Rightarrow> (nat \<times> nat \<times> u32) list" where
  "md5_ops r = map (\<lambda>i. (md5_index r i, md5_shift r i, md5_T ! (16 * r + i))) [0..<16]"

text \<open>One operation turns the four registers by one place.\<close>

definition md5_op ::
    "(u32 \<Rightarrow> u32 \<Rightarrow> u32 \<Rightarrow> u32) \<Rightarrow> u32 list \<Rightarrow> u32 \<times> u32 \<times> u32 \<times> u32 \<Rightarrow> nat \<times> nat \<times> u32 \<Rightarrow> u32 \<times> u32 \<times> u32 \<times> u32" where
  "md5_op g xs = (\<lambda>(a, b, c, d) (k, s, t). (d, b + word_rotl s (a + g b c d + xs ! k + t), b, c))"

definition md5_compress :: "u32 \<times> u32 \<times> u32 \<times> u32 \<Rightarrow> u32 list \<Rightarrow> u32 \<times> u32 \<times> u32 \<times> u32" where
  "md5_compress h xs =
     (case foldl (md5_op md5_I xs) (foldl (md5_op md5_H xs) (foldl (md5_op md5_G xs) (foldl (md5_op md5_F xs) h
             (md5_ops 0)) (md5_ops 1)) (md5_ops 2)) (md5_ops 3) of
        (a, b, c, d) \<Rightarrow> (fst h + a, fst (snd h) + b, fst (snd (snd h)) + c, snd (snd (snd h)) + d))"

section \<open>The steps\<close>

lemma ROTATE_LEFT_rotl:
  assumes "0 < n" "n < 32"
  shows "ROTATE_LEFT x n = word_rotl n x"
proof (rule bit_word_eqI)
  fix i :: nat assume "i < LENGTH(32)"
  then have i: "i < 32" by simp
  have "(i + (32 - n)) mod 32 = (if n \<le> i then i - n else i + (32 - n))"
  proof (cases "n \<le> i")
    case True
    then have eq: "i + (32 - n) = (i - n) + 32" using assms by linarith
    have "(i - n) mod 32 = i - n" using i by simp
    then show ?thesis unfolding eq mod_add_self2 using True by simp
  qed (use assms i in simp)
  moreover have "bit (word_rotl n x) i \<longleftrightarrow> bit x ((i + (32 - n)) mod 32)"
    using assms i by (simp add: bit_word_rotl_iff)
  moreover have "bit (ROTATE_LEFT x n) i \<longleftrightarrow> n \<le> i \<and> bit x (i - n) \<or> bit x ((32 - n) + i)"
    using i by (auto simp: ROTATE_LEFT_def bit_or_iff bit_push_bit_iff bit_drop_bit_eq)
  moreover have "\<not> (n \<le> i \<and> bit x ((32 - n) + i))"
    using assms bit_imp_le_length [of x "(32 - n) + i"] by auto
  ultimately show "bit (ROTATE_LEFT x n) i \<longleftrightarrow> bit (word_rotl n x) i"
    by (simp add: add.commute [of i] split: if_splits)
qed

text \<open>Four operations bring the registers round once.\<close>

definition md5_turn :: "(u32 \<Rightarrow> u32 \<Rightarrow> u32 \<Rightarrow> u32) \<Rightarrow> u32 \<Rightarrow> u32 \<Rightarrow> u32 \<Rightarrow> u32 \<Rightarrow> u32 \<Rightarrow> nat \<Rightarrow> u32 \<Rightarrow> u32" where
  "md5_turn g a b c d x s ac = ROTATE_LEFT (a + (g b c d + x + ac)) s + b"

lemma md5_turns: "md5_turn md5_F = md5_FF" "md5_turn md5_G = md5_GG" "md5_turn md5_H = md5_HH" "md5_turn md5_I = md5_II"
  by (simp_all add: fun_eq_iff md5_turn_def md5_FF_def md5_GG_def md5_HH_def md5_II_def)

lemma md5_four_ops:
  assumes "0 < s1 \<and> s1 < 32" "0 < s2 \<and> s2 < 32" "0 < s3 \<and> s3 < 32" "0 < s4 \<and> s4 < 32"
  shows "foldl (md5_op g xs) (a, b, c, d) ((k1, s1, t1) # (k2, s2, t2) # (k3, s3, t3) # (k4, s4, t4) # js) =
    (let a = md5_turn g a b c d (xs ! k1) s1 t1;
         d = md5_turn g d a b c (xs ! k2) s2 t2;
         c = md5_turn g c d a b (xs ! k3) s3 t3;
         b = md5_turn g b c d a (xs ! k4) s4 t4
     in foldl (md5_op g xs) (a, b, c, d) js)"
  using assms by (simp add: md5_op_def md5_turn_def Let_def ROTATE_LEFT_rotl ac_simps)

lemma md5_ops_list:
  "md5_ops 0 = [(0, 7, 3614090360), (1, 12, 3905402710), (2, 17, 606105819), (3, 22, 3250441966), (4, 7, 4118548399), (5,
     12, 1200080426), (6, 17, 2821735955), (7, 22, 4249261313), (8, 7, 1770035416), (9, 12, 2336552879), (10,
     17, 4294925233), (11, 22, 2304563134), (12, 7, 1804603682), (13, 12, 4254626195), (14, 17, 2792965006),
     (15, 22, 1236535329)]"
  "md5_ops 1 = [(1, 5, 4129170786), (6, 9, 3225465664), (11, 14, 643717713), (0, 20, 3921069994), (5, 5, 3593408605),
     (10, 9, 38016083), (15, 14, 3634488961), (4, 20, 3889429448), (9, 5, 568446438), (14, 9, 3275163606), (3,
     14, 4107603335), (8, 20, 1163531501), (13, 5, 2850285829), (2, 9, 4243563512), (7, 14, 1735328473), (12,
     20, 2368359562)]"
  "md5_ops 2 = [(5, 4, 4294588738), (8, 11, 2272392833), (11, 16, 1839030562), (14, 23, 4259657740), (1, 4, 2763975236),
     (4, 11, 1272893353), (7, 16, 4139469664), (10, 23, 3200236656), (13, 4, 681279174), (0, 11, 3936430074),
     (3, 16, 3572445317), (6, 23, 76029189), (9, 4, 3654602809), (12, 11, 3873151461), (15, 16, 530742520),
     (2, 23, 3299628645)]"
  "md5_ops 3 = [(0, 6, 4096336452), (7, 10, 1126891415), (14, 15, 2878612391), (5, 21, 4237533241), (12, 6, 1700485571),
     (3, 10, 2399980690), (10, 15, 4293915773), (1, 21, 2240044497), (8, 6, 1873313359), (15, 10, 4264355552),
     (6, 15, 2734768916), (13, 21, 1309151649), (4, 6, 4149444226), (11, 10, 3174756917), (2, 15, 718787259),
     (9, 21, 3951481745)]"
  by (simp_all add: md5_ops_def md5_index_def md5_shift_def md5_T_def upt_rec)

lemma foldl_Let: "foldl f (Let e g) js = Let e (\<lambda>x. foldl f (g x) js)"
  by (simp add: Let_def)

lemma case_prod_Let: "case_prod g (Let e f) = Let e (\<lambda>x. case_prod g (f x))"
  by (simp add: Let_def)

lemmas small_numerals = zero_less_numeral numeral_less_iff less_num_simps simp_thms

text \<open>The 64 statements of \<open>Transform\<close> are the four rounds of the RFC.\<close>

lemma Transform_compress: "Transform h xs = md5_compress h xs"
proof -
  obtain a b c d where h: "h = (a, b, c, d)" by (cases h)
  show ?thesis
    by (simp only: md5_compress_def md5_ops_list h md5_four_ops foldl_Let case_prod_Let foldl_Nil small_numerals
        md5_turns Transform_def Let_def [of "(a, b, c, d)"] prod.case fst_conv snd_conv)
qed

section \<open>The buffer\<close>

text \<open>A whole message: full blocks one after the other, and the padding with the length in bits.\<close>

abbreviation md5_words :: "packet \<Rightarrow> u32 list" where
  "md5_words bs \<equiv> map (\<lambda>i. md5_word bs (4 * i)) [0..<16]"

function md5_fold :: "u32 \<times> u32 \<times> u32 \<times> u32 \<Rightarrow> packet \<Rightarrow> u32 \<times> u32 \<times> u32 \<times> u32" where
  "md5_fold h bs = (if length bs < 64 then h else md5_fold (md5_compress h (md5_words bs)) (drop 64 bs))"
  by pat_completeness auto
termination by (relation "measure (\<lambda>(h, bs). length bs)") auto

declare md5_fold.simps [simp del]

definition md5_pad :: "packet \<Rightarrow> packet" where
  "md5_pad m = m @ 0x80 # replicate ((119 - length m mod 64) mod 64) 0 @
     md5_octets (word_of_nat (8 * length m)) @ md5_octets (word_of_nat (8 * length m div 2 ^ 32))"

abbreviation md5_start :: "u32 \<times> u32 \<times> u32 \<times> u32" where
  "md5_start \<equiv> (0x67452301, 0xefcdab89, 0x98badcfe, 0x10325476)"

definition md5 :: "packet \<Rightarrow> packet" where
  "md5 m = (case md5_fold md5_start (md5_pad m) of
     (a, b, c, d) \<Rightarrow> md5_octets a @ md5_octets b @ md5_octets c @ md5_octets d)"

lemma md5_fold_short: "length bs < 64 \<Longrightarrow> md5_fold h bs = h"
  by (simp add: md5_fold.simps)

lemma md5_words_append: "length bs = 64 \<Longrightarrow> md5_words (bs @ cs) = md5_words bs"
  by (simp add: md5_word_def nth_append)

lemma md5_fold_block: "length bs = 64 \<Longrightarrow> md5_fold h (bs @ cs) = md5_fold (md5_compress h (md5_words bs)) cs"
  by (subst md5_fold.simps) (simp add: md5_words_append)

lemma md5_fold_append: "length bs mod 64 = 0 \<Longrightarrow> md5_fold h (bs @ cs) = md5_fold (md5_fold h bs) cs"
proof (induction "length bs" arbitrary: h bs rule: less_induct)
  case less
  show ?case
  proof (cases "bs = []")
    case False
    with less.prems have "64 \<le> length bs" by (metis length_0_conv linorder_not_less mod_less)
    then obtain b r where b: "bs = b @ r" "length b = 64" by (metis append_take_drop_id length_take min_absorb2)
    with less.prems have "length r mod 64 = 0" by simp
    with less.hyps [of r] b show ?thesis by (simp add: md5_fold_block)
  qed (simp add: md5_fold_short)
qed

text \<open>The context after a message \<open>m\<close>.\<close>

definition md5_rest :: "packet \<Rightarrow> packet" where
  "md5_rest m = drop (length m - length m mod 64) m"

definition md5_holds :: "packet \<Rightarrow> MD5_CTX \<Rightarrow> bool" where
  "md5_holds m ctx \<longleftrightarrow> length (md_in ctx) = 64 \<and> md_buf ctx = md5_fold md5_start m \<and>
     take (length m mod 64) (md_in ctx) = md5_rest m"

lemma length_md5_rest [simp]: "length (md5_rest m) = length m mod 64"
  by (simp add: md5_rest_def)

lemma md5_split:
  obtains q where "m = q @ md5_rest m" "length q mod 64 = 0"
proof
  show "m = take (length m - length m mod 64) m @ md5_rest m" by (simp add: md5_rest_def)
  have "length m - length m mod 64 = 64 * (length m div 64)" by (simp add: minus_mod_eq_mult_div)
  then show "length (take (length m - length m mod 64) m) mod 64 = 0" by simp
qed

lemma md5_rest_append: "length q mod 64 = 0 \<Longrightarrow> length r < 64 \<Longrightarrow> md5_rest (q @ r) = r"
proof -
  assume "length q mod 64 = 0" "length r < 64"
  then have "length (q @ r) mod 64 = length r" by (simp add: mod_add_eq [symmetric])
  then show ?thesis by (simp add: md5_rest_def)
qed

lemma md5_loop_counts [simp]: "md_i0 (md5_loop n xs ctx) = md_i0 ctx" "md_i1 (md5_loop n xs ctx) = md_i1 ctx"
  by (induction n xs ctx rule: md5_loop.induct) (simp_all add: Let_def)

text \<open>One more octet: it goes into the buffer, and a full buffer is a block.\<close>

lemma md5_holds_octet:
  fixes x :: byte
  assumes "md5_holds m ctx"
  defines "c \<equiv> ctx\<lparr>md_in := (md_in ctx)[length m mod 64 := x]\<rparr>"
  shows "length m mod 64 \<noteq> 63 \<Longrightarrow> md5_holds (m @ [x]) c \<and> length (m @ [x]) mod 64 = Suc (length m mod 64)"
    and "length m mod 64 = 63 \<Longrightarrow>
      md5_holds (m @ [x]) (c\<lparr>md_buf := Transform (md_buf c) (md5_words (md_in c))\<rparr>) \<and> length (m @ [x]) mod 64 = 0"
proof -
  obtain q where q: "m = q @ md5_rest m" "length q mod 64 = 0" by (rule md5_split)
  define r where "r = md5_rest m"
  have m: "m = q @ r" using q(1) by (simp add: r_def)
  have r: "length r = length m mod 64" by (simp add: r_def)
  have lt64: "length r < 64" using r by simp
  have len: "length (md_in ctx) = 64" and buf: "md_buf ctx = md5_fold md5_start m"
    and pre: "take (length r) (md_in ctx) = r"
    using assms(1) r by (auto simp: md5_holds_def r_def)
  have upd: "take (Suc (length r)) ((md_in ctx)[length r := x]) = r @ [x]" if "length r < 64"
    using that len pre by (simp add: take_Suc_conv_app_nth)
  have fold_m: "md5_fold md5_start m = md5_fold md5_start q"
    using md5_fold_append [OF q(2), of md5_start r] md5_fold_short [of r] lt64 unfolding m by simp
  { assume "length m mod 64 \<noteq> 63"
    then have lt: "Suc (length r) < 64" using r mod_less_divisor [of 64 "length m"] by linarith
    then have mod: "length (m @ [x]) mod 64 = Suc (length r)"
      using r by (simp add: mod_Suc)
    have "md5_fold md5_start (m @ [x]) = md5_fold md5_start q"
      using md5_fold_append [OF q(2), of md5_start "r @ [x]"] md5_fold_short [of "r @ [x]"] lt unfolding m by simp
    moreover have "md5_rest (m @ [x]) = r @ [x]" using md5_rest_append [OF q(2), of "r @ [x]"] lt unfolding m by simp
    ultimately show "md5_holds (m @ [x]) c \<and> length (m @ [x]) mod 64 = Suc (length m mod 64)"
      using mod r len buf fold_m upd lt by (simp add: md5_holds_def c_def) }
  { assume "length m mod 64 = 63"
    then have r63: "length r = 63" using r by simp
    have blk: "md_in c = r @ [x]" using upd len r63 r by (simp add: c_def)
    have "md5_fold md5_start (m @ [x]) = md5_compress (md5_fold md5_start q) (md5_words (r @ [x]))"
      using md5_fold_append [OF q(2), of md5_start "r @ [x]"] md5_fold_block [of "r @ [x]" _ "[]"] r63 unfolding m
      by (simp add: md5_fold_short)
    then show "md5_holds (m @ [x]) (c\<lparr>md_buf := Transform (md_buf c) (md5_words (md_in c))\<rparr>) \<and> length (m @ [x]) mod 64 = 0"
      using \<open>length m mod 64 = 63\<close> blk buf fold_m r63
      by (simp add: md5_holds_def Transform_compress c_def mod_Suc md5_rest_def) }
qed

lemma md5_loop_holds: "md5_holds m ctx \<Longrightarrow> md5_holds (m @ xs) (md5_loop (length m mod 64) xs ctx)"
proof (induction xs arbitrary: m ctx)
  case (Cons x xs)
  define c where "c = ctx\<lparr>md_in := (md_in ctx)[length m mod 64 := x]\<rparr>"
  show ?case
  proof (cases "length m mod 64 = 63")
    case True
    from md5_holds_octet(2) [OF Cons.prems True] Cons.IH [of "m @ [x]"] show ?thesis
      using True by (simp add: Let_def)
  next
    case False
    from md5_holds_octet(1) [OF Cons.prems False] Cons.IH [of "m @ [x]"] show ?thesis
      using False by (simp add: Let_def)
  qed
qed simp

section \<open>The count of bits\<close>

definition md5_counts :: "nat \<Rightarrow> MD5_CTX \<Rightarrow> bool" where
  "md5_counts n ctx \<longleftrightarrow> md_i0 ctx = word_of_nat (8 * n) \<and> md_i1 ctx = word_of_nat (8 * n div 2 ^ 32)"

lemma md5_carry: "x + y < x \<longleftrightarrow> 2 ^ 32 \<le> unat x + unat y" for x y :: u32
proof -
  have "unat x < 2 ^ 32" "unat y < 2 ^ 32"
    using unsigned_less [of x, where ?'a = nat] unsigned_less [of y, where ?'a = nat] by simp_all
  then show ?thesis
    by (cases "unat x + unat y < 2 ^ 32") (auto simp: word_less_nat_alt unat_word_ariths(1) mod_if)
qed

lemma md5_bits: "push_bit 3 (word_of_nat n :: u32) = word_of_nat (8 * n)"
  by (simp add: push_bit_eq_mult)

lemma md5_high_bits: "n < 2 ^ 32 \<Longrightarrow> drop_bit 29 (word_of_nat n :: u32) = word_of_nat (8 * n div 2 ^ 32)"
proof (rule word_unat_eq_iff [THEN iffD2])
  assume "n < 2 ^ 32"
  then have "unat (drop_bit 29 (word_of_nat n :: u32)) = n div 2 ^ 29"
    by (subst unat_drop_bit_eq) (simp add: drop_bit_eq_div unat_of_nat)
  moreover have "8 * n div 2 ^ 32 = n div 2 ^ 29"
    using div_mult2_eq [of "8 * n" 8 "2 ^ 29"] by simp
  moreover have "n div 2 ^ 29 < 2 ^ 32" using \<open>n < 2 ^ 32\<close> by (simp add: less_mult_imp_div_less)
  ultimately show "unat (drop_bit 29 (word_of_nat n :: u32)) = unat (word_of_nat (8 * n div 2 ^ 32) :: u32)"
    by (simp add: unat_of_nat)
qed

lemma md5_mdi_counts: "md5_counts n ctx \<Longrightarrow> md5_mdi ctx = n mod 64"
proof -
  assume "md5_counts n ctx"
  then have "unat (md_i0 ctx) = 8 * n mod 2 ^ 32"
    by (simp add: md5_counts_def unat_of_nat del: of_nat_mult)
  then have "md5_mdi ctx = drop_bit 3 (8 * n mod 2 ^ 32) AND mask 6"
    by (simp add: md5_mdi_def unsigned_and_eq unat_drop_bit_eq mask_eq_exp_minus_1)
  also have "\<dots> = 8 * n mod 2 ^ 32 div 8 mod 64"
    by (simp add: take_bit_eq_mask [symmetric] take_bit_eq_mod drop_bit_eq_div)
  also have "8 * n mod 2 ^ 32 = 8 * (n mod 2 ^ 29)" using mod_mult_mult1 [of 8 n "2 ^ 29"] by simp
  also have "8 * (n mod 2 ^ 29) div 8 mod 64 = n mod 64" by (simp add: mod_mod_cancel)
  finally show ?thesis .
qed

lemma md5_counts_add:
  assumes "md5_counts n ctx" "length xs < 2 ^ 32"
  shows "md5_counts (n + length xs) (MD5_Update xs ctx)"
proof -
  define A B :: nat where "A = 8 * n" and "B = 8 * length xs"
  have i: "md_i0 ctx = word_of_nat A" "md_i1 ctx = word_of_nat (A div 2 ^ 32)"
    using assms(1) by (simp_all add: md5_counts_def A_def)
  have "(A + B) div 2 ^ 32 = A div 2 ^ 32 + B div 2 ^ 32 + (if 2 ^ 32 \<le> A mod 2 ^ 32 + B mod 2 ^ 32 then 1 else 0)"
    by (auto simp: div_add1_eq [of A B] le_div_geq)
  moreover have "(word_of_nat A + word_of_nat B :: u32) < word_of_nat A \<longleftrightarrow> 2 ^ 32 \<le> A mod 2 ^ 32 + B mod 2 ^ 32"
    unfolding md5_carry by (simp add: unat_of_nat)
  moreover have "drop_bit 29 (word_of_nat (length xs) :: u32) = word_of_nat (B div 2 ^ 32)"
    using md5_high_bits [OF assms(2)] by (simp add: B_def)
  moreover have "push_bit 3 (word_of_nat (length xs) :: u32) = word_of_nat B"
    unfolding B_def by (rule md5_bits)
  ultimately show ?thesis
    by (simp add: md5_counts_def MD5_Update_def Let_def i add_mult_distrib2 flip: A_def B_def)
qed

lemma md5_update:
  assumes "md5_holds m ctx" "md5_counts (length m) ctx" "length xs < 2 ^ 32"
  shows "md5_holds (m @ xs) (MD5_Update xs ctx) \<and> md5_counts (length (m @ xs)) (MD5_Update xs ctx)"
proof
  show "md5_counts (length (m @ xs)) (MD5_Update xs ctx)" using md5_counts_add [OF assms(2,3)] by simp
  show "md5_holds (m @ xs) (MD5_Update xs ctx)"
    unfolding MD5_Update_def Let_def md5_mdi_counts [OF assms(2)]
    by (rule md5_loop_holds) (use assms(1) in \<open>auto simp: md5_holds_def\<close>)
qed

lemma md5_updates:
  assumes "md5_holds m ctx" "md5_counts (length m) ctx" "\<forall>xs\<in>set xss. length xs < 2 ^ 32"
  shows "md5_holds (m @ concat xss) (fold MD5_Update xss ctx) \<and>
    md5_counts (length (m @ concat xss)) (fold MD5_Update xss ctx)"
  using assms
proof (induction xss arbitrary: m ctx)
  case (Cons xs xss)
  from md5_update [of m ctx xs] Cons.prems Cons.IH [of "m @ xs" "MD5_Update xs ctx"] show ?case by simp
qed simp

section \<open>The digest\<close>

lemma length_md5_octets [simp]: "length (md5_octets v) = 4"
  by (simp add: md5_octets_def)

lemma ucast_low_octet: "ucast (v AND 0xFF) = (ucast v :: byte)" for v :: u32
proof (rule bit_word_eqI)
  fix n assume "n < LENGTH(8)"
  moreover have mask: "(0xFF :: u32) = mask 8" by (simp add: mask_eq_exp_minus_1)
  ultimately show "bit (ucast (v AND 0xFF) :: byte) n \<longleftrightarrow> bit (ucast v :: byte) n"
    unfolding mask by (simp add: bit_ucast_iff bit_and_iff bit_mask_iff)
qed

lemma md5_word_octets: "md5_word (xs @ md5_octets v @ ys) (length xs) = v"
proof -
  have "md5_word (xs @ md5_octets v @ ys) (length xs) =
    GETLONG (ucast (drop_bit 24 v)) (ucast (drop_bit 16 v)) (ucast (drop_bit 8 v)) (ucast v)"
    by (simp add: md5_word_def md5_octets_def GETLONG_def nth_append ucast_low_octet numeral_3_eq_3 numeral_2_eq_2
        or.assoc)
  then show ?thesis by (simp only: GET_PUTLONG)
qed

lemma md5_padding:
  "take (if n < 56 then 56 - n else 120 - n) PADDING = 0x80 # replicate ((119 - n) mod 64) 0"
  if "n < 64"
proof -
  have "(119 - n) mod 64 = (if n < 56 then 55 - n else 119 - n)"
    using that by (auto simp: mod_if)
  then show ?thesis using that by (auto simp: PADDING_def take_Cons' min_def)
qed

lemma md5_pad_length: "(n + Suc ((119 - n mod 64) mod 64)) mod 64 = 56"
proof -
  have "(n + Suc ((119 - n mod 64) mod 64)) mod 64 = (n mod 64 + Suc (119 - n mod 64)) mod 64"
    by (metis add_Suc_right mod_Suc_eq mod_add_eq mod_mod_trivial)
  moreover have "n mod 64 + Suc (119 - n mod 64) = 120" using mod_less_divisor [of 64 n] by linarith
  ultimately show ?thesis by simp
qed

text \<open>The last block: 14 words from the buffer and the count.\<close>

lemma md5_last_words:
  assumes "length r = 56" "take 56 bs = r"
  shows "md5_words (r @ md5_octets u @ md5_octets v) = map (\<lambda>i. md5_word bs (4 * i)) [0..<14] @ [u, v]"
proof -
  let ?blk = "r @ md5_octets u @ md5_octets v"
  have "md5_word ?blk (4 * i) = md5_word bs (4 * i)" if "i < 14" for i
    using that assms(1) assms(2) [symmetric] by (simp add: md5_word_def nth_append)
  moreover have "md5_word ?blk 56 = u" using md5_word_octets [of r u "md5_octets v"] assms(1) by simp
  moreover have "md5_word ?blk 60 = v"
    using md5_word_octets [of "r @ md5_octets u" v "[]"] assms(1) by simp
  moreover have "[0..<16] = [0..<14] @ [14, 15 :: nat]" by (simp add: upt_rec)
  ultimately show ?thesis by simp
qed

lemma md5_buffered:
  assumes "length (md_in ctx) = 64" "\<forall>xs\<in>set xss. length xs < 2 ^ 32"
  shows "fst (MD5_Final (fold MD5_Update xss (MD5_Init ctx))) = md5 (concat xss)"
proof -
  define m where "m = concat xss"
  define c where "c = fold MD5_Update xss (MD5_Init ctx)"
  have "md5_holds [] (MD5_Init ctx)" "md5_counts (length []) (MD5_Init ctx)"
    using assms(1) by (simp_all add: md5_holds_def md5_counts_def MD5_Init_def md5_fold_short md5_rest_def)
  from md5_updates [OF this assms(2)] have c: "md5_holds m c" "md5_counts (length m) c"
    by (simp_all add: m_def c_def)
  define pad :: packet where "pad = 0x80 # replicate ((119 - length m mod 64) mod 64) 0"
  define c' where "c' = MD5_Update pad c"
  have "length pad < 2 ^ 32"
    unfolding pad_def using mod_less_divisor [of 64 "119 - length m mod 64"] by simp
  from md5_update [OF c this] have c': "md5_holds (m @ pad) c'" by (simp add: c'_def)
  have len: "length (m @ pad) mod 64 = 56" using md5_pad_length [of "length m"] by (simp add: pad_def)
  obtain q where q: "m @ pad = q @ md5_rest (m @ pad)" "length q mod 64 = 0" by (rule md5_split)
  define r where "r = md5_rest (m @ pad)"
  have r: "length r = 56" using len by (simp add: r_def)
  have fin: "take 56 (md_in c') = r" "length (md_in c') = 64" "md_buf c' = md5_fold md5_start q"
    using c' len md5_fold_append [OF q(2), of md5_start r] md5_fold_short [of r] r q(1)
    by (simp_all add: md5_holds_def r_def)
  let ?blk = "r @ md5_octets (md_i0 c) @ md5_octets (md_i1 c)"
  note words = md5_last_words [OF r fin(1), of "md_i0 c" "md_i1 c"]
  have "md5_pad m = q @ ?blk"
    using c(2) q(1) by (simp add: md5_pad_def md5_counts_def pad_def r_def)
  then have "md5_fold md5_start (md5_pad m) = md5_compress (md5_fold md5_start q) (md5_words ?blk)"
    using md5_fold_append [OF q(2)] md5_fold_block [of ?blk _ "[]"] r by (simp add: md5_fold_short)
  moreover have "take (if md5_mdi c < 56 then 56 - md5_mdi c else 120 - md5_mdi c) PADDING = pad"
    unfolding pad_def md5_mdi_counts [OF c(2)] by (rule md5_padding) simp
  ultimately show ?thesis
    unfolding c_def [symmetric] m_def [symmetric] MD5_Final_def md5_def Let_def
    by (simp add: c'_def [symmetric] words fin(3) Transform_compress split: prod.splits)
qed

text \<open>
  Property C8.  The buffered MD5 of \<^verbatim>\<open>md5.c\<close> computes the message digest of RFC 1321.  However a message is cut
  into pieces for \<open>MD5_Update\<close>, \<open>MD5_Final\<close> returns the digest of the whole: the buffer of 64 octets, the
  two-word count of bits with its carry and the padding are right, also when the count wraps around.
\<close>

theorem md5_stream:
  assumes "length (md_in ctx) = 64" "\<forall>xs\<in>set xss. length xs < 2 ^ 32"
  shows "fst (MD5_Final (fold MD5_Update xss (MD5_Init ctx))) = md5 (concat xss)"
  using assms by (rule md5_buffered)

section \<open>A test vector\<close>

text \<open>Evaluation of the reference in the simplifier, with the registers reduced to 32 bits after each operation.\<close>

definition md5_norm :: "u32 \<Rightarrow> u32" where
  "md5_norm v = v"

lemma md5_norm_numeral:
  "md5_norm (numeral n) = word_of_int (take_bit 32 (numeral n))"
  "md5_norm (- numeral n) = word_of_int (take_bit 32 (- numeral n))"
proof -
  have "word_of_int (take_bit 32 k) = (word_of_int k :: u32)" for k by (simp add: word_of_int_eq_iff)
  then show "md5_norm (numeral n) = word_of_int (take_bit 32 (numeral n))"
    "md5_norm (- numeral n) = word_of_int (take_bit 32 (- numeral n))"
    by (simp_all only: md5_norm_def) simp_all
qed

lemma md5_op_eval: "0 < s \<Longrightarrow> s < 32 \<Longrightarrow> md5_op g xs (a, b, c, d) (k, s, t) =
  (d, md5_norm (b + ROTATE_LEFT (md5_norm (a + g b c d + xs ! k + t)) s), b, c)"
  by (simp add: md5_op_def ROTATE_LEFT_rotl md5_norm_def)

lemmas md5_eval = md5_compress_def md5_ops_list md5_ops_list(2) [unfolded One_nat_def] md5_op_eval md5_F_def md5_G_def
  md5_H_def md5_I_def ROTATE_LEFT_def md5_norm_numeral

lemma md5_abc_block: "md5_words (md5_pad [0x61, 0x62, 0x63]) = [0x80636261, 0, 0, 0, 0, 0, 0, 0, 0, 0, 0, 0, 0, 0, 24, 0]"
  by (simp add: md5_pad_def md5_octets_def md5_word_def upt_rec nth_append nth_Cons')

lemma md5_abc: "md5 [0x61, 0x62, 0x63] =
  [0x90, 0x01, 0x50, 0x98, 0x3C, 0xD2, 0x4F, 0xB0, 0xD6, 0x96, 0x3F, 0x7D, 0x28, 0xE1, 0x7F, 0x72]"
proof -
  have "md5_fold md5_start (md5_pad [0x61, 0x62, 0x63]) = (2555380112, 2958021180, 2101319382, 1920983336)"
    by (subst md5_fold.simps, subst md5_abc_block) (simp add: md5_pad_def md5_fold_short md5_eval)
  then show ?thesis by (simp add: md5_def md5_octets_def)
qed

theorem md5_stream_witness:
  "fst (MD5_Final (fold MD5_Update [[0x61], [], [0x62, 0x63]]
     (MD5_Init \<lparr>md_i0 = 7, md_i1 = 9, md_buf = (0, 0, 0, 0), md_in = replicate 64 1\<rparr>))) =
   [0x90, 0x01, 0x50, 0x98, 0x3C, 0xD2, 0x4F, 0xB0, 0xD6, 0x96, 0x3F, 0x7D, 0x28, 0xE1, 0x7F, 0x72]"
  unfolding md5_abc [symmetric]
  using md5_stream [of "\<lparr>md_i0 = 7, md_i1 = 9, md_buf = (0, 0, 0, 0), md_in = replicate 64 1\<rparr>"
      "[[0x61], [], [0x62, 0x63]]"]
  by simp

end
