(* ===== verification/Chap_Md5.thy ===== *)
theory Chap_Md5
  imports Md5 Chap
begin

text \<open>
  CHAP with MD5, \<^verbatim>\<open>pppd/chap-md5.c\<close>, and the random numbers of \<^verbatim>\<open>pppd/magic.c\<close> it draws.  \<open>md5_digest\<close> is the entry of the
  list of digest types that \<^verbatim>\<open>chap-new.c\<close> uses.

  \<open>magic_src\<close> is the sequence of the numbers \<open>mrand48\<close> returns, as 32-bit words.  \<open>drand48\<close> steps the same generator of
  48 bits and returns its state as a fraction, so its highest bits are those of the word at the same place.
  The local variable \<open>ctx\<close> of the digest functions is uninitialised; its contents are an argument.
\<close>

section \<open>Random numbers\<close>

definition magic :: "'z lcp_world_scheme \<Rightarrow> u32 \<times> 'z lcp_world_scheme" where
  "magic w = (shd (magic_src w), w\<lparr>magic_src := stl (magic_src w)\<rparr>)"

fun random_bytes :: "nat \<Rightarrow> 'z lcp_world_scheme \<Rightarrow> packet \<times> 'z lcp_world_scheme" where
  "random_bytes 0 w = ([], w)"
| "random_bytes (Suc n) w =
     (let (r, w) = magic w; (bs, w) = random_bytes n w
      in (ucast (drop_bit 24 r) # bs, w))"

section \<open>The digest type\<close>

abbreviation MD5_HASH_SIZE :: nat where "MD5_HASH_SIZE \<equiv> 16"
abbreviation MD5_MIN_CHALLENGE :: nat where "MD5_MIN_CHALLENGE \<equiv> 16"
abbreviation MD5_MAX_CHALLENGE :: nat where "MD5_MAX_CHALLENGE \<equiv> 24"

text \<open>\<open>(int)(drand48() * (MD5_MAX_CHALLENGE - MD5_MIN_CHALLENGE))\<close> is the number in the three highest bits.\<close>

definition chap_md5_generate_challenge :: "'z lcp_world_scheme \<Rightarrow> packet \<times> 'z lcp_world_scheme" where
  "chap_md5_generate_challenge w =
     (let (r, w) = magic w;
          clen = unat (drop_bit 29 r) + MD5_MIN_CHALLENGE;
          (bs, w) = random_bytes clen w
      in (word_of_nat clen # bs, w))"

definition chap_md5_hash :: "MD5_CTX \<Rightarrow> byte \<Rightarrow> packet \<Rightarrow> packet \<Rightarrow> packet" where
  "chap_md5_hash ctx idbyte secret chal =
     (let challenge_len = unat (hd chal)
      in fst (MD5_Final (MD5_Update (take challenge_len (tl chal))
           (MD5_Update secret (MD5_Update [idbyte] (MD5_Init ctx))))))"

definition chap_md5_verify_response ::
    "MD5_CTX \<Rightarrow> byte \<Rightarrow> packet \<Rightarrow> packet \<Rightarrow> packet \<Rightarrow> packet \<Rightarrow> packet \<Rightarrow> 'w \<Rightarrow> bool \<times> packet \<times> 'w" where
  "chap_md5_verify_response ctx idn name secret chal response msg w =
     (if unat (hd response) = MD5_HASH_SIZE \<and>
         chap_md5_hash ctx idn secret chal = take MD5_HASH_SIZE (tl response)
      then (True, cstr ''Access granted'', w)
      else (False, cstr ''Access denied'', w))"

definition chap_md5_make_response ::
    "MD5_CTX \<Rightarrow> byte \<Rightarrow> packet \<Rightarrow> packet \<Rightarrow> packet \<Rightarrow> 'w \<Rightarrow> packet \<times> 'w" where
  "chap_md5_make_response ctx idn our_name chal secret w =
     (word_of_nat MD5_HASH_SIZE # chap_md5_hash ctx idn secret chal, w)"

definition md5_digest :: "MD5_CTX \<Rightarrow> 'z lcp_world_scheme chap_digest" where
  "md5_digest ctx =
     \<lparr>dg_code = uint CHAP_MD5, dg_generate_challenge = chap_md5_generate_challenge,
      dg_verify_response = chap_md5_verify_response ctx, dg_make_response = chap_md5_make_response ctx,
      dg_check_success = None, dg_handle_failure = None\<rparr>"

definition chap_md5_init :: "MD5_CTX \<Rightarrow> 'z lcp_world_scheme chap_digest list \<Rightarrow> 'z lcp_world_scheme chap_digest list" where
  "chap_md5_init ctx chap_digests = md5_digest ctx # chap_digests"

section \<open>Challenges\<close>

lemma random_bytes_length: "length (fst (random_bytes n w)) = n"
  by (induction n arbitrary: w) (simp_all add: Let_def case_prod_beta)

lemma random_bytes_keeps: "\<exists>s. snd (random_bytes n w) = w\<lparr>magic_src := s\<rparr>"
proof (induction n arbitrary: w)
  case 0
  have "w = w\<lparr>magic_src := magic_src w\<rparr>" by simp
  then show ?case by (metis random_bytes.simps(1) snd_conv)
next
  case (Suc n)
  from Suc [of "snd (magic w)"] show ?case by (auto simp: magic_def Let_def split: prod.splits)
qed

lemma generate_challenge_shape:
  obtains n bs s where "chap_md5_generate_challenge w = (word_of_nat n # bs, w\<lparr>magic_src := s\<rparr>)"
    "16 \<le> n" "n < 24" "length bs = n"
proof -
  obtain r w1 where m: "magic w = (r, w1)" by (rule prod.exhaust)
  let ?n = "unat (drop_bit 29 r) + 16"
  have "unat r < 2 ^ 32" using unsigned_less [of r, where ?'a = nat] by simp
  then have "unat (drop_bit 29 r) < 8"
    by (subst unat_drop_bit_eq) (simp add: drop_bit_eq_div less_mult_imp_div_less)
  moreover obtain bs w2 where b: "random_bytes ?n w1 = (bs, w2)" by (rule prod.exhaust)
  moreover have "length bs = ?n" using random_bytes_length [of ?n w1] b by simp
  moreover obtain s where "w2 = w\<lparr>magic_src := s\<rparr>"
    using random_bytes_keeps [of ?n w1] b m by (auto simp: magic_def)
  ultimately show thesis
    by (intro that [of ?n bs s]) (simp_all add: chap_md5_generate_challenge_def m Let_def)
qed

section \<open>Responses\<close>

lemma chap_md5_hash_eq:
  assumes "length (md_in ctx) = 64" "length secret < 2 ^ 32"
  shows "chap_md5_hash ctx idn secret (l # c) = md5 (idn # secret @ take (unat l) c)"
proof -
  have "unat l < 256" using unsigned_less [of l, where ?'a = nat] by simp
  then have "length (take (unat l) c) < 2 ^ 32" by simp
  then show ?thesis
    using md5_buffered [of ctx "[[idn], secret, take (unat l) c]"] assms
    by (simp add: chap_md5_hash_def)
qed

lemma length_md5 [simp]: "length (md5 m) = 16"
  by (simp add: md5_def split: prod.splits)

text \<open>
  Property C12.  The server accepts a response to its challenge exactly if its value is the MD5 digest of RFC 1321 of
  the identifier, the secret and the challenge, as RFC 1994 asks; every other value, a value of another length
  included, is denied, and the message says which.
\<close>

theorem chap_md5_verify_spec:
  assumes "length (md_in ctx) = 64" "length secret < 2 ^ 32" "length c = unat l" "unat r \<le> length v"
  shows "chap_md5_verify_response ctx idn name secret (l # c) (r # v) msg w =
    (let ok = (take (unat r) v = md5 (idn # secret @ c))
     in (ok, cstr (if ok then ''Access granted'' else ''Access denied''), w))"
proof -
  define h where "h = md5 (idn # secret @ c)"
  have len: "unat r = 16" if "take (unat r) v = h"
    using arg_cong [OF that, of length] assms(4) by (simp add: h_def)
  have hash: "chap_md5_hash ctx idn secret (l # c) = h"
    using chap_md5_hash_eq [OF assms(1,2), of idn l c] assms(3) by (simp add: h_def)
  show ?thesis
    unfolding h_def [symmetric] chap_md5_verify_response_def hash Let_def list.sel
    using len by (cases "take (unat r) v = h") auto
qed

theorem chap_md5_verify_spec_witness:
  "chap_md5_verify_response \<lparr>md_i0 = 0, md_i1 = 0, md_buf = (0, 0, 0, 0), md_in = replicate 64 0\<rparr> 7 [] [0x61]
     [1, 0x62] [1, 0x62] [] (0 :: nat) = (False, cstr ''Access denied'', 0)"
proof -
  have "take (unat (1 :: byte)) [0x62] \<noteq> md5 (7 # [0x61] @ [0x62])"
  proof
    assume "take (unat (1 :: byte)) [0x62] = md5 (7 # [0x61] @ [0x62])"
    from arg_cong [OF this, of length] show False by simp
  qed
  then show ?thesis
    using chap_md5_verify_spec [of "\<lparr>md_i0 = 0, md_i1 = 0, md_buf = (0, 0, 0, 0), md_in = replicate 64 0\<rparr>" "[0x61]"
        "[0x62]" 1 1 "[0x62]" 7 "[]" "[]" "0 :: nat"]
    by (simp add: Let_def)
qed

section \<open>A whole exchange\<close>

abbreviation chap_clean :: "packet \<Rightarrow> packet" where
  "chap_clean nm \<equiv> vslprintf_v False (MAXNAMELEN + 1) (length nm) nm"

lemma chap_input_framed:
  assumes "length p < 65000" "code \<in> {CHAP_CHALLENGE, CHAP_RESPONSE}"
  shows "chap_input ext (PUTCHAR code @ [idn] @ PUTSHORT (CHAP_HDRLEN + int (length p)) @ p) w =
    (if code = CHAP_CHALLENGE then chap_respond ext idn p w else chap_handle_response ext idn p w)"
proof -
  have "GETSHORT (word_of_int ((4 + int (length p)) div 256)) (word_of_int (4 + int (length p))) = 4 + int (length p)"
    by (rule GET_PUTSHORT) (use assms(1) in auto)
  then show ?thesis
    using assms(2) by (auto simp: chap_input_def PUTCHAR_def PUTSHORT_def Let_def)
qed

lemma challenge_frame:
  assumes "find_digest es 5 = Some (md5_digest cs)" "ss_digest (chap_server ws) = 5"
  obtains n bs idn s where "chap_generate_challenge es ws =
      ws\<lparr>magic_src := s, chap_server := (chap_server ws)\<lparr>ss_id := ss_id (chap_server ws) + 1, challenge :=
        MAKEHEADER PPP_CHAP @ PUTCHAR CHAP_CHALLENGE @ [idn] @
        PUTSHORT (CHAP_HDRLEN + int (length (word_of_nat n # bs @ ss_name (chap_server ws)))) @
        word_of_nat n # bs @ ss_name (chap_server ws)\<rparr>\<rparr>"
    "16 \<le> n" "n < 24" "length bs = n"
proof -
  obtain n bs s where g: "chap_md5_generate_challenge ws = (word_of_nat n # bs, ws\<lparr>magic_src := s\<rparr>)"
    and n: "16 \<le> n" "n < 24" "length bs = n"
    by (rule generate_challenge_shape)
  have "unat (word_of_nat n :: byte) = n" "uint (word_of_nat n :: byte) = int n"
    using n by (simp_all add: unat_of_nat uint_nat)
  then show thesis
    using n by (intro that [where s = s and idn = "word_of_int (ss_id (chap_server ws) + 1)" and n = n and bs = bs])
      (simp_all add: chap_generate_challenge_def assms md5_digest_def g upd_server_def PUTCHAR_def Let_def add.assoc)
qed

lemma respond_frame:
  assumes "find_digest ec 5 = Some (md5_digest cc)" "length (md_in cc) = 64"
    "cs_flags (chap_client wc) AND (LOWERUP OR AUTH_STARTED) = LOWERUP OR AUTH_STARTED"
    "cs_digest (chap_client wc) = 5" "\<not> explicit_remote wc" "remote_name wc = []"
    "x_get_secret ec (cs_name (chap_client wc)) (chap_clean nm) False wc = (Some secret, wc)"
    "length secret < 2 ^ 32" "length bs = n" "0 < n" "n < 256"
  shows "chap_respond ec idn (word_of_nat n # bs @ nm) wc =
    output_frame (MAKEHEADER PPP_CHAP @ PUTCHAR CHAP_RESPONSE @ [idn] @
      PUTSHORT (CHAP_HDRLEN + int (length (16 # md5 (idn # secret @ bs) @ cs_name (chap_client wc)))) @
      16 # md5 (idn # secret @ bs) @ cs_name (chap_client wc)) wc"
proof -
  have n: "unat (word_of_nat n :: byte) = n" using assms(11) by (simp add: unat_of_nat)
  have hash: "chap_md5_hash cc idn secret (word_of_nat n # bs @ nm) = md5 (idn # secret @ bs)"
    using chap_md5_hash_eq [OF assms(2,8), of idn "word_of_nat n" "bs @ nm"] n assms(9) by simp
  show ?thesis
    using assms(1,3-7,9,10) n
    by (simp add: chap_respond_def md5_digest_def chap_md5_make_response_def hash Let_def)
qed

lemma check_response_md5:
  assumes "find_digest es 5 = Some (md5_digest cs)" "length (md_in cs) = 64" "x_chap_verify_hook es = None"
    "\<And>w. x_auth_number (ch_auth es) w" "\<not> explicit_remote w" "ss_digest (chap_server w) = 5"
    "\<And>v. \<exists>v'. x_get_secret es (chap_clean nm) (ss_name (chap_server w)) True v = (Some secret, v') \<and>
       sent v' = sent v \<and> chap_server v' = chap_server v"
    "length secret < 2 ^ 32" "drop 8 (challenge (chap_server w)) = l # bs @ r" "length bs = unat l"
    "\<not> ss_has AUTH_FAILED w"
  shows "\<exists>v. check_response es idn (16 # md5 (idn # secret @ bs) @ nm) nm w = (chap_clean nm, v) \<and>
    sent v = sent w \<and> (ss_has CHALLENGE_VALID v \<longleftrightarrow> ss_has CHALLENGE_VALID w) \<and> \<not> ss_has AUTH_FAILED v \<and>
    message (chap_server v) = cstr ''Access granted''"
proof -
  have hash: "chap_md5_hash cs idn secret (l # bs @ r) = md5 (idn # secret @ bs)"
    using chap_md5_hash_eq [OF assms(2,8), of idn l "bs @ r"] assms(10) by simp
  let ?u = "if ss_has TIMEOUT_PENDING w then UNTIMEOUT Fn_chap_timeout Chap_server_arg (ss_off TIMEOUT_PENDING w) else w"
  obtain v where "x_get_secret es (chap_clean nm) (ss_name (chap_server w)) True ?u = (Some secret, v)" "sent v = sent ?u"
    "chap_server v = chap_server ?u"
    using assms(7) by blast
  then show ?thesis
    using assms(1,3-6,9,11)
    by (auto simp: check_response_def chap_verify_response_def md5_digest_def chap_md5_verify_response_def hash
        upd_server_def untimeout_def Let_def and.assoc)
qed

text \<open>
  Property C10.  Two copies of the program with the same secret authenticate.  The challenge the server generates, answered
  by the client's \<open>chap_input\<close>, is accepted by the server's \<open>chap_input\<close>: it sends a Success with the identifier of
  the challenge and concludes the exchange for the client's name without a failure.
\<close>

theorem chap_md5_handshake:
  assumes server: "find_digest es 5 = Some (md5_digest cs)" "length (md_in cs) = 64" "x_chap_verify_hook es = None"
      "\<And>w. x_auth_number (ch_auth es) w" "\<not> explicit_remote ws" "ss_digest (chap_server ws) = 5"
      "ss_has LOWERUP ws" "ss_has CHALLENGE_VALID ws" "\<not> ss_has AUTH_FAILED ws"
      "length (ss_name (chap_server ws)) \<le> MAXNAMELEN"
    and client: "find_digest ec 5 = Some (md5_digest cc)" "length (md_in cc) = 64"
      "cs_flags (chap_client wc) AND (LOWERUP OR AUTH_STARTED) = LOWERUP OR AUTH_STARTED"
      "cs_digest (chap_client wc) = 5" "\<not> explicit_remote wc" "remote_name wc = []"
      "length (cs_name (chap_client wc)) \<le> MAXNAMELEN"
    and secrets: "x_get_secret ec (cs_name (chap_client wc)) (chap_clean (ss_name (chap_server ws))) False wc = (Some secret, wc)"
      "\<And>v. \<exists>v'. x_get_secret es (chap_clean (cs_name (chap_client wc))) (ss_name (chap_server ws)) True v = (Some secret, v') \<and>
         sent v' = sent v \<and> chap_server v' = chap_server v"
      "length secret < 2 ^ 32"
  shows "\<exists>idn r u. let w1 = chap_generate_challenge es ws in
    sent (chap_input ec (drop 4 (challenge (chap_server w1))) wc) = sent wc @ [r] \<and>
    chap_input es (drop 4 r) w1 = conclude_response es (chap_clean (cs_name (chap_client wc))) u \<and>
    \<not> ss_has AUTH_FAILED u \<and>
    sent u = sent w1 @ [MAKEHEADER PPP_CHAP @ PUTCHAR CHAP_SUCCESS @ [idn] @ PUTSHORT (4 + 14) @ cstr ''Access granted'']"
proof -
  obtain n bs idn s where w1: "chap_generate_challenge es ws =
      ws\<lparr>magic_src := s, chap_server := (chap_server ws)\<lparr>ss_id := ss_id (chap_server ws) + 1, challenge :=
        MAKEHEADER PPP_CHAP @ PUTCHAR CHAP_CHALLENGE @ [idn] @
        PUTSHORT (CHAP_HDRLEN + int (length (word_of_nat n # bs @ ss_name (chap_server ws)))) @
        word_of_nat n # bs @ ss_name (chap_server ws)\<rparr>\<rparr>" (is "_ = ?w1")
    and n: "16 \<le> n" "n < 24" "length bs = n"
    by (rule challenge_frame [OF server(1,6)])
  define cn where "cn = cs_name (chap_client wc)"
  define h where "h = md5 (idn # secret @ bs)"
  define r where "r = MAKEHEADER PPP_CHAP @ PUTCHAR CHAP_RESPONSE @ [idn] @ PUTSHORT (CHAP_HDRLEN + int (length (16 # h @ cn))) @ 16 # h @ cn"
  have "chap_input ec (drop 4 (challenge (chap_server ?w1))) wc = output_frame r wc"
    using chap_input_framed [of "word_of_nat n # bs @ ss_name (chap_server ws)" CHAP_CHALLENGE ec idn wc]
      respond_frame [OF client(1-6) secrets(1,3) n(3), of idn] n server(10)
    by (simp add: r_def h_def cn_def)
  moreover have "chap_input es (drop 4 r) ?w1 = chap_handle_response es idn (16 # h @ cn) ?w1"
    using chap_input_framed [of "16 # h @ cn" CHAP_RESPONSE es idn ?w1] client(7) by (simp add: r_def h_def cn_def)
  moreover obtain v where v: "check_response es idn (16 # h @ cn) cn ?w1 = (chap_clean cn, v)" "sent v = sent ?w1"
    "ss_has CHALLENGE_VALID v" "\<not> ss_has AUTH_FAILED v" "message (chap_server v) = cstr ''Access granted''"
    using check_response_md5 [OF server(1-4), of ?w1 cn secret "word_of_nat n" bs "ss_name (chap_server ws)" idn]
      server secrets(2,3) n
    by (auto simp: unat_of_nat cn_def h_def MAKEHEADER_def PUTCHAR_def PUTSHORT_def)
  moreover have "chap_handle_response es idn (16 # h @ cn) ?w1 = conclude_response es (chap_clean cn) (send_status idn v)"
    using v server(7,8) by (simp add: chap_handle_response_def h_def Let_def MAKEHEADER_def PUTCHAR_def PUTSHORT_def
        send_status_def output_frame_def)
  moreover have "\<not> ss_has AUTH_FAILED (send_status idn v)"
    "sent (send_status idn v) = sent ?w1 @ [MAKEHEADER PPP_CHAP @ PUTCHAR CHAP_SUCCESS @ [idn] @ PUTSHORT (4 + 14) @ cstr ''Access granted'']"
    using v by (simp_all add: send_status_def output_frame_def Let_def cstr_def)
  ultimately show ?thesis
    unfolding w1 Let_def by (intro exI [of _ idn] exI [of _ r] exI [of _ "send_status idn v"]) (simp add: output_frame_def cn_def)
qed

end
