(* ===== verification/Upap_Props.thy ===== *)
theory Upap_Props
  imports Upap Retry
begin

text \<open>
  Properties of PAP: the requests of a client that gets no answer, and a whole exchange between a client and a
  server.
\<close>

section \<open>Retransmission\<close>

definition upap_expire :: "'z upap_world_scheme auth_ext \<Rightarrow> 'z upap_world_scheme \<Rightarrow> 'z upap_world_scheme" where
  "upap_expire ext w = upap_timeout ext (UNTIMEOUT Fn_upap_timeout Upap_arg w)"

abbreviation upap_data :: "packet \<Rightarrow> packet \<Rightarrow> packet" where
  "upap_data user password \<equiv> PUTCHAR (int (length user)) @ user @ PUTCHAR (int (length password)) @ password"

definition upap_request :: "'z upap_world_scheme \<Rightarrow> packet \<Rightarrow> bool" where
  "upap_request w fr \<longleftrightarrow> take 5 fr = MAKEHEADER PPP_PAP @ [1] \<and> drop 8 fr = upap_data (us_user (upap w)) (us_passwd (upap w))"

definition upap_give_up :: "'z upap_world_scheme auth_ext \<Rightarrow> 'z upap_world_scheme \<Rightarrow> 'z upap_world_scheme" where
  "upap_give_up ext w =
     x_auth_withpeer_fail ext PPP_PAP (set_client UPAPCS_BADAUTH (UNTIMEOUT Fn_upap_timeout Upap_arg w))"

lemma sauthreq_state:
  "sent (upap_sauthreq w) = sent w @ [MAKEHEADER PPP_PAP @ PUTCHAR UPAP_AUTHREQ @ [us_id (upap w) + 1] @
     PUTSHORT (UPAP_HEADERLEN + int (length (upap_data (us_user (upap w)) (us_passwd (upap w))))) @
     upap_data (us_user (upap w)) (us_passwd (upap w))]"
  "upap (upap_sauthreq w) = (upap w)\<lparr>us_id := us_id (upap w) + 1, us_transmits := us_transmits (upap w) + 1,
     us_clientstate := UPAPCS_AUTHREQ\<rparr>"
  by (simp_all add: upap_sauthreq_def upd_upap_def output_frame_def Let_def timeout_def gettimeofday_def ac_simps)

interpretation pap: retry "upap_expire (ext :: 'z upap_world_scheme auth_ext)" "\<lambda>w. upap_cs w = UPAPCS_AUTHREQ"
  "\<lambda>w. us_maxtransmits (upap w) - us_transmits (upap w)" sent upap_request "upap_give_up ext"
proof
  fix w :: "'z upap_world_scheme" assume w: "upap_cs w = UPAPCS_AUTHREQ" "us_maxtransmits (upap w) - us_transmits (upap w) > 0"
  have eq: "upap_expire ext w = upap_sauthreq (UNTIMEOUT Fn_upap_timeout Upap_arg w)"
    using w by (simp add: upap_expire_def upap_timeout_def untimeout_def)
  show "upap_cs (upap_expire ext w) = UPAPCS_AUTHREQ \<and>
    us_maxtransmits (upap (upap_expire ext w)) - us_transmits (upap (upap_expire ext w)) =
      us_maxtransmits (upap w) - us_transmits (upap w) - 1 \<and> upap_request (upap_expire ext w) = upap_request w \<and>
    (\<exists>fr. sent (upap_expire ext w) = sent w @ [fr] \<and> upap_request w fr)"
    by (simp add: eq sauthreq_state untimeout_def upap_request_def fun_eq_iff MAKEHEADER_def PUTCHAR_def PUTSHORT_def)
next
  fix w :: "'z upap_world_scheme" assume "upap_cs w = UPAPCS_AUTHREQ" "us_maxtransmits (upap w) - us_transmits (upap w) \<le> 0"
  then show "upap_expire ext w = upap_give_up ext w"
    by (simp add: upap_expire_def upap_timeout_def upap_give_up_def untimeout_def)
qed

text \<open>
  Property C16.  A PAP client whose peer does not answer sends its name and password again at every timeout until it has
  sent \<open>us_maxtransmits\<close> requests, and at the next one reports the failure to \<^verbatim>\<open>auth.c\<close>: it never waits for ever.
\<close>

theorem upap_gives_up:
  assumes "upap_cs w = UPAPCS_AUTHREQ" "us_maxtransmits (upap w) - us_transmits (upap w) = int n"
  shows "\<exists>u frs. u = (upap_expire ext ^^ n) w \<and> sent u = sent w @ frs \<and> length frs = n \<and>
    (\<forall>fr\<in>set frs. take 5 fr = MAKEHEADER PPP_PAP @ [1] \<and>
       drop 8 fr = upap_data (us_user (upap w)) (us_passwd (upap w))) \<and>
    (upap_expire ext ^^ Suc n) w =
      x_auth_withpeer_fail ext PPP_PAP (set_client UPAPCS_BADAUTH (UNTIMEOUT Fn_upap_timeout Upap_arg u))"
  using pap.gives_up [OF assms, of ext] by (simp add: upap_request_def upap_give_up_def)

section \<open>A whole exchange\<close>

lemma parse_authreq_data:
  assumes "length user < 256" "length password < 256"
  shows "parse_authreq (upap_data user password) = Some (user, password)"
proof -
  have "uint (word_of_nat (length user) :: byte) = int (length user)"
    "uint (word_of_nat (length password) :: byte) = int (length password)"
    using assms by (simp_all add: uint_nat unat_of_nat)
  moreover have "unat (word_of_nat (length user) :: byte) = length user"
    "unat (word_of_nat (length password) :: byte) = length password"
    using assms by (simp_all add: unat_of_nat)
  ultimately show ?thesis by (simp add: parse_authreq_def PUTCHAR_def Let_def)
qed

lemma upap_input_framed:
  assumes "length p < 65000" "code \<in> {UPAP_AUTHREQ, UPAP_AUTHACK, UPAP_AUTHNAK}"
  shows "upap_input ext (PUTCHAR code @ [idn] @ PUTSHORT (UPAP_HEADERLEN + int (length p)) @ p) w =
    (if code = UPAP_AUTHREQ then upap_rauthreq ext p idn w
     else if code = UPAP_AUTHACK then upap_rauthack ext p idn w else upap_rauthnak ext p idn w)"
proof -
  have "GETSHORT (word_of_int ((4 + int (length p)) div 256)) (word_of_int (4 + int (length p))) = 4 + int (length p)"
    by (rule GET_PUTSHORT) (use assms(1) in auto)
  then show ?thesis
    using assms(2) by (auto simp: upap_input_def PUTCHAR_def PUTSHORT_def Let_def)
qed

text \<open>
  Property C11.  Two copies of the program understand each other's PAP.  The request a client sends makes a listening
  server check exactly the client's name and password; when they are right the server reports the success of
  that name, and its reply makes the client report its own success.
\<close>

theorem upap_handshake:
  assumes "length (us_user (upap wc)) < 256" "length (us_passwd (upap wc)) < 256" "upap_ss ws = UPAPSS_LISTEN"
    "x_check_passwd es (us_user (upap wc)) (us_passwd (upap wc)) ws = (UPAP_AUTHACK, msg, wa)" "x_auth_number es wa"
  shows "\<exists>r a. sent (upap_sauthreq wc) = sent wc @ [r] \<and>
    upap_input es (drop 4 r) ws =
      (let w = x_auth_peer_success es PPP_PAP 0 (us_user (upap wc)) (set_server UPAPSS_OPEN (output_frame a wa))
       in if us_reqtimeout (upap w) > 0 then UNTIMEOUT Fn_upap_reqtimeout Upap_arg w else w) \<and>
    upap_input ec (drop 4 a) (upap_sauthreq wc) =
      x_auth_withpeer_success ec PPP_PAP 0 (set_client UPAPCS_OPEN (upap_sauthreq wc))"
proof -
  let ?d = "upap_data (us_user (upap wc)) (us_passwd (upap wc))" and ?m = "take 255 msg"
  define idn where "idn = us_id (upap wc) + 1"
  define r where "r = MAKEHEADER PPP_PAP @ PUTCHAR UPAP_AUTHREQ @ [idn] @ PUTSHORT (UPAP_HEADERLEN + int (length ?d)) @ ?d"
  define a where "a = MAKEHEADER PPP_PAP @ PUTCHAR UPAP_AUTHACK @ [idn] @
    PUTSHORT (UPAP_HEADERLEN + int (length (PUTCHAR (int (length ?m)) @ ?m))) @ PUTCHAR (int (length ?m)) @ ?m"
  have "sent (upap_sauthreq wc) = sent wc @ [r]" by (simp add: sauthreq_state r_def idn_def)
  moreover have "upap_input es (drop 4 r) ws = upap_rauthreq es ?d idn ws"
    using upap_input_framed [of ?d UPAP_AUTHREQ es idn ws] assms(1,2) by (simp add: r_def)
  moreover have "upap_sresp UPAP_AUTHACK idn ?m wa = output_frame a wa"
    by (simp add: upap_sresp_def a_def Let_def)
  moreover have "upap_input ec (drop 4 a) (upap_sauthreq wc) = upap_rauthack ec (PUTCHAR (int (length ?m)) @ ?m) idn (upap_sauthreq wc)"
    using upap_input_framed [of "PUTCHAR (int (length ?m)) @ ?m" UPAP_AUTHACK ec idn "upap_sauthreq wc"] by (simp add: a_def)
  moreover have "message_ok (PUTCHAR (int (length ?m)) @ ?m)"
    by (simp add: message_ok_def PUTCHAR_def uint_nat unat_of_nat)
  ultimately show ?thesis
    using assms(3-5) parse_authreq_data [OF assms(1,2)]
    by (intro exI [of _ r] exI [of _ a]) (simp add: upap_rauthreq_def upap_rauthack_def sauthreq_state Let_def)
qed

end
