(* ===== verification/Chap_Stale.thy ===== *)
theory Chap_Stale
  imports Auth Fsm_Props
begin

text \<open>
  The flag \<open>AUTH_DONE\<close> of the CHAP server across links: after a failed response it is set when the link has already been
  taken down.
\<close>

lemma keeps_server [simp]:
  "chap_server (upd_fsm f g w) = chap_server w" "chap_server (timeout fn a s us w) = chap_server w"
  "chap_server (untimeout fn a w) = chap_server w" "chap_server (new_phase p w) = chap_server w"
  "chap_server (act b w) = chap_server w" "chap_server (fsm_sdata f c i d w) = chap_server w"
  "chap_server (send_termreq f w) = chap_server w" "chap_server (lcp_echo_lowerdown w) = chap_server w"
  "chap_server (snd (chan_call cop w)) = chap_server w"
  by (simp_all add: upd_fsm_def timeout_def untimeout_def gettimeofday_def new_phase_def act_def fsm_sdata_def
      send_termreq_def new_reqid_def lcp_echo_lowerdown_def chan_call_def Let_def)

lemma phase_kept [simp]:
  "doing_multilink (upd_fsm f g w) = doing_multilink w" "doing_multilink (new_phase p w) = doing_multilink w"
  "doing_multilink (lcp_echo_lowerdown w) = doing_multilink w" "fsms (new_phase p w) = fsms w"
  "fsms (act b w) = fsms w"
  by (simp_all add: upd_fsm_def new_phase_def lcp_echo_lowerdown_def untimeout_def act_def)

lemma keeps_let:
  "g a = v \<Longrightarrow> (\<And>x. g x = v \<Longrightarrow> g (f x) = v) \<Longrightarrow> g (let x = a in f x) = v"
  by (simp add: Let_def)

lemma finish_keeps [simp]:
  "chap_server (release_link w) = chap_server w" "fsms (release_link w) = fsms w"
  "chap_server (finish_link w) = chap_server w"
  unfolding release_link_def finish_link_def
  by (rule keeps_let, simp, rule keeps_let, simp, simp add: Let_def,
      rule keeps_let, simp, rule keeps_let, simp, simp add: Let_def,
      rule keeps_let, simp, rule keeps_let, simp, rule keeps_let, simp, simp add: Let_def)

lemma terminated_keeps: "st lcp_fsm w = CLOSED \<Longrightarrow> chap_server (link_terminated sys w) = chap_server w"
  by (simp add: link_terminated_def lcp_lowerdown_def fsm_lowerdown_def clear_flag_def Let_def)

lemma fold_keeps_server:
  "(\<And>p u. p \<in> set ps \<Longrightarrow> chap_server (g p u) = chap_server u) \<Longrightarrow> chap_server (fold g ps w) = chap_server w"
  by (induction ps arbitrary: w) auto

lemma down_clears:
  assumes "\<And>p u. p \<in> set (other_protocols sys) \<Longrightarrow> chap_server (proto_down p u) = chap_server u" "\<not> doing_multilink w"
  shows "ss_flags (chap_server (lcp_down (lcp_ext1 sys) w)) = 0"
proof -
  have low: "ss_flags (chap_server (chap_lowerdown u)) = 0" for u :: "'z auth_world_scheme"
    by (simp add: chap_lowerdown_def upd_server_def Let_def)
  have "ss_flags (chap_server (upper_layers_down sys u)) = 0" for u
    using fold_keeps_server [of "other_protocols sys" proto_down, OF assms(1)] low by (simp add: upper_layers_down_def Let_def)
  then have "ss_flags (chap_server (link_down sys u)) = 0" if "\<not> doing_multilink u" for u
    using that by (auto simp: link_down_def Let_def act_def)
  with assms(2) show ?thesis
    by (simp add: lcp_down_def lcp_ext1_def lcp_ext0_def ppp_send_config_def ppp_recv_config_def Let_def)
qed

lemma fail_clears:
  assumes "\<And>p u. p \<in> set (other_protocols sys) \<Longrightarrow> chap_server (proto_down p u) = chap_server u"
    "st lcp_fsm w = OPENED" "\<not> delayed w" "\<not> doing_multilink w"
  shows "ss_flags (chap_server (auth_peer_fail sys proto w)) = 0"
proof -
  have down: "ss_flags (chap_server (lcp_down (lcp_ext1 sys) u)) = 0" if "\<not> doing_multilink u" for u
    using down_clears [OF assms(1) that] .
  have ext: "x_link_terminated (lcp_ext1 sys) = link_terminated sys" by (simp add: lcp_ext1_def)
  show ?thesis
    using assms(2-4)
    by (simp add: auth_peer_fail_def close_link_def lcp_close_def fsm_close_def terminate_layer_def lcp_down_callbacks_def
        lcp_finished_def ext terminated_keeps down Let_def)
qed

text \<open>
  Property C37.  A failed CHAP response poisons the next link.  When the server refuses a response on an open link, what remains of its
  flags is exactly \<open>AUTH_DONE\<close>: taking the link down cleared them, and the flag is set behind it.  It is still there
  when the server starts on the next link (\<open>chap_auth_peer\<close>, \<open>chap_lowerup\<close> only add flags), and with it an accepted response is
  concluded without calling \<open>auth_peer_success\<close>: whatever function stood in its place, the result is the same.
\<close>

theorem chap_stale_done:
  assumes "\<And>p u. p \<in> set (other_protocols sys) \<Longrightarrow> chap_server (proto_down p u) = chap_server u"
    "st lcp_fsm w = OPENED" "\<not> delayed w" "\<not> doing_multilink w" "ss_has AUTH_FAILED w"
  shows "ss_flags (chap_server (conclude_response (chap_ext_of sys) name w)) = AUTH_DONE \<and>
    (ss_has AUTH_DONE v \<and> \<not> ss_has AUTH_FAILED v \<longrightarrow>
       conclude_response ((chap_ext_of sys)\<lparr>ch_auth := (auth_ext_of sys)\<lparr>x_auth_peer_success := g\<rparr>\<rparr>) name v =
       conclude_response (chap_ext_of sys) name v)"
proof -
  let ?u = "ss_off CHALLENGE_VALID w"
  have u: "st lcp_fsm ?u = OPENED" "\<not> delayed ?u" "\<not> doing_multilink ?u" "ss_has AUTH_FAILED ?u"
    using assms(2-5) by (simp_all add: upd_server_def and.assoc)
  have "ss_flags (chap_server (auth_peer_fail sys PPP_CHAP ?u)) = 0" by (rule fail_clears [OF assms(1) u(1-3)])
  then show ?thesis
    using u(4) by (simp add: conclude_response_def chap_ext_of_def auth_ext_of_def upd_server_def Let_def and.assoc)
qed

end
