(* ===== verification/Exchange_Run.thy ===== *)
theory Exchange_Run
  imports System_Run Chap_Md5 Upap_Props Chap_Stale
begin

text \<open>
  Authentication exchanges between two concrete ends, with the entry points of \<^verbatim>\<open>auth.c\<close> behind them.
\<close>

section \<open>PAP\<close>

definition pap_client :: auth_world where
  "pap_client = demo_world\<lparr>upap := (upap demo_world)\<lparr>us_user := cstr ''u'', us_passwd := cstr ''p'',
     us_clientstate := UPAPCS_AUTHREQ, us_maxtransmits := 10, us_transmits := 8\<rparr>\<rparr>"

definition pap_server :: auth_world where
  "pap_server = upap_authpeer (upap_lowerup (upap_init demo_world))"

abbreviation demo_auth :: "auth_world auth_ext" where "demo_auth \<equiv> auth_ext_of demo_sys"

theorem upap_gives_up_witness:
  "\<exists>u frs. u = (upap_expire demo_auth ^^ 2) pap_client \<and> sent u = frs \<and> length frs = 2 \<and>
    (\<forall>fr\<in>set frs. take 5 fr = MAKEHEADER PPP_PAP @ [1] \<and> drop 8 fr = upap_data (cstr ''u'') (cstr ''p'')) \<and>
    (upap_expire demo_auth ^^ Suc 2) pap_client =
      auth_withpeer_fail demo_sys PPP_PAP (set_client UPAPCS_BADAUTH (UNTIMEOUT Fn_upap_timeout Upap_arg u))"
  using upap_gives_up [where w = pap_client and n = 2 and ext = demo_auth]
  by (simp add: pap_client_def)

lemma pap_server_listens: "upap_ss pap_server = UPAPSS_LISTEN"
  by (simp add: pap_server_def run_simps)

theorem upap_handshake_witness:
  "\<exists>r a. sent (upap_sauthreq pap_client) = [r] \<and>
    upap_input demo_auth (drop 4 r) pap_server =
      (let w = auth_peer_success demo_sys PPP_PAP 0 (cstr ''u'') (set_server UPAPSS_OPEN (output_frame a pap_server))
       in if us_reqtimeout (upap w) > 0 then UNTIMEOUT Fn_upap_reqtimeout Upap_arg w else w) \<and>
    upap_input demo_auth (drop 4 a) (upap_sauthreq pap_client) =
      auth_withpeer_success demo_sys PPP_PAP 0 (set_client UPAPCS_OPEN (upap_sauthreq pap_client))"
  using upap_handshake [where wc = pap_client and ws = pap_server and es = demo_auth and ec = demo_auth and msg = "[]"
      and wa = pap_server] pap_server_listens
  by (simp add: pap_client_def cstr_def)

section \<open>CHAP\<close>

definition demo_ctx :: MD5_CTX where
  "demo_ctx = \<lparr>md_i0 = 0, md_i1 = 0, md_buf = (0, 0, 0, 0), md_in = replicate 64 0\<rparr>"

definition chap_demo :: "auth_world sys_ext" where
  "chap_demo = demo_sys\<lparr>digests := chap_md5_init demo_ctx [], get_secret := (\<lambda>_ _ _ w. (Some (cstr ''sesame''), w))\<rparr>"

definition chap_server_end :: auth_world where
  "chap_server_end = demo_world\<lparr>chap_server := (chap_server demo_world)\<lparr>
     ss_flags := LOWERUP OR AUTH_STARTED OR CHALLENGE_VALID, ss_name := cstr ''srv'', ss_digest := 5\<rparr>\<rparr>"

definition chap_client_end :: auth_world where
  "chap_client_end = demo_world\<lparr>chap_client := \<lparr>cs_flags = LOWERUP OR AUTH_STARTED, cs_name = cstr ''cli'', cs_digest = 5\<rparr>\<rparr>"

abbreviation chap_demo_ext :: "auth_world chap_ext" where "chap_demo_ext \<equiv> chap_ext_of chap_demo"

theorem chap_md5_handshake_witness:
  "\<exists>idn r u. let w1 = chap_generate_challenge chap_demo_ext chap_server_end in
    sent (chap_input chap_demo_ext (drop 4 (challenge (chap_server w1))) chap_client_end) = [r] \<and>
    chap_input chap_demo_ext (drop 4 r) w1 = conclude_response chap_demo_ext (cstr ''cli'') u \<and>
    \<not> ss_has AUTH_FAILED u \<and>
    sent u = sent w1 @ [MAKEHEADER PPP_CHAP @ PUTCHAR CHAP_SUCCESS @ [idn] @ PUTSHORT (4 + 14) @ cstr ''Access granted'']"
proof -
  have ext: "find_digest chap_demo_ext 5 = Some (md5_digest demo_ctx)" "x_chap_verify_hook chap_demo_ext = None"
    "x_auth_number (ch_auth chap_demo_ext) w" "x_get_secret chap_demo_ext nm nm' b w = (Some (cstr ''sesame''), w)" for w nm nm' b
    by (simp_all add: find_digest_def chap_ext_of_def chap_demo_def chap_md5_init_def md5_digest_def auth_ext_of_def
        demo_sys_def idle_sys_def)
  have name: "vslprintf_v False 257 (Suc (Suc (Suc 0))) [0x63, 0x6C, 0x69] = [0x63, 0x6C, 0x69]"
    by (simp add: vslprintf_v_def visible_char_def Let_def word_le_nat_alt word_less_nat_alt)
  show ?thesis
    using chap_md5_handshake [where es = chap_demo_ext and cs = demo_ctx and ws = chap_server_end and
        ec = chap_demo_ext and cc = demo_ctx and wc = chap_client_end and secret = "cstr ''sesame''"] ext
    by (simp add: chap_server_end_def chap_client_end_def demo_ctx_def name cstr_def)
qed

definition refused_end :: auth_world where
  "refused_end = demo_world\<lparr>fsms := (\<lambda>_. demo_fsm\<lparr>state := OPENED\<rparr>),
     chap_server := (chap_server demo_world)\<lparr>ss_flags := LOWERUP OR AUTH_STARTED OR AUTH_FAILED\<rparr>\<rparr>"

theorem chap_stale_done_witness:
  "ss_flags (chap_server (conclude_response (chap_ext_of demo_sys) (cstr ''cli'') refused_end)) = AUTH_DONE"
proof -
  have "chap_server (proto_down p u) = chap_server u" if "p \<in> set (other_protocols demo_sys)" for p and u :: auth_world
    using that by (simp add: proto_down_def demo_ncp_def)
  then show ?thesis
    by (rule chap_stale_done [THEN conjunct1]) (simp_all add: refused_end_def demo_fsm_def)
qed

end
