(* ===== verification/Lcp_Echo.thy ===== *)
theory Lcp_Echo
  imports System_Props Retry
begin

text \<open>
  The echo requests of \<^verbatim>\<open>lcp.c\<close> in the running daemon: a peer that has gone is noticed.  \<open>LcpEchoTimeout\<close> with the
  callbacks of \<^verbatim>\<open>auth.c\<close> is an instance of the contract of repeated requests.
\<close>

definition echo_expire :: "'z auth_world_scheme sys_ext \<Rightarrow> 'z auth_world_scheme \<Rightarrow> 'z auth_world_scheme" where
  "echo_expire sys w = LcpEchoTimeout (lcp_ext_of sys) (UNTIMEOUT Fn_LcpEchoTimeout (Fsm_arg lcp_fsm) w)"

definition echo_watch :: "'z auth_world_scheme \<Rightarrow> bool" where
  "echo_watch w \<longleftrightarrow> net_layer w \<and> st lcp_fsm w = OPENED \<and> lcp_echo_timer_running w \<and> lcp_echo_fails w > 0 \<and>
     peer_mru w \<ge> 8"

definition echo_request :: "'z auth_world_scheme \<Rightarrow> packet \<Rightarrow> bool" where
  "echo_request w fr \<longleftrightarrow> take 5 fr = MAKEHEADER (protocol (fsms w lcp_fsm)) @ PUTCHAR ECHOREQ \<and>
     drop 6 fr = PUTSHORT 8 @ PUTLONG (magicnumber (lcp_gotoptions w))"

definition echo_give_up :: "'z auth_world_scheme sys_ext \<Rightarrow> 'z auth_world_scheme \<Rightarrow> 'z auth_world_scheme" where
  "echo_give_up sys w =
     (lcp_close (lcp_ext_of sys) (cstr ''Peer not responding'')
       ((UNTIMEOUT Fn_LcpEchoTimeout (Fsm_arg lcp_fsm) w)\<lparr>lcp_echo_timer_running := False, status := EXIT_PEER_DEAD\<rparr>))
     \<lparr>lcp_echos_pending := 0\<rparr>"

lemma echo_give_up_closed:
  assumes "sys_ok sys" "net_layer w"
  shows "st lcp_fsm (echo_give_up sys w) \<noteq> OPENED" "net_layer (echo_give_up sys w)"
proof -
  let ?u = "(UNTIMEOUT Fn_LcpEchoTimeout (Fsm_arg lcp_fsm) w)\<lparr>lcp_echo_timer_running := False, status := EXIT_PEER_DEAD\<rparr>"
  have u: "net_layer ?u" by (rule layer_view(1) [OF _ assms(2)]) simp
  show "st lcp_fsm (echo_give_up sys w) \<noteq> OPENED"
    using lcp_close_full_layer(2) [OF assms(1) u] by (simp add: echo_give_up_def)
  show "net_layer (echo_give_up sys w)"
    unfolding echo_give_up_def by (rule layer_view(1) [OF _ lcp_close_full_layer(1) [OF assms(1) u]]) simp
qed

interpretation echo: retry "echo_expire (Rep_net_env e)" echo_watch "\<lambda>w. lcp_echo_fails w - lcp_echos_pending w" sent
  echo_request "echo_give_up (Rep_net_env e)"
  for e :: "'z net_env"
proof
  fix w :: "'z auth_world_scheme"
  assume w: "echo_watch w" "lcp_echo_fails w - lcp_echos_pending w > 0"
  let ?u = "echo_expire (Rep_net_env e) w"
  have "net_layer w" using w(1) by (simp add: echo_watch_def)
  then have "net_layer (UNTIMEOUT Fn_LcpEchoTimeout (Fsm_arg lcp_fsm) w)" by (rule layer_view(1) [rotated]) simp
  then have "net_layer ?u" unfolding echo_expire_def by (rule echo_timeout_layer [OF env_ok])
  with w show "echo_watch ?u \<and> lcp_echo_fails ?u - lcp_echos_pending ?u = lcp_echo_fails w - lcp_echos_pending w - 1 \<and>
    echo_request ?u = echo_request w \<and> (\<exists>fr. sent ?u = sent w @ [fr] \<and> echo_request w fr)"
    by (simp add: echo_expire_def LcpEchoTimeout_def LcpEchoCheck_def LcpSendEchoRequest_def Let_def echo_watch_def
        untimeout_def timeout_def gettimeofday_def fsm_sdata_def echo_request_def fun_eq_iff
        PUTCHAR_def PUTSHORT_def PUTLONG_def MAKEHEADER_def)
next
  fix w :: "'z auth_world_scheme"
  assume w: "echo_watch w" "lcp_echo_fails w - lcp_echos_pending w \<le> 0"
  then show "echo_expire (Rep_net_env e) w = echo_give_up (Rep_net_env e) w"
    using echo_give_up_closed(1) [OF env_ok, of w e]
    by (simp add: echo_expire_def LcpEchoTimeout_def LcpEchoCheck_def LcpSendEchoRequest_def LcpLinkFailure_def Let_def
        echo_watch_def untimeout_def echo_give_up_def)
qed

text \<open>
  Property C9.  A peer that has gone is noticed.  In every reachable state of the daemon in which LCP is OPENED and the
  echo timer runs with a limit \<open>lcp_echo_fails\<close>, if no reply comes then the following expiries send one echo request each,
  with our magic number, until as many as the limit are outstanding, and the next one closes LCP because the peer does not
  respond: LCP is not OPENED any more and no network protocol is open.
\<close>

theorem dead_peer_noticed:
  assumes "main_ok m" "sys_reach m pc w" "st lcp_fsm w = OPENED" "lcp_echo_timer_running w" "peer_mru w \<ge> 8"
    "lcp_echo_fails w > 0" "lcp_echo_fails w - lcp_echos_pending w = int n"
  shows "\<exists>u frs v. u = (echo_expire (env_sys m) ^^ n) w \<and> sent u = sent w @ frs \<and> length frs = n \<and>
    (\<forall>fr\<in>set frs. take 5 fr = MAKEHEADER (protocol (fsms w lcp_fsm)) @ PUTCHAR ECHOREQ \<and>
       drop 6 fr = PUTSHORT 8 @ PUTLONG (magicnumber (lcp_gotoptions w))) \<and>
    v = (echo_expire (env_sys m) ^^ Suc n) w \<and> st lcp_fsm v \<noteq> OPENED \<and> num_np_open v \<le> 0 \<and>
    v = (lcp_close (lcp_ext_of (env_sys m)) (cstr ''Peer not responding'')
          ((UNTIMEOUT Fn_LcpEchoTimeout (Fsm_arg lcp_fsm) u)\<lparr>lcp_echo_timer_running := False, status := EXIT_PEER_DEAD\<rparr>))
        \<lparr>lcp_echos_pending := 0\<rparr>"
proof -
  define e where "e = Abs_net_env (env_sys m)"
  have ok: "sys_ok (env_sys m)" using assms(1) by (rule main_okD(1))
  have e: "Rep_net_env e = env_sys m" unfolding e_def by (rule env_rep [OF ok])
  have watch: "echo_watch w"
    using sys_reach_inv [OF assms(1,2)] assms(3-6) by (simp add: echo_watch_def sys_inv_def)
  obtain u frs where u: "u = (echo_expire (env_sys m) ^^ n) w" "sent u = sent w @ frs" "length frs = n"
    "\<forall>fr\<in>set frs. echo_request w fr" "(echo_expire (env_sys m) ^^ Suc n) w = echo_give_up (env_sys m) u"
    using echo.gives_up [OF watch assms(7), of e] unfolding e by blast
  have "net_layer u"
    using echo.repeats [OF watch assms(7), of e] unfolding e u(1) by (simp add: echo_watch_def)
  then have "st lcp_fsm (echo_give_up (env_sys m) u) \<noteq> OPENED" "net_layer (echo_give_up (env_sys m) u)"
    using echo_give_up_closed [OF ok] by blast+
  moreover from this have "num_np_open (echo_give_up (env_sys m) u) \<le> 0"
    by (auto simp: in_layer_def net_shut_def net_early_def split: if_splits)
  ultimately show ?thesis
    using u by (intro exI [of _ u] exI [of _ frs] exI [of _ "echo_give_up (env_sys m) u"])
      (simp add: echo_request_def, simp add: echo_give_up_def)
qed

end
