(* ===== verification/Echo_Run.thy ===== *)
theory Echo_Run
  imports System_Run Lcp_Echo
begin

text \<open>
  A run of the daemon that watches its peer with echo requests, evaluated up to the first request.
\<close>

definition echo_main :: "auth_world main_ext" where
  "echo_main = demo_main\<lparr>parse_options := (\<lambda>w. w\<lparr>has_noauth_addrs := False, multilink := False,
     doing_multilink := False, lcp_echo_fails := 3, lcp_echo_interval := 30, lcp_wantoptions := lcp_zero\<rparr>)\<rparr>"

lemma echo_main_sel [simp]:
  "env_sys echo_main = demo_sys"
  "parse_options echo_main w = w\<lparr>has_noauth_addrs := False, multilink := False,
     doing_multilink := False, lcp_echo_fails := 3, lcp_echo_interval := 30, lcp_wantoptions := lcp_zero\<rparr>"
  "channel_connect echo_main w = (3, w)" "channel_establish echo_main fd w = (4, w)"
  by (simp_all add: echo_main_def)

definition echo_boot :: auth_world where
  "echo_boot = parse_options echo_main (init_protocols demo_world)"

definition echo_up :: auth_world where
  "echo_up = attempt echo_main echo_boot"

definition echo_req :: auth_world where
  "echo_req = get_input echo_main (Read_frame [0xff, 0x03, 0xc0, 0x21, 1, 7, 0, 4]) echo_up"

definition echo_open :: auth_world where
  "echo_open = get_input echo_main (Read_frame [0xff, 0x03, 0xc0, 0x21, 2, 1, 0, 4]) echo_req"

lemma echo_open: "st lcp_fsm echo_open = OPENED" "lcp_echo_timer_running echo_open" "lcp_echo_fails echo_open = 3"
  "lcp_echos_pending echo_open = 1" "peer_mru echo_open = 1500"
  by (simp_all add: run_simps echo_open_def echo_req_def echo_up_def echo_boot_def cong: let_weak_cong)

lemma echo_reach: "sys_reach echo_main Link_loop echo_open"
proof -
  have "sys_reach echo_main Waiting echo_boot" unfolding echo_boot_def by (rule sys_reach.boot) simp_all
  moreover have "sys_step echo_main Waiting echo_boot Link_loop echo_up" unfolding echo_up_def
    by (rule sys_step.again) (simp add: run_simps echo_boot_def)
  ultimately have "sys_reach echo_main Link_loop echo_up" by (rule sys_reach.step)
  then have "sys_reach echo_main Link_loop echo_req" unfolding echo_req_def by (rule sys_reach.step) (rule sys_step.read_in)
  then show ?thesis unfolding echo_open_def by (rule sys_reach.step) (rule sys_step.read_in)
qed

lemma echo_main_ok: "main_ok echo_main"
proof -
  have "grounded (parse_options echo_main w) \<and> net_layer (parse_options echo_main w)"
    if "grounded w" "num_np_open w \<le> 0" "\<not> started w" for w
  proof -
    have g: "grounded (parse_options echo_main w)" using that(1) by (simp add: grounded_def)
    then show ?thesis using that by (simp add: grounded_layer(2)) (simp add: cfg_ok_def)
  qed
  then show ?thesis
    using demo_main_ok by (simp add: main_ok_def echo_main_def)
qed

theorem dead_peer_noticed_witness:
  "\<exists>u frs v. u = (echo_expire demo_sys ^^ 2) echo_open \<and> sent u = sent echo_open @ frs \<and> length frs = 2 \<and>
    v = (echo_expire demo_sys ^^ Suc 2) echo_open \<and> st lcp_fsm v \<noteq> OPENED \<and> num_np_open v \<le> 0"
  using dead_peer_noticed [OF echo_main_ok echo_reach echo_open(1,2), of 2] echo_open(3-5)
  by (auto simp del: funpow.simps)

section \<open>The timers of such a daemon\<close>

text \<open>
  Only the echo timer is in the queue, it asks every 30 seconds, and the clock shows at least 60 seconds: then the handler that the daemon runs
  satisfies the contract of \<open>calltimeout\<close> for the following second.
\<close>

definition only_echo :: "auth_world \<Rightarrow> bool" where
  "only_echo w \<longleftrightarrow> lcp_echo_fails w = 0 \<and> lcp_echo_interval w = 30 \<and> (\<forall>p \<in> set (callout w). c_func p = Fn_LcpEchoTimeout) \<and>
     (\<forall>t \<in> sset (clock w). 60 \<le> tv_sec t)"

abbreviation tv_at :: "int \<Rightarrow> int \<Rightarrow> timeval" where
  "tv_at s us \<equiv> \<lparr>tv_sec = s, tv_usec = us\<rparr>"

lemma only_echo_clock: "only_echo w \<Longrightarrow> only_echo (gettimeofday w)"
  by (cases "clock w") (simp add: only_echo_def gettimeofday_def)

lemma only_echo_due: "only_echo w \<Longrightarrow> \<not> tv_due (expiry (shd (clock w)) 30 0) (tv_at 61 0)"
  by (cases "clock w") (auto simp: only_echo_def expiry_def tv_due_def Let_def)

lemma only_echo_timeout:
  assumes "only_echo w"
  shows "only_echo (TIMEOUT Fn_LcpEchoTimeout a s w)"
  using only_echo_clock [OF assms] assms
  by (auto simp: only_echo_def timeout_def gettimeofday_def Let_def )

lemma echo_sent_only:
  assumes "lcp_echo_fails w = 0"
  shows "only_echo (LcpSendEchoRequest ext w) = only_echo w" "callout (LcpSendEchoRequest ext w) = callout w"
    "clock (LcpSendEchoRequest ext w) = clock w" "lcp_echo_interval (LcpSendEchoRequest ext w) = lcp_echo_interval w"
  using assms by (simp_all add: LcpSendEchoRequest_def fsm_sdata_def only_echo_def Let_def)

lemma echo_timeout_only:
  assumes "only_echo w" "within (tv_at 61 0) w" "callout_sorted (callout w)"
  shows "only_echo (LcpEchoTimeout ext w) \<and> within (tv_at 61 0) (LcpEchoTimeout ext w) \<and> callout_sorted (callout (LcpEchoTimeout ext w)) \<and>
    due_count (tv_at 61 0) (callout (LcpEchoTimeout ext w)) = due_count (tv_at 61 0) (callout w)"
proof (cases "lcp_echo_timer_running w")
  case True
  let ?u = "w\<lparr>lcp_echo_timer_running := False\<rparr>"
  let ?x = "LcpSendEchoRequest ext ?u"
  have "lcp_echo_fails ?u = 0" using assms(1) by (simp add: only_echo_def)
  note x = echo_sent_only [OF this, of ext]
  have o: "only_echo ?x" using x(1) assms(1) by (simp add: only_echo_def)
  have p: "within (tv_at 61 0) ?x" "callout_sorted (callout ?x)" "lcp_echo_interval ?x = 30" "callout ?x = callout w"
    using x assms by (simp_all add: within_def only_echo_def)
  let ?t = "TIMEOUT Fn_LcpEchoTimeout (Fsm_arg lcp_fsm) 30 ?x"
  have "LcpEchoTimeout ext w = (if st lcp_fsm ?x \<noteq> OPENED then ?x else ?t\<lparr>lcp_echo_timer_running := True\<rparr>)"
    using p(3) True by (simp add: LcpEchoTimeout_def LcpEchoCheck_def Let_def)
  moreover have "only_echo (?t\<lparr>lcp_echo_timer_running := True\<rparr>)" using only_echo_timeout [OF o] by (simp add: only_echo_def)
  moreover have "within (tv_at 61 0) (?t\<lparr>lcp_echo_timer_running := True\<rparr>)" using timeout_within(1) [OF p(1) only_echo_due [OF o] p(2)] by (simp add: within_def)
  ultimately show ?thesis using o p timeout_within(2,3) [OF p(1) only_echo_due [OF o] p(2)] by simp
next
  case False
  then show ?thesis using assms by (simp add: LcpEchoTimeout_def)
qed

lemma echo_handler_ok: "handler_ok (tv_at 61 0) only_echo (timer_call echo_main)"
  unfolding handler_ok_def Let_def
proof (intro conjI allI impI)
  fix w :: auth_world assume "only_echo w" then show "only_echo (gettimeofday w)" by (rule only_echo_clock)
next
  fix w :: auth_world and p rest
  assume w: "only_echo w \<and> callout w = p # rest \<and> within (tv_at 61 0) w \<and> callout_sorted rest"
  let ?u = "w\<lparr>callout := rest\<rparr>"
  let ?v = "timer_call echo_main (c_func p) (c_arg p) ?u"
  have "only_echo ?u" "within (tv_at 61 0) ?u" "callout_sorted (callout ?u)" using w by (auto simp: only_echo_def within_def)
  note v = echo_timeout_only [OF this, of "lcp_ext_of (env_sys echo_main)"]
  have "c_func p = Fn_LcpEchoTimeout" using w by (simp add: only_echo_def)
  then have e: "?v = LcpEchoTimeout (lcp_ext_of (env_sys echo_main)) ?u" by (simp add: timer_call_def)
  show "only_echo ?v" "within (tv_at 61 0) ?v" "callout_sorted (callout ?v)" "due_count (tv_at 61 0) (callout ?v) \<le> due_count (tv_at 61 0) rest"
    using v unfolding e by simp_all
qed

text \<open>The timer of a request sent at 30 seconds is 100 milliseconds late, and the clock runs on while the next one is sent.\<close>

definition echo_late :: auth_world where
  "echo_late = (set_state lcp_fsm OPENED demo_world)\<lparr>lcp_echo_interval := 30, lcp_echo_timer_running := True,
     callout := [\<lparr>c_time = tv_at 60 0, c_arg = Fsm_arg lcp_fsm, c_func = Fn_LcpEchoTimeout\<rparr>],
     clock := tv_at 60 100000 ## tv_at 60 100400 ## sconst (tv_at 60 100500)\<rparr>"

theorem calltimeout_returns_witness:
  "\<exists>w'. calltimeout (timer_call echo_main) echo_late = Some w' \<and> callout_sorted (callout w') \<and>
    (\<forall>p\<in>set (callout w'). \<not> tv_due (c_time p) (timenow w'))"
  by (rule calltimeout_returns [OF echo_handler_ok])
     (simp_all add: only_echo_def echo_late_def within_def tv_less_def callout_sorted_def upd_fsm_def)

end
