(* ===== verification/Ipcp_Options.thy ===== *)
theory Ipcp_Options
  imports Fsm "HOL-Library.Monad_Syntax"
begin

text \<open>
  The configuration options of IPCP: the part of \<^verbatim>\<open>pppd/ipcp.c\<close> that builds, checks and answers lists of options
  (\<open>ipcp_cilen\<close>, \<open>ipcp_addci\<close>, \<open>ipcp_ackci\<close>, \<open>ipcp_nakci\<close>, \<open>ipcp_rejci\<close>, \<open>ipcp_reqci\<close>).

  The C keeps addresses in network byte order and converts with \<open>ntohl\<close> and \<open>htonl\<close>; here an address is the number
  \<open>ntohl\<close> gives, so \<open>PUTLONG\<close> and \<open>GETLONG\<close> apply to it directly.  The arrays \<open>dnsaddr[2]\<close> and \<open>winsaddr[2]\<close> are two fields each.
  \<open>cflag\<close>, a \<open>bool\<close> of the C (an octet), is sent and compared as an octet and so is one here.
\<close>

section \<open>Data\<close>

record ipcp_options =
  neg_addr :: bool
  old_addrs :: bool
  req_addr :: bool
  default_route :: bool
  proxy_arp :: bool
  neg_vj :: bool
  old_vj :: bool
  accept_local :: bool
  accept_remote :: bool
  req_dns1 :: bool
  req_dns2 :: bool
  vj_protocol :: int
  maxslotindex :: byte
  cflag :: byte
  ouraddr :: u32
  hisaddr :: u32
  dnsaddr0 :: u32
  dnsaddr1 :: u32
  winsaddr0 :: u32
  winsaddr1 :: u32

definition ipcp_zero :: ipcp_options where
  "ipcp_zero = \<lparr>neg_addr = False, old_addrs = False, req_addr = False, default_route = False, proxy_arp = False,
     neg_vj = False, old_vj = False, accept_local = False, accept_remote = False, req_dns1 = False, req_dns2 = False,
     vj_protocol = 0, maxslotindex = 0, cflag = 0, ouraddr = 0, hisaddr = 0, dnsaddr0 = 0, dnsaddr1 = 0,
     winsaddr0 = 0, winsaddr1 = 0\<rparr>"

abbreviation CI_ADDRS :: byte where "CI_ADDRS \<equiv> 1"
abbreviation CI_COMPRESSTYPE :: byte where "CI_COMPRESSTYPE \<equiv> 2"
abbreviation CI_ADDR :: byte where "CI_ADDR \<equiv> 3"
abbreviation CI_MS_DNS1 :: byte where "CI_MS_DNS1 \<equiv> 129"
abbreviation CI_MS_WINS1 :: byte where "CI_MS_WINS1 \<equiv> 130"
abbreviation CI_MS_DNS2 :: byte where "CI_MS_DNS2 \<equiv> 131"
abbreviation CI_MS_WINS2 :: byte where "CI_MS_WINS2 \<equiv> 132"
abbreviation IPCP_VJ_COMP :: int where "IPCP_VJ_COMP \<equiv> 0x002d"
abbreviation IPCP_VJ_COMP_OLD :: int where "IPCP_VJ_COMP_OLD \<equiv> 0x0037"
abbreviation MAX_STATES :: byte where "MAX_STATES \<equiv> 16"

type_synonym ip_update = "(bool \<Rightarrow> bool) \<Rightarrow> ipcp_options \<Rightarrow> ipcp_options"

section \<open>Building a request\<close>

text \<open>The first part of \<open>ipcp_cilen\<close> may go back to the old forms of options; the second adds up the lengths.\<close>

definition ipcp_old_forms :: "ipcp_options \<Rightarrow> ipcp_options \<Rightarrow> ipcp_options \<Rightarrow> ipcp_options" where
  "ipcp_old_forms wo ho go =
     (let go = (if neg_addr go \<and> old_addrs go \<and> \<not> neg_addr ho \<and> old_addrs ho then go\<lparr>neg_addr := False\<rparr> else go)
      in if neg_vj wo \<and> \<not> neg_vj go \<and> \<not> old_vj go \<and> neg_vj ho \<and> old_vj ho
         then go\<lparr>neg_vj := True, old_vj := True, vj_protocol := vj_protocol ho\<rparr>
         else go)"

definition ipcp_cilen_of :: "ipcp_options \<Rightarrow> int" where
  "ipcp_cilen_of go =
     (if \<not> neg_addr go \<and> old_addrs go then 10 else 0) +
     (if neg_vj go then (if old_vj go then 4 else 6) else 0) +
     (if neg_addr go then 6 else 0) +
     (if req_dns1 go then 6 else 0) +
     (if req_dns2 go then 6 else 0) +
     (if winsaddr0 go \<noteq> 0 then 6 else 0) +
     (if winsaddr1 go \<noteq> 0 then 6 else 0)"

text \<open>
  A macro of \<open>ipcp_addci\<close> works on the octets written, the length left and the options; when the length does not
  suffice it switches its option off.
\<close>

type_synonym add_scan = "packet \<times> int \<times> ipcp_options"

fun ADDCIADDRS :: "byte \<Rightarrow> bool \<Rightarrow> u32 \<Rightarrow> u32 \<Rightarrow> add_scan \<Rightarrow> add_scan" where
  "ADDCIADDRS opt neg val1 val2 (ucp, len, go) =
     (if neg then
        (if len \<ge> 10 then (ucp @ [opt, 10] @ PUTLONG val1 @ PUTLONG val2, len - 10, go)
         else (ucp, len, go\<lparr>old_addrs := False\<rparr>))
      else (ucp, len, go))"

fun ADDCIVJ :: "byte \<Rightarrow> bool \<Rightarrow> int \<Rightarrow> bool \<Rightarrow> byte \<Rightarrow> byte \<Rightarrow> add_scan \<Rightarrow> add_scan" where
  "ADDCIVJ opt neg val old slots cf (ucp, len, go) =
     (if neg then
        (let vjlen = (if old then 4 else 6)
         in if len \<ge> vjlen
            then (ucp @ [opt] @ PUTCHAR vjlen @ PUTSHORT val @ (if old then [] else [slots, cf]), len - vjlen, go)
            else (ucp, len, go\<lparr>neg_vj := False\<rparr>))
      else (ucp, len, go))"

fun ADDCIADDR :: "byte \<Rightarrow> bool \<Rightarrow> ip_update \<Rightarrow> u32 \<Rightarrow> add_scan \<Rightarrow> add_scan" where
  "ADDCIADDR opt neg upd val (ucp, len, go) =
     (if neg then
        (if len \<ge> 6 then (ucp @ [opt, 6] @ PUTLONG val, len - 6, go) else (ucp, len, upd (\<lambda>_. False) go))
      else (ucp, len, go))"

fun ADDCIWINS :: "byte \<Rightarrow> u32 \<Rightarrow> ((u32 \<Rightarrow> u32) \<Rightarrow> ipcp_options \<Rightarrow> ipcp_options) \<Rightarrow> add_scan \<Rightarrow> add_scan" where
  "ADDCIWINS opt addr upd (ucp, len, go) =
     (if addr \<noteq> 0 then
        (if len \<ge> 6 then (ucp @ [opt, 6] @ PUTLONG addr, len - 6, go) else (ucp, len, upd (\<lambda>_. 0) go))
      else (ucp, len, go))"

text \<open>\<open>ADDCIDNS\<close> has the body of \<open>ADDCIADDR\<close>.\<close>

abbreviation ADDCIDNS :: "byte \<Rightarrow> bool \<Rightarrow> ip_update \<Rightarrow> u32 \<Rightarrow> add_scan \<Rightarrow> add_scan" where
  "ADDCIDNS \<equiv> ADDCIADDR"

definition ipcp_addci_of :: "ipcp_options \<Rightarrow> int \<Rightarrow> packet \<times> int \<times> ipcp_options" where
  "ipcp_addci_of go lenp =
     (let s = ([], lenp, go);
          s = ADDCIADDRS CI_ADDRS (\<not> neg_addr go \<and> old_addrs go) (ouraddr go) (hisaddr go) s;
          s = ADDCIVJ CI_COMPRESSTYPE (neg_vj go) (vj_protocol go) (old_vj go) (maxslotindex go) (cflag go) s;
          s = ADDCIADDR CI_ADDR (neg_addr go) neg_addr_update (ouraddr go) s;
          s = ADDCIDNS CI_MS_DNS1 (req_dns1 go) req_dns1_update (dnsaddr0 go) s;
          s = ADDCIDNS CI_MS_DNS2 (req_dns2 go) req_dns2_update (dnsaddr1 go) s;
          s = ADDCIWINS CI_MS_WINS1 (winsaddr0 go) winsaddr0_update s;
          (ucp, len, go) = ADDCIWINS CI_MS_WINS2 (winsaddr1 go) winsaddr1_update s
      in (ucp, lenp - len, go))"

section \<open>Checking an Ack\<close>

definition ACKCIADDRS :: "byte \<Rightarrow> bool \<Rightarrow> u32 \<Rightarrow> u32 \<Rightarrow> packet \<Rightarrow> packet option" where
  "ACKCIADDRS opt neg val1 val2 p =
     (if neg then
        (case p of
           citype # cilen # a # b # c # d # e # f # g # h # p \<Rightarrow>
             (if cilen \<noteq> 10 \<or> citype \<noteq> opt then None
              else if val1 \<noteq> GETLONG a b c d then None
              else if val2 \<noteq> GETLONG e f g h then None else Some p)
         | _ \<Rightarrow> None)
      else Some p)"

definition ACKCIVJ :: "byte \<Rightarrow> bool \<Rightarrow> int \<Rightarrow> bool \<Rightarrow> byte \<Rightarrow> byte \<Rightarrow> packet \<Rightarrow> packet option" where
  "ACKCIVJ opt neg val old slots cf p =
     (if neg then
        (if int (length p) < (if old then 4 else 6) then None
         else
           (case p of
              citype # cilen # a # b # p \<Rightarrow>
                (if uint cilen \<noteq> (if old then 4 else 6) \<or> citype \<noteq> opt then None
                 else if GETSHORT a b \<noteq> val then None
                 else if old then Some p
                 else
                   (case p of
                      m # f # p \<Rightarrow> (if m \<noteq> slots then None else if f \<noteq> cf then None else Some p)
                    | _ \<Rightarrow> None))
            | _ \<Rightarrow> None))
      else Some p)"

definition ACKCIADDR :: "byte \<Rightarrow> bool \<Rightarrow> u32 \<Rightarrow> packet \<Rightarrow> packet option" where
  "ACKCIADDR opt neg val p =
     (if neg then
        (case p of
           citype # cilen # a # b # c # d # p \<Rightarrow>
             (if cilen \<noteq> 6 \<or> citype \<noteq> opt then None
              else if val \<noteq> GETLONG a b c d then None else Some p)
         | _ \<Rightarrow> None)
      else Some p)"

text \<open>\<open>ACKCIDNS\<close> has the body of \<open>ACKCIADDR\<close>; \<open>ACKCIWINS\<close> too, with the address as its condition.\<close>

abbreviation ACKCIDNS :: "byte \<Rightarrow> bool \<Rightarrow> u32 \<Rightarrow> packet \<Rightarrow> packet option" where
  "ACKCIDNS \<equiv> ACKCIADDR"

abbreviation ACKCIWINS :: "byte \<Rightarrow> u32 \<Rightarrow> packet \<Rightarrow> packet option" where
  "ACKCIWINS opt addr \<equiv> ACKCIADDR opt (addr \<noteq> 0) addr"

definition ipcp_ackci_of :: "ipcp_options \<Rightarrow> packet \<Rightarrow> bool" where
  "ipcp_ackci_of go p =
     (do {
        p \<leftarrow> ACKCIADDRS CI_ADDRS (\<not> neg_addr go \<and> old_addrs go) (ouraddr go) (hisaddr go) p;
        p \<leftarrow> ACKCIVJ CI_COMPRESSTYPE (neg_vj go) (vj_protocol go) (old_vj go) (maxslotindex go) (cflag go) p;
        p \<leftarrow> ACKCIADDR CI_ADDR (neg_addr go) (ouraddr go) p;
        p \<leftarrow> ACKCIDNS CI_MS_DNS1 (req_dns1 go) (dnsaddr0 go) p;
        p \<leftarrow> ACKCIDNS CI_MS_DNS2 (req_dns2 go) (dnsaddr1 go) p;
        p \<leftarrow> ACKCIWINS CI_MS_WINS1 (winsaddr0 go) p;
        ACKCIWINS CI_MS_WINS2 (winsaddr1 go) p
      } = Some [])"

section \<open>Taking in a Nak\<close>

text \<open>
  The scan keeps the octets behind the pointer \<open>p\<close> and the length \<open>len\<close> separately: when a six-octet compression option is
  treated as a reject, the code takes six off \<open>len\<close> but moves \<open>p\<close> by four only.
\<close>

type_synonym ip_scan = "packet \<times> int \<times> ipcp_options \<times> ipcp_options"

fun NAKCIADDRS :: "byte \<Rightarrow> bool \<Rightarrow> (u32 \<Rightarrow> u32 \<Rightarrow> ipcp_options \<Rightarrow> ipcp_options) \<Rightarrow> ip_scan \<Rightarrow> ip_scan" where
  "NAKCIADDRS opt neg code (p, len, no, try) =
     (case p of
        t # l # a # b # c # d # e # f # g # h # q \<Rightarrow>
          (if neg \<and> l = 10 \<and> len \<ge> 10 \<and> t = opt
           then (q, len - 10, no\<lparr>old_addrs := True\<rparr>, code (GETLONG a b c d) (GETLONG e f g h) try)
           else (p, len, no, try))
      | _ \<Rightarrow> (p, len, no, try))"

fun NAKCIADDR :: "byte \<Rightarrow> bool \<Rightarrow> ip_update \<Rightarrow> (u32 \<Rightarrow> ipcp_options \<Rightarrow> ipcp_options) \<Rightarrow> ip_scan \<Rightarrow> ip_scan" where
  "NAKCIADDR opt neg upd code (p, len, no, try) =
     (case p of
        t # l # a # b # c # d # q \<Rightarrow>
          (if neg \<and> l = 6 \<and> len \<ge> 6 \<and> t = opt
           then (q, len - 6, upd (\<lambda>_. True) no, code (GETLONG a b c d) try)
           else (p, len, no, try))
      | _ \<Rightarrow> (p, len, no, try))"

abbreviation NAKCIDNS :: "byte \<Rightarrow> bool \<Rightarrow> ip_update \<Rightarrow> (u32 \<Rightarrow> ipcp_options \<Rightarrow> ipcp_options) \<Rightarrow> ip_scan \<Rightarrow> ip_scan" where
  "NAKCIDNS \<equiv> NAKCIADDR"

text \<open>\<open>NAKCIVJ\<close> with its \<open>code\<close>, which reads two octets more in the branch of the six-octet form.\<close>

fun NAKCIVJ :: "byte \<Rightarrow> bool \<Rightarrow> ipcp_options \<Rightarrow> ip_scan \<Rightarrow> ip_scan" where
  "NAKCIVJ opt treat_as_reject go (p, len, no, try) =
     (case p of
        t # l # a # b # q \<Rightarrow>
          (if neg_vj go \<and> (l = 4 \<or> l = 6) \<and> len \<ge> uint l \<and> t = opt
           then
             (let len = len - uint l; cishort = GETSHORT a b; no = no\<lparr>neg_vj := True\<rparr>
              in if treat_as_reject then (q, len, no, try\<lparr>neg_vj := False\<rparr>)
                 else if l = 6 then
                   (case q of
                      cimaxslotindex # cicflag # q \<Rightarrow>
                        (if cishort = IPCP_VJ_COMP
                         then
                           (let try = try\<lparr>old_vj := False\<rparr>;
                                try = (if cimaxslotindex < maxslotindex go
                                       then try\<lparr>maxslotindex := cimaxslotindex\<rparr> else try)
                            in (q, len, no, if cicflag = 0 then try\<lparr>cflag := 0\<rparr> else try))
                         else (q, len, no, try\<lparr>neg_vj := False\<rparr>))
                    | _ \<Rightarrow> (q, len, no, try))
                 else if cishort = IPCP_VJ_COMP \<or> cishort = IPCP_VJ_COMP_OLD
                 then (q, len, no, try\<lparr>old_vj := True, vj_protocol := cishort\<rparr>)
                 else (q, len, no, try\<lparr>neg_vj := False\<rparr>))
           else (p, len, no, try))
      | _ \<Rightarrow> (p, len, no, try))"

text \<open>The macro calls in their order.\<close>

definition ip_nak_asked :: "ipcp_options \<Rightarrow> bool \<Rightarrow> packet \<Rightarrow> ip_scan" where
  "ip_nak_asked go treat_as_reject p =
     (let s = (p, int (length p), ipcp_zero, go);
          s = NAKCIADDRS CI_ADDRS (\<not> neg_addr go \<and> old_addrs go)
                (\<lambda>ciaddr1 ciaddr2 try.
                   if treat_as_reject then try\<lparr>old_addrs := False\<rparr>
                   else
                     (let try = (if accept_local go \<and> ciaddr1 \<noteq> 0 then try\<lparr>ouraddr := ciaddr1\<rparr> else try)
                      in if accept_remote go \<and> ciaddr2 \<noteq> 0 then try\<lparr>hisaddr := ciaddr2\<rparr> else try)) s;
          s = NAKCIVJ CI_COMPRESSTYPE treat_as_reject go s;
          s = NAKCIADDR CI_ADDR (neg_addr go) neg_addr_update
                (\<lambda>ciaddr1 try.
                   if treat_as_reject then try\<lparr>neg_addr := False, old_addrs := False\<rparr>
                   else if accept_local go \<and> ciaddr1 \<noteq> 0 then try\<lparr>ouraddr := ciaddr1\<rparr> else try) s;
          s = NAKCIDNS CI_MS_DNS1 (req_dns1 go) req_dns1_update
                (\<lambda>cidnsaddr try. if treat_as_reject then try\<lparr>req_dns1 := False\<rparr> else try\<lparr>dnsaddr0 := cidnsaddr\<rparr>) s
      in NAKCIDNS CI_MS_DNS2 (req_dns2 go) req_dns2_update
           (\<lambda>cidnsaddr try. if treat_as_reject then try\<lparr>req_dns2 := False\<rparr> else try\<lparr>dnsaddr1 := cidnsaddr\<rparr>) s)"

text \<open>The loop over the options we did not ask for: one turn (\<open>None\<close> is the jump to \<open>bad\<close>), and the loop.\<close>

definition ip_nak_ci ::
    "ipcp_options \<Rightarrow> byte \<Rightarrow> byte \<Rightarrow> packet \<Rightarrow> ipcp_options \<times> ipcp_options \<Rightarrow> (ipcp_options \<times> ipcp_options) option" where
  "ip_nak_ci go citype cilen p = (\<lambda>(no, try).
     if citype = CI_COMPRESSTYPE then
       (if neg_vj go \<or> neg_vj no \<or> cilen \<noteq> 6 \<and> cilen \<noteq> 4 then None else Some (no\<lparr>neg_vj := True\<rparr>, try))
     else if citype = CI_ADDRS then
       (if \<not> neg_addr go \<and> old_addrs go \<or> old_addrs no \<or> cilen \<noteq> 10 then None
        else
          (case p of
             a # b # c # d # e # f # g # h # _ \<Rightarrow>
               (let try = try\<lparr>neg_addr := False\<rparr>;
                    ciaddr1 = GETLONG a b c d;
                    try = (if ciaddr1 \<noteq> 0 \<and> accept_local go then try\<lparr>ouraddr := ciaddr1\<rparr> else try);
                    ciaddr2 = GETLONG e f g h;
                    try = (if ciaddr2 \<noteq> 0 \<and> accept_remote go then try\<lparr>hisaddr := ciaddr2\<rparr> else try)
                in Some (no\<lparr>old_addrs := True\<rparr>, try))
           | _ \<Rightarrow> None))
     else if citype = CI_ADDR \<or> citype = CI_MS_DNS1 \<or> citype = CI_MS_DNS2 \<or> citype = CI_MS_WINS1 \<or>
             citype = CI_MS_WINS2 then
       (case p of
          a # b # c # d # _ \<Rightarrow>
            (let addr = GETLONG a b c d
             in if citype = CI_ADDR then
                  (if neg_addr go \<or> neg_addr no \<or> cilen \<noteq> 6 then None
                   else
                     (let try = try\<lparr>old_addrs := False\<rparr>;
                          try = (if addr \<noteq> 0 \<and> accept_local go then try\<lparr>ouraddr := addr\<rparr> else try);
                          try = (if ouraddr try \<noteq> 0 then try\<lparr>neg_addr := True\<rparr> else try)
                      in Some (no\<lparr>neg_addr := True\<rparr>, try)))
                else if citype = CI_MS_DNS1 then
                  (if req_dns1 go \<or> req_dns1 no \<or> cilen \<noteq> 6 then None
                   else Some (no\<lparr>req_dns1 := True\<rparr>, try\<lparr>dnsaddr0 := addr, req_dns1 := True\<rparr>))
                else if citype = CI_MS_DNS2 then
                  (if req_dns2 go \<or> req_dns2 no \<or> cilen \<noteq> 6 then None
                   else Some (no\<lparr>req_dns2 := True\<rparr>, try\<lparr>dnsaddr1 := addr, req_dns2 := True\<rparr>))
                else
                  (if cilen \<noteq> 6 then None
                   else if addr = 0 then Some (no, try)
                   else Some (no, if citype = CI_MS_WINS2 then try\<lparr>winsaddr1 := addr\<rparr> else try\<lparr>winsaddr0 := addr\<rparr>)))
        | _ \<Rightarrow> None)
     else Some (no, try))"

function ip_nak_rest :: "ipcp_options \<Rightarrow> ip_scan \<Rightarrow> ipcp_options option" where
  "ip_nak_rest go (p, len, no, try) =
     (if len < 2 then Some try
      else
        (case p of
           citype # cilen # q \<Rightarrow>
             (if uint cilen < 2 \<or> len - uint cilen < 0 then None
              else
                (case ip_nak_ci go citype cilen q (no, try) of
                   None \<Rightarrow> None
                 | Some (no, try) \<Rightarrow> ip_nak_rest go (drop (unat cilen) p, len - uint cilen, no, try)))
         | _ \<Rightarrow> None))"
  by pat_completeness auto
termination
  by (relation "measure (\<lambda>(go, p, len, no, try). nat len)") auto

declare ip_nak_rest.simps [simp del]

definition ipcp_nakci_of :: "ipcp_options \<Rightarrow> bool \<Rightarrow> packet \<Rightarrow> ipcp_options option" where
  "ipcp_nakci_of go treat_as_reject p = ip_nak_rest go (ip_nak_asked go treat_as_reject p)"

section \<open>Taking in a Reject\<close>

type_synonym ip_rej = "packet \<times> ipcp_options"

fun REJCIADDRS :: "byte \<Rightarrow> bool \<Rightarrow> u32 \<Rightarrow> u32 \<Rightarrow> ip_rej \<Rightarrow> ip_rej option" where
  "REJCIADDRS opt neg val1 val2 (p, try) =
     (case p of
        t # l # a # b # c # d # e # f # g # h # q \<Rightarrow>
          (if neg \<and> l = 10 \<and> t = opt
           then (if GETLONG a b c d \<noteq> val1 then None
                 else if GETLONG e f g h \<noteq> val2 then None
                 else Some (q, try\<lparr>old_addrs := False\<rparr>))
           else Some (p, try))
      | _ \<Rightarrow> Some (p, try))"

fun REJCIVJ :: "byte \<Rightarrow> bool \<Rightarrow> int \<Rightarrow> bool \<Rightarrow> byte \<Rightarrow> byte \<Rightarrow> ip_rej \<Rightarrow> ip_rej option" where
  "REJCIVJ opt neg val old maxslot cf (p, try) =
     (case p of
        t # l # a # b # q \<Rightarrow>
          (if neg \<and> l = (if old then 4 else 6) \<and> int (length p) \<ge> uint l \<and> t = opt
           then (if GETSHORT a b \<noteq> val then None
                 else if old then Some (q, try\<lparr>neg_vj := False\<rparr>)
                 else
                   (case q of
                      m # f # q \<Rightarrow> (if m \<noteq> maxslot then None else if f \<noteq> cf then None
                                   else Some (q, try\<lparr>neg_vj := False\<rparr>))
                    | _ \<Rightarrow> None))
           else Some (p, try))
      | _ \<Rightarrow> Some (p, try))"

fun REJCIADDR :: "byte \<Rightarrow> bool \<Rightarrow> (ipcp_options \<Rightarrow> ipcp_options) \<Rightarrow> u32 \<Rightarrow> ip_rej \<Rightarrow> ip_rej option" where
  "REJCIADDR opt neg clear val (p, try) =
     (case p of
        t # l # a # b # c # d # q \<Rightarrow>
          (if neg \<and> l = 6 \<and> t = opt
           then (if GETLONG a b c d \<noteq> val then None else Some (q, clear try))
           else Some (p, try))
      | _ \<Rightarrow> Some (p, try))"

text \<open>\<open>REJCIDNS\<close> and \<open>REJCIWINS\<close> have the same body; the latter clears the address.\<close>

abbreviation REJCIDNS :: "byte \<Rightarrow> bool \<Rightarrow> (ipcp_options \<Rightarrow> ipcp_options) \<Rightarrow> u32 \<Rightarrow> ip_rej \<Rightarrow> ip_rej option" where
  "REJCIDNS \<equiv> REJCIADDR"

abbreviation REJCIWINS :: "byte \<Rightarrow> u32 \<Rightarrow> (ipcp_options \<Rightarrow> ipcp_options) \<Rightarrow> ip_rej \<Rightarrow> ip_rej option" where
  "REJCIWINS opt addr clear \<equiv> REJCIADDR opt (addr \<noteq> 0) clear addr"

definition ipcp_rejci_of :: "ipcp_options \<Rightarrow> packet \<Rightarrow> ipcp_options option" where
  "ipcp_rejci_of go p =
     (do {
        s \<leftarrow> REJCIADDRS CI_ADDRS (\<not> neg_addr go \<and> old_addrs go) (ouraddr go) (hisaddr go) (p, go);
        s \<leftarrow> REJCIVJ CI_COMPRESSTYPE (neg_vj go) (vj_protocol go) (old_vj go) (maxslotindex go) (cflag go) s;
        s \<leftarrow> REJCIADDR CI_ADDR (neg_addr go) (\<lambda>try. try\<lparr>neg_addr := False\<rparr>) (ouraddr go) s;
        s \<leftarrow> REJCIDNS CI_MS_DNS1 (req_dns1 go) (\<lambda>try. try\<lparr>req_dns1 := False\<rparr>) (dnsaddr0 go) s;
        s \<leftarrow> REJCIDNS CI_MS_DNS2 (req_dns2 go) (\<lambda>try. try\<lparr>req_dns2 := False\<rparr>) (dnsaddr1 go) s;
        s \<leftarrow> REJCIWINS CI_MS_WINS1 (winsaddr0 go) (\<lambda>try. try\<lparr>winsaddr0 := 0\<rparr>) s;
        (p, try) \<leftarrow> REJCIWINS CI_MS_WINS2 (winsaddr1 go) (\<lambda>try. try\<lparr>winsaddr1 := 0\<rparr>) s;
        (if p \<noteq> [] then None else Some try)
      })"

section \<open>Answering a request\<close>

text \<open>
  \<open>ipcp_reqci\<close>.  The verdict on one option: \<open>orc\<close>, the octets behind the option's header as they stand in the buffer
  afterwards (a Nak is written over the value in place), the peer's options \<open>ho\<close> and our own wishes \<open>wo\<close>, which a
  request can change.
\<close>

type_synonym ip_verdict = "int \<times> packet \<times> ipcp_options \<times> ipcp_options"

text \<open>The test of the peer's address that both address options begin with.\<close>

definition his_addr_nak :: "ipcp_options \<Rightarrow> u32 \<Rightarrow> bool" where
  "his_addr_nak wo ciaddr1 \<longleftrightarrow> ciaddr1 \<noteq> hisaddr wo \<and> (ciaddr1 = 0 \<or> \<not> accept_remote wo)"

definition ip_reqci_addrs :: "bool \<Rightarrow> ipcp_options \<Rightarrow> ipcp_options \<Rightarrow> ipcp_options \<Rightarrow> byte \<Rightarrow> packet \<Rightarrow> ip_verdict" where
  "ip_reqci_addrs rid ao ho wo cilen p =
     (if \<not> old_addrs ao \<or> neg_addr ho \<or> cilen \<noteq> 10 then (CONFREJ, p, ho, wo)
      else
        (case p of
           a # b # c # d # e # f # g # h # q \<Rightarrow>
             (let ciaddr1 = GETLONG a b c d; ciaddr2 = GETLONG e f g h;
                  nak1 = his_addr_nak wo ciaddr1
              in if \<not> nak1 \<and> ciaddr1 = 0 \<and> hisaddr wo = 0 then (CONFREJ, p, ho, wo\<lparr>req_addr := False\<rparr>)
                 else
                   (let differs = (ciaddr2 \<noteq> ouraddr wo);
                        nak2 = (differs \<and> (ciaddr2 = 0 \<or> \<not> accept_local wo));
                        p = (if nak1 \<and> \<not> rid then PUTLONG (hisaddr wo) else [a, b, c, d]) @
                            (if nak2 \<and> \<not> rid then PUTLONG (ouraddr wo) else [e, f, g, h]) @ q;
                        wo = (if differs \<and> \<not> nak2 then wo\<lparr>ouraddr := ciaddr2\<rparr> else wo)
                    in (if nak1 \<or> nak2 then CONFNAK else CONFACK, p,
                        ho\<lparr>old_addrs := True, hisaddr := ciaddr1, ouraddr := ciaddr2\<rparr>, wo)))
         | _ \<Rightarrow> (CONFREJ, p, ho, wo)))"

definition ip_reqci_addr :: "bool \<Rightarrow> ipcp_options \<Rightarrow> ipcp_options \<Rightarrow> ipcp_options \<Rightarrow> byte \<Rightarrow> packet \<Rightarrow> ip_verdict" where
  "ip_reqci_addr rid ao ho wo cilen p =
     (if \<not> neg_addr ao \<or> old_addrs ho \<or> cilen \<noteq> 6 then (CONFREJ, p, ho, wo)
      else
        (case p of
           a # b # c # d # q \<Rightarrow>
             (let ciaddr1 = GETLONG a b c d;
                  nak1 = his_addr_nak wo ciaddr1
              in if \<not> nak1 \<and> ciaddr1 = 0 \<and> hisaddr wo = 0 then (CONFREJ, p, ho, wo\<lparr>req_addr := False\<rparr>)
                 else
                   (if nak1 then CONFNAK else CONFACK,
                    (if nak1 \<and> \<not> rid then PUTLONG (hisaddr wo) else [a, b, c, d]) @ q,
                    ho\<lparr>neg_addr := True, hisaddr := ciaddr1\<rparr>, wo))
         | _ \<Rightarrow> (CONFREJ, p, ho, wo)))"

text \<open>The DNS and WINS options: the value is overwritten whether or not a Nak may be sent.\<close>

definition ip_reqci_server :: "u32 \<Rightarrow> ipcp_options \<Rightarrow> ipcp_options \<Rightarrow> byte \<Rightarrow> packet \<Rightarrow> ip_verdict" where
  "ip_reqci_server addr ho wo cilen p =
     (if addr = 0 \<or> cilen \<noteq> 6 then (CONFREJ, p, ho, wo)
      else
        (case p of
           a # b # c # d # q \<Rightarrow>
             (if GETLONG a b c d \<noteq> addr then (CONFNAK, PUTLONG addr @ q, ho, wo) else (CONFACK, p, ho, wo))
         | _ \<Rightarrow> (CONFREJ, p, ho, wo)))"

definition ip_reqci_vj :: "bool \<Rightarrow> ipcp_options \<Rightarrow> ipcp_options \<Rightarrow> ipcp_options \<Rightarrow> byte \<Rightarrow> packet \<Rightarrow> ip_verdict" where
  "ip_reqci_vj rid ao ho wo cilen p =
     (if \<not> neg_vj ao \<or> cilen \<noteq> 6 \<and> cilen \<noteq> 4 then (CONFREJ, p, ho, wo)
      else
        (case p of
           a # b # q \<Rightarrow>
             (let cishort = GETSHORT a b
              in if \<not> (cishort = IPCP_VJ_COMP \<or> cishort = IPCP_VJ_COMP_OLD \<and> cilen = 4) then (CONFREJ, p, ho, wo)
                 else
                   (let ho = ho\<lparr>neg_vj := True, vj_protocol := cishort\<rparr>
                    in if cilen = 6 then
                         (case q of
                            m # f # r \<Rightarrow>
                              (let nak1 = (m > maxslotindex ao); nak2 = (f \<noteq> 0 \<and> cflag ao = 0)
                               in (if nak1 \<or> nak2 then CONFNAK else CONFACK,
                                   [a, b, if nak1 \<and> \<not> rid then maxslotindex ao else m,
                                    if nak2 \<and> \<not> rid then cflag wo else f] @ r,
                                   ho\<lparr>maxslotindex := m, cflag := f\<rparr>, wo))
                          | _ \<Rightarrow> (CONFREJ, p, ho, wo))
                       else (CONFACK, p, ho\<lparr>old_vj := True, maxslotindex := MAX_STATES - 1, cflag := 1\<rparr>, wo)))
         | _ \<Rightarrow> (CONFREJ, p, ho, wo)))"

definition ip_reqci_ci ::
    "bool \<Rightarrow> ipcp_options \<Rightarrow> byte \<Rightarrow> byte \<Rightarrow> packet \<Rightarrow> ipcp_options \<Rightarrow> ipcp_options \<Rightarrow> ip_verdict" where
  "ip_reqci_ci rid ao citype cilen p ho wo =
     (if citype = CI_ADDRS then ip_reqci_addrs rid ao ho wo cilen p
      else if citype = CI_ADDR then ip_reqci_addr rid ao ho wo cilen p
      else if citype = CI_MS_DNS1 then ip_reqci_server (dnsaddr0 ao) ho wo cilen p
      else if citype = CI_MS_DNS2 then ip_reqci_server (dnsaddr1 ao) ho wo cilen p
      else if citype = CI_MS_WINS1 then ip_reqci_server (winsaddr0 ao) ho wo cilen p
      else if citype = CI_MS_WINS2 then ip_reqci_server (winsaddr1 ao) ho wo cilen p
      else if citype = CI_COMPRESSTYPE then ip_reqci_vj rid ao ho wo cilen p
      else (CONFREJ, p, ho, wo))"

text \<open>
  The code behind \<open>endswitch\<close>.  \<open>ip_out\<close> are the octets between \<open>inp\<close> and \<open>ucp\<close>; they lie before the option that is
  looked at, so writing them does not disturb it.  The code moves the option with \<open>BCOPY\<close>, which is \<open>memcpy\<close> although the two areas can
  overlap; the model has the copy that is meant.
\<close>

record ip_acc =
  ip_rc :: int
  ip_out :: packet
  ip_ho :: ipcp_options
  ip_wo :: ipcp_options

definition ip_reqci_end :: "bool \<Rightarrow> packet \<Rightarrow> int \<Rightarrow> ip_acc \<Rightarrow> ip_acc" where
  "ip_reqci_end rid ci orc a =
     (if orc = CONFACK \<and> ip_rc a \<noteq> CONFACK then a
      else if orc = CONFNAK \<and> \<not> rid \<and> ip_rc a = CONFREJ then a
      else
        (let a = (if orc = CONFNAK \<and> \<not> rid \<and> ip_rc a = CONFACK then a\<lparr>ip_rc := CONFNAK, ip_out := []\<rparr> else a);
             orc = (if orc = CONFNAK \<and> rid then CONFREJ else orc);
             a = (if orc = CONFREJ \<and> ip_rc a \<noteq> CONFREJ then a\<lparr>ip_rc := CONFREJ, ip_out := []\<rparr> else a)
         in a\<lparr>ip_out := ip_out a @ ci\<rparr>))"

function ip_reqci_loop :: "bool \<Rightarrow> ipcp_options \<Rightarrow> packet \<Rightarrow> ip_acc \<Rightarrow> ip_acc" where
  "ip_reqci_loop rid ao next a =
     (if next = [] then a
      else if length next < 2 \<or> unat (next ! 1) < 2 \<or> unat (next ! 1) > length next
      then ip_reqci_end rid next CONFREJ a
      else
        (let citype = next ! 0; cilen = next ! 1; n = unat cilen;
             (orc, p, ho, wo) = ip_reqci_ci rid ao citype cilen (drop 2 (take n next)) (ip_ho a) (ip_wo a)
         in ip_reqci_loop rid ao (drop n next)
              (ip_reqci_end rid ([citype, cilen] @ p) orc (a\<lparr>ip_ho := ho, ip_wo := wo\<rparr>))))"
  by pat_completeness auto
termination
  by (relation "measure (\<lambda>(rid, ao, next, a). length next)") auto

declare ip_reqci_loop.simps [simp del]

text \<open>
  The option appended when the peer has not sent its address and we want it to.  The code writes its six octets behind the others in
  the buffer of the request, which a comment there takes to be long enough; how much is written is bounded in \<^verbatim>\<open>Ipcp_Options_Props\<close>.
\<close>

definition ip_ask_addr :: "bool \<Rightarrow> bool \<Rightarrow> ip_acc \<Rightarrow> ip_acc" where
  "ip_ask_addr rid noremoteip a =
     (if ip_rc a \<noteq> CONFREJ \<and> \<not> neg_addr (ip_ho a) \<and> \<not> old_addrs (ip_ho a) \<and> req_addr (ip_wo a) \<and> \<not> rid \<and> \<not> noremoteip
      then
        (let a = (if ip_rc a = CONFACK
                  then a\<lparr>ip_rc := CONFNAK, ip_out := [], ip_wo := (ip_wo a)\<lparr>req_addr := False\<rparr>\<rparr> else a)
         in a\<lparr>ip_out := ip_out a @ [CI_ADDR, 6] @ PUTLONG (hisaddr (ip_wo a))\<rparr>)
      else a)"

definition ipcp_reqci_of :: "bool \<Rightarrow> bool \<Rightarrow> ipcp_options \<Rightarrow> ipcp_options \<Rightarrow> packet \<Rightarrow> ip_acc" where
  "ipcp_reqci_of rid noremoteip ao wo inp =
     ip_ask_addr rid noremoteip
       (ip_reqci_loop rid ao inp \<lparr>ip_rc = CONFACK, ip_out = [], ip_ho = ipcp_zero, ip_wo = wo\<rparr>)"

end
