(* ===== verification/Ipcp_Options_Props.thy ===== *)
theory Ipcp_Options_Props
  imports Ipcp_Options "HOL-Library.Sublist"
begin

text \<open>
  Correctness of the IPCP option codec.
\<close>

section \<open>Requests and Acks\<close>

text \<open>The octets of a request, written down option by option.\<close>

definition ci_long :: "byte \<Rightarrow> bool \<Rightarrow> u32 \<Rightarrow> packet" where
  "ci_long opt neg val = (if neg then [opt, 6] @ PUTLONG val else [])"

definition ci_vj :: "bool \<Rightarrow> int \<Rightarrow> bool \<Rightarrow> byte \<Rightarrow> byte \<Rightarrow> packet" where
  "ci_vj neg val old slots cf =
     (if neg then [CI_COMPRESSTYPE, if old then 4 else 6] @ PUTSHORT val @ (if old then [] else [slots, cf]) else [])"

definition ci_addrs :: "bool \<Rightarrow> u32 \<Rightarrow> u32 \<Rightarrow> packet" where
  "ci_addrs neg val1 val2 = (if neg then [CI_ADDRS, 10] @ PUTLONG val1 @ PUTLONG val2 else [])"

definition ipcp_request :: "ipcp_options \<Rightarrow> packet" where
  "ipcp_request go =
     ci_addrs (\<not> neg_addr go \<and> old_addrs go) (ouraddr go) (hisaddr go) @
     ci_vj (neg_vj go) (vj_protocol go) (old_vj go) (maxslotindex go) (cflag go) @
     ci_long CI_ADDR (neg_addr go) (ouraddr go) @
     ci_long CI_MS_DNS1 (req_dns1 go) (dnsaddr0 go) @
     ci_long CI_MS_DNS2 (req_dns2 go) (dnsaddr1 go) @
     ci_long CI_MS_WINS1 (winsaddr0 go \<noteq> 0) (winsaddr0 go) @
     ci_long CI_MS_WINS2 (winsaddr1 go \<noteq> 0) (winsaddr1 go)"

lemmas ci_defs = ci_long_def ci_vj_def ci_addrs_def

lemma length_ci [simp]:
  "length (ci_long opt neg v) = (if neg then 6 else 0)" "length (ci_addrs neg v v') = (if neg then 10 else 0)"
  "length (ci_vj neg w old m c) = (if neg then if old then 4 else 6 else 0)"
  by (simp_all add: ci_defs)

lemma request_length: "int (length (ipcp_request go)) = ipcp_cilen_of go"
  by (simp add: ipcp_request_def ipcp_cilen_of_def)

text \<open>Each macro of \<open>ipcp_addci\<close> takes as much off the length as it writes, and writes its option if there is room.\<close>

definition add_ok :: "int \<Rightarrow> add_scan \<Rightarrow> bool" where
  "add_ok lenp s \<longleftrightarrow> (case s of (ucp, len, go) \<Rightarrow> int (length ucp) = lenp - len \<and> 0 \<le> len)"

lemma ADDCI_ok:
  "add_ok n s \<Longrightarrow> add_ok n (ADDCIADDRS opt neg v v' s)" "add_ok n s \<Longrightarrow> add_ok n (ADDCIVJ opt neg i old m c s)"
  "add_ok n s \<Longrightarrow> add_ok n (ADDCIADDR opt neg upd v s)" "add_ok n s \<Longrightarrow> add_ok n (ADDCIWINS opt v updw s)"
  by (cases s; auto simp: add_ok_def Let_def)+

lemma ADDCI_room:
  "len \<ge> int (length (ci_addrs neg v v')) \<Longrightarrow> ADDCIADDRS CI_ADDRS neg v v' (u, len, g) =
     (u @ ci_addrs neg v v', len - int (length (ci_addrs neg v v')), g)"
  "len \<ge> int (length (ci_vj neg n old m c)) \<Longrightarrow> ADDCIVJ CI_COMPRESSTYPE neg n old m c (u, len, g) =
     (u @ ci_vj neg n old m c, len - int (length (ci_vj neg n old m c)), g)"
  "len \<ge> int (length (ci_long opt neg v)) \<Longrightarrow> ADDCIADDR opt neg upd v (u, len, g) =
     (u @ ci_long opt neg v, len - int (length (ci_long opt neg v)), g)"
  "len \<ge> int (length (ci_long opt (v \<noteq> 0) v)) \<Longrightarrow> ADDCIWINS opt v updw (u, len, g) =
     (u @ ci_long opt (v \<noteq> 0) v, len - int (length (ci_long opt (v \<noteq> 0) v)), g)"
  by (simp_all add: ci_defs PUTCHAR_def split: if_splits)

lemma addci_fits:
  assumes "0 \<le> lenp" "ipcp_addci_of go lenp = (bs, n, go')"
  shows "int (length bs) = n" "n \<le> lenp"
proof -
  define s where "s = ADDCIWINS CI_MS_WINS2 (winsaddr1 go) winsaddr1_update
    (ADDCIWINS CI_MS_WINS1 (winsaddr0 go) winsaddr0_update
    (ADDCIDNS CI_MS_DNS2 (req_dns2 go) req_dns2_update (dnsaddr1 go)
    (ADDCIDNS CI_MS_DNS1 (req_dns1 go) req_dns1_update (dnsaddr0 go)
    (ADDCIADDR CI_ADDR (neg_addr go) neg_addr_update (ouraddr go)
    (ADDCIVJ CI_COMPRESSTYPE (neg_vj go) (vj_protocol go) (old_vj go) (maxslotindex go) (cflag go)
    (ADDCIADDRS CI_ADDRS (\<not> neg_addr go \<and> old_addrs go) (ouraddr go) (hisaddr go) ([], lenp, go)))))))"
  have "add_ok lenp ([], lenp, go)" using assms(1) by (simp add: add_ok_def)
  then have "add_ok lenp s" unfolding s_def by (intro ADDCI_ok)
  moreover have "ipcp_addci_of go lenp = (case s of (ucp, len, go) \<Rightarrow> (ucp, lenp - len, go))"
    by (simp only: ipcp_addci_of_def s_def Let_def)
  ultimately show "int (length bs) = n" "n \<le> lenp"
    using assms(2) by (auto simp: add_ok_def split: prod.splits)
qed

lemma addci_request:
  assumes "ipcp_cilen_of go \<le> lenp"
  shows "ipcp_addci_of go lenp = (ipcp_request go, ipcp_cilen_of go, go)"
proof -
  have "int (length (ipcp_request go)) \<le> lenp" using assms by (simp only: request_length)
  then have "int (length (ipcp_request go)) \<le> lenp \<and> ipcp_addci_of go lenp = (ipcp_request go, int (length (ipcp_request go)), go)"
    unfolding ipcp_addci_of_def ipcp_request_def length_append of_nat_add
    by (simp add: ADDCI_room Let_def del: length_ci ADDCIADDRS.simps ADDCIVJ.simps ADDCIADDR.simps ADDCIWINS.simps)
  then show ?thesis by (simp only: request_length)
qed

text \<open>The checking macros accept what the building macros write.\<close>

lemma ACKCIADDRS_iff: "ACKCIADDRS CI_ADDRS neg v v' p = Some q \<longleftrightarrow> p = ci_addrs neg v v' @ q"
  by (auto simp: ACKCIADDRS_def ci_addrs_def GETLONG_eq_iff PUTLONG_def eq_commute [of v] eq_commute [of v'] split: list.splits)

lemma ACKCIADDR_iff: "ACKCIADDR opt neg v p = Some q \<longleftrightarrow> p = ci_long opt neg v @ q"
  by (auto simp: ACKCIADDR_def ci_long_def GETLONG_eq_iff PUTLONG_def eq_commute [of v] split: list.splits)

lemma ACKCIVJ_iff:
  "0 \<le> n \<Longrightarrow> n < 65536 \<Longrightarrow> ACKCIVJ CI_COMPRESSTYPE neg n old m c p = Some q \<longleftrightarrow> p = ci_vj neg n old m c @ q"
  by (auto simp: ACKCIVJ_def ci_vj_def GETSHORT_eq_iff PUTSHORT_def word_uint_eq_iff [of _ 4] word_uint_eq_iff [of _ 6]
      split: list.splits if_splits)

lemma ackci_request:
  assumes "0 \<le> vj_protocol go" "vj_protocol go < 65536"
  shows "ipcp_ackci_of go p \<longleftrightarrow> p = ipcp_request go"
  unfolding ipcp_ackci_of_def ipcp_request_def
  by (simp add: bind_eq_Some_conv ACKCIADDRS_iff ACKCIVJ_iff [OF assms] ACKCIADDR_iff)

text \<open>
  Property C21.  What IPCP writes into a request never exceeds the room it is given, and the length it reports is the
  number of octets written.  With the room that \<open>ipcp_cilen\<close> announces all options are written, and \<open>ipcp_ackci\<close>
  accepts an Ack if and only if it repeats exactly these octets.
\<close>

theorem ipcp_request_acked:
  assumes "0 \<le> vj_protocol go" "vj_protocol go < 65536" "0 \<le> lenp" "ipcp_addci_of go lenp = (bs, n, go')"
  shows "int (length bs) = n \<and> n \<le> lenp \<and>
    (ipcp_cilen_of go \<le> lenp \<longrightarrow> n = ipcp_cilen_of go \<and> go' = go \<and> (ipcp_ackci_of go p \<longleftrightarrow> p = bs))"
  using addci_fits [OF assms(3,4)] addci_request [of go lenp] ackci_request [OF assms(1,2)] assms(4) by simp

theorem ipcp_request_acked_witness:
  "ipcp_ackci_of (ipcp_zero\<lparr>neg_addr := True, ouraddr := 0x0A000001\<rparr>) [CI_ADDR, 6, 10, 0, 0, 1]"
proof -
  let ?go = "ipcp_zero\<lparr>neg_addr := True, ouraddr := 0x0A000001\<rparr>"
  have "ipcp_addci_of ?go 6 = ([CI_ADDR, 6, 10, 0, 0, 1], 6, ?go)"
    by (simp add: ipcp_addci_of_def ipcp_zero_def PUTLONG_def)
  from ipcp_request_acked [OF _ _ _ this] show ?thesis by (simp add: ipcp_zero_def ipcp_cilen_of_def)
qed

section \<open>Naks\<close>

text \<open>
  What the next request may differ in: the addresses only as far as the configuration accepts the peer's idea of them,
  and compression only downwards.
\<close>

definition nak_bound :: "ipcp_options \<Rightarrow> ipcp_options \<Rightarrow> bool" where
  "nak_bound go try \<longleftrightarrow>
     (ouraddr try \<noteq> ouraddr go \<longrightarrow> accept_local go \<and> ouraddr try \<noteq> 0) \<and>
     (hisaddr try \<noteq> hisaddr go \<longrightarrow> accept_remote go \<and> hisaddr try \<noteq> 0) \<and>
     (neg_vj try \<longrightarrow> neg_vj go) \<and> maxslotindex try \<le> maxslotindex go \<and> (cflag try = cflag go \<or> cflag try = 0) \<and>
     accept_local try = accept_local go \<and> accept_remote try = accept_remote go \<and>
     default_route try = default_route go \<and> proxy_arp try = proxy_arp go"

lemma nak_bound_upd [simp]:
  "nak_bound go (t\<lparr>neg_addr := b\<rparr>) = nak_bound go t" "nak_bound go (t\<lparr>old_addrs := b\<rparr>) = nak_bound go t"
  "nak_bound go (t\<lparr>old_vj := b\<rparr>) = nak_bound go t" "nak_bound go (t\<lparr>vj_protocol := n\<rparr>) = nak_bound go t"
  "nak_bound go (t\<lparr>req_dns1 := b\<rparr>) = nak_bound go t" "nak_bound go (t\<lparr>req_dns2 := b\<rparr>) = nak_bound go t"
  "nak_bound go (t\<lparr>dnsaddr0 := x\<rparr>) = nak_bound go t" "nak_bound go (t\<lparr>dnsaddr1 := x\<rparr>) = nak_bound go t"
  "nak_bound go (t\<lparr>winsaddr0 := x\<rparr>) = nak_bound go t" "nak_bound go (t\<lparr>winsaddr1 := x\<rparr>) = nak_bound go t"
  "nak_bound go t \<Longrightarrow> nak_bound go (t\<lparr>neg_vj := False\<rparr>)" "nak_bound go t \<Longrightarrow> nak_bound go (t\<lparr>cflag := 0\<rparr>)"
  "nak_bound go t \<Longrightarrow> m < maxslotindex go \<Longrightarrow> nak_bound go (t\<lparr>maxslotindex := m\<rparr>)"
  "nak_bound go t \<Longrightarrow> accept_local go \<Longrightarrow> x \<noteq> 0 \<Longrightarrow> nak_bound go (t\<lparr>ouraddr := x\<rparr>)"
  "nak_bound go t \<Longrightarrow> accept_remote go \<Longrightarrow> x \<noteq> 0 \<Longrightarrow> nak_bound go (t\<lparr>hisaddr := x\<rparr>)"
  by (auto simp: nak_bound_def)

abbreviation scan_bound :: "ipcp_options \<Rightarrow> ip_scan \<Rightarrow> bool" where
  "scan_bound go s \<equiv> nak_bound go (snd (snd (snd s)))"

lemma NAKCI_bound:
  "scan_bound go s \<Longrightarrow> (\<And>a b t. nak_bound go t \<Longrightarrow> nak_bound go (code2 a b t)) \<Longrightarrow> scan_bound go (NAKCIADDRS opt neg code2 s)"
  "scan_bound go s \<Longrightarrow> (\<And>a t. nak_bound go t \<Longrightarrow> nak_bound go (code a t)) \<Longrightarrow> scan_bound go (NAKCIADDR opt neg upd code s)"
  by (cases s; auto split: list.splits)+

lemma NAKCIVJ_bound: "scan_bound go s \<Longrightarrow> scan_bound go (NAKCIVJ opt r go s)"
  by (cases s) (auto simp: Let_def split: list.splits)

lemma nak_asked_bound: "scan_bound go (ip_nak_asked go r p)"
proof -
  have "nak_bound go go" by (simp add: nak_bound_def)
  then show ?thesis
    unfolding ip_nak_asked_def Let_def
    by (intro NAKCI_bound NAKCIVJ_bound) auto
qed

lemma nak_ci_bound:
  "nak_bound go t \<Longrightarrow> ip_nak_ci go ty l p (no, t) = Some (no', t') \<Longrightarrow> nak_bound go t'"
  unfolding ip_nak_ci_def case_prod_conv Let_def
  by (auto split: if_splits list.splits)

lemma nak_rest_bound: "ip_nak_rest go s = Some u \<Longrightarrow> scan_bound go s \<Longrightarrow> nak_bound go u"
proof (induction go s rule: ip_nak_rest.induct)
  case (1 go p len no t)
  show ?case
  proof (cases "len < 2")
    case True
    then show ?thesis using "1.prems" by (simp add: ip_nak_rest.simps [of go p])
  next
    case False
    with "1.prems"(1) obtain ty l q no' t' where p: "p = ty # l # q" "\<not> (uint l < 2 \<or> len - uint l < 0)"
      "ip_nak_ci go ty l q (no, t) = Some (no', t')"
      "ip_nak_rest go (drop (unat l) p, len - uint l, no', t') = Some u"
      by (auto simp: ip_nak_rest.simps [of go p] split: list.splits if_splits option.splits)
    moreover have "nak_bound go t'" using nak_ci_bound [OF _ p(3)] "1.prems"(2) by simp
    ultimately show ?thesis using "1.IH" [OF False p(1) refl p(2,3)] by simp
  qed
qed

text \<open>
  Property C19.  A Nak cannot make us use an address the configuration does not let the peer choose.  Whatever a
  Configure-Nak contains and however it is treated, the next request changes our address only if \<open>accept_local\<close> is set and
  never to 0.0.0.0, the peer's only if \<open>accept_remote\<close> is set, turns compression on for no one, asks for no more slots
  than before and leaves the routes alone.
\<close>

theorem ipcp_nakci_bounded:
  assumes "ipcp_nakci_of go treat_as_reject p = Some t"
  shows "(ouraddr t \<noteq> ouraddr go \<longrightarrow> accept_local go \<and> ouraddr t \<noteq> 0) \<and>
    (hisaddr t \<noteq> hisaddr go \<longrightarrow> accept_remote go \<and> hisaddr t \<noteq> 0) \<and>
    (neg_vj t \<longrightarrow> neg_vj go) \<and> maxslotindex t \<le> maxslotindex go \<and> (cflag t = cflag go \<or> cflag t = 0) \<and>
    accept_local t = accept_local go \<and> accept_remote t = accept_remote go \<and>
    default_route t = default_route go \<and> proxy_arp t = proxy_arp go"
  using nak_rest_bound [of go "ip_nak_asked go treat_as_reject p" t] nak_asked_bound assms
  by (simp add: ipcp_nakci_of_def nak_bound_def)

theorem ipcp_nakci_bounded_witness:
  "ipcp_nakci_of (ipcp_zero\<lparr>neg_addr := True, ouraddr := 5\<rparr>) False [CI_ADDR, 6, 10, 0, 0, 1] =
     Some (ipcp_zero\<lparr>neg_addr := True, ouraddr := 5\<rparr>) \<and> \<not> accept_local (ipcp_zero\<lparr>neg_addr := True, ouraddr := 5\<rparr>)"
proof -
  have "ipcp_nakci_of (ipcp_zero\<lparr>neg_addr := True, ouraddr := 5\<rparr>) False [CI_ADDR, 6, 10, 0, 0, 1] =
     Some (ipcp_zero\<lparr>neg_addr := True, ouraddr := 5\<rparr>)"
    by (simp add: ipcp_nakci_of_def ip_nak_asked_def ip_nak_rest.simps ipcp_zero_def)
  with ipcp_nakci_bounded [OF this] show ?thesis by (simp add: ipcp_zero_def)
qed

text \<open>
  Property C36.  A Nak of a compression option in front of another option is not understood once Naks are treated as rejects.
  The code then skips only four of the six octets of the option, so what follows is read two octets too early: the same
  packet that is good as a Nak is bad as a reject, and the options are asked for again.
\<close>

theorem nak_vj_as_reject_misread:
  assumes "neg_vj go" "neg_addr go" "uint f < 2"
  shows "ipcp_nakci_of go True [CI_COMPRESSTYPE, 6, 0, 0x2d, m, f, CI_ADDR, 6, a, b, c, d] = None \<and>
    ipcp_nakci_of go False [CI_COMPRESSTYPE, 6, 0, 0x2d, m, f, CI_ADDR, 6, a, b, c, d] \<noteq> None"
proof -
  have "f \<noteq> 6" "f \<noteq> 10" using assms(3) by auto
  with assms show ?thesis
    by (simp add: ipcp_nakci_of_def ip_nak_asked_def ip_nak_rest.simps GETSHORT_def ipcp_zero_def Let_def)
qed

theorem nak_vj_as_reject_misread_witness:
  "ipcp_nakci_of (ipcp_zero\<lparr>neg_vj := True, neg_addr := True\<rparr>) True
     [CI_COMPRESSTYPE, 6, 0, 0x2d, 3, 1, CI_ADDR, 6, 10, 0, 0, 1] = None"
  by (rule nak_vj_as_reject_misread [THEN conjunct1]) simp_all

section \<open>Rejects\<close>

text \<open>How many options a request can still ask for.\<close>

definition ip_asked :: "ipcp_options \<Rightarrow> nat" where
  "ip_asked go = of_bool (neg_addr go) + of_bool (old_addrs go) + of_bool (neg_vj go) + of_bool (req_dns1 go) +
     of_bool (req_dns2 go) + of_bool (winsaddr0 go \<noteq> 0) + of_bool (winsaddr1 go \<noteq> 0)"

text \<open>What is asked for later is asked for now; and less, if octets have been read.\<close>

definition ip_less :: "ipcp_options \<Rightarrow> ipcp_options \<Rightarrow> bool" where
  "ip_less t go \<longleftrightarrow> (neg_addr t \<longrightarrow> neg_addr go) \<and> (old_addrs t \<longrightarrow> old_addrs go) \<and> (neg_vj t \<longrightarrow> neg_vj go) \<and>
     (req_dns1 t \<longrightarrow> req_dns1 go) \<and> (req_dns2 t \<longrightarrow> req_dns2 go) \<and>
     (winsaddr0 t \<noteq> 0 \<longrightarrow> winsaddr0 t = winsaddr0 go) \<and> (winsaddr1 t \<noteq> 0 \<longrightarrow> winsaddr1 t = winsaddr1 go) \<and>
     ouraddr t = ouraddr go \<and> hisaddr t = hisaddr go"

text \<open>
  One macro of \<open>ipcp_rejci\<close>: it leaves everything as it is, or reads an option that is on and switches it off.
\<close>

definition rej_step :: "(ipcp_options \<Rightarrow> bool) \<Rightarrow> (ipcp_options \<Rightarrow> ipcp_options) \<Rightarrow> ip_rej \<Rightarrow> ip_rej \<Rightarrow> bool" where
  "rej_step on off s s' \<longleftrightarrow> s' = s \<or> on (snd s) \<and> length (fst s') < length (fst s) \<and> snd s' = off (snd s)"

lemma REJCI_step:
  "REJCIADDRS opt neg v v' s = Some s' \<Longrightarrow> (neg \<Longrightarrow> old_addrs (snd s)) \<Longrightarrow> rej_step old_addrs (\<lambda>t. t\<lparr>old_addrs := False\<rparr>) s s'"
  "REJCIVJ opt neg n old m c s = Some s' \<Longrightarrow> (neg \<Longrightarrow> neg_vj (snd s)) \<Longrightarrow> rej_step neg_vj (\<lambda>t. t\<lparr>neg_vj := False\<rparr>) s s'"
  "REJCIADDR opt neg off v s = Some s' \<Longrightarrow> (neg \<Longrightarrow> on (snd s)) \<Longrightarrow> rej_step on off s s'"
  by (cases s; auto simp: rej_step_def split: list.splits if_splits)+

lemma rejci_steps:
  assumes "ipcp_rejci_of go p = Some t"
  obtains s1 s2 s3 s4 s5 s6 where
    "rej_step old_addrs (\<lambda>t. t\<lparr>old_addrs := False\<rparr>) (p, go) s1"
    "rej_step neg_vj (\<lambda>t. t\<lparr>neg_vj := False\<rparr>) s1 s2"
    "rej_step neg_addr (\<lambda>t. t\<lparr>neg_addr := False\<rparr>) s2 s3"
    "rej_step req_dns1 (\<lambda>t. t\<lparr>req_dns1 := False\<rparr>) s3 s4"
    "rej_step req_dns2 (\<lambda>t. t\<lparr>req_dns2 := False\<rparr>) s4 s5"
    "rej_step (\<lambda>t. winsaddr0 t \<noteq> 0) (\<lambda>t. t\<lparr>winsaddr0 := 0\<rparr>) s5 s6"
    "rej_step (\<lambda>t. winsaddr1 t \<noteq> 0) (\<lambda>t. t\<lparr>winsaddr1 := 0\<rparr>) s6 ([], t)"
proof -
  from assms obtain s1 s2 s3 s4 s5 s6 where s:
    "REJCIADDRS CI_ADDRS (\<not> neg_addr go \<and> old_addrs go) (ouraddr go) (hisaddr go) (p, go) = Some s1"
    "REJCIVJ CI_COMPRESSTYPE (neg_vj go) (vj_protocol go) (old_vj go) (maxslotindex go) (cflag go) s1 = Some s2"
    "REJCIADDR CI_ADDR (neg_addr go) (\<lambda>t. t\<lparr>neg_addr := False\<rparr>) (ouraddr go) s2 = Some s3"
    "REJCIDNS CI_MS_DNS1 (req_dns1 go) (\<lambda>t. t\<lparr>req_dns1 := False\<rparr>) (dnsaddr0 go) s3 = Some s4"
    "REJCIDNS CI_MS_DNS2 (req_dns2 go) (\<lambda>t. t\<lparr>req_dns2 := False\<rparr>) (dnsaddr1 go) s4 = Some s5"
    "REJCIWINS CI_MS_WINS1 (winsaddr0 go) (\<lambda>t. t\<lparr>winsaddr0 := 0\<rparr>) s5 = Some s6"
    "REJCIWINS CI_MS_WINS2 (winsaddr1 go) (\<lambda>t. t\<lparr>winsaddr1 := 0\<rparr>) s6 = Some ([], t)"
    unfolding ipcp_rejci_of_def by (auto simp: bind_eq_Some_conv simp del: REJCIADDRS.simps REJCIVJ.simps REJCIADDR.simps split: if_splits)
  note r1 = REJCI_step(1) [OF s(1)]
  show thesis
  proof (rule that [where ?s1.0 = s1 and ?s2.0 = s2 and ?s3.0 = s3 and ?s4.0 = s4 and ?s5.0 = s5 and ?s6.0 = s6])
    show 1: "rej_step old_addrs (\<lambda>t. t\<lparr>old_addrs := False\<rparr>) (p, go) s1" by (rule r1) simp
    show 2: "rej_step neg_vj (\<lambda>t. t\<lparr>neg_vj := False\<rparr>) s1 s2"
      by (rule REJCI_step(2) [OF s(2)]) (use 1 in \<open>auto simp: rej_step_def\<close>)
    show 3: "rej_step neg_addr (\<lambda>t. t\<lparr>neg_addr := False\<rparr>) s2 s3"
      by (rule REJCI_step(3) [OF s(3)]) (use 1 2 in \<open>auto simp: rej_step_def\<close>)
    show 4: "rej_step req_dns1 (\<lambda>t. t\<lparr>req_dns1 := False\<rparr>) s3 s4"
      by (rule REJCI_step(3) [OF s(4)]) (use 1 2 3 in \<open>auto simp: rej_step_def\<close>)
    show 5: "rej_step req_dns2 (\<lambda>t. t\<lparr>req_dns2 := False\<rparr>) s4 s5"
      by (rule REJCI_step(3) [OF s(5)]) (use 1 2 3 4 in \<open>auto simp: rej_step_def\<close>)
    show 6: "rej_step (\<lambda>t. winsaddr0 t \<noteq> 0) (\<lambda>t. t\<lparr>winsaddr0 := 0\<rparr>) s5 s6"
      by (rule REJCI_step(3) [OF s(6)]) (use 1 2 3 4 5 in \<open>auto simp: rej_step_def\<close>)
    show "rej_step (\<lambda>t. winsaddr1 t \<noteq> 0) (\<lambda>t. t\<lparr>winsaddr1 := 0\<rparr>) s6 ([], t)"
      by (rule REJCI_step(3) [OF s(7)]) (use 1 2 3 4 5 6 in \<open>auto simp: rej_step_def\<close>)
  qed
qed

definition rej_mono :: "ip_rej \<Rightarrow> ip_rej \<Rightarrow> bool" where
  "rej_mono s s' \<longleftrightarrow> ip_less (snd s') (snd s) \<and> ip_asked (snd s') \<le> ip_asked (snd s) \<and> length (fst s') \<le> length (fst s) \<and>
    (length (fst s') < length (fst s) \<longrightarrow> ip_asked (snd s') < ip_asked (snd s))"

lemma rej_step_mono:
  assumes "rej_step on off s s'" "\<And>t. on t \<Longrightarrow> ip_asked (off t) < ip_asked t" "\<And>t. ip_less (off t) t"
  shows "rej_mono s s'"
proof -
  have "ip_less u u" for u by (simp add: ip_less_def)
  with assms show ?thesis by (auto simp: rej_step_def rej_mono_def less_imp_le)
qed

lemma ip_less_trans: "ip_less a b \<Longrightarrow> ip_less b c \<Longrightarrow> ip_less a c"
  unfolding ip_less_def by (elim conjE) (intro conjI; simp)

lemma rej_mono_trans: "rej_mono a b \<Longrightarrow> rej_mono b c \<Longrightarrow> rej_mono a c"
  unfolding rej_mono_def using ip_less_trans [of "snd c" "snd b" "snd a"] by linarith

text \<open>Switching an option off takes one off the count.\<close>

lemma ip_off:
  "old_addrs t \<Longrightarrow> ip_asked (t\<lparr>old_addrs := False\<rparr>) < ip_asked t" "ip_less (t\<lparr>old_addrs := False\<rparr>) t"
  "neg_vj t \<Longrightarrow> ip_asked (t\<lparr>neg_vj := False\<rparr>) < ip_asked t" "ip_less (t\<lparr>neg_vj := False\<rparr>) t"
  "neg_addr t \<Longrightarrow> ip_asked (t\<lparr>neg_addr := False\<rparr>) < ip_asked t" "ip_less (t\<lparr>neg_addr := False\<rparr>) t"
  "req_dns1 t \<Longrightarrow> ip_asked (t\<lparr>req_dns1 := False\<rparr>) < ip_asked t" "ip_less (t\<lparr>req_dns1 := False\<rparr>) t"
  "req_dns2 t \<Longrightarrow> ip_asked (t\<lparr>req_dns2 := False\<rparr>) < ip_asked t" "ip_less (t\<lparr>req_dns2 := False\<rparr>) t"
  "winsaddr0 t \<noteq> 0 \<Longrightarrow> ip_asked (t\<lparr>winsaddr0 := 0\<rparr>) < ip_asked t" "ip_less (t\<lparr>winsaddr0 := 0\<rparr>) t"
  "winsaddr1 t \<noteq> 0 \<Longrightarrow> ip_asked (t\<lparr>winsaddr1 := 0\<rparr>) < ip_asked t" "ip_less (t\<lparr>winsaddr1 := 0\<rparr>) t"
  by (simp_all add: ip_asked_def ip_less_def)

lemma rejci_mono:
  assumes "ipcp_rejci_of go p = Some t"
  shows "rej_mono (p, go) ([], t)"
proof -
  from assms obtain s1 s2 s3 s4 s5 s6 where s: "rej_step old_addrs (\<lambda>t. t\<lparr>old_addrs := False\<rparr>) (p, go) s1"
    "rej_step neg_vj (\<lambda>t. t\<lparr>neg_vj := False\<rparr>) s1 s2" "rej_step neg_addr (\<lambda>t. t\<lparr>neg_addr := False\<rparr>) s2 s3"
    "rej_step req_dns1 (\<lambda>t. t\<lparr>req_dns1 := False\<rparr>) s3 s4" "rej_step req_dns2 (\<lambda>t. t\<lparr>req_dns2 := False\<rparr>) s4 s5"
    "rej_step (\<lambda>t. winsaddr0 t \<noteq> 0) (\<lambda>t. t\<lparr>winsaddr0 := 0\<rparr>) s5 s6"
    "rej_step (\<lambda>t. winsaddr1 t \<noteq> 0) (\<lambda>t. t\<lparr>winsaddr1 := 0\<rparr>) s6 ([], t)"
    by (rule rejci_steps)
  have m1: "rej_mono (p, go) s1" by (rule rej_step_mono [OF s(1)]) (simp_all add: ip_off)
  have m2: "rej_mono s1 s2" by (rule rej_step_mono [OF s(2)]) (simp_all add: ip_off)
  have m3: "rej_mono s2 s3" by (rule rej_step_mono [OF s(3)]) (simp_all add: ip_off)
  have m4: "rej_mono s3 s4" by (rule rej_step_mono [OF s(4)]) (simp_all add: ip_off)
  have m5: "rej_mono s4 s5" by (rule rej_step_mono [OF s(5)]) (simp_all add: ip_off)
  have m6: "rej_mono s5 s6" by (rule rej_step_mono [OF s(6)]) (simp_all add: ip_off)
  have m7: "rej_mono s6 ([], t)" by (rule rej_step_mono [OF s(7)]) (simp_all add: ip_off)
  show ?thesis
    by (rule m1 [THEN rej_mono_trans], rule m2 [THEN rej_mono_trans], rule m3 [THEN rej_mono_trans],
        rule m4 [THEN rej_mono_trans], rule m5 [THEN rej_mono_trans], rule m6 [THEN rej_mono_trans], rule m7)
qed

text \<open>
  Property C22.  Rejects come to an end.  A good Configure-Reject only takes options away (our addresses stay), and one
  that is not empty strictly reduces the number of options we may ask for, so there are at most seven of them.
\<close>

theorem ipcp_rejci_shrinks:
  assumes "ipcp_rejci_of go p = Some t"
  shows "ip_less t go \<and> ip_asked t \<le> ip_asked go \<and> (p \<noteq> [] \<longrightarrow> ip_asked t < ip_asked go) \<and> ip_asked go \<le> 7"
  using rejci_mono [OF assms] by (auto simp: rej_mono_def ip_asked_def)

theorem ipcp_rejci_shrinks_witness:
  "ipcp_rejci_of (ipcp_zero\<lparr>req_dns1 := True, dnsaddr0 := 1\<rparr>) [CI_MS_DNS1, 6, 0, 0, 0, 1] = Some (ipcp_zero\<lparr>dnsaddr0 := 1\<rparr>) \<and>
   ip_asked (ipcp_zero\<lparr>dnsaddr0 := 1\<rparr>) < ip_asked (ipcp_zero\<lparr>req_dns1 := True, dnsaddr0 := 1\<rparr>)"
proof -
  have "ipcp_rejci_of (ipcp_zero\<lparr>req_dns1 := True, dnsaddr0 := 1\<rparr>) [CI_MS_DNS1, 6, 0, 0, 0, 1] = Some (ipcp_zero\<lparr>dnsaddr0 := 1\<rparr>)"
    by (simp add: ipcp_rejci_of_def ipcp_zero_def GETLONG_def)
  with ipcp_rejci_shrinks [OF this] show ?thesis by simp
qed

section \<open>Answers\<close>

definition verdict_ok :: "packet \<Rightarrow> ip_verdict \<Rightarrow> bool" where
  "verdict_ok p v \<longleftrightarrow> (case v of (orc, p', ho, wo) \<Rightarrow>
     (orc = CONFACK \<or> orc = CONFNAK \<or> orc = CONFREJ) \<and> length p' = length p \<and> (orc \<noteq> CONFNAK \<longrightarrow> p' = p))"

lemma ip_reqci_ok:
  "verdict_ok p (ip_reqci_addrs rid ao ho wo l p)" "verdict_ok p (ip_reqci_addr rid ao ho wo l p)"
  "verdict_ok p (ip_reqci_server x ho wo l p)" "verdict_ok p (ip_reqci_vj rid ao ho wo l p)"
  by (auto simp: verdict_ok_def ip_reqci_addrs_def ip_reqci_addr_def ip_reqci_server_def ip_reqci_vj_def Let_def
      split: list.splits)

lemma ip_reqci_ci_ok: "verdict_ok p (ip_reqci_ci rid ao t l p ho wo)"
  by (simp add: ip_reqci_ci_def ip_reqci_ok) (simp add: verdict_ok_def)

text \<open>The answer so far, \<open>pre\<close> being the octets of the request that have been read.\<close>

definition answer_ok :: "bool \<Rightarrow> packet \<Rightarrow> ip_acc \<Rightarrow> bool" where
  "answer_ok rid pre a \<longleftrightarrow> (ip_rc a = CONFACK \<or> ip_rc a = CONFNAK \<or> ip_rc a = CONFREJ) \<and> (rid \<longrightarrow> ip_rc a \<noteq> CONFNAK) \<and>
     length (ip_out a) \<le> length pre \<and> (ip_rc a = CONFACK \<longrightarrow> ip_out a = pre) \<and>
     (ip_rc a = CONFREJ \<and> \<not> rid \<longrightarrow> subseq (ip_out a) pre)"

lemma ip_reqci_end_ok:
  assumes "answer_ok rid pre a" "orc = CONFACK \<or> orc = CONFNAK \<or> orc = CONFREJ" "length ci' = length ci"
    "orc \<noteq> CONFNAK \<Longrightarrow> ci' = ci"
  shows "answer_ok rid (pre @ ci) (ip_reqci_end rid ci' orc a)"
  using assms
  by (auto simp: answer_ok_def ip_reqci_end_def Let_def list_emb_append_mono subseq_append_le_same_iff intro: subseq_drop_many)

lemma ip_reqci_loop_ok: "answer_ok rid pre a \<Longrightarrow> answer_ok rid (pre @ inp) (ip_reqci_loop rid ao inp a)"
proof (induction rid ao inp a arbitrary: pre rule: ip_reqci_loop.induct)
  case (1 rid ao inp a)
  consider "inp = []" | "inp \<noteq> []" "length inp < 2 \<or> unat (inp ! 1) < 2 \<or> unat (inp ! 1) > length inp"
    | "2 \<le> length inp" "2 \<le> unat (inp ! 1)" "unat (inp ! 1) \<le> length inp" by fastforce
  then show ?case
  proof cases
    case 2
    then have "ip_reqci_loop rid ao inp a = ip_reqci_end rid inp CONFREJ a" by (simp add: ip_reqci_loop.simps [of rid ao inp])
    then show ?thesis using ip_reqci_end_ok [OF "1.prems", of CONFREJ inp inp] by simp
  next
    case 3
    define n where "n = unat (inp ! 1)"
    obtain orc p ho wo where v: "ip_reqci_ci rid ao (inp ! 0) (inp ! 1) (drop 2 (take n inp)) (ip_ho a) (ip_wo a) = (orc, p, ho, wo)"
      by (metis prod_cases4)
    let ?b = "ip_reqci_end rid ([inp ! 0, inp ! 1] @ p) orc (a\<lparr>ip_ho := ho, ip_wo := wo\<rparr>)"
    have loop: "ip_reqci_loop rid ao inp a = ip_reqci_loop rid ao (drop n inp) ?b"
      using 3 v by (subst ip_reqci_loop.simps) (auto simp: n_def Let_def)
    have "take n inp = [inp ! 0, inp ! 1] @ drop 2 (take n inp)"
    proof -
      obtain x y r k where "inp = x # y # r" "n = Suc (Suc k)"
        using length_2_cases [OF 3(1)] 3(2) le_Suc_ex [of 2 n] n_def by auto
      then show ?thesis by simp
    qed
    moreover have "answer_ok rid pre (a\<lparr>ip_ho := ho, ip_wo := wo\<rparr>)" using "1.prems" by (simp add: answer_ok_def)
    moreover have "length (take n inp) = n" "2 \<le> n" using 3 by (simp_all add: n_def)
    ultimately have b: "answer_ok rid (pre @ take n inp) ?b"
      using ip_reqci_end_ok [of rid pre "a\<lparr>ip_ho := ho, ip_wo := wo\<rparr>" orc "[inp ! 0, inp ! 1] @ p" "take n inp"]
        ip_reqci_ci_ok [of "drop 2 (take n inp)" rid ao "inp ! 0" "inp ! 1" "ip_ho a" "ip_wo a"]
      unfolding v verdict_ok_def by auto
    have "inp \<noteq> []" "\<not> (length inp < 2 \<or> unat (inp ! 1) < 2 \<or> length inp < unat (inp ! 1))" using 3 by auto
    from "1.IH" [OF this refl refl n_def v [symmetric] refl refl refl b]
    show ?thesis unfolding loop by simp
  qed (simp add: ip_reqci_loop.simps "1.prems")
qed

text \<open>
  Property C20.  Every request of the peer, however malformed, gets a proper answer.  An Ack repeats the request; a Reject is a
  selection of its octets in order, unless we are fed up with sending Naks, and then no Nak is sent any more; no answer is
  longer than the request plus the six octets of the address we may ask for, and only a Nak is longer at all.
\<close>

theorem ipcp_reqci_reply:
  "let a = ipcp_reqci_of rid noremoteip ao wo inp in
   (ip_rc a = CONFACK \<or> ip_rc a = CONFNAK \<or> ip_rc a = CONFREJ) \<and> \<not> (rid \<and> ip_rc a = CONFNAK) \<and>
   (if ip_rc a = CONFACK then ip_out a = inp
    else if ip_rc a = CONFREJ then length (ip_out a) \<le> length inp \<and> (rid \<or> subseq (ip_out a) inp)
    else length (ip_out a) \<le> length inp + 6)"
proof -
  have "answer_ok rid [] \<lparr>ip_rc = CONFACK, ip_out = [], ip_ho = ipcp_zero, ip_wo = wo\<rparr>" by (simp add: answer_ok_def)
  define a where "a = ip_reqci_loop rid ao inp \<lparr>ip_rc = CONFACK, ip_out = [], ip_ho = ipcp_zero, ip_wo = wo\<rparr>"
  have "answer_ok rid inp a"
    using ip_reqci_loop_ok [OF \<open>answer_ok rid [] _\<close>, of inp ao] by (simp add: a_def)
  then show ?thesis
    unfolding ipcp_reqci_of_def a_def [symmetric] by (auto simp: ip_ask_addr_def answer_ok_def Let_def)
qed

text \<open>
  Property C35.  A Reject of a DNS server is not understood by another copy of the program.  When we are fed up with Naks, the value in
  the option has already been overwritten with our address, so the Reject we send carries a value the peer never asked for,
  and \<open>ipcp_rejci\<close> of the peer, which compares it, calls the Reject bad: the option is asked for again and again.
\<close>

theorem dns_reject_mangled:
  assumes "dnsaddr0 ao \<noteq> 0" "dnsaddr0 go \<noteq> dnsaddr0 ao" "go = ipcp_zero\<lparr>req_dns1 := True, dnsaddr0 := x\<rparr>"
  shows "let a = ipcp_reqci_of True noremoteip ao wo (fst (ipcp_addci_of go 6)) in
    ip_rc a = CONFREJ \<and> ip_out a = [CI_MS_DNS1, 6] @ PUTLONG (dnsaddr0 ao) \<and> ipcp_rejci_of go (ip_out a) = None"
proof -
  have "fst (ipcp_addci_of go 6) = [CI_MS_DNS1, 6] @ PUTLONG x" using assms(3) by (simp add: ipcp_addci_of_def ipcp_zero_def)
  moreover have "GETLONG (ucast (drop_bit 24 x)) (ucast (drop_bit 16 x)) (ucast (drop_bit 8 x)) (ucast x) \<noteq> dnsaddr0 ao"
    using assms by (simp add: GET_PUTLONG ipcp_zero_def)
  ultimately have "ip_rc (ipcp_reqci_of True noremoteip ao wo (fst (ipcp_addci_of go 6))) = CONFREJ \<and>
    ip_out (ipcp_reqci_of True noremoteip ao wo (fst (ipcp_addci_of go 6))) = [CI_MS_DNS1, 6] @ PUTLONG (dnsaddr0 ao)"
    using assms(1)
    by (simp add: ipcp_reqci_of_def ip_reqci_loop.simps PUTLONG_def ip_reqci_ci_def ip_reqci_server_def ip_reqci_end_def
        ip_ask_addr_def Let_def)
  moreover have "ipcp_rejci_of go ([CI_MS_DNS1, 6] @ PUTLONG (dnsaddr0 ao)) = None"
    using assms by (simp add: ipcp_rejci_of_def PUTLONG_def GET_PUTLONG ipcp_zero_def)
  ultimately show ?thesis by (simp add: Let_def)
qed

theorem dns_reject_mangled_witness:
  "ip_out (ipcp_reqci_of True False (ipcp_zero\<lparr>dnsaddr0 := 8\<rparr>) ipcp_zero
     (fst (ipcp_addci_of (ipcp_zero\<lparr>req_dns1 := True, dnsaddr0 := 1\<rparr>) 6))) = [CI_MS_DNS1, 6, 0, 0, 0, 8]"
  using dns_reject_mangled [of "ipcp_zero\<lparr>dnsaddr0 := 8\<rparr>" _ 1 False ipcp_zero, OF _ _ refl]
  by (simp add: ipcp_zero_def Let_def PUTLONG_def)

section \<open>Address assignment\<close>

text \<open>One turn of the loop on an option with a four-octet value.\<close>

lemma reqci_long:
  "ip_reqci_loop rid ao ([opt, 6] @ PUTLONG v @ rest) a =
     (case ip_reqci_ci rid ao opt 6 (PUTLONG v) (ip_ho a) (ip_wo a) of (orc, p, ho, wo) \<Rightarrow>
        ip_reqci_loop rid ao rest (ip_reqci_end rid ([opt, 6] @ p) orc (a\<lparr>ip_ho := ho, ip_wo := wo\<rparr>)))"
  by (subst ip_reqci_loop.simps) (simp add: Let_def split: prod.splits)

lemma end_cases:
  "ip_rc a = CONFACK \<Longrightarrow> ip_reqci_end False ci CONFACK a = a\<lparr>ip_out := ip_out a @ ci\<rparr>"
  "ip_rc a = CONFNAK \<Longrightarrow> ip_reqci_end False ci CONFACK a = a"
  "ip_rc a = CONFACK \<Longrightarrow> ip_reqci_end False ci CONFNAK a = a\<lparr>ip_rc := CONFNAK, ip_out := ci\<rparr>"
  "ip_rc a = CONFNAK \<Longrightarrow> ip_reqci_end False ci CONFNAK a = a\<lparr>ip_out := ip_out a @ ci\<rparr>"
  by (simp_all add: ip_reqci_end_def Let_def)

lemma reqci_long_last:
  "ip_reqci_loop rid ao (opt # 6 # PUTLONG v) a =
     (case ip_reqci_ci rid ao opt 6 (PUTLONG v) (ip_ho a) (ip_wo a) of (orc, p, ho, wo) \<Rightarrow>
        ip_reqci_end rid ([opt, 6] @ p) orc (a\<lparr>ip_ho := ho, ip_wo := wo\<rparr>))"
  using reqci_long [of rid ao opt v "[]" a] by (simp add: ip_reqci_loop.simps [of _ _ "[]"])

lemma server_verdict:
  "x \<noteq> 0 \<Longrightarrow> ip_reqci_server x ho wo 6 (PUTLONG v) = (if v = x then CONFACK else CONFNAK, PUTLONG x, ho, wo)"
  by (auto simp: ip_reqci_server_def PUTLONG_def GET_PUTLONG)

lemma addr_verdict:
  "neg_addr ao \<Longrightarrow> \<not> old_addrs ho \<Longrightarrow> hisaddr wo \<noteq> 0 \<Longrightarrow> v = 0 \<or> \<not> accept_remote wo \<Longrightarrow>
   ip_reqci_addr False ao ho wo 6 (PUTLONG v) =
     (if v = hisaddr wo then CONFACK else CONFNAK, PUTLONG (hisaddr wo), ho\<lparr>neg_addr := True, hisaddr := v\<rparr>, wo)"
  by (auto simp: ip_reqci_addr_def his_addr_nak_def PUTLONG_def GET_PUTLONG Let_def)

text \<open>
  What client and server have to agree on.  The client asks for its address in the new form, accepts the peer's idea of it, and asks
  for no WINS servers (nothing in the program makes it do so); if it asks for compression, the server allows it.  The server
  has an address for the client and insists on it, and it has the DNS servers that the client asks for.
\<close>

definition vj_agreed :: "ipcp_options \<Rightarrow> ipcp_options \<Rightarrow> bool" where
  "vj_agreed ao go \<longleftrightarrow> (neg_vj go \<longrightarrow> neg_vj ao \<and>
     (if old_vj go then vj_protocol go = IPCP_VJ_COMP \<or> vj_protocol go = IPCP_VJ_COMP_OLD
      else vj_protocol go = IPCP_VJ_COMP \<and> maxslotindex go \<le> maxslotindex ao \<and> (cflag go = 0 \<or> cflag ao \<noteq> 0)))"

definition ip_asks :: "ipcp_options \<Rightarrow> bool" where
  "ip_asks go \<longleftrightarrow> neg_addr go \<and> accept_local go \<and> winsaddr0 go = 0 \<and> winsaddr1 go = 0"

definition ip_serves :: "ipcp_options \<Rightarrow> ipcp_options \<Rightarrow> ipcp_options \<Rightarrow> bool" where
  "ip_serves ao wo go \<longleftrightarrow> neg_addr ao \<and> hisaddr wo \<noteq> 0 \<and> \<not> accept_remote wo \<and> vj_agreed ao go \<and>
     (req_dns1 go \<longrightarrow> dnsaddr0 ao \<noteq> 0) \<and> (req_dns2 go \<longrightarrow> dnsaddr1 ao \<noteq> 0)"

abbreviation asked_vj :: "ipcp_options \<Rightarrow> packet" where
  "asked_vj go \<equiv> ci_vj (neg_vj go) (vj_protocol go) (old_vj go) (maxslotindex go) (cflag go)"

lemma asked_request:
  "ip_asks go \<Longrightarrow> ipcp_request go = asked_vj go @ [CI_ADDR, 6] @ PUTLONG (ouraddr go) @
     ci_long CI_MS_DNS1 (req_dns1 go) (dnsaddr0 go) @ ci_long CI_MS_DNS2 (req_dns2 go) (dnsaddr1 go)"
  by (simp add: ipcp_request_def ip_asks_def ci_long_def ci_addrs_def)

lemma vj_turn:
  assumes "vj_agreed ao go"
  shows "\<exists>h. \<not> old_addrs h \<and> ip_reqci_loop False ao (asked_vj go @ rest) \<lparr>ip_rc = CONFACK, ip_out = [], ip_ho = ipcp_zero, ip_wo = wo\<rparr> =
    ip_reqci_loop False ao rest \<lparr>ip_rc = CONFACK, ip_out = asked_vj go, ip_ho = h, ip_wo = wo\<rparr>"
proof (cases "neg_vj go")
  case False
  then show ?thesis by (auto simp: ci_vj_def ipcp_zero_def intro!: exI [of _ ipcp_zero])
next
  case True
  show ?thesis
  proof (cases "old_vj go")
    case old: True
    let ?h = "ipcp_zero\<lparr>neg_vj := True, vj_protocol := vj_protocol go, old_vj := True, maxslotindex := MAX_STATES - 1, cflag := 1\<rparr>"
    show ?thesis
      using assms True old by (intro exI [of _ ?h], subst ip_reqci_loop.simps)
        (auto simp: vj_agreed_def ci_vj_def PUTSHORT_def GETSHORT_def ip_reqci_ci_def ip_reqci_vj_def end_cases ipcp_zero_def Let_def)
  next
    case new: False
    let ?h = "ipcp_zero\<lparr>neg_vj := True, vj_protocol := vj_protocol go, maxslotindex := maxslotindex go, cflag := cflag go\<rparr>"
    show ?thesis
      using assms True new by (intro exI [of _ ?h], subst ip_reqci_loop.simps)
        (auto simp: vj_agreed_def ci_vj_def PUTSHORT_def GETSHORT_def ip_reqci_ci_def ip_reqci_vj_def end_cases ipcp_zero_def Let_def)
  qed
qed

lemma served_rest:
  assumes "neg_addr ao" "hisaddr wo \<noteq> 0" "\<not> accept_remote wo" "b1 \<longrightarrow> dnsaddr0 ao \<noteq> 0" "b2 \<longrightarrow> dnsaddr1 ao \<noteq> 0" "\<not> old_addrs h"
  shows "ip_ask_addr False nrip (ip_reqci_loop False ao
      ([CI_ADDR, 6] @ PUTLONG x @ ci_long CI_MS_DNS1 b1 d1 @ ci_long CI_MS_DNS2 b2 d2)
      \<lparr>ip_rc = CONFACK, ip_out = pre, ip_ho = h, ip_wo = wo\<rparr>) =
    (let c1 = (x \<noteq> hisaddr wo); c2 = (b1 \<and> d1 \<noteq> dnsaddr0 ao); c3 = (b2 \<and> d2 \<noteq> dnsaddr1 ao);
         ho = h\<lparr>neg_addr := True, hisaddr := x\<rparr>
     in if c1 \<or> c2 \<or> c3
        then \<lparr>ip_rc = CONFNAK, ip_out = ci_long CI_ADDR c1 (hisaddr wo) @ ci_long CI_MS_DNS1 c2 (dnsaddr0 ao) @
                ci_long CI_MS_DNS2 c3 (dnsaddr1 ao), ip_ho = ho, ip_wo = wo\<rparr>
        else \<lparr>ip_rc = CONFACK, ip_out = pre @ [CI_ADDR, 6] @ PUTLONG x @ ci_long CI_MS_DNS1 b1 d1 @ ci_long CI_MS_DNS2 b2 d2,
               ip_ho = ho, ip_wo = wo\<rparr>)"
proof -
  have first: "ip_reqci_ci False ao CI_ADDR 6 (PUTLONG x) h wo =
      (if x = hisaddr wo then CONFACK else CONFNAK, PUTLONG (hisaddr wo), h\<lparr>neg_addr := True, hisaddr := x\<rparr>, wo)"
    using addr_verdict [OF assms(1,6,2)] assms(3) by (simp add: ip_reqci_ci_def)
  have dns: "b1 \<Longrightarrow> ip_reqci_ci False ao CI_MS_DNS1 6 (PUTLONG v) ho wo = (if v = dnsaddr0 ao then CONFACK else CONFNAK, PUTLONG (dnsaddr0 ao), ho, wo)"
    "b2 \<Longrightarrow> ip_reqci_ci False ao CI_MS_DNS2 6 (PUTLONG v) ho wo = (if v = dnsaddr1 ao then CONFACK else CONFNAK, PUTLONG (dnsaddr1 ao), ho, wo)" for v ho
    using assms(4,5) by (simp_all add: ip_reqci_ci_def server_verdict)
  have long: "ip_reqci_loop rid ao (opt # 6 # PUTLONG v @ rest) b =
     (case ip_reqci_ci rid ao opt 6 (PUTLONG v) (ip_ho b) (ip_wo b) of (orc, p, ho, wo) \<Rightarrow>
        ip_reqci_loop rid ao rest (ip_reqci_end rid (opt # 6 # p) orc (b\<lparr>ip_ho := ho, ip_wo := wo\<rparr>)))" for rid opt v rest b
    using reqci_long [of rid ao opt v rest b] by simp
  have ask: "neg_addr (ip_ho b) \<Longrightarrow> ip_ask_addr rid nrip b = b" for rid b by (simp add: ip_ask_addr_def)
  have nil: "ip_reqci_loop rid ao [] b = b" for rid b by (subst ip_reqci_loop.simps) simp
  show ?thesis
    unfolding ci_long_def reqci_long ip_acc.simps first prod.case
    by (cases b1; cases b2; cases "x = hisaddr wo"; cases "d1 = dnsaddr0 ao"; cases "d2 = dnsaddr1 ao")
       (simp_all add: dns nil long reqci_long_last end_cases ask)
qed

lemma served_reply:
  assumes "ip_serves ao wo go" "ip_asks go"
  shows "\<exists>h. ipcp_reqci_of False nrip ao wo (ipcp_request go) =
    (let c1 = (ouraddr go \<noteq> hisaddr wo); c2 = (req_dns1 go \<and> dnsaddr0 go \<noteq> dnsaddr0 ao);
         c3 = (req_dns2 go \<and> dnsaddr1 go \<noteq> dnsaddr1 ao); ho = h\<lparr>neg_addr := True, hisaddr := ouraddr go\<rparr>
     in if c1 \<or> c2 \<or> c3
        then \<lparr>ip_rc = CONFNAK, ip_out = ci_long CI_ADDR c1 (hisaddr wo) @ ci_long CI_MS_DNS1 c2 (dnsaddr0 ao) @
                ci_long CI_MS_DNS2 c3 (dnsaddr1 ao), ip_ho = ho, ip_wo = wo\<rparr>
        else \<lparr>ip_rc = CONFACK, ip_out = ipcp_request go, ip_ho = ho, ip_wo = wo\<rparr>)"
proof -
  let ?rest = "[CI_ADDR, 6] @ PUTLONG (ouraddr go) @ ci_long CI_MS_DNS1 (req_dns1 go) (dnsaddr0 go) @
    ci_long CI_MS_DNS2 (req_dns2 go) (dnsaddr1 go)"
  have v: "vj_agreed ao go" using assms(1) by (simp add: ip_serves_def)
  from vj_turn [OF v, of ?rest wo] obtain h where h: "\<not> old_addrs h"
    "ip_reqci_loop False ao (asked_vj go @ ?rest) \<lparr>ip_rc = CONFACK, ip_out = [], ip_ho = ipcp_zero, ip_wo = wo\<rparr> =
       ip_reqci_loop False ao ?rest \<lparr>ip_rc = CONFACK, ip_out = asked_vj go, ip_ho = h, ip_wo = wo\<rparr>" by blast
  have s: "neg_addr ao" "hisaddr wo \<noteq> 0" "\<not> accept_remote wo" "req_dns1 go \<longrightarrow> dnsaddr0 ao \<noteq> 0" "req_dns2 go \<longrightarrow> dnsaddr1 ao \<noteq> 0"
    using assms(1) by (simp_all add: ip_serves_def)
  show ?thesis
    unfolding ipcp_reqci_of_def asked_request [OF assms(2)] h(2) by (rule exI [of _ h]) (rule served_rest [OF s h(1)])
qed

lemma client_nak:
  assumes "ip_asks go" "c2 \<longrightarrow> req_dns1 go" "c3 \<longrightarrow> req_dns2 go" "y \<noteq> 0"
  shows "ipcp_nakci_of go False (ci_long CI_ADDR c1 y @ ci_long CI_MS_DNS1 c2 e1 @ ci_long CI_MS_DNS2 c3 e2) =
    Some (go\<lparr>ouraddr := if c1 then y else ouraddr go, dnsaddr0 := if c2 then e1 else dnsaddr0 go,
             dnsaddr1 := if c3 then e2 else dnsaddr1 go\<rparr>)"
proof -
  have rest: "ip_nak_rest go ([], 0, no, t) = Some t" for go no t by (subst ip_nak_rest.simps) simp
  show ?thesis
    using assms
    by (cases c1; cases c2; cases c3)
       (simp_all add: ipcp_nakci_of_def ip_nak_asked_def ip_asks_def ci_long_def PUTLONG_def GET_PUTLONG rest Let_def)
qed


text \<open>The client of \<open>ipcp_init\<close> and \<open>ipcp_resetci\<close> with \<open>usepeerdns\<close>, and a server with the options of \<open>ipcp_init\<close>.\<close>

definition default_client :: ipcp_options where
  "default_client = ipcp_zero\<lparr>neg_addr := True, old_addrs := True, neg_vj := True, vj_protocol := IPCP_VJ_COMP,
     maxslotindex := MAX_STATES - 1, cflag := 1, req_addr := True, accept_local := True, accept_remote := True,
     req_dns1 := True, req_dns2 := True\<rparr>"

definition default_server :: ipcp_options where
  "default_server = ipcp_zero\<lparr>neg_addr := True, old_addrs := True, neg_vj := True, maxslotindex := MAX_STATES - 1, cflag := 1,
     proxy_arp := True, default_route := True, dnsaddr0 := 8, dnsaddr1 := 9\<rparr>"


end
