(* ===== verification/Rfc1661.thy ===== *)
theory Rfc1661
  imports Fsm_Props "HOL-Library.Multiset"
begin

text \<open>
  The state transition table of RFC 1661, section 4.1, as an executable specification, and the
  simulation of \<^verbatim>\<open>fsm.c\<close> by it.  What the code does for an event is a sequence of primitive steps (\<open>performs\<close>): assignments of the
  state, packets sent, calls of the layer's callbacks, settings of the restart counter.  Each of them is an action of the table or is
  not mentioned there.  Nothing is assumed of the callbacks \<open>up\<close>, \<open>down\<close>, \<open>starting\<close> and \<open>finished\<close>, which in the program come back to the
  automaton.
\<close>

section \<open>The specification\<close>

datatype rfc_event = Up | Down | Open | Close | TO_plus | TO_minus | RCR_plus | RCR_minus | RCA | RCN
  | RTR | RTA | RUC | RXJ_plus | RXJ_minus

datatype rfc_action = tlu | tld | tls | tlf | irc | zrc | scr | sca | scn | str | sta | scj

text \<open>\<open>None\<close> is the entry "-" of the table: the event cannot occur in the state.\<close>

primrec rfc_step :: "rfc_event \<Rightarrow> fsm_state \<Rightarrow> (rfc_action list \<times> fsm_state) option" where
  "rfc_step Up s =
     (case s of
        INITIAL \<Rightarrow> Some ([], CLOSED)
      | STARTING \<Rightarrow> Some ([irc, scr], REQSENT)
      | _ \<Rightarrow> None)"
| "rfc_step Down s =
     (case s of
        CLOSED \<Rightarrow> Some ([], INITIAL)
      | STOPPED \<Rightarrow> Some ([tls], STARTING)
      | CLOSING \<Rightarrow> Some ([], INITIAL)
      | STOPPING \<Rightarrow> Some ([], STARTING)
      | REQSENT \<Rightarrow> Some ([], STARTING)
      | ACKRCVD \<Rightarrow> Some ([], STARTING)
      | ACKSENT \<Rightarrow> Some ([], STARTING)
      | OPENED \<Rightarrow> Some ([tld], STARTING)
      | _ \<Rightarrow> None)"
| "rfc_step Open s =
     (case s of
        INITIAL \<Rightarrow> Some ([tls], STARTING)
      | CLOSED \<Rightarrow> Some ([irc, scr], REQSENT)
      | CLOSING \<Rightarrow> Some ([], STOPPING)
      | _ \<Rightarrow> Some ([], s))"
| "rfc_step Close s =
     (case s of
        INITIAL \<Rightarrow> Some ([], INITIAL)
      | STARTING \<Rightarrow> Some ([tlf], INITIAL)
      | CLOSED \<Rightarrow> Some ([], CLOSED)
      | STOPPED \<Rightarrow> Some ([], CLOSED)
      | CLOSING \<Rightarrow> Some ([], CLOSING)
      | STOPPING \<Rightarrow> Some ([], CLOSING)
      | OPENED \<Rightarrow> Some ([tld, irc, str], CLOSING)
      | _ \<Rightarrow> Some ([irc, str], CLOSING))"
| "rfc_step TO_plus s =
     (case s of
        CLOSING \<Rightarrow> Some ([str], CLOSING)
      | STOPPING \<Rightarrow> Some ([str], STOPPING)
      | REQSENT \<Rightarrow> Some ([scr], REQSENT)
      | ACKRCVD \<Rightarrow> Some ([scr], REQSENT)
      | ACKSENT \<Rightarrow> Some ([scr], ACKSENT)
      | _ \<Rightarrow> None)"
| "rfc_step TO_minus s =
     (case s of
        CLOSING \<Rightarrow> Some ([tlf], CLOSED)
      | STOPPING \<Rightarrow> Some ([tlf], STOPPED)
      | REQSENT \<Rightarrow> Some ([tlf], STOPPED)
      | ACKRCVD \<Rightarrow> Some ([tlf], STOPPED)
      | ACKSENT \<Rightarrow> Some ([tlf], STOPPED)
      | _ \<Rightarrow> None)"
| "rfc_step RCR_plus s =
     (case s of
        CLOSED \<Rightarrow> Some ([sta], CLOSED)
      | STOPPED \<Rightarrow> Some ([irc, scr, sca], ACKSENT)
      | CLOSING \<Rightarrow> Some ([], CLOSING)
      | STOPPING \<Rightarrow> Some ([], STOPPING)
      | REQSENT \<Rightarrow> Some ([sca], ACKSENT)
      | ACKRCVD \<Rightarrow> Some ([sca, tlu], OPENED)
      | ACKSENT \<Rightarrow> Some ([sca], ACKSENT)
      | OPENED \<Rightarrow> Some ([tld, scr, sca], ACKSENT)
      | _ \<Rightarrow> None)"
| "rfc_step RCR_minus s =
     (case s of
        CLOSED \<Rightarrow> Some ([sta], CLOSED)
      | STOPPED \<Rightarrow> Some ([irc, scr, scn], REQSENT)
      | CLOSING \<Rightarrow> Some ([], CLOSING)
      | STOPPING \<Rightarrow> Some ([], STOPPING)
      | REQSENT \<Rightarrow> Some ([scn], REQSENT)
      | ACKRCVD \<Rightarrow> Some ([scn], ACKRCVD)
      | ACKSENT \<Rightarrow> Some ([scn], REQSENT)
      | OPENED \<Rightarrow> Some ([tld, scr, scn], REQSENT)
      | _ \<Rightarrow> None)"
| "rfc_step RCA s =
     (case s of
        CLOSED \<Rightarrow> Some ([sta], CLOSED)
      | STOPPED \<Rightarrow> Some ([sta], STOPPED)
      | CLOSING \<Rightarrow> Some ([], CLOSING)
      | STOPPING \<Rightarrow> Some ([], STOPPING)
      | REQSENT \<Rightarrow> Some ([irc], ACKRCVD)
      | ACKRCVD \<Rightarrow> Some ([scr], REQSENT)
      | ACKSENT \<Rightarrow> Some ([irc, tlu], OPENED)
      | OPENED \<Rightarrow> Some ([tld, scr], REQSENT)
      | _ \<Rightarrow> None)"
| "rfc_step RCN s =
     (case s of
        CLOSED \<Rightarrow> Some ([sta], CLOSED)
      | STOPPED \<Rightarrow> Some ([sta], STOPPED)
      | CLOSING \<Rightarrow> Some ([], CLOSING)
      | STOPPING \<Rightarrow> Some ([], STOPPING)
      | REQSENT \<Rightarrow> Some ([irc, scr], REQSENT)
      | ACKRCVD \<Rightarrow> Some ([scr], REQSENT)
      | ACKSENT \<Rightarrow> Some ([irc, scr], ACKSENT)
      | OPENED \<Rightarrow> Some ([tld, scr], REQSENT)
      | _ \<Rightarrow> None)"
| "rfc_step RTR s =
     (case s of
        INITIAL \<Rightarrow> None
      | STARTING \<Rightarrow> None
      | ACKRCVD \<Rightarrow> Some ([sta], REQSENT)
      | ACKSENT \<Rightarrow> Some ([sta], REQSENT)
      | OPENED \<Rightarrow> Some ([tld, zrc, sta], STOPPING)
      | _ \<Rightarrow> Some ([sta], s))"
| "rfc_step RTA s =
     (case s of
        INITIAL \<Rightarrow> None
      | STARTING \<Rightarrow> None
      | CLOSING \<Rightarrow> Some ([tlf], CLOSED)
      | STOPPING \<Rightarrow> Some ([tlf], STOPPED)
      | ACKRCVD \<Rightarrow> Some ([], REQSENT)
      | OPENED \<Rightarrow> Some ([tld, scr], REQSENT)
      | _ \<Rightarrow> Some ([], s))"
| "rfc_step RUC s =
     (case s of
        INITIAL \<Rightarrow> None
      | STARTING \<Rightarrow> None
      | _ \<Rightarrow> Some ([scj], s))"
| "rfc_step RXJ_plus s =
     (case s of
        INITIAL \<Rightarrow> None
      | STARTING \<Rightarrow> None
      | ACKRCVD \<Rightarrow> Some ([], REQSENT)
      | _ \<Rightarrow> Some ([], s))"
| "rfc_step RXJ_minus s =
     (case s of
        INITIAL \<Rightarrow> None
      | STARTING \<Rightarrow> None
      | CLOSED \<Rightarrow> Some ([tlf], CLOSED)
      | CLOSING \<Rightarrow> Some ([tlf], CLOSED)
      | OPENED \<Rightarrow> Some ([tld, irc, str], STOPPING)
      | _ \<Rightarrow> Some ([tlf], STOPPED))"

section \<open>The events of the code\<close>

text \<open>The state in which \<open>fsm_rconfreq\<close> asks \<open>reqci\<close>, and the verdict it gets there.\<close>

definition reqci_world ::
    "'z fsm_world_scheme fsm_callbacks \<Rightarrow> fsm_ref \<Rightarrow> 'z fsm_world_scheme \<Rightarrow> 'z fsm_world_scheme" where
  "reqci_world cb f w =
     (case st f w of
        OPENED \<Rightarrow> set_state f REQSENT (fsm_sconfreq cb f False (callback (cb_down cb) w))
      | STOPPED \<Rightarrow> set_state f REQSENT (fsm_sconfreq cb f False w)
      | _ \<Rightarrow> w)"

definition reqci_verdict ::
    "'z fsm_world_scheme fsm_callbacks \<Rightarrow> fsm_ref \<Rightarrow> packet \<Rightarrow> 'z fsm_world_scheme \<Rightarrow> int" where
  "reqci_verdict cb f inp w =
     (case cb_reqci cb of
        Some rq \<Rightarrow> fst (rq w inp (nakloops (fsms w f) \<ge> maxnakloops (fsms w f)))
      | None \<Rightarrow> (if inp \<noteq> [] then CONFREJ else CONFACK))"

text \<open>The number of Terminate-Requests that \<open>terminate_layer\<close> may send, as it finds it behind the callback \<open>down\<close>.\<close>

definition term_limit :: "'z fsm_world_scheme fsm_callbacks \<Rightarrow> fsm_ref \<Rightarrow> 'z fsm_world_scheme \<Rightarrow> int" where
  "term_limit cb f w = maxtermtransmits (fsms (if st f w \<noteq> OPENED then w else callback (cb_down cb) w) f)"

inductive fsm_trans ::
    "'z fsm_world_scheme fsm_callbacks \<Rightarrow> fsm_ref \<Rightarrow> rfc_event \<Rightarrow> 'z fsm_world_scheme \<Rightarrow> 'z fsm_world_scheme \<Rightarrow> bool"
    for cb :: "'z fsm_world_scheme fsm_callbacks" and f :: fsm_ref where
  Up: "fsm_trans cb f Up w (fsm_lowerup cb f w)"
| Down: "fsm_trans cb f Down w (fsm_lowerdown cb f w)"
| Open: "fsm_trans cb f Open w (fsm_open cb f w)"
| Close: "term_limit cb f (upd_fsm f (\<lambda>x. x\<lparr>term_reason := reason\<rparr>) w) \<noteq> 0 \<Longrightarrow> fsm_trans cb f Close w (fsm_close cb f reason w)"
| TO_plus: "retransmits (fsms w f) > 0 \<Longrightarrow> fsm_trans cb f TO_plus w (fsm_timeout cb f w)"
| TO_minus: "retransmits (fsms w f) \<le> 0 \<Longrightarrow> fsm_trans cb f TO_minus w (fsm_timeout cb f w)"
| RCR_plus: "reqci_verdict cb f inp (reqci_world cb f w) = CONFACK \<Longrightarrow>
     fsm_trans cb f RCR_plus w (fsm_rconfreq cb f idn inp w)"
| RCR_minus: "reqci_verdict cb f inp (reqci_world cb f w) \<in> {CONFNAK, CONFREJ} \<Longrightarrow>
     fsm_trans cb f RCR_minus w (fsm_rconfreq cb f idn inp w)"
| RCA: "\<not> seen_ack (fsms w f) \<Longrightarrow> (case cb_ackci cb of Some a \<Rightarrow> a w inp \<noteq> 0 | None \<Rightarrow> inp = []) \<Longrightarrow>
     fsm_trans cb f RCA w (fsm_rconfack cb f (reqid (fsms w f)) inp w)"
| RCN: "\<not> seen_ack (fsms w f) \<Longrightarrow> code \<in> {CONFNAK, CONFREJ} \<Longrightarrow>
     fst (rconfnakrej_check cb f code inp w) > 0 \<Longrightarrow> st f (snd (rconfnakrej_check cb f code inp w)) = st f w \<Longrightarrow>
     fsm_trans cb f RCN w (fsm_rconfnakrej cb f code (reqid (fsms w f)) inp w)"
| RTR: "fsm_trans cb f RTR w (fsm_rtermreq cb f idn inp w)"
| RTA: "fsm_trans cb f RTA w (fsm_rtermack cb f w)"
| RUC: "code \<notin> {CONFREQ, CONFACK, CONFNAK, CONFREJ, TERMREQ, TERMACK, CODEREJ} \<Longrightarrow>
     (case cb_extcode cb of None \<Rightarrow> True | Some x \<Rightarrow> x w code idn inp = (False, w)) \<Longrightarrow>
     fsm_trans cb f RUC w (input_dispatch cb f whole code idn inp w)"
| RXJ_plus: "4 \<le> length inp \<Longrightarrow> fsm_trans cb f RXJ_plus w (fsm_rcoderej f inp w)"
| RXJ_minus: "term_limit cb f w \<noteq> 0 \<Longrightarrow> fsm_trans cb f RXJ_minus w (fsm_protreject cb f w)"

section \<open>What the code performs\<close>

text \<open>The callbacks that deal with options: those for requests, and those for a Nak or a Reject (LCP's \<open>nakci\<close> closes the automaton when it
  has found a loop).\<close>

inductive option_call :: "'w fsm_callbacks \<Rightarrow> 'w \<Rightarrow> 'w \<Rightarrow> bool" for cb :: "'w fsm_callbacks" where
  resetci: "option_call cb v (callback (cb_resetci cb) v)"
| retransmit: "option_call cb v (callback (cb_retransmit cb) v)"
| cilen: "cb_cilen cb = Some g \<Longrightarrow> option_call cb v (snd (g v))"
| addci: "cb_addci cb = Some g \<Longrightarrow> option_call cb v (snd (snd (g v n)))"
| reqci: "cb_reqci cb = Some g \<Longrightarrow> option_call cb v (snd (snd (g v p r)))"

inductive nak_call :: "'w fsm_callbacks \<Rightarrow> 'w \<Rightarrow> 'w \<Rightarrow> bool" for cb :: "'w fsm_callbacks" where
  nakci: "cb_nakci cb = Some g \<Longrightarrow> nak_call cb v (snd (g v p r))"
| rejci: "cb_rejci cb = Some g \<Longrightarrow> nak_call cb v (snd (g v p))"

text \<open>
  \<open>performs cb f w acts s w'\<close>: from \<open>w\<close> the primitive steps of the code lead to \<open>w'\<close>, the actions among them are \<open>acts\<close> in their order, and
  \<open>s\<close> is the state that was assigned last.  Every packet, every call of a layer's callback and every setting of the restart
  counter is an action; only its count-down, the timer, the callbacks for options and the fields the table does not speak of are not.
\<close>

inductive performs ::
    "'z fsm_world_scheme fsm_callbacks \<Rightarrow> fsm_ref \<Rightarrow> 'z fsm_world_scheme \<Rightarrow> rfc_action list \<Rightarrow> fsm_state \<Rightarrow> 'z fsm_world_scheme \<Rightarrow> bool"
    for cb :: "'z fsm_world_scheme fsm_callbacks" and f :: fsm_ref and w :: "'z fsm_world_scheme" where
  start: "performs cb f w [] (st f w) w"
| goto: "performs cb f w a s v \<Longrightarrow> performs cb f w a s' (set_state f s' v)"
| book: "performs cb f w a s v \<Longrightarrow> (\<And>x. state (h x) = state x) \<Longrightarrow> (\<And>x. retransmits (h x) = retransmits x) \<Longrightarrow>
     performs cb f w a s (upd_fsm f h v)"
| count: "performs cb f w a s v \<Longrightarrow> performs cb f w a s (upd_fsm f (\<lambda>x. x\<lparr>retransmits := retransmits x - 1\<rparr>) v)"
| timer_on: "performs cb f w a s v \<Longrightarrow> performs cb f w a s (TIMEOUT_fsm f v)"
| timer_off: "performs cb f w a s v \<Longrightarrow> performs cb f w a s (UNTIMEOUT_fsm f v)"
| options: "performs cb f w a s v \<Longrightarrow> option_call cb v v' \<Longrightarrow> performs cb f w a s v'"
| naks: "performs cb f w a s v \<Longrightarrow> nak_call cb v v' \<Longrightarrow> performs cb f w a s v'"
| tlu: "performs cb f w a s v \<Longrightarrow> performs cb f w (a @ [tlu]) s (callback (cb_up cb) v)"
| tld: "performs cb f w a s v \<Longrightarrow> performs cb f w (a @ [tld]) s (callback (cb_down cb) v)"
| tls: "performs cb f w a s v \<Longrightarrow> performs cb f w (a @ [tls]) s (callback (cb_starting cb) v)"
| tlf: "performs cb f w a s v \<Longrightarrow> performs cb f w (a @ [tlf]) s (callback (cb_finished cb) v)"
| irc_conf: "performs cb f w a s v \<Longrightarrow> performs cb f w (a @ [irc]) s (upd_fsm f (\<lambda>x. x\<lparr>retransmits := maxconfreqtransmits x\<rparr>) v)"
| irc_term: "performs cb f w a s v \<Longrightarrow> performs cb f w (a @ [irc]) s (upd_fsm f (\<lambda>x. x\<lparr>retransmits := maxtermtransmits x\<rparr>) v)"
| zrc: "performs cb f w a s v \<Longrightarrow> performs cb f w (a @ [zrc]) s (upd_fsm f (\<lambda>x. x\<lparr>retransmits := 0\<rparr>) v)"
| scr: "performs cb f w a s v \<Longrightarrow> performs cb f w (a @ [scr]) s (fsm_sdata f CONFREQ i d v)"
| sca: "performs cb f w a s v \<Longrightarrow> performs cb f w (a @ [sca]) s (fsm_sdata f CONFACK i d v)"
| scn: "performs cb f w a s v \<Longrightarrow> c = CONFNAK \<or> c = CONFREJ \<Longrightarrow> performs cb f w (a @ [scn]) s (fsm_sdata f c i d v)"
| str: "performs cb f w a s v \<Longrightarrow> performs cb f w (a @ [str]) s (fsm_sdata f TERMREQ i d v)"
| sta: "performs cb f w a s v \<Longrightarrow> performs cb f w (a @ [sta]) s (fsm_sdata f TERMACK i d v)"
| scj: "performs cb f w a s v \<Longrightarrow> performs cb f w (a @ [scj]) s (fsm_sdata f CODEREJ i d v)"

text \<open>
  The RFC allows the actions of an entry in any order.  The code departs from the table in eight entries: in seven it sets the restart
  counter anew for a Configure-Request for which the table goes on counting, and closing the automaton in STARTING does not report
  that the layer has finished.
\<close>

definition fsm_actions :: "rfc_event \<Rightarrow> fsm_state \<Rightarrow> rfc_action list \<Rightarrow> rfc_action list" where
  "fsm_actions e s acts =
     (if (e, s) \<in> {(RCR_plus, OPENED), (RCR_minus, OPENED), (RCA, ACKRCVD), (RCA, OPENED), (RCN, ACKRCVD), (RCN, OPENED), (RTA, OPENED)}
      then irc # acts
      else if (e, s) = (Close, STARTING) then []
      else acts)"

definition conforms ::
    "'z fsm_world_scheme fsm_callbacks \<Rightarrow> fsm_ref \<Rightarrow> rfc_action list \<Rightarrow> fsm_state \<Rightarrow> 'z fsm_world_scheme \<Rightarrow> 'z fsm_world_scheme \<Rightarrow> bool" where
  "conforms cb f acts s w w' \<longleftrightarrow> (\<exists>a. performs cb f w a s w' \<and> mset a = mset acts)"

text \<open>The options that leave the table are off; the callbacks for requests leave the state of the automaton alone.\<close>

definition plain_opts :: "fsm_ref \<Rightarrow> 'z fsm_world_scheme \<Rightarrow> bool" where
  "plain_opts f w \<longleftrightarrow> \<not> has_flag f OPT_SILENT w \<and> \<not> has_flag f OPT_PASSIVE w \<and> \<not> has_flag f OPT_RESTART w"

definition steady :: "'z fsm_world_scheme fsm_callbacks \<Rightarrow> fsm_ref \<Rightarrow> bool" where
  "steady cb f \<longleftrightarrow> (\<forall>v v'. option_call cb v v' \<longrightarrow> st f v' = st f v)"

section \<open>The simulation\<close>

lemma conformsI: "performs cb f w a s w' \<Longrightarrow> mset a = mset acts \<Longrightarrow> conforms cb f acts s w w'"
  by (auto simp: conforms_def)

text \<open>The composite operations.\<close>

lemma confreq_data_options:
  assumes "performs cb f w a s v"
  shows "performs cb f w a s (snd (confreq_data cb v))"
proof (cases "cb_cilen cb = None \<or> cb_addci cb = None")
  case True
  then show ?thesis using assms by (auto simp: confreq_data_def split: option.split)
next
  case False
  then obtain cl ac where g: "cb_cilen cb = Some cl" "cb_addci cb = Some ac" by auto
  let ?u = "snd (cl v)"
  let ?n = "if fst (cl v) > peer_mru ?u - HEADERLEN then peer_mru ?u - HEADERLEN else fst (cl v)"
  have "performs cb f w a s (snd (snd (ac ?u ?n)))"
    by (rule performs.options [OF performs.options [OF assms option_call.cilen [OF g(1)]] option_call.addci [OF g(2)]])
  then show ?thesis by (simp add: confreq_data_def g Let_def split_def)
qed

lemma performs_sconfreq:
  assumes "performs cb f w a s v"
  shows "performs cb f w (a @ (if r then [scr] else [irc, scr])) s (fsm_sconfreq cb f r v)"
proof -
  define v1 where "v1 = (if st f v \<noteq> REQSENT \<and> st f v \<noteq> ACKRCVD \<and> st f v \<noteq> ACKSENT
      then upd_fsm f (\<lambda>x. x\<lparr>nakloops := 0, rnakloops := 0\<rparr>) (callback (cb_resetci cb) v) else v)"
  have 1: "performs cb f w a s v1"
    unfolding v1_def by (auto intro: assms performs.book [OF performs.options [OF assms option_call.resetci]])
  define v2 where "v2 = (if \<not> r then new_reqid f (upd_fsm f (\<lambda>x. x\<lparr>retransmits := maxconfreqtransmits x\<rparr>) v1) else v1)"
  have 2: "performs cb f w (a @ (if r then [] else [irc])) s v2"
    unfolding v2_def new_reqid_def by (auto intro: 1 performs.book [OF performs.irc_conf [OF 1]])
  let ?v3 = "upd_fsm f (\<lambda>x. x\<lparr>seen_ack := False\<rparr>) v2"
  have 3: "performs cb f w (a @ (if r then [] else [irc])) s (snd (confreq_data cb ?v3))"
    by (rule confreq_data_options [OF performs.book [OF 2]]) simp_all
  obtain data v4 where d: "confreq_data cb ?v3 = (data, v4)" by (rule prod.exhaust)
  have "fsm_sconfreq cb f r v = TIMEOUT_fsm f (upd_fsm f (\<lambda>x. x\<lparr>retransmits := retransmits x - 1\<rparr>)
      (fsm_sdata f CONFREQ (reqid (fsms v4 f)) data v4))"
    by (simp add: fsm_sconfreq_def v1_def [symmetric] v2_def [symmetric] d Let_def)
  with performs.timer_on [OF performs.count [OF performs.scr [OF 3 [unfolded d snd_conv]]]] show ?thesis by (cases r) simp_all
qed

lemmas performs_request = performs_sconfreq [where r = False, simplified] and performs_again = performs_sconfreq [where r = True, simplified]

lemma performs_termreq:
  assumes "performs cb f w a s v"
  shows "performs cb f w (a @ [str]) s (send_termreq f v)"
  unfolding send_termreq_def Let_def new_reqid_def
  by (rule performs.str, rule performs.book [OF assms]) simp_all

lemma terminate_opened:
  assumes "performs cb f w [] s v" "st f v = OPENED" "term_limit cb f v \<noteq> 0"
  shows "performs cb f w [tld, irc, str] n (terminate_layer cb f n v)"
  using performs.goto [OF performs.count [OF performs.timer_on [OF performs_termreq [OF performs.irc_term [OF performs.tld [OF assms(1)]]]]],
      of n] assms(2,3)
  by (simp add: terminate_layer_def term_limit_def Let_def)

lemma terminate_other:
  assumes "performs cb f w [] s v" "st f v \<noteq> OPENED" "term_limit cb f v \<noteq> 0"
  shows "performs cb f w [irc, str] n (terminate_layer cb f n v)"
  using performs.goto [OF performs.count [OF performs.timer_on [OF performs_termreq [OF performs.irc_term [OF performs.timer_off [OF assms(1)]]]]],
      of n] assms(2,3)
  by (simp add: terminate_layer_def term_limit_def Let_def)

text \<open>Two fields in one assignment.\<close>

lemma upd_two:
  "upd_fsm f (\<lambda>x. x\<lparr>state := s, retransmits := maxconfreqtransmits x\<rparr>) w =
     set_state f s (upd_fsm f (\<lambda>x. x\<lparr>retransmits := maxconfreqtransmits x\<rparr>) w)"
  "upd_fsm f (\<lambda>x. x\<lparr>retransmits := 0, state := s\<rparr>) w = set_state f s (upd_fsm f (\<lambda>x. x\<lparr>retransmits := 0\<rparr>) w)"
  by (cases "fsms w f"; simp add: upd_fsm_def)+

lemma steady_call: "steady cb f \<Longrightarrow> option_call cb v v' \<Longrightarrow> st f v' = st f v"
  by (simp add: steady_def)

lemma steady_data:
  assumes "steady cb f"
  shows "st f (snd (confreq_data cb v)) = st f v"
proof (cases "cb_cilen cb = None \<or> cb_addci cb = None")
  case True
  then show ?thesis by (auto simp: confreq_data_def split: option.split)
next
  case False
  then obtain cl ac where g: "cb_cilen cb = Some cl" "cb_addci cb = Some ac" by auto
  show ?thesis
    using steady_call [OF assms option_call.cilen [OF g(1)]] steady_call [OF assms option_call.addci [OF g(2)]]
    by (simp add: confreq_data_def g Let_def split_def)
qed

lemma steady_sconfreq:
  assumes "steady cb f"
  shows "st f (fsm_sconfreq cb f r v) = st f v"
proof -
  have d: "confreq_data cb u = (d, u') \<Longrightarrow> st f u' = st f u" for u d u' using steady_data [OF assms, of u] by simp
  have "st f (callback (cb_resetci cb) v) = st f v" by (rule steady_call [OF assms option_call.resetci])
  then show ?thesis by (simp add: fsm_sconfreq_def Let_def split: prod.split) (auto dest!: d)
qed

section \<open>The entry points\<close>

lemma conforms_up:
  "plain_opts f w \<Longrightarrow> rfc_step Up (st f w) = Some (acts, s) \<Longrightarrow> conforms cb f acts s w (fsm_lowerup cb f w)"
  by (cases "st f w")
     (auto simp: fsm_lowerup_def plain_opts_def intro: conformsI performs.goto [OF performs.start]
        conformsI [OF performs.goto [OF performs_request [OF performs.start]]])

lemma conforms_down:
  "rfc_step Down (st f w) = Some (acts, s) \<Longrightarrow> conforms cb f acts s w (fsm_lowerdown cb f w)"
  by (cases "st f w")
     (auto simp: fsm_lowerdown_def intro: conformsI [OF performs.goto [OF performs.start]]
        conformsI [OF performs.tls [OF performs.goto [OF performs.start]]]
        conformsI [OF performs.timer_off [OF performs.goto [OF performs.start]]]
        conformsI [OF performs.goto [OF performs.tld [OF performs.start]]])

lemma conforms_stay: "conforms cb f [] (st f w) w w"
  by (rule conformsI [OF performs.start]) simp

lemma conforms_open:
  "plain_opts f w \<Longrightarrow> rfc_step Open (st f w) = Some (acts, s) \<Longrightarrow> conforms cb f acts s w (fsm_open cb f w)"
  using conforms_stay [of cb f w]
  by (cases "st f w")
     (auto simp: fsm_open_def fsm_open_restart_def plain_opts_def intro: conformsI [OF performs.goto [OF performs.start]]
        conformsI [OF performs.tls [OF performs.goto [OF performs.start]]]
        conformsI [OF performs.goto [OF performs_request [OF performs.start]]])

lemma conforms_close:
  assumes "term_limit cb f (upd_fsm f (\<lambda>x. x\<lparr>term_reason := reason\<rparr>) w) \<noteq> 0" "rfc_step Close (st f w) = Some (acts, s)"
  shows "conforms cb f (fsm_actions Close (st f w) acts) s w (fsm_close cb f reason w)"
proof -
  let ?v = "upd_fsm f (\<lambda>x. x\<lparr>term_reason := reason\<rparr>) w"
  have v: "performs cb f w [] (st f w) ?v" by (rule performs.book [OF performs.start]) simp_all
  then have "st f w = s \<Longrightarrow> performs cb f w [] s ?v" by simp
  then show ?thesis
    using assms terminate_opened [OF v _ assms(1)] terminate_other [OF v _ assms(1)]
    by (cases "st f w")
       (auto simp: fsm_close_def fsm_actions_def intro: conformsI conformsI [OF performs.goto [OF v]])
qed

lemma conforms_protreject:
  assumes "term_limit cb f w \<noteq> 0" "rfc_step RXJ_minus (st f w) = Some (acts, s)"
  shows "conforms cb f acts s w (fsm_protreject cb f w)"
  using assms terminate_opened [OF performs.start _ assms(1)]
  by (cases "st f w")
     (auto simp: fsm_protreject_def intro: conformsI conformsI [OF performs.tlf [OF performs.goto [OF performs.start]]]
        conformsI [OF performs.tlf [OF performs.goto [OF performs.timer_off [OF performs.start]]]])

section \<open>Timeouts\<close>

lemma conforms_timeout_plus:
  assumes "steady cb f" "retransmits (fsms w f) > 0" "rfc_step TO_plus (st f w) = Some (acts, s)"
  shows "conforms cb f acts s w (fsm_timeout cb f w)"
proof -
  let ?u = "fsm_sconfreq cb f True (callback (cb_retransmit cb) w)"
  have u: "performs cb f w [scr] (st f w) ?u"
    using performs_again [OF performs.options [OF performs.start option_call.retransmit]] by simp
  have "st f ?u = st f w"
    using steady_sconfreq [OF assms(1)] steady_call [OF assms(1) option_call.retransmit] by simp
  then have n: "performs cb f w [scr] (if st f w = ACKRCVD then REQSENT else st f w) (timeout_negotiating cb f w)"
    using u performs.goto [OF u, of REQSENT] assms(2) by (simp add: timeout_negotiating_def Let_def)
  have t: "performs cb f w [str] (st f w) (timeout_terminating cb f w)"
    using performs.count [OF performs.timer_on [OF performs_termreq [OF performs.start]]] assms(2)
    by (simp add: timeout_terminating_def)
  show ?thesis
    using assms(3) n t by (cases "st f w") (auto simp: fsm_timeout_def intro: conformsI)
qed

lemma conforms_timeout_minus:
  assumes "plain_opts f w" "retransmits (fsms w f) \<le> 0" "rfc_step TO_minus (st f w) = Some (acts, s)"
  shows "conforms cb f acts s w (fsm_timeout cb f w)"
  using assms
  by (cases "st f w")
     (auto simp: fsm_timeout_def timeout_terminating_def timeout_negotiating_def plain_opts_def Let_def
        intro: conformsI [OF performs.tlf [OF performs.goto [OF performs.start]]])

section \<open>Packets\<close>

text \<open>The answer to a request, in the state in which \<open>reqci\<close> is asked.\<close>

lemma answer_verdict:
  assumes "performs cb f w a s v"
  shows "\<exists>d u. performs cb f w a s u \<and> (steady cb f \<longrightarrow> st f u = st f v) \<and>
    rconfreq_answer cb f idn inp v =
      (let code = reqci_verdict cb f inp v; w = fsm_sdata f code idn d u
       in if code = CONFACK
          then upd_fsm f (\<lambda>x. x\<lparr>nakloops := 0\<rparr>)
                (if st f w = ACKRCVD then callback (cb_up cb) (set_state f OPENED (UNTIMEOUT_fsm f w)) else set_state f ACKSENT w)
          else (let w = (if st f w \<noteq> ACKRCVD then set_state f REQSENT w else w)
                in if code = CONFNAK then upd_fsm f (\<lambda>x. x\<lparr>nakloops := nakloops x + 1\<rparr>) w else w))"
proof (cases "cb_reqci cb")
  case None
  with assms show ?thesis by (intro exI [of _ inp] exI [of _ v]) (simp add: rconfreq_answer_def reqci_verdict_def Let_def)
next
  case (Some rq)
  let ?r = "rq v inp (nakloops (fsms v f) \<ge> maxnakloops (fsms v f))"
  have o: "option_call cb v (snd (snd ?r))" by (rule option_call.reqci [OF Some])
  show ?thesis
    by (intro exI [of _ "fst (snd ?r)"] exI [of _ "snd (snd ?r)"])
       (simp add: performs.options [OF assms o] steady_call [OF _ o] rconfreq_answer_def reqci_verdict_def Some Let_def split_def)
qed

lemma performs_ack:
  assumes "steady cb f" "performs cb f w a s v" "reqci_verdict cb f inp v = CONFACK"
  shows "performs cb f w (a @ (if st f v = ACKRCVD then [sca, tlu] else [sca])) (if st f v = ACKRCVD then OPENED else ACKSENT)
    (rconfreq_answer cb f idn inp v)"
proof -
  obtain d u where u: "performs cb f w a s u" "st f u = st f v"
    "rconfreq_answer cb f idn inp v = (let w = fsm_sdata f CONFACK idn d u
       in upd_fsm f (\<lambda>x. x\<lparr>nakloops := 0\<rparr>)
            (if st f w = ACKRCVD then callback (cb_up cb) (set_state f OPENED (UNTIMEOUT_fsm f w)) else set_state f ACKSENT w))"
    using answer_verdict [OF assms(2), of idn inp] assms(1,3) by (auto simp: Let_def)
  note sent = performs.sca [OF u(1), of idn d]
  have up: "performs cb f w (a @ [sca, tlu]) OPENED (upd_fsm f (\<lambda>x. x\<lparr>nakloops := 0\<rparr>)
      (callback (cb_up cb) (set_state f OPENED (UNTIMEOUT_fsm f (fsm_sdata f CONFACK idn d u)))))"
    using performs.book [OF performs.tlu [OF performs.goto [OF performs.timer_off [OF sent]]], of "\<lambda>x. x\<lparr>nakloops := 0\<rparr>" OPENED] by simp
  have "performs cb f w (a @ [sca]) ACKSENT (upd_fsm f (\<lambda>x. x\<lparr>nakloops := 0\<rparr>) (set_state f ACKSENT (fsm_sdata f CONFACK idn d u)))"
    by (rule performs.book [OF performs.goto [OF sent]]) simp_all
  with up show ?thesis unfolding u(3) Let_def by (simp add: u(2))
qed

lemma performs_nak:
  assumes "steady cb f" "performs cb f w a s v" "reqci_verdict cb f inp v \<in> {CONFNAK, CONFREJ}"
  shows "performs cb f w (a @ [scn]) (if st f v = ACKRCVD then s else REQSENT) (rconfreq_answer cb f idn inp v)"
proof -
  let ?c = "reqci_verdict cb f inp v"
  have c: "?c = CONFNAK \<or> ?c = CONFREJ" using assms(3) by simp
  then have "?c \<noteq> CONFACK" by auto
  obtain d u where u: "performs cb f w a s u" "st f u = st f v"
    "rconfreq_answer cb f idn inp v =
       (let w = fsm_sdata f ?c idn d u; w = (if st f w \<noteq> ACKRCVD then set_state f REQSENT w else w)
        in if ?c = CONFNAK then upd_fsm f (\<lambda>x. x\<lparr>nakloops := nakloops x + 1\<rparr>) w else w)"
    using answer_verdict [OF assms(2), of idn inp] assms(1) \<open>?c \<noteq> CONFACK\<close> by (simp only: Let_def if_False) blast
  note sent = performs.scn [OF u(1) c, of idn d]
  have n: "performs cb f w (a @ [scn]) (if st f v = ACKRCVD then s else REQSENT)
      (if st f v \<noteq> ACKRCVD then set_state f REQSENT (fsm_sdata f ?c idn d u) else fsm_sdata f ?c idn d u)"
    using sent performs.goto [OF sent, of REQSENT] by simp
  have "performs cb f w (a @ [scn]) (if st f v = ACKRCVD then s else REQSENT) (upd_fsm f (\<lambda>x. x\<lparr>nakloops := nakloops x + 1\<rparr>)
      (if st f v \<noteq> ACKRCVD then set_state f REQSENT (fsm_sdata f ?c idn d u) else fsm_sdata f ?c idn d u))"
    by (rule performs.book [OF n]) simp_all
  with n show ?thesis unfolding u(3) Let_def by (simp add: u(2))
qed

lemma conforms_sta: "conforms cb f [sta] (st f w) w (fsm_sdata f TERMACK i d w)"
  by (rule conformsI [OF performs.sta [OF performs.start]]) simp

text \<open>Where the request is answered, and what was done before.\<close>

lemma performs_reqci_world:
  "performs cb f w (case st f w of OPENED \<Rightarrow> [tld, irc, scr] | STOPPED \<Rightarrow> [irc, scr] | _ \<Rightarrow> [])
     (case st f w of OPENED \<Rightarrow> REQSENT | STOPPED \<Rightarrow> REQSENT | _ \<Rightarrow> st f w) (reqci_world cb f w)"
  using performs.goto [OF performs_request [OF performs.tld [OF performs.start]], of cb f w REQSENT]
    performs.goto [OF performs_request [OF performs.start], of cb f w REQSENT] performs.start [of cb f w]
  by (cases "st f w") (simp_all add: reqci_world_def)

lemma reqci_world_state: "st f (reqci_world cb f w) = (case st f w of OPENED \<Rightarrow> REQSENT | STOPPED \<Rightarrow> REQSENT | _ \<Rightarrow> st f w)"
  by (cases "st f w") (simp_all add: reqci_world_def)

lemma rconfreq_eq:
  "fsm_rconfreq cb f idn inp w =
     (case st f w of
        CLOSED \<Rightarrow> fsm_sdata f TERMACK idn [] w
      | CLOSING \<Rightarrow> w
      | STOPPING \<Rightarrow> w
      | _ \<Rightarrow> rconfreq_answer cb f idn inp (reqci_world cb f w))"
  by (cases "st f w") (simp_all add: fsm_rconfreq_def reqci_world_def)

lemma conforms_rconfreq_plus:
  assumes "steady cb f" "reqci_verdict cb f inp (reqci_world cb f w) = CONFACK" "rfc_step RCR_plus (st f w) = Some (acts, s)"
  shows "conforms cb f (fsm_actions RCR_plus (st f w) acts) s w (fsm_rconfreq cb f idn inp w)"
  using performs_ack [OF assms(1) performs_reqci_world assms(2), of idn] assms(3) conforms_stay [of cb f w] conforms_sta [of cb f w idn "[]"]
  by (cases "st f w") (auto simp: rconfreq_eq reqci_world_state fsm_actions_def intro: conformsI)

lemma conforms_rconfreq_minus:
  assumes "steady cb f" "reqci_verdict cb f inp (reqci_world cb f w) \<in> {CONFNAK, CONFREJ}" "rfc_step RCR_minus (st f w) = Some (acts, s)"
  shows "conforms cb f (fsm_actions RCR_minus (st f w) acts) s w (fsm_rconfreq cb f idn inp w)"
  using performs_nak [OF assms(1) performs_reqci_world assms(2), of idn] assms(3) conforms_stay [of cb f w] conforms_sta [of cb f w idn "[]"]
  by (cases "st f w") (auto simp: rconfreq_eq reqci_world_state fsm_actions_def intro: conformsI)

lemma conforms_rconfack:
  assumes "\<not> seen_ack (fsms w f)" "case cb_ackci cb of Some a \<Rightarrow> a w inp \<noteq> 0 | None \<Rightarrow> inp = []"
    "rfc_step RCA (st f w) = Some (acts, s)"
  shows "conforms cb f (fsm_actions RCA (st f w) acts) s w (fsm_rconfack cb f (reqid (fsms w f)) inp w)"
proof -
  let ?v = "upd_fsm f (\<lambda>x. x\<lparr>seen_ack := True, rnakloops := 0\<rparr>) w"
  have v: "performs cb f w [] (st f w) ?v" by (rule performs.book [OF performs.start]) simp_all
  show ?thesis
    using assms v performs.sta [OF v, of "reqid (fsms w f)" "[]"]
    by (cases "st f w")
       (auto simp: fsm_rconfack_def upd_two fsm_actions_def intro: conformsI conformsI [OF performs.goto [OF performs.irc_conf [OF v]]]
          conformsI [OF performs.goto [OF performs_request [OF performs.timer_off [OF v]]]]
          conformsI [OF performs.tlu [OF performs.goto [OF performs.irc_conf [OF performs.timer_off [OF v]]]]]
          conformsI [OF performs.goto [OF performs_request [OF performs.tld [OF v]]]])
qed

lemma performs_nakrej_check:
  assumes "fst (rconfnakrej_check cb f code inp w) > 0"
  shows "performs cb f w [] (st f w) (snd (rconfnakrej_check cb f code inp w))"
proof (cases "code = CONFNAK")
  case True
  let ?v = "upd_fsm f (\<lambda>x. x\<lparr>rnakloops := rnakloops x + 1\<rparr>) w"
  from True assms obtain n where n: "cb_nakci cb = Some n" by (auto simp: rconfnakrej_check_def Let_def split: option.splits)
  have v: "performs cb f w [] (st f w) ?v" by (rule performs.book [OF performs.start]) simp_all
  note o = nak_call.nakci [OF n, of ?v inp "rnakloops (fsms ?v f) \<ge> maxnakloops (fsms ?v f)"]
  show ?thesis using performs.naks [OF v o] by (simp add: rconfnakrej_check_def True n)
next
  case False
  let ?v = "upd_fsm f (\<lambda>x. x\<lparr>rnakloops := 0\<rparr>) w"
  from False assms obtain r where r: "cb_rejci cb = Some r" by (auto simp: rconfnakrej_check_def Let_def split: option.splits)
  have v: "performs cb f w [] (st f w) ?v" by (rule performs.book [OF performs.start]) simp_all
  note o = nak_call.rejci [OF r, of ?v inp]
  show ?thesis using performs.naks [OF v o] by (simp add: rconfnakrej_check_def False r)
qed

lemma conforms_rconfnakrej:
  assumes "st f (snd (rconfnakrej_check cb f code inp w)) = st f w" "\<not> seen_ack (fsms w f)" "fst (rconfnakrej_check cb f code inp w) > 0"
    "rfc_step RCN (st f w) = Some (acts, s)"
  shows "conforms cb f (fsm_actions RCN (st f w) acts) s w (fsm_rconfnakrej cb f code (reqid (fsms w f)) inp w)"
proof -
  obtain r u where c: "rconfnakrej_check cb f code inp w = (r, u)" by (rule prod.exhaust)
  then have r: "r > 0" and u: "performs cb f w [] (st f w) u" "st f u = st f w"
    using assms(1,3) performs_nakrej_check [OF assms(3)] by auto
  let ?v = "upd_fsm f (\<lambda>x. x\<lparr>seen_ack := True\<rparr>) u"
  have v: "performs cb f w [] (st f w) ?v" by (rule performs.book [OF u(1)]) simp_all
  show ?thesis
    using assms(2,4) r u(2) v performs.sta [OF v, of "reqid (fsms w f)" "[]"] performs_request [OF performs.timer_off [OF v]]
    by (cases "st f w")
       (auto simp: fsm_rconfnakrej_def c fsm_actions_def Let_def intro: conformsI
          conformsI [OF performs.goto [OF performs_request [OF performs.timer_off [OF v]]]]
          conformsI [OF performs.goto [OF performs_request [OF performs.tld [OF v]]]])
qed

lemma conforms_rtermreq:
  assumes "rfc_step RTR (st f w) = Some (acts, s)"
  shows "conforms cb f acts s w (fsm_rtermreq cb f idn inp w)"
  using assms conforms_sta [of cb f w idn "[]"]
  by (cases "st f w")
     (auto simp: fsm_rtermreq_def upd_two Let_def intro: conformsI [OF performs.sta [OF performs.goto [OF performs.start]]]
        conformsI [OF performs.sta [OF performs.timer_on [OF performs.tld [OF performs.goto [OF performs.zrc [OF performs.start]]]]]])

lemma conforms_rtermack:
  assumes "rfc_step RTA (st f w) = Some (acts, s)"
  shows "conforms cb f (fsm_actions RTA (st f w) acts) s w (fsm_rtermack cb f w)"
  using assms conforms_stay [of cb f w]
  by (cases "st f w")
     (auto simp: fsm_rtermack_def fsm_actions_def intro: conformsI [OF performs.goto [OF performs.start]]
        conformsI [OF performs.tlf [OF performs.goto [OF performs.timer_off [OF performs.start]]]]
        conformsI [OF performs.goto [OF performs_request [OF performs.tld [OF performs.start]]]])

lemma conforms_ruc:
  assumes "code \<notin> {CONFREQ, CONFACK, CONFNAK, CONFREJ, TERMREQ, TERMACK, CODEREJ}"
    "case cb_extcode cb of None \<Rightarrow> True | Some x \<Rightarrow> x w code idn inp = (False, w)"
    "rfc_step RUC (st f w) = Some (acts, s)"
  shows "conforms cb f acts s w (input_dispatch cb f whole code idn inp w)"
proof -
  let ?v = "upd_fsm f (\<lambda>x. x\<lparr>fid := fid x + 1\<rparr>) w"
  have v: "performs cb f w [] (st f w) ?v" by (rule performs.book [OF performs.start]) simp_all
  have "input_dispatch cb f whole code idn inp w = fsm_sdata f CODEREJ (fid (fsms ?v f)) whole ?v"
    using assms(1,2) by (simp add: input_dispatch_def split: option.splits)
  moreover have "acts = [scj]" "s = st f w" using assms(3) by (cases "st f w"; simp)+
  ultimately show ?thesis using performs.scj [OF v, of "fid (fsms ?v f)" whole] by (auto intro: conformsI)
qed

lemma conforms_rcoderej:
  assumes "4 \<le> length inp" "rfc_step RXJ_plus (st f w) = Some (acts, s)"
  shows "conforms cb f acts s w (fsm_rcoderej f inp w)"
  using assms conforms_stay [of cb f w]
  by (cases "st f w") (auto simp: fsm_rcoderej_def intro: conformsI [OF performs.goto [OF performs.start]])

text \<open>A callback of the layer that comes back to the automaton may move it on; one that does not leaves the state of the table.\<close>

definition layer_steady :: "'z fsm_world_scheme fsm_callbacks \<Rightarrow> fsm_ref \<Rightarrow> bool" where
  "layer_steady cb f \<longleftrightarrow> (\<forall>v v'. nak_call cb v v' \<longrightarrow> st f v' = st f v) \<and>
     (\<forall>g \<in> {cb_up cb, cb_down cb, cb_starting cb, cb_finished cb}. \<forall>v. st f (callback g v) = st f v)"

lemma performs_state:
  assumes "performs cb f w a s v" "steady cb f" "layer_steady cb f"
  shows "st f v = s"
  using assms by (induction) (simp_all add: layer_steady_def steady_call)

lemma conforms_state: "conforms cb f acts s w w' \<Longrightarrow> steady cb f \<Longrightarrow> layer_steady cb f \<Longrightarrow> st f w' = s"
  by (auto simp: conforms_def intro: performs_state)

text \<open>Entries of the table that \<open>fsm_actions\<close> keeps.\<close>

lemma fsm_actions_kept: "e \<notin> {Close, RCR_plus, RCR_minus, RCA, RCN, RTA} \<Longrightarrow> fsm_actions e s acts = acts"
  by (auto simp: fsm_actions_def)


end
