(* ===== verification/Ecp.thy ===== *)
theory Ecp
  imports Rfc1661
begin

text \<open>
  The encryption control protocol, \<^verbatim>\<open>pppd/ecp.c\<close>: an automaton all of whose callbacks are null, and whose entry in the
  table of protocols has no functions but \<open>init\<close>.  It is the smallest client of the automaton, and the
  properties of the automaton are evaluated on it.
\<close>

section \<open>Model\<close>

record ecp_options =
  ecp_opt_required :: bool
  ecp_enctype :: u32

record ecp_world = fsm_world +
  ecp_wantoptions :: ecp_options
  ecp_gotoptions :: ecp_options
  ecp_allowoptions :: ecp_options
  ecp_hisoptions :: ecp_options

definition ecp_callbacks :: "'w fsm_callbacks" where
  "ecp_callbacks = \<lparr>cb_resetci = None, cb_cilen = None, cb_addci = None, cb_ackci = None, cb_nakci = None,
     cb_rejci = None, cb_reqci = None, cb_up = None, cb_down = None, cb_starting = None, cb_finished = None,
     cb_retransmit = None, cb_extcode = None\<rparr>"

definition ecp_init :: "'z ecp_world_scheme \<Rightarrow> 'z ecp_world_scheme" where
  "ecp_init w =
     (let w = fsm_init ecp_fsm (upd_fsm ecp_fsm (\<lambda>x. x\<lparr>protocol := 0x8053\<rparr>) w);
          z = \<lparr>ecp_opt_required = False, ecp_enctype = 0\<rparr>
      in w\<lparr>ecp_wantoptions := z, ecp_gotoptions := z, ecp_allowoptions := z, ecp_hisoptions := z\<rparr>)"

lemma ecp_no_retransmit [simp]: "cb_retransmit ecp_callbacks = None"
  by (simp add: ecp_callbacks_def)

lemma ecp_data [simp]: "confreq_data ecp_callbacks w = ([], w)"
  by (simp add: confreq_data_def ecp_callbacks_def)

interpretation ecp: fsm_client ecp_callbacks ecp_fsm
  by unfold_locales (simp_all add: ecp_callbacks_def same_fsm_def ecp_data [unfolded ecp_callbacks_def])

section \<open>Evaluations\<close>

definition some_fsm :: "fsm_state \<Rightarrow> fsm" where
  "some_fsm s = \<lparr>protocol = 0x8053, state = s, flags = 0, fid = 7, reqid = 7, seen_ack = False, timeouttime = 3,
     maxconfreqtransmits = 10, retransmits = 2, maxtermtransmits = 2, nakloops = 0, rnakloops = 0,
     maxnakloops = 5, term_reason = []\<rparr>"

definition some_world :: "fsm_state \<Rightarrow> fsm_world" where
  "some_world s = \<lparr>clock = sconst \<lparr>tv_sec = 0, tv_usec = 0\<rparr>, timenow = \<lparr>tv_sec = 0, tv_usec = 0\<rparr>, callout = [],
     fsms = (\<lambda>_. some_fsm s), peer_mru = 1500, sent = []\<rparr>"

lemma some_sel [simp]:
  "st f (some_world s) = s" "retransmits (fsms (some_world s) f) = 2" "reqid (fsms (some_world s) f) = 7"
  "sent (some_world s) = []" "peer_mru (some_world s) = 1500" "\<not> seen_ack (fsms (some_world s) f)"
  "flags (fsms (some_world s) f) = 0" "protocol (fsms (some_world s) f) = 0x8053" "callout (some_world s) = []"
  by (simp_all add: some_world_def some_fsm_def)

theorem fsm_gives_up_witness:
  "\<exists>frs. length frs = 2 \<and> (\<forall>fr\<in>set frs. take 2 (drop 4 fr) = [1, 7]) \<and>
     sent ((expire ecp_callbacks ecp_fsm ^^ 2) (some_world REQSENT)) = frs"
  using fsm_gives_up [where cb = ecp_callbacks and f = ecp_fsm and w = "some_world REQSENT" and n = 2]
  by (auto simp: plain_data_def)

theorem fsm_sdata_input_roundtrip_witness:
  "\<exists>pkt. sent (fsm_sdata ecp_fsm 5 9 [1, 2] (some_world OPENED)) = [MAKEHEADER 0x8053 @ pkt] \<and>
     fsm_input ecp_callbacks ecp_fsm (pkt @ [0, 0]) (some_world OPENED) =
       input_dispatch ecp_callbacks ecp_fsm pkt 5 9 [1, 2] (some_world OPENED)"
  using fsm_sdata_input_roundtrip [where w = "some_world OPENED" and code = 5 and g = ecp_fsm and v = "some_world OPENED"
      and f = ecp_fsm and idn = 9 and data = "[1, 2]" and cb = ecp_callbacks]
  by auto

theorem fsm_ack_once_witness:
  "st ecp_fsm (fsm_rconfack ecp_callbacks ecp_fsm 7 [] (some_world REQSENT)) = ACKRCVD \<and>
   fsm_rconfnakrej ecp_callbacks ecp_fsm CONFNAK 7 [] (fsm_rconfack ecp_callbacks ecp_fsm 7 [] (some_world ACKSENT)) =
     fsm_rconfack ecp_callbacks ecp_fsm 7 [] (some_world ACKSENT)"
  using fsm_ack_once [where f = ecp_fsm and w = "some_world REQSENT" and idn = 7 and cb = ecp_callbacks and p = "[]"]
    fsm_ack_once [where f = ecp_fsm and w = "some_world ACKSENT" and idn = 7 and cb = ecp_callbacks and p = "[]"
      and i = 7 and q = "[]" and code = CONFNAK] by (simp add: ecp_callbacks_def)

end
