(* ===== verification/Ip_Auth.thy ===== *)
theory Ip_Auth
  imports Ipcp_Options
begin

text \<open>
  Which addresses a peer may use: the part of \<^verbatim>\<open>pppd/auth.c\<close> that turns the address words of a secrets file into a table
  (\<open>set_allowed_addrs\<close>) and looks an address up in it (\<open>ip_addr_check\<close>, \<open>bad_ip_adrs\<close>, \<open>auth_ip_addr\<close>).

  The resolver functions of the system are the record \<open>resolver\<close>, an argument.  Addresses and masks are numbers, as in
  \<open>Ipcp_Options\<close>.  The array of \<open>struct permitted_ip\<close>, which ends with an entry that matches every address, is a list;
  reading past its end is \<open>None\<close>.
\<close>

section \<open>Data\<close>

record permitted_ip =
  permit :: bool
  base :: u32
  mask :: u32

record resolver =
  host_by_name :: "string \<Rightarrow> u32 option"
  net_by_name :: "string \<Rightarrow> u32 option"
  inet_addr :: "string \<Rightarrow> u32"

section \<open>Reading a number\<close>

text \<open>
  \<open>strtol(s, &endp, 10)\<close> for a 64-bit \<open>long\<close>: white space, a sign, digits; the value is clamped and \<open>endp\<close> stays at the start
  when there is no digit.
\<close>

definition isspace :: "char \<Rightarrow> bool" where
  "isspace c \<longleftrightarrow> c = CHR '' '' \<or> c \<in> set (map char_of [9 :: nat, 10, 11, 12, 13])"

definition isdigit :: "char \<Rightarrow> bool" where
  "isdigit c \<longleftrightarrow> 48 \<le> (of_char c :: nat) \<and> of_char c \<le> (57 :: nat)"

definition digits_value :: "string \<Rightarrow> int" where
  "digits_value ds = foldl (\<lambda>v c. 10 * v + (of_char c - 48)) 0 ds"

definition strtol10 :: "string \<Rightarrow> int \<times> string" where
  "strtol10 s =
     (let t = dropWhile isspace s;
          (neg, t) = (case t of c # r \<Rightarrow> if c = CHR ''-'' then (True, r) else if c = CHR ''+'' then (False, r) else (False, t)
                      | [] \<Rightarrow> (False, []));
          ds = takeWhile isdigit t;
          v = (if neg then - digits_value ds else digits_value ds)
      in if ds = [] then (0, s) else (max (- (2 ^ 63)) (min (2 ^ 63 - 1) v), drop (length ds) t))"

definition int_of_long :: "int \<Rightarrow> int" where
  "int_of_long n = sint (word_of_int n :: 32 word)"

section \<open>The table\<close>

definition IN_CLASS_NET :: "u32 \<Rightarrow> u32 \<Rightarrow> u32" where
  "IN_CLASS_NET ah m =
     (if ah AND 0x80000000 = 0 then 0xFF000000
      else if ah AND 0xC0000000 = 0x80000000 then 0xFFFF0000
      else if ah AND 0xE0000000 = 0xC0000000 then 0xFFFFFF00
      else m)"

text \<open>The part of a word behind the slash: the mask and the offset, or \<open>None\<close> when it is not valid.\<close>

definition mask_part :: "int \<Rightarrow> string \<Rightarrow> (u32 \<times> u32) option" where
  "mask_part ifunit s =
     (let (l, endp) = strtol10 s;
          bit_count = int_of_long l
      in if bit_count \<le> 0 \<or> bit_count > 32 then None
         else
           (let (offset, endp) = (case endp of c # r \<Rightarrow> if c = CHR ''+'' then (word_of_int (ifunit + 1), r) else (0, endp)
                                  | [] \<Rightarrow> (0, []))
            in if endp \<noteq> [] then None else Some (push_bit (nat (32 - bit_count)) (NOT 0), offset)))"

text \<open>The address of a word without its mask, and the mask, which a network name without an explicit mask sets.\<close>

definition word_address :: "resolver \<Rightarrow> string \<Rightarrow> bool \<Rightarrow> u32 \<Rightarrow> u32 \<times> u32" where
  "word_address rs name has_mask m =
     (case host_by_name rs name of
        Some a \<Rightarrow> (a, m)
      | None \<Rightarrow>
          (case net_by_name rs name of
             Some a \<Rightarrow> (a, if has_mask then m else IN_CLASS_NET a m)
           | None \<Rightarrow> (inet_addr rs name, m)))"

text \<open>
  One turn of the loop on a word other than \<open>-\<close> and \<open>*\<close>: the entry, its address and whether it is a single host; \<open>None\<close> for the
  words that are skipped with a warning.
\<close>

definition allowed_entry :: "resolver \<Rightarrow> int \<Rightarrow> string \<Rightarrow> (permitted_ip \<times> u32 \<times> bool) option" where
  "allowed_entry rs ifunit wd =
     (let (pm, ptr_word) = (case wd of c # r \<Rightarrow> if c = CHR ''!'' then (False, r) else (True, wd) | [] \<Rightarrow> (True, []));
          name = takeWhile (\<lambda>c. c \<noteq> CHR ''/'') ptr_word;
          has_mask = (name \<noteq> ptr_word)
      in case (if has_mask then mask_part ifunit (drop (length name + 1) ptr_word) else Some (NOT 0, 0)) of
           None \<Rightarrow> None
         | Some (m, offset) \<Rightarrow>
             (let (a, m) = word_address rs name has_mask m
              in if a = NOT 0 then None
                 else if offset \<noteq> 0 then
                   (if offset \<ge> NOT m then None
                    else (let a = (a AND m) + offset; m = NOT 0
                          in Some (\<lparr>permit = pm, base = a AND m, mask = m\<rparr>, a, NOT m = 0)))
                 else Some (\<lparr>permit = pm, base = a AND m, mask = m\<rparr>, a, NOT m = 0)))"

text \<open>The loop, with \<open>ip\<close> the entries so far and \<open>suggested_ip\<close>.\<close>

fun allowed_loop :: "resolver \<Rightarrow> int \<Rightarrow> string list \<Rightarrow> permitted_ip list \<times> u32 \<Rightarrow> permitted_ip list \<times> u32" where
  "allowed_loop rs ifunit [] s = s"
| "allowed_loop rs ifunit (wd # addrs) (ip, suggested_ip) =
     (if wd = ''-'' then (ip, suggested_ip)
      else if wd = ''*'' then (ip @ [\<lparr>permit = True, base = 0, mask = 0\<rparr>], suggested_ip)
      else
        (case allowed_entry rs ifunit wd of
           None \<Rightarrow> allowed_loop rs ifunit addrs (ip, suggested_ip)
         | Some (e, a, single) \<Rightarrow>
             allowed_loop rs ifunit addrs (ip @ [e], if single \<and> suggested_ip = 0 then a else suggested_ip)))"

abbreviation forbid_all :: permitted_ip where
  "forbid_all \<equiv> \<lparr>permit = False, base = 0, mask = 0\<rparr>"

section \<open>Looking up\<close>

fun ip_addr_check :: "u32 \<Rightarrow> permitted_ip list \<Rightarrow> bool option" where
  "ip_addr_check addr [] = None"
| "ip_addr_check addr (e # addrs) = (if addr AND mask e = base e then Some (permit e) else ip_addr_check addr addrs)"

definition bad_ip_adrs :: "u32 \<Rightarrow> bool" where
  "bad_ip_adrs addr \<longleftrightarrow> drop_bit 24 addr = 127 \<or> addr AND 0xF0000000 = 0xE0000000 \<or> addr AND 0xF0000000 = 0xF0000000"

text \<open>
  \<open>auth_ip_addr\<close> with its globals as arguments: the table, whether authentication is required, and the last line,
  \<open>allow_any_ip || privileged || !have_route_to(addr)\<close>, as a function.
\<close>

definition auth_ip_addr_of :: "permitted_ip list option \<Rightarrow> bool \<Rightarrow> (u32 \<Rightarrow> bool) \<Rightarrow> u32 \<Rightarrow> bool" where
  "auth_ip_addr_of addresses required unrouted addr =
     (if bad_ip_adrs addr then False
      else
        (case addresses of
           Some t \<Rightarrow> (case ip_addr_check addr t of Some ok \<Rightarrow> ok | None \<Rightarrow> False)
         | None \<Rightarrow> if required then False else unrouted addr))"

text \<open>\<open>set_allowed_addrs\<close>: the new table, and our wish for the peer's address.\<close>

definition set_allowed_addrs_of ::
    "resolver \<Rightarrow> int \<Rightarrow> string list \<Rightarrow> string list \<Rightarrow> bool \<Rightarrow> (u32 \<Rightarrow> bool) \<Rightarrow> ipcp_options \<Rightarrow>
     permitted_ip list option \<times> ipcp_options" where
  "set_allowed_addrs_of rs ifunit addrs noauth required unrouted wo =
     (if addrs @ noauth = [] then (None, wo)
      else
        (let (ip, suggested_ip) = allowed_loop rs ifunit (addrs @ noauth) ([], 0);
             n = length ip;
             addresses = Some (ip @ [forbid_all])
         in (addresses,
             if suggested_ip \<noteq> 0 \<and> (hisaddr wo = 0 \<or> \<not> auth_ip_addr_of addresses required unrouted (hisaddr wo))
             then (let wo = wo\<lparr>hisaddr := suggested_ip\<rparr> in if n > 1 then wo\<lparr>accept_remote := True\<rparr> else wo)
             else wo)))"

section \<open>Properties\<close>

text \<open>What the words of a list mean: the decision is that of the first entry that matches.\<close>

definition first_match :: "permitted_ip list \<Rightarrow> u32 \<Rightarrow> permitted_ip option" where
  "first_match es addr = find (\<lambda>e. addr AND mask e = base e) es"

lemma check_first_match:
  "ip_addr_check addr (es @ [forbid_all]) = Some (case first_match es addr of Some e \<Rightarrow> permit e | None \<Rightarrow> False)"
  by (induction es) (simp_all add: first_match_def)

text \<open>
  Property C23.  The address check is a proper access list.  With the table that \<open>set_allowed_addrs\<close> builds from any
  words, the search never runs past the table, a loopback, multicast or class E address is refused whatever the words say,
  and any other address is allowed exactly if the first entry that matches it permits; no entry means no.
\<close>

theorem auth_ip_addr_first_match:
  assumes "addrs @ noauth \<noteq> []"
  shows "\<exists>es. fst (set_allowed_addrs_of rs ifunit addrs noauth required unrouted wo) = Some (es @ [forbid_all]) \<and>
    es = fst (allowed_loop rs ifunit (addrs @ noauth) ([], 0)) \<and>
    (\<forall>addr. ip_addr_check addr (es @ [forbid_all]) \<noteq> None \<and>
       (auth_ip_addr_of (Some (es @ [forbid_all])) required unrouted addr \<longleftrightarrow>
          \<not> bad_ip_adrs addr \<and> (\<exists>e. first_match es addr = Some e \<and> permit e)))"
  using assms
  by (auto simp: set_allowed_addrs_of_def auth_ip_addr_of_def check_first_match Let_def split: prod.splits option.splits)

text \<open>A resolver that knows no names and one address, for evaluations.\<close>

definition one_address :: "string \<Rightarrow> u32 \<Rightarrow> resolver" where
  "one_address s a = \<lparr>host_by_name = (\<lambda>_. None), net_by_name = (\<lambda>_. None), inet_addr = (\<lambda>t. if t = s then a else NOT 0)\<rparr>"

theorem auth_ip_addr_first_match_witness:
  "\<exists>es. fst (set_allowed_addrs_of (one_address ''a'' 0x0A000001) 0 [''!a'', ''*''] [] True (\<lambda>_. True) ipcp_zero) =
      Some (es @ [forbid_all]) \<and>
    \<not> auth_ip_addr_of (Some (es @ [forbid_all])) True (\<lambda>_. True) 0x0A000001"
proof -
  have es: "fst (allowed_loop (one_address ''a'' 0x0A000001) 0 ([''!a'', ''*''] @ []) ([], 0)) =
      [\<lparr>permit = False, base = 0x0A000001, mask = NOT 0\<rparr>, \<lparr>permit = True, base = 0, mask = 0\<rparr>]"
    by (simp add: allowed_entry_def word_address_def one_address_def)
  have "[''!a'', ''*''] @ [] \<noteq> []" by simp
  from auth_ip_addr_first_match [OF this, of "one_address ''a'' 0x0A000001" 0 True "\<lambda>_. True" ipcp_zero]
  show ?thesis unfolding es by (auto simp: first_match_def)
qed

text \<open>
  Property C38.  A forbidden host is suggested to the peer.  An entry with an exclamation mark for a single host sets \<open>suggested_ip\<close>
  like one that permits: a peer that has no address is then offered exactly the address the list forbids, and refused when it
  takes it.
\<close>

theorem forbidden_host_suggested:
  assumes "inet_addr rs h = a" "host_by_name rs h = None" "net_by_name rs h = None" "CHR ''/'' \<notin> set h" "a \<noteq> 0" "a \<noteq> NOT 0"
    "hisaddr wo = 0"
  shows "let (addresses, wo') = set_allowed_addrs_of rs ifunit [CHR ''!'' # h, ''*''] [] required unrouted wo
         in hisaddr wo' = a \<and> \<not> auth_ip_addr_of addresses required unrouted a"
proof -
  have tw: "takeWhile (\<lambda>c. c \<noteq> CHR ''/'') h = h" using assms(4) by (intro takeWhile_eq_all_conv [THEN iffD2]) auto
  have e: "allowed_entry rs ifunit (CHR ''!'' # h) = Some (\<lparr>permit = False, base = a, mask = NOT 0\<rparr>, a, True)"
    unfolding allowed_entry_def using assms by (simp add: word_address_def tw [simplified] tw Let_def del: takeWhile_eq_all_conv)
  show ?thesis
    using assms(5,7)
    by (simp add: set_allowed_addrs_of_def e auth_ip_addr_of_def Let_def)
qed

theorem forbidden_host_suggested_witness:
  "hisaddr (snd (set_allowed_addrs_of (one_address ''h'' 0x0A000001) 0 [''!h'', ''*''] [] True (\<lambda>_. True) ipcp_zero)) = 0x0A000001"
  using forbidden_host_suggested
    [where rs = "one_address ''h'' 0x0A000001" and h = "''h''" and a = "0x0A000001" and wo = ipcp_zero and ifunit = 0
      and required = True and unrouted = "\<lambda>_. True"]
  by (simp add: one_address_def ipcp_zero_def split: prod.splits)

end
