(* ===== verification/Ip_Text.thy ===== *)
theory Ip_Text
  imports Ip_Auth Utils
begin

text \<open>
  Addresses as text: \<open>ip_ntoa\<close> (the conversion \<open>%I\<close> of \<open>vslprintf\<close>), \<open>parse_dotted_ip\<close> and the options of
  \<^verbatim>\<open>pppd/ipcp.c\<close> that take an address or a number (\<open>setvjslots\<close>, \<open>setdnsaddr\<close>, \<open>setwinsaddr\<close>, \<open>setipaddr\<close>,
  \<open>setnetmask\<close>), with \<open>number_option\<close> and \<open>int_option\<close> of \<^verbatim>\<open>options.c\<close>.
\<close>

section \<open>Numbers\<close>

text \<open>The value of a character as a digit of a base up to 16.\<close>

definition digit_value :: "char \<Rightarrow> nat" where
  "digit_value c =
     (let n = of_char c
      in if 48 \<le> n \<and> n \<le> 57 then n - 48
         else if 97 \<le> n \<and> n \<le> 102 then n - 87
         else if 65 \<le> n \<and> n \<le> 70 then n - 55
         else 99)"

definition digits_of :: "nat \<Rightarrow> string \<Rightarrow> string" where
  "digits_of bas s = takeWhile (\<lambda>c. digit_value c < bas) s"

definition value_of :: "nat \<Rightarrow> string \<Rightarrow> int" where
  "value_of bas ds = foldl (\<lambda>v c. int bas * v + int (digit_value c)) 0 ds"

text \<open>
  \<open>strtoul(s, &endp, 0)\<close> for a 64-bit \<open>unsigned long\<close>: white space, a sign, a prefix that gives the base, digits.  Without
  digits \<open>endp\<close> stays at the start; behind a bare \<open>0x\<close> the number is 0 and ends before the \<open>x\<close>.  The value is clamped,
  and a negative one taken modulo \<open>2 ^ 64\<close>.
\<close>

definition strtoul0_digits :: "string \<Rightarrow> (int \<times> string) option" where
  "strtoul0_digits t =
     (case t of
        c # d # r \<Rightarrow>
          (if c = CHR ''0'' \<and> (d = CHR ''x'' \<or> d = CHR ''X'') \<and> digits_of 16 r \<noteq> []
           then Some (value_of 16 (digits_of 16 r), drop (length (digits_of 16 r)) r)
           else (let bas = (if c = CHR ''0'' then 8 else 10); ds = digits_of bas t
                 in if ds = [] then None else Some (value_of bas ds, drop (length ds) t)))
      | _ \<Rightarrow> (let ds = digits_of 10 t in if ds = [] then None else Some (value_of 10 ds, drop (length ds) t)))"

definition strtoul0 :: "string \<Rightarrow> int \<times> string" where
  "strtoul0 s =
     (let t = dropWhile isspace s;
          (neg, t) = (case t of c # r \<Rightarrow> if c = CHR ''-'' then (True, r) else if c = CHR ''+'' then (False, r) else (False, t)
                      | [] \<Rightarrow> (False, []))
      in case strtoul0_digits t of
           None \<Rightarrow> (0, s)
         | Some (v, endp) \<Rightarrow>
             (if v > 2 ^ 64 - 1 then 2 ^ 64 - 1 else if neg then (- v) mod 2 ^ 64 else v, endp))"

text \<open>\<open>number_option\<close> with base 0, and \<open>int_option\<close>.\<close>

definition number_option :: "string \<Rightarrow> u32 option" where
  "number_option str = (let (v, ptr) = strtoul0 str in if ptr = str then None else Some (word_of_int v))"

definition int_option :: "string \<Rightarrow> int option" where
  "int_option str = map_option sint (number_option str)"

section \<open>Addresses\<close>

definition ip_ntoa :: "u32 \<Rightarrow> string" where
  "ip_ntoa ipaddr =
     print_nat (unat (drop_bit 24 ipaddr AND 0xFF)) @ ''.'' @ print_nat (unat (drop_bit 16 ipaddr AND 0xFF)) @ ''.'' @
     print_nat (unat (drop_bit 8 ipaddr AND 0xFF)) @ ''.'' @ print_nat (unat (ipaddr AND 0xFF))"

text \<open>
  The loop of \<open>parse_dotted_ip\<close>, with \<open>n\<close> counting down from 3: the address and the rest of the string, \<open>None\<close> where the
  C returns 0.
\<close>

fun dotted_loop :: "nat \<Rightarrow> u32 \<Rightarrow> string \<Rightarrow> (u32 \<times> string) option" where
  "dotted_loop n v p =
     (let (l, endp) = strtoul0 p; b = word_of_int l :: u32
      in if endp = p then None
         else if b > 255 then (if n < 3 then None else Some (b, endp))
         else
           (let v = v OR push_bit (n * 8) b
            in if n = 0 then Some (v, endp)
               else (case endp of c # q \<Rightarrow> if c = CHR ''.'' then dotted_loop (n - 1) v q else None | [] \<Rightarrow> None)))"

declare dotted_loop.simps [simp del]

text \<open>The result: the number of characters read (0 if the text is no address) and the address.\<close>

definition parse_dotted_ip :: "string \<Rightarrow> (nat \<times> u32) option" where
  "parse_dotted_ip p = map_option (\<lambda>(v, r). (length p - length r, v)) (dotted_loop 3 0 p)"

section \<open>Options\<close>

definition setvjslots :: "string \<Rightarrow> ipcp_options \<Rightarrow> ipcp_options \<Rightarrow> (ipcp_options \<times> ipcp_options) option" where
  "setvjslots arg wo ao =
     (case int_option arg of
        None \<Rightarrow> None
      | Some val \<Rightarrow>
          (if val < 2 \<or> val > 16 then None
           else Some (wo\<lparr>maxslotindex := word_of_int (val - 1)\<rparr>, ao\<lparr>maxslotindex := word_of_int (val - 1)\<rparr>)))"

text \<open>\<open>inet_addr\<close> and, failing that, \<open>gethostbyname\<close>.\<close>

definition host_address :: "resolver \<Rightarrow> string \<Rightarrow> u32 option" where
  "host_address rs arg = (if inet_addr rs arg = NOT 0 then host_by_name rs arg else Some (inet_addr rs arg))"

definition setdnsaddr :: "resolver \<Rightarrow> string \<Rightarrow> ipcp_options \<Rightarrow> ipcp_options option" where
  "setdnsaddr rs arg ao =
     map_option (\<lambda>dns. ao\<lparr>dnsaddr0 := (if dnsaddr1 ao = 0 then dns else dnsaddr1 ao), dnsaddr1 := dns\<rparr>)
       (host_address rs arg)"

definition setwinsaddr :: "resolver \<Rightarrow> string \<Rightarrow> ipcp_options \<Rightarrow> ipcp_options option" where
  "setwinsaddr rs arg ao =
     map_option (\<lambda>wins. ao\<lparr>winsaddr0 := (if winsaddr1 ao = 0 then wins else winsaddr1 ao), winsaddr1 := wins\<rparr>)
       (host_address rs arg)"

text \<open>
  \<open>setipaddr\<close>: the state is our wishes, the two static priorities and the name of the peer.  The result tells whether the
  argument was accepted; an error may come after the local address has been stored.
\<close>

record ipaddr_state =
  ia_wo :: ipcp_options
  prio_local :: int
  prio_remote :: int
  ia_remote_name :: string

definition set_local_addr :: "resolver \<Rightarrow> int \<Rightarrow> string \<Rightarrow> ipaddr_state \<Rightarrow> ipaddr_state option" where
  "set_local_addr rs prio arg s =
     (if arg = [] \<or> prio < prio_local s then Some s
      else
        (case host_address rs arg of
           None \<Rightarrow> None
         | Some loc \<Rightarrow>
             (if bad_ip_adrs loc then None
              else Some (s\<lparr>ia_wo := (if loc \<noteq> 0 then (ia_wo s)\<lparr>ouraddr := loc\<rparr> else ia_wo s), prio_local := prio\<rparr>))))"

definition set_remote_addr :: "resolver \<Rightarrow> int \<Rightarrow> nat \<Rightarrow> string \<Rightarrow> ipaddr_state \<Rightarrow> bool \<times> ipaddr_state" where
  "set_remote_addr rs prio maxname arg s =
     (if arg = [] \<or> prio < prio_remote s then (True, s)
      else
        (case host_address rs arg of
           None \<Rightarrow> (False, s)
         | Some remote \<Rightarrow>
             (let s = (if inet_addr rs arg = NOT 0 \<and> ia_remote_name s = []
                       then s\<lparr>ia_remote_name := take (maxname - 1) arg\<rparr> else s)
              in if bad_ip_adrs remote then (False, s)
                 else (True, s\<lparr>ia_wo := (if remote \<noteq> 0 then (ia_wo s)\<lparr>hisaddr := remote\<rparr> else ia_wo s), prio_remote := prio\<rparr>))))"

definition setipaddr :: "resolver \<Rightarrow> int \<Rightarrow> nat \<Rightarrow> string \<Rightarrow> bool \<Rightarrow> ipaddr_state \<Rightarrow> bool \<times> ipaddr_state" where
  "setipaddr rs prio maxname arg doit s =
     (if CHR '':'' \<notin> set arg then (False, s)
      else if \<not> doit then (True, s)
      else
        (let loc = takeWhile (\<lambda>c. c \<noteq> CHR '':'') arg
         in case set_local_addr rs prio loc s of
              None \<Rightarrow> (False, s)
            | Some s \<Rightarrow> set_remote_addr rs prio maxname (drop (length loc + 1) arg) s))"

text \<open>\<open>setnetmask\<close>: the new value of \<open>netmask\<close>.\<close>

definition setnetmask :: "string \<Rightarrow> u32 \<Rightarrow> u32 option" where
  "setnetmask arg netmask =
     (case parse_dotted_ip arg of
        None \<Rightarrow> None
      | Some (n, m) \<Rightarrow> if n = 0 \<or> drop n arg \<noteq> [] \<or> netmask AND NOT m \<noteq> 0 then None else Some m)"

section \<open>Round trip\<close>

lemma code_of_digit [simp]: "d < 10 \<Longrightarrow> of_char (digit_char d) = 48 + d"
  by (simp add: digit_char_def)

lemma digit_char_neq: "d < 10 \<Longrightarrow> of_char c \<noteq> 48 + d \<Longrightarrow> digit_char d \<noteq> c"
  using code_of_digit by metis

lemma digit_char_zero: "d < 10 \<Longrightarrow> digit_char d = CHR ''0'' \<longleftrightarrow> d = 0"
  by (simp add: digit_char_def char_of_eq_iff take_bit_nat_eq_self)

lemma digit_char_facts:
  assumes "d < 10"
  shows "digit_value (digit_char d) = d" "digit_char d \<noteq> CHR ''-''" "digit_char d \<noteq> CHR ''+''"
    "digit_char d \<noteq> CHR '' ''" "digit_char d \<noteq> CHR ''x''" "digit_char d \<noteq> CHR ''X''"
  using assms by (simp_all add: digit_value_def digit_char_neq)

lemma digit_not_space: "d < 10 \<Longrightarrow> \<not> isspace (digit_char d)"
  by (auto simp: isspace_def digit_char_def char_of_eq_iff take_bit_nat_eq_self)

lemma print_nat_digits: "c \<in> set (print_nat n) \<Longrightarrow> \<exists>d < 10. c = digit_char d"
proof (induction n rule: print_nat.induct)
  case (1 n)
  have d: "\<exists>d<10. digit_char (n mod 10) = digit_char d" by (rule exI [of _ "n mod 10"]) simp
  show ?case using 1 d by (subst (asm) (2) print_nat.simps) (auto split: if_splits)
qed

lemma print_nat_nonempty [simp]: "print_nat n \<noteq> []"
  by (subst print_nat.simps) simp

lemma nonempty_print_nat [simp]: "[] \<noteq> print_nat n"
  using print_nat_nonempty [of n] by (simp del: print_nat_nonempty)

lemma value_of_snoc: "value_of bas (ds @ [c]) = int bas * value_of bas ds + int (digit_value c)"
  by (simp add: value_of_def)

lemma value_print_nat: "value_of 10 (print_nat n) = int n"
proof (induction n rule: print_nat.induct)
  case (1 n)
  show ?case
  proof (cases "n < 10")
    case True
    then show ?thesis by (subst print_nat.simps) (simp add: value_of_def digit_char_facts)
  next
    case False
    have "int 10 * int (n div 10) + int (n mod 10) = int n" using mult_div_mod_eq [of 10 n] by linarith
    then show ?thesis using 1 [OF False] False by (subst print_nat.simps) (simp add: value_of_snoc digit_char_facts)
  qed
qed

lemma print_nat_head: "0 < n \<Longrightarrow> hd (print_nat n) \<noteq> CHR ''0''"
  by (induction n rule: print_nat.induct) (subst print_nat.simps, auto simp: digit_char_zero hd_append)

lemma digits_of_print:
  assumes "r = [] \<or> (\<exists>q. r = CHR ''.'' # q)"
  shows "digits_of 10 (print_nat n @ r) = print_nat n"
proof -
  have "digit_value CHR ''.'' = 99" by (simp add: digit_value_def Let_def)
  moreover have "\<forall>c \<in> set (print_nat n). digit_value c < 10" using print_nat_digits digit_char_facts(1) by metis
  ultimately show ?thesis using assms by (auto simp: digits_of_def takeWhile_append takeWhile_eq_all_conv)
qed

lemma strtoul0_print:
  assumes "r = [] \<or> (\<exists>q. r = CHR ''.'' # q)" "n < 256"
  shows "strtoul0 (print_nat n @ r) = (int n, r)"
proof -
  obtain c ds where cd: "print_nat n = c # ds" using print_nat_nonempty [of n] by (cases "print_nat n") auto
  from print_nat_digits [of c n] cd obtain d where d: "d < 10" "c = digit_char d" by auto
  have digs: "strtoul0_digits (print_nat n @ r) = Some (int n, r)"
  proof (cases "n = 0")
    case True
    then have "print_nat n = ''0''" by (simp add: print_nat.simps digit_char_zero)
    with assms True show ?thesis
      by (auto simp: strtoul0_digits_def digits_of_def digit_value_def value_of_def Let_def)
  next
    case False
    then have "c \<noteq> CHR ''0''" using print_nat_head [of n] cd by simp
    with digits_of_print [OF assms(1), of n] value_print_nat [of n] show ?thesis
      by (auto simp: strtoul0_digits_def cd Let_def split: list.split)
  qed
  show ?thesis
    using digs d assms(2) by (simp add: strtoul0_def cd digit_char_facts digit_not_space)
qed

lemma octet_word: "b < 256 \<Longrightarrow> \<not> (word_of_int (int b) :: u32) > 255"
  by (simp add: word_less_nat_alt unsigned_of_nat take_bit_nat_eq_self)

lemma dotted_step:
  assumes "b < 256"
  shows "dotted_loop (Suc n) v (print_nat b @ CHR ''.'' # q) =
    dotted_loop n (v OR push_bit (Suc n * 8) (word_of_int (int b))) q"
  using strtoul0_print [of "CHR ''.'' # q" b] octet_word [OF assms] assms
  by (subst dotted_loop.simps) (simp del: of_int_of_nat_eq mult_Suc)

lemma dotted_last:
  assumes "b < 256"
  shows "dotted_loop 0 v (print_nat b) = Some (v OR word_of_int (int b), [])"
  using strtoul0_print [of "[]" b] octet_word [OF assms] assms
  by (subst dotted_loop.simps) (simp add: Let_def del: of_int_of_nat_eq)

lemma octet_less: "unat (x AND 0xFF :: u32) < 256"
proof -
  have "x AND 0xFF \<le> 0xFF" by (rule word_and_le1)
  then have "unat (x AND 0xFF) \<le> unat (0xFF :: u32)" by (simp add: word_le_nat_alt)
  then show ?thesis by simp
qed

lemma octet_take_bit: "(x AND 0xFF :: u32) = take_bit 8 x"
  by (simp add: take_bit_eq_mask mask_eq_exp_minus_1)

lemma octets_join:
  fixes a :: u32
  shows "push_bit 24 (drop_bit 24 a AND 0xFF) OR push_bit 16 (drop_bit 16 a AND 0xFF) OR
    push_bit 8 (drop_bit 8 a AND 0xFF) OR (a AND 0xFF) = a" (is "?j = a")
proof (rule bit_word_eqI)
  fix n assume "n < LENGTH(32)"
  then consider "n < 8" | "8 \<le> n" "n < 16" | "16 \<le> n" "n < 24" | "24 \<le> n" "n < 32"
    by (simp, linarith)
  then show "bit ?j n = bit a n"
    unfolding octet_take_bit by cases (auto simp: bit_simps)
qed

text \<open>
  Property C24.  Every address survives the way through text: what \<open>ip_ntoa\<close> writes (into the arguments and the environment of
  the scripts) is read back by \<open>parse_dotted_ip\<close> to the last character as the same address, although the parser takes octal and
  hexadecimal numbers too.
\<close>

theorem dotted_roundtrip: "parse_dotted_ip (ip_ntoa a) = Some (length (ip_ntoa a), a)"
proof -
  have "dotted_loop 3 0 (ip_ntoa a) = Some (a, [])"
    by (simp add: ip_ntoa_def numeral_3_eq_3 dotted_step dotted_last octet_less or.assoc octets_join del: of_int_of_nat_eq)
       (use octets_join [of a] in \<open>simp add: or.assoc\<close>)
  then show ?thesis by (simp add: parse_dotted_ip_def)
qed

end
