(* ===== verification/Ipcp.thy ===== *)
theory Ipcp
  imports System Ip_Text
begin

text \<open>
  The IP control protocol, \<^verbatim>\<open>pppd/ipcp.c\<close>, above its options: the callbacks of the automaton, bringing the interface up and
  down, the scripts, and the entry points of \<open>ipcp_protent\<close>.

  The calls that act on the interface are recorded in \<open>ip_acts\<close>; what those with a result return is read from the stream
  \<open>os_answers\<close>, and a call that failed is recorded as \<open>Failed\<close>.  \<open>ip_ext\<close> holds what is outside: \<open>np_finished\<close> of \<^verbatim>\<open>auth.c\<close>, which closes the link and thereby comes back to
  this protocol, and the routing table, the netmask and the resolver of the system.  Statistics and log messages are not
  modelled; hooks and notifiers are null without plugins.

  As for LCP, \<open>ipcp_close\<close> is called inside a callback (\<open>ipcp_up\<close>); the callbacks that it uses come first.
\<close>

section \<open>State\<close>

datatype script_state = s_down | s_up

datatype npmode = NPMODE_PASS | NPMODE_DROP | NPMODE_ERROR | NPMODE_QUEUE

datatype ip_act =
    Sifaddr u32 u32 u32 | Cifaddr u32 u32 | Sifup | Sifdown | Sifnpmode npmode
  | Sifdefaultroute u32 u32 | Cifdefaultroute u32 u32 | Sifproxyarp u32 | Cifproxyarp u32
  | Sifvjcomp bool byte byte | Demand_rexmit | Fopen_resolv | Failed ip_act

record ipcp_world = auth_world +
  ipcp_wantoptions :: ipcp_options
  ipcp_gotoptions :: ipcp_options
  ipcp_allowoptions :: ipcp_options
  ipcp_hisoptions :: ipcp_options
  disable_defaultip :: bool
  noremoteip :: bool
  default_route_set :: bool
  proxy_arp_set :: bool
  usepeerdns :: bool
  ipcp_is_up :: bool
  ipcp_is_open :: bool
  ask_for_local :: bool
  ipcp_script_state :: script_state
  ipcp_script_pid :: int
  addresses :: "permitted_ip list option"
  allow_any_ip :: bool
  privileged :: bool
  ifunit :: int
  ipparam :: "string option"
  hostname :: string
  resolv_conf :: string
  os_answers :: "bool stream"
  ip_acts :: "ip_act list"

record 'w ip_ext =
  x_np_finished :: "'w \<Rightarrow> 'w"
  x_have_route_to :: "u32 \<Rightarrow> 'w \<Rightarrow> bool"
  x_GetMask :: "u32 \<Rightarrow> 'w \<Rightarrow> u32"
  x_resolver :: resolver

abbreviation PPP_IPCP :: int where "PPP_IPCP \<equiv> 0x8021"
abbreviation PATH_IPUP :: string where "PATH_IPUP \<equiv> ''/etc/ppp/ip-up''"
abbreviation PATH_IPDOWN :: string where "PATH_IPDOWN \<equiv> ''/etc/ppp/ip-down''"
abbreviation PATH_IPPREUP :: string where "PATH_IPPREUP \<equiv> ''/etc/ppp/ip-pre-up''"

text \<open>A call of the operating system whose result is used, and one whose result is not.\<close>

definition os_call :: "ip_act \<Rightarrow> 'z ipcp_world_scheme \<Rightarrow> bool \<times> 'z ipcp_world_scheme" where
  "os_call a w =
     (shd (os_answers w),
      w\<lparr>os_answers := stl (os_answers w), ip_acts := ip_acts w @ [if shd (os_answers w) then a else Failed a]\<rparr>)"

definition os_do :: "ip_act \<Rightarrow> 'z ipcp_world_scheme \<Rightarrow> 'z ipcp_world_scheme" where
  "os_do a w = w\<lparr>ip_acts := ip_acts w @ [a]\<rparr>"

definition auth_ip_addr :: "'z ipcp_world_scheme ip_ext \<Rightarrow> u32 \<Rightarrow> 'z ipcp_world_scheme \<Rightarrow> bool" where
  "auth_ip_addr ext addr w =
     auth_ip_addr_of (addresses w) (auth_required w) (\<lambda>a. allow_any_ip w \<or> privileged w \<or> \<not> x_have_route_to ext a w) addr"

section \<open>Scripts\<close>

definition ipcp_script :: "string \<Rightarrow> bool \<Rightarrow> 'z ipcp_world_scheme \<Rightarrow> 'z ipcp_world_scheme" where
  "ipcp_script script wait w =
     (let argv = [script, ifname w, devnam w, print_int (baud_rate w), ip_ntoa (ouraddr (ipcp_gotoptions w)),
                  ip_ntoa (hisaddr (ipcp_hisoptions w))] @ (case ipparam w of None \<Rightarrow> [] | Some p \<Rightarrow> [p])
      in if wait then snd (run_program argv None True w)
         else (let (pid, w) = run_program argv (Some Fn_ipcp_script_done) False w in w\<lparr>ipcp_script_pid := pid\<rparr>))"

definition ipcp_script_done :: "'z ipcp_world_scheme \<Rightarrow> 'z ipcp_world_scheme" where
  "ipcp_script_done w =
     (let w = w\<lparr>ipcp_script_pid := 0\<rparr>
      in case ipcp_script_state w of
           s_up \<Rightarrow> if st ipcp_fsm w \<noteq> OPENED then ipcp_script PATH_IPDOWN False (w\<lparr>ipcp_script_state := s_down\<rparr>) else w
         | s_down \<Rightarrow> if st ipcp_fsm w = OPENED then ipcp_script PATH_IPUP False (w\<lparr>ipcp_script_state := s_up\<rparr>) else w)"

definition create_resolv :: "u32 \<Rightarrow> u32 \<Rightarrow> 'z ipcp_world_scheme \<Rightarrow> 'z ipcp_world_scheme" where
  "create_resolv peerdns1 peerdns2 w =
     (let (opened, w) = os_call Fopen_resolv w;
          line = (\<lambda>a. if a \<noteq> 0 then ''nameserver '' @ ip_ntoa a @ [char_of (10 :: nat)] else [])
      in if opened then w\<lparr>resolv_conf := line peerdns1 @ line peerdns2\<rparr> else w)"

section \<open>Going down\<close>

definition ipcp_clear_addrs :: "u32 \<Rightarrow> u32 \<Rightarrow> 'z ipcp_world_scheme \<Rightarrow> 'z ipcp_world_scheme" where
  "ipcp_clear_addrs our peer w =
     (let w = (if proxy_arp_set w then (os_do (Cifproxyarp peer) w)\<lparr>proxy_arp_set := False\<rparr> else w);
          w = (if default_route_set w then (os_do (Cifdefaultroute our peer) w)\<lparr>default_route_set := False\<rparr> else w)
      in os_do (Cifaddr our peer) w)"

definition ipcp_down :: "'z ipcp_world_scheme \<Rightarrow> 'z ipcp_world_scheme" where
  "ipcp_down w =
     (let w = (if ipcp_is_up w then np_down (w\<lparr>ipcp_is_up := False\<rparr>) else w);
          w = os_do (Sifvjcomp False 0 0) w;
          w = (if demand w then os_do (Sifnpmode NPMODE_QUEUE) w
               else ipcp_clear_addrs (ouraddr (ipcp_gotoptions w)) (hisaddr (ipcp_hisoptions w))
                      (os_do Sifdown (os_do (Sifnpmode NPMODE_DROP) w)))
      in if ipcp_script_state w = s_up \<and> ipcp_script_pid w = 0
         then ipcp_script PATH_IPDOWN False (w\<lparr>ipcp_script_state := s_down\<rparr>)
         else w)"

definition ipcp_finished :: "'z ipcp_world_scheme ip_ext \<Rightarrow> 'z ipcp_world_scheme \<Rightarrow> 'z ipcp_world_scheme" where
  "ipcp_finished ext w = (if ipcp_is_open w then x_np_finished ext (w\<lparr>ipcp_is_open := False\<rparr>) else w)"

definition ipcp_down_callbacks :: "'z ipcp_world_scheme ip_ext \<Rightarrow> 'z ipcp_world_scheme fsm_callbacks" where
  "ipcp_down_callbacks ext =
     \<lparr>cb_resetci = None, cb_cilen = None, cb_addci = None, cb_ackci = None, cb_nakci = None,
      cb_rejci = None, cb_reqci = None, cb_up = None, cb_down = Some ipcp_down, cb_starting = None,
      cb_finished = Some (ipcp_finished ext), cb_retransmit = None, cb_extcode = None\<rparr>"

definition ipcp_close :: "'z ipcp_world_scheme ip_ext \<Rightarrow> packet \<Rightarrow> 'z ipcp_world_scheme \<Rightarrow> 'z ipcp_world_scheme" where
  "ipcp_close ext reason w = fsm_close (ipcp_down_callbacks ext) ipcp_fsm reason w"

definition ipcp_lowerdown :: "'z ipcp_world_scheme ip_ext \<Rightarrow> 'z ipcp_world_scheme \<Rightarrow> 'z ipcp_world_scheme" where
  "ipcp_lowerdown ext w = fsm_lowerdown (ipcp_down_callbacks ext) ipcp_fsm w"

definition ipcp_protrej :: "'z ipcp_world_scheme ip_ext \<Rightarrow> 'z ipcp_world_scheme \<Rightarrow> 'z ipcp_world_scheme" where
  "ipcp_protrej ext w = fsm_lowerdown (ipcp_down_callbacks ext) ipcp_fsm w"

section \<open>Options\<close>

definition ipcp_resetci :: "'z ipcp_world_scheme \<Rightarrow> 'z ipcp_world_scheme" where
  "ipcp_resetci w =
     (let wo = ipcp_wantoptions w; ao = ipcp_allowoptions w;
          wo = wo\<lparr>req_addr := (neg_addr wo \<or> old_addrs wo) \<and> (neg_addr ao \<or> old_addrs ao)\<rparr>;
          wo = (if ouraddr wo = 0 then wo\<lparr>accept_local := True\<rparr> else wo);
          wo = (if hisaddr wo = 0 then wo\<lparr>accept_remote := True\<rparr> else wo);
          wo = wo\<lparr>req_dns1 := usepeerdns w, req_dns2 := usepeerdns w\<rparr>;
          go = (if \<not> ask_for_local w then wo\<lparr>ouraddr := 0\<rparr> else wo)
      in w\<lparr>ipcp_wantoptions := wo, ipcp_gotoptions := go, ipcp_hisoptions := ipcp_zero\<rparr>)"

definition ipcp_cilen :: "'z ipcp_world_scheme \<Rightarrow> int \<times> 'z ipcp_world_scheme" where
  "ipcp_cilen w =
     (let go = ipcp_old_forms (ipcp_wantoptions w) (ipcp_hisoptions w) (ipcp_gotoptions w)
      in (ipcp_cilen_of go, w\<lparr>ipcp_gotoptions := go\<rparr>))"

definition ipcp_addci :: "'z ipcp_world_scheme \<Rightarrow> int \<Rightarrow> packet \<times> int \<times> 'z ipcp_world_scheme" where
  "ipcp_addci w len =
     (let (ucp, len, go) = ipcp_addci_of (ipcp_gotoptions w) len in (ucp, len, w\<lparr>ipcp_gotoptions := go\<rparr>))"

definition ipcp_ackci :: "'z ipcp_world_scheme \<Rightarrow> packet \<Rightarrow> int" where
  "ipcp_ackci w p = (if ipcp_ackci_of (ipcp_gotoptions w) p then 1 else 0)"

text \<open>The options that a Nak or a Reject leaves are stored only if the automaton is not OPENED.\<close>

definition store_try :: "ipcp_options option \<Rightarrow> 'z ipcp_world_scheme \<Rightarrow> int \<times> 'z ipcp_world_scheme" where
  "store_try t w =
     (case t of
        None \<Rightarrow> (0, w)
      | Some go \<Rightarrow> (1, if st ipcp_fsm w \<noteq> OPENED then w\<lparr>ipcp_gotoptions := go\<rparr> else w))"

definition ipcp_nakci :: "'z ipcp_world_scheme \<Rightarrow> packet \<Rightarrow> bool \<Rightarrow> int \<times> 'z ipcp_world_scheme" where
  "ipcp_nakci w p treat_as_reject = store_try (ipcp_nakci_of (ipcp_gotoptions w) treat_as_reject p) w"

definition ipcp_rejci :: "'z ipcp_world_scheme \<Rightarrow> packet \<Rightarrow> int \<times> 'z ipcp_world_scheme" where
  "ipcp_rejci w p = store_try (ipcp_rejci_of (ipcp_gotoptions w) p) w"

definition ipcp_reqci :: "'z ipcp_world_scheme \<Rightarrow> packet \<Rightarrow> bool \<Rightarrow> int \<times> packet \<times> 'z ipcp_world_scheme" where
  "ipcp_reqci w inp reject_if_disagree =
     (let r = ipcp_reqci_of reject_if_disagree (noremoteip w) (ipcp_allowoptions w) (ipcp_wantoptions w) inp
      in (ip_rc r, ip_out r, w\<lparr>ipcp_hisoptions := ip_ho r, ipcp_wantoptions := ip_wo r\<rparr>))"

section \<open>Coming up\<close>

text \<open>\<open>ipcp_up\<close> in the order of the code: the environment of the scripts and \<open>resolv.conf\<close>,\<close>

definition setenv_addr :: "string \<Rightarrow> u32 \<Rightarrow> bool \<Rightarrow> 'z ipcp_world_scheme \<Rightarrow> 'z ipcp_world_scheme" where
  "setenv_addr var a iskey w = (if a \<noteq> 0 then script_setenv var (ip_ntoa a) iskey w else w)"

definition clear_dns :: "ipcp_options \<Rightarrow> ipcp_options" where
  "clear_dns go =
     (let go = (if \<not> req_dns1 go then go\<lparr>dnsaddr0 := 0\<rparr> else go)
      in if \<not> req_dns2 go then go\<lparr>dnsaddr1 := 0\<rparr> else go)"

definition up_environment :: "'z ipcp_world_scheme \<Rightarrow> 'z ipcp_world_scheme" where
  "up_environment w =
     (let w = script_setenv ''IPLOCAL'' (ip_ntoa (ouraddr (ipcp_gotoptions w))) False w;
          w = setenv_addr ''IPREMOTE'' (hisaddr (ipcp_hisoptions w)) True w;
          go = clear_dns (ipcp_gotoptions w);
          w = w\<lparr>ipcp_gotoptions := go\<rparr>;
          w = setenv_addr ''DNS1'' (dnsaddr0 go) False w;
          w = setenv_addr ''DNS2'' (dnsaddr1 go) False w
      in if usepeerdns w \<and> (dnsaddr0 go \<noteq> 0 \<or> dnsaddr1 go \<noteq> 0)
         then create_resolv (dnsaddr0 go) (dnsaddr1 go) (script_setenv ''USEPEERDNS'' ''1'' False w)
         else w)"

text \<open>the routes, which both branches set up,\<close>

definition up_routes :: "u32 \<Rightarrow> u32 \<Rightarrow> 'z ipcp_world_scheme \<Rightarrow> 'z ipcp_world_scheme" where
  "up_routes our peer w =
     (let w = (if default_route (ipcp_wantoptions w)
               then (let (ok, w) = os_call (Sifdefaultroute our peer) w in if ok then w\<lparr>default_route_set := True\<rparr> else w)
               else w)
      in if peer \<noteq> 0 \<and> proxy_arp (ipcp_wantoptions w)
         then (let (ok, w) = os_call (Sifproxyarp peer) w in if ok then w\<lparr>proxy_arp_set := True\<rparr> else w)
         else w)"

text \<open>the branch for a demand-dialled link, whose interface is already configured (False where it closes),\<close>

definition up_readdress :: "'z ipcp_world_scheme \<Rightarrow> 'z ipcp_world_scheme" where
  "up_readdress w =
     (let our = ouraddr (ipcp_gotoptions w); peer = hisaddr (ipcp_hisoptions w); wo = ipcp_wantoptions w;
          w = ipcp_clear_addrs (ouraddr wo) (hisaddr wo) w;
          w = (if our \<noteq> ouraddr wo
               then (script_setenv ''OLDIPLOCAL'' (ip_ntoa (ouraddr wo)) False w)\<lparr>ipcp_wantoptions := wo\<lparr>ouraddr := our\<rparr>\<rparr>
               else script_unsetenv ''OLDIPLOCAL'' w);
          wo = ipcp_wantoptions w
      in if peer \<noteq> hisaddr wo \<and> hisaddr wo \<noteq> 0
         then (script_setenv ''OLDIPREMOTE'' (ip_ntoa (hisaddr wo)) False w)\<lparr>ipcp_wantoptions := wo\<lparr>hisaddr := peer\<rparr>\<rparr>
         else script_unsetenv ''OLDIPREMOTE'' w)"

definition up_demand :: "'z ipcp_world_scheme ip_ext \<Rightarrow> 'z ipcp_world_scheme \<Rightarrow> bool \<times> 'z ipcp_world_scheme" where
  "up_demand ext w =
     (let our = ouraddr (ipcp_gotoptions w); peer = hisaddr (ipcp_hisoptions w); wo = ipcp_wantoptions w;
          (ok, w) = (if our \<noteq> ouraddr wo \<or> peer \<noteq> hisaddr wo
                     then (let w = up_readdress w;
                               (ok, w) = os_call (Sifaddr our peer (x_GetMask ext our w)) w
                           in if \<not> ok then (False, w) else (True, up_routes our peer w))
                     else (True, w))
      in if \<not> ok then (False, w) else (True, os_do (Sifnpmode NPMODE_PASS) (os_do Demand_rexmit w)))"

text \<open>the other branch,\<close>

definition up_plain :: "'z ipcp_world_scheme ip_ext \<Rightarrow> 'z ipcp_world_scheme \<Rightarrow> bool \<times> 'z ipcp_world_scheme" where
  "up_plain ext w =
     (let our = ouraddr (ipcp_gotoptions w); peer = hisaddr (ipcp_hisoptions w);
          (ok, w) = os_call (Sifaddr our peer (x_GetMask ext our w)) w
      in if \<not> ok then (False, w)
         else
           (let w = ipcp_script PATH_IPPREUP True w;
                (ok, w) = os_call Sifup w
            in if \<not> ok then (False, w)
               else
                 (let w = up_routes our peer (os_do (Sifnpmode NPMODE_PASS) w)
                  in (True, w\<lparr>ipcp_wantoptions := (ipcp_wantoptions w)\<lparr>ouraddr := our\<rparr>\<rparr>))))"

text \<open>the end; then everything from the environment on, and the whole.\<close>

definition up_done :: "'z ipcp_world_scheme \<Rightarrow> 'z ipcp_world_scheme" where
  "up_done w =
     (let w = (np_up w)\<lparr>ipcp_is_up := True\<rparr>
      in if ipcp_script_state w = s_down \<and> ipcp_script_pid w = 0
         then ipcp_script PATH_IPUP False (w\<lparr>ipcp_script_state := s_up\<rparr>)
         else w)"

definition up_interface :: "'z ipcp_world_scheme ip_ext \<Rightarrow> 'z ipcp_world_scheme \<Rightarrow> 'z ipcp_world_scheme" where
  "up_interface ext w =
     (let w = up_environment w; ho = ipcp_hisoptions w
      in if hisaddr ho \<noteq> 0 \<and> \<not> auth_ip_addr ext (hisaddr ho) w
         then ipcp_close ext (cstr ''Unauthorized remote IP address'') w
         else
           (let w = os_do (Sifvjcomp (neg_vj ho) (cflag ho) (maxslotindex ho)) w;
                (ok, w) = (if demand w then up_demand ext w else up_plain ext w)
            in if \<not> ok then ipcp_close ext (cstr ''Interface configuration failed'') w
               else up_done w))"

definition ipcp_up :: "'z ipcp_world_scheme ip_ext \<Rightarrow> 'z ipcp_world_scheme \<Rightarrow> 'z ipcp_world_scheme" where
  "ipcp_up ext w =
     (let ho = ipcp_hisoptions w; go = ipcp_gotoptions w; wo = ipcp_wantoptions w;
          ho = (if \<not> neg_addr ho \<and> \<not> old_addrs ho then ho\<lparr>hisaddr := hisaddr wo\<rparr> else ho);
          w = w\<lparr>ipcp_hisoptions := ho\<rparr>
      in if \<not> (neg_addr go \<or> old_addrs go) \<and> (neg_addr wo \<or> old_addrs wo) \<and> ouraddr wo \<noteq> 0
         then ipcp_close ext (cstr ''Refused our IP address'') w
         else if ouraddr go = 0
         then ipcp_close ext (cstr ''Could not determine local IP address'') w
         else
           (let ho = (if hisaddr ho = 0 \<and> \<not> noremoteip w then ho\<lparr>hisaddr := 0x0a404040 + word_of_int (ifunit w)\<rparr> else ho)
            in up_interface ext (w\<lparr>ipcp_hisoptions := ho\<rparr>)))"

definition ipcp_callbacks :: "'z ipcp_world_scheme ip_ext \<Rightarrow> 'z ipcp_world_scheme fsm_callbacks" where
  "ipcp_callbacks ext =
     \<lparr>cb_resetci = Some ipcp_resetci, cb_cilen = Some ipcp_cilen, cb_addci = Some ipcp_addci,
      cb_ackci = Some ipcp_ackci, cb_nakci = Some ipcp_nakci, cb_rejci = Some ipcp_rejci,
      cb_reqci = Some ipcp_reqci, cb_up = Some (ipcp_up ext), cb_down = Some ipcp_down,
      cb_starting = None, cb_finished = Some (ipcp_finished ext), cb_retransmit = None, cb_extcode = None\<rparr>"

section \<open>Entry points\<close>

definition ipcp_init :: "'z ipcp_world_scheme \<Rightarrow> 'z ipcp_world_scheme" where
  "ipcp_init w =
     (let w = fsm_init ipcp_fsm (upd_fsm ipcp_fsm (\<lambda>x. x\<lparr>protocol := PPP_IPCP\<rparr>) w);
          w = upd_fsm ipcp_fsm (\<lambda>x. x\<lparr>maxnakloops := 100\<rparr>) w
      in w\<lparr>ipcp_wantoptions := ipcp_zero\<lparr>neg_addr := True, old_addrs := True, neg_vj := True, vj_protocol := IPCP_VJ_COMP,
                                         maxslotindex := MAX_STATES - 1, cflag := 1\<rparr>,
           ipcp_allowoptions := ipcp_zero\<lparr>neg_addr := True, old_addrs := True, neg_vj := True,
                                          maxslotindex := MAX_STATES - 1, cflag := 1, proxy_arp := True, default_route := True\<rparr>\<rparr>)"

definition ipcp_open :: "'z ipcp_world_scheme ip_ext \<Rightarrow> 'z ipcp_world_scheme \<Rightarrow> 'z ipcp_world_scheme" where
  "ipcp_open ext w = (fsm_open (ipcp_callbacks ext) ipcp_fsm w)\<lparr>ipcp_is_open := True\<rparr>"

definition ipcp_lowerup :: "'z ipcp_world_scheme ip_ext \<Rightarrow> 'z ipcp_world_scheme \<Rightarrow> 'z ipcp_world_scheme" where
  "ipcp_lowerup ext w = fsm_lowerup (ipcp_callbacks ext) ipcp_fsm w"

definition ipcp_input :: "'z ipcp_world_scheme ip_ext \<Rightarrow> packet \<Rightarrow> 'z ipcp_world_scheme \<Rightarrow> 'z ipcp_world_scheme" where
  "ipcp_input ext p w = fsm_input (ipcp_callbacks ext) ipcp_fsm p w"

definition ipcp_protent :: "'z ipcp_world_scheme ip_ext \<Rightarrow> 'z ipcp_world_scheme protent" where
  "ipcp_protent ext = \<lparr>pe_protocol = PPP_IPCP, pe_enabled = True, pe_input = ipcp_input ext, pe_datainput = None,
     pe_protrej = ipcp_protrej ext, pe_lowerup = Some (ipcp_lowerup ext), pe_lowerdown = Some (ipcp_lowerdown ext),
     pe_open = Some (ipcp_open ext), pe_close = Some (ipcp_close ext)\<rparr>"

definition ip_check_options :: "'z ipcp_world_scheme ip_ext \<Rightarrow> 'z ipcp_world_scheme \<Rightarrow> 'z ipcp_world_scheme" where
  "ip_check_options ext w =
     (let wo = ipcp_wantoptions w;
          wo = (if ouraddr wo = 0 \<and> \<not> disable_defaultip w
                then (let wo = wo\<lparr>accept_local := True\<rparr>
                      in case host_by_name (x_resolver ext) (hostname w) of
                           Some loc \<Rightarrow> if loc \<noteq> 0 \<and> \<not> bad_ip_adrs loc then wo\<lparr>ouraddr := loc\<rparr> else wo
                         | None \<Rightarrow> wo)
                else wo)
      in w\<lparr>ipcp_wantoptions := wo, ask_for_local := (ouraddr wo \<noteq> 0 \<or> \<not> disable_defaultip w)\<rparr>)"

definition ip_demand_conf :: "'z ipcp_world_scheme ip_ext \<Rightarrow> 'z ipcp_world_scheme \<Rightarrow> bool \<times> 'z ipcp_world_scheme" where
  "ip_demand_conf ext w =
     (let wo = ipcp_wantoptions w;
          wo = (if hisaddr wo = 0 \<and> \<not> noremoteip w
                then wo\<lparr>hisaddr := 0x0a707070 + word_of_int (ifunit w), accept_remote := True\<rparr> else wo);
          w = (if ouraddr wo = 0 then w\<lparr>ask_for_local := False\<rparr> else w);
          wo = (if ouraddr wo = 0 then wo\<lparr>ouraddr := 0x0a404040 + word_of_int (ifunit w), accept_local := True\<rparr> else wo);
          w = w\<lparr>ipcp_wantoptions := wo\<rparr>;
          (ok, w) = os_call (Sifaddr (ouraddr wo) (hisaddr wo) (x_GetMask ext (ouraddr wo) w)) w
      in if \<not> ok then (False, w)
         else
           (let w = ipcp_script PATH_IPPREUP True w; (ok, w) = os_call Sifup w
            in if \<not> ok then (False, w)
               else
                 (let (ok, w) = os_call (Sifnpmode NPMODE_QUEUE) w
                  in if \<not> ok then (False, w)
                     else
                       (let w = (if default_route wo
                                 then (let (ok, w) = os_call (Sifdefaultroute (ouraddr wo) (hisaddr wo)) w
                                       in if ok then w\<lparr>default_route_set := True\<rparr> else w)
                                 else w);
                            w = (if proxy_arp wo
                                 then (let (ok, w) = os_call (Sifproxyarp (hisaddr wo)) w
                                       in if ok then w\<lparr>proxy_arp_set := True\<rparr> else w)
                                 else w)
                        in (True, w)))))"

text \<open>
  \<open>ip_active_pkt\<close>, with the packet behind its PPP header.  An octet that the code reads is \<open>None\<close> if it is outside the packet;
  then so is the result.
\<close>

definition octet :: "packet \<Rightarrow> int \<Rightarrow> byte option" where
  "octet p i = (if 0 \<le> i \<and> i < int (length p) then Some (p ! nat i) else None)"

definition ip_active_pkt :: "packet \<Rightarrow> bool option" where
  "ip_active_pkt pkt =
     (let p = drop 4 pkt; len = int (length pkt) - 4
      in if len < 20 then Some False
         else
           (case (octet p 6, octet p 7, octet p 9, octet p 0) of
              (Some a, Some b, Some proto, Some vhl) \<Rightarrow>
                (if (word_of_int (GETSHORT a b) :: u32) AND 0x1fff \<noteq> 0 then Some False
                 else if proto \<noteq> 6 then Some True
                 else
                   (let hlen = uint (vhl AND 0xF) * 4
                    in if len < hlen + 20 then Some False
                       else
                         (case (octet p (hlen + 13), octet p (hlen + 12)) of
                            (Some flg, Some offs) \<Rightarrow> Some (\<not> (flg AND 1 \<noteq> 0 \<and> len = hlen + uint (drop_bit 4 offs) * 4))
                          | _ \<Rightarrow> None)))
            | _ \<Rightarrow> None))"

end
