(* ===== verification/Ipcp_Layer.thy ===== *)
theory Ipcp_Layer
  imports Ipcp Fsm_Layer
begin

text \<open>
  What IPCP promises.  \<open>up\<close> and \<open>down\<close> of the automaton bracket the time in which the interface carries IP; in this time the peer
  has an address it is allowed to use.  The scripts \<open>ip-up\<close> and \<open>ip-down\<close> do not overlap, and when none is running the last
  one that was due fits the state of the automaton.
\<close>

section \<open>The invariant\<close>

text \<open>What \<open>auth_ip_addr\<close> has granted, without the routing table, which may have changed since.\<close>

definition admits :: "permitted_ip list option \<Rightarrow> bool \<Rightarrow> u32 \<Rightarrow> bool" where
  "admits table required a \<longleftrightarrow> \<not> bad_ip_adrs a \<and>
     (case table of Some t \<Rightarrow> ip_addr_check a t = Some True | None \<Rightarrow> \<not> required)"

definition admitted :: "'z ipcp_world_scheme \<Rightarrow> u32 \<Rightarrow> bool" where
  "admitted w a \<longleftrightarrow> admits (addresses w) (auth_required w) a"

text \<open>The child that is recorded for the running script, if there is one.\<close>

definition ip_scripts :: "'z ipcp_world_scheme \<Rightarrow> int list" where
  "ip_scripts w = map ch_pid (filter (\<lambda>c. ch_done c = Some Fn_ipcp_script_done) (children w))"

definition one_script :: "'z ipcp_world_scheme \<Rightarrow> bool" where
  "one_script w \<longleftrightarrow> (\<forall>p. Forked p \<in> sset (execs w) \<longrightarrow> p > 0) \<and>
     ip_scripts w = (if ipcp_script_pid w > 0 then [ipcp_script_pid w] else [])"

text \<open>
  What the recorded calls have done to the interface: whether the kernel passes IP packets, and whether the interface is up.
\<close>

fun pass_act :: "ip_act \<Rightarrow> bool \<Rightarrow> bool" where
  "pass_act (Sifnpmode m) b = (m = NPMODE_PASS)"
| "pass_act _ b = b"

fun iface_act :: "ip_act \<Rightarrow> bool \<Rightarrow> bool" where
  "iface_act Sifup b = True"
| "iface_act Sifdown b = False"
| "iface_act _ b = b"

definition passing :: "ip_act list \<Rightarrow> bool" where
  "passing log = fold pass_act log False"

definition iface :: "ip_act list \<Rightarrow> bool" where
  "iface log = fold iface_act log False"

text \<open>
  The invariant, while IPCP is not OPENED and while it is.  The set \<open>A\<close> of addresses contains those that the table grants; the peer's
  address, once it has been checked, is one of them.  On a demand-dialled link the interface itself stays up.
\<close>

definition ip_shut :: "(u32 \<Rightarrow> bool) \<Rightarrow> 'z ipcp_world_scheme \<Rightarrow> bool" where
  "ip_shut A w \<longleftrightarrow> \<not> ipcp_is_up w \<and> one_script w \<and> (ipcp_script_pid w = 0 \<longrightarrow> ipcp_script_state w = s_down) \<and>
     (\<forall>a. admitted w a \<longrightarrow> A a) \<and> \<not> passing (ip_acts w) \<and> (\<not> demand w \<longrightarrow> \<not> iface (ip_acts w))"

definition ip_opn :: "(u32 \<Rightarrow> bool) \<Rightarrow> 'z ipcp_world_scheme \<Rightarrow> bool" where
  "ip_opn A w \<longleftrightarrow> ipcp_is_up w \<and> one_script w \<and> (ipcp_script_pid w = 0 \<longrightarrow> ipcp_script_state w = s_up) \<and>
     ouraddr (ipcp_gotoptions w) \<noteq> 0 \<and> (hisaddr (ipcp_hisoptions w) \<noteq> 0 \<longrightarrow> A (hisaddr (ipcp_hisoptions w))) \<and>
     (\<forall>a. admitted w a \<longrightarrow> A a) \<and> passing (ip_acts w) \<and> (\<not> demand w \<longrightarrow> iface (ip_acts w))"

abbreviation ip_layer :: "(u32 \<Rightarrow> bool) \<Rightarrow> 'z ipcp_world_scheme \<Rightarrow> bool" where
  "ip_layer A \<equiv> in_layer ipcp_fsm (ip_shut A) (ip_shut A) (ip_opn A)"

text \<open>A call that only records itself.\<close>

definition quiet :: "ip_act \<Rightarrow> bool" where
  "quiet a \<longleftrightarrow> (case a of Sifup \<Rightarrow> False | Sifdown \<Rightarrow> False | Sifnpmode _ \<Rightarrow> False | _ \<Rightarrow> True)"

lemma log_append [simp]: "passing (l @ m) = fold pass_act m (passing l)" "iface (l @ m) = fold iface_act m (iface l)"
  by (simp_all add: passing_def iface_def)

lemma log_quiet [simp]: "quiet a \<Longrightarrow> pass_act a b = b" "quiet a \<Longrightarrow> iface_act a b = b"
  by (cases a; simp add: quiet_def)+

lemma quiet_simps [simp]:
  "quiet (Sifaddr a b c)" "quiet (Cifaddr a b)" "quiet (Sifdefaultroute a b)" "quiet (Cifdefaultroute a b)" "quiet (Sifproxyarp a)"
  "quiet (Cifproxyarp a)" "quiet (Sifvjcomp v x y)" "quiet Demand_rexmit" "quiet Fopen_resolv" "quiet (Failed f)"
  by (simp_all add: quiet_def)

section \<open>What operations leave alone\<close>

text \<open>The fields the invariant is about.\<close>

definition same_core :: "'z ipcp_world_scheme \<Rightarrow> 'z ipcp_world_scheme \<Rightarrow> bool" where
  "same_core w w' \<longleftrightarrow> ipcp_is_up w' = ipcp_is_up w \<and> ipcp_script_state w' = ipcp_script_state w \<and>
     ipcp_script_pid w' = ipcp_script_pid w \<and> ip_scripts w' = ip_scripts w \<and> sset (execs w') \<subseteq> sset (execs w) \<and>
     addresses w' = addresses w \<and> auth_required w' = auth_required w \<and>
     ouraddr (ipcp_gotoptions w') = ouraddr (ipcp_gotoptions w) \<and>
     hisaddr (ipcp_hisoptions w') = hisaddr (ipcp_hisoptions w) \<and> st ipcp_fsm w' = st ipcp_fsm w \<and> demand w' = demand w"

definition same_ip :: "'z ipcp_world_scheme \<Rightarrow> 'z ipcp_world_scheme \<Rightarrow> bool" where
  "same_ip w w' \<longleftrightarrow> same_core w w' \<and> passing (ip_acts w') = passing (ip_acts w) \<and> iface (ip_acts w') = iface (ip_acts w)"

lemma same_ip_core: "same_ip w w' \<Longrightarrow> same_core w w'"
  by (simp add: same_ip_def)

lemma same_core_trans [trans]: "same_core u v \<Longrightarrow> same_core v w \<Longrightarrow> same_core u w"
  by (auto simp: same_core_def)

lemma same_ip_refl [simp]: "same_ip w w"
  by (simp add: same_ip_def same_core_def)

lemma same_ip_trans [trans]: "same_ip u v \<Longrightarrow> same_ip v w \<Longrightarrow> same_ip u w"
  using same_core_trans by (auto simp: same_ip_def)

lemma same_core_fields:
  assumes "same_core w w'"
  shows "ipcp_is_up w' = ipcp_is_up w" "ipcp_script_state w' = ipcp_script_state w"
    "ipcp_script_pid w' = ipcp_script_pid w" "ip_scripts w' = ip_scripts w" "addresses w' = addresses w"
    "auth_required w' = auth_required w" "ouraddr (ipcp_gotoptions w') = ouraddr (ipcp_gotoptions w)"
    "hisaddr (ipcp_hisoptions w') = hisaddr (ipcp_hisoptions w)" "st ipcp_fsm w' = st ipcp_fsm w" "demand w' = demand w"
  using assms by (simp_all add: same_core_def)

lemmas same_ip_fields = same_core_fields [OF same_ip_core]

lemma same_core_one_script: "same_core w w' \<Longrightarrow> one_script w \<Longrightarrow> one_script w'"
  unfolding same_core_def one_script_def by (simp, blast)

lemma same_core_admitted: "same_core w w' \<Longrightarrow> admitted w' a = admitted w a"
  by (simp add: admitted_def same_core_fields)

lemma same_ip_keeps:
  assumes "same_ip w w'"
  shows "ip_shut A w \<Longrightarrow> ip_shut A w'" "ip_opn A w \<Longrightarrow> ip_opn A w'"
  using same_core_one_script [OF same_ip_core [OF assms]] same_ip_fields [OF assms] same_core_admitted [OF same_ip_core [OF assms]] assms
  by (simp_all add: ip_shut_def ip_opn_def same_ip_def)

lemma same_ip_layer: "same_ip w w' \<Longrightarrow> ip_layer A w \<Longrightarrow> ip_layer A w'"
  using same_ip_keeps [of w w' A] same_ip_fields(9) [of w w'] by (simp add: in_layer_def split: if_splits)

lemma sset_stl: "sset (stl s) \<subseteq> sset s"
  by (cases s) auto

lemmas same_defs = same_ip_def same_core_def ip_scripts_def

lemma core_os: "same_core w (os_do a w)" "same_core w (snd (os_call a w))"
  by (simp_all add: same_defs os_do_def os_call_def Let_def)

lemma same_os: "quiet a \<Longrightarrow> same_ip w (os_do a w)" "quiet a \<Longrightarrow> same_ip w (snd (os_call a w))"
  by (simp_all add: same_defs os_do_def os_call_def Let_def)

text \<open>A call that has failed has done nothing.\<close>

lemma same_failed: "\<not> fst (os_call a w) \<Longrightarrow> same_ip w (snd (os_call a w))"
  by (simp add: same_defs os_call_def Let_def)

lemma same_env [simp]: "same_ip w (script_setenv x v k w)" "same_ip w (script_unsetenv x w)"
  by (simp_all add: same_defs script_setenv_def script_unsetenv_def)

lemma same_clear [simp]: "same_ip w (ipcp_clear_addrs a b w)"
  by (simp add: same_defs ipcp_clear_addrs_def os_do_def)

lemma same_timer [simp]: "same_ip w (timeout fn a s us w)" "same_ip w (untimeout fn a w)"
  by (simp_all add: same_defs timeout_def untimeout_def gettimeofday_def Let_def)

lemma same_np [simp]: "same_ip w (np_up w)" "same_ip w (np_down w)"
  by (simp_all add: same_defs np_up_def np_down_def timeout_def untimeout_def gettimeofday_def new_phase_def act_def Let_def)

section \<open>Scripts\<close>

lemma same_script_wait [simp]: "same_ip w (ipcp_script s True w)"
  using sset_stl [of "execs w"]
  by (simp add: same_defs ipcp_script_def run_program_def record_child_def forget_child_def Let_def
      split: exec_result.split)

lemma script_run_fields [simp]:
  "ipcp_is_up (ipcp_script s b w) = ipcp_is_up w" "ipcp_script_state (ipcp_script s b w) = ipcp_script_state w"
  "addresses (ipcp_script s b w) = addresses w" "auth_required (ipcp_script s b w) = auth_required w"
  "ipcp_gotoptions (ipcp_script s b w) = ipcp_gotoptions w" "ipcp_hisoptions (ipcp_script s b w) = ipcp_hisoptions w"
  "fsms (ipcp_script s b w) = fsms w" "ip_acts (ipcp_script s b w) = ip_acts w" "demand (ipcp_script s b w) = demand w"
  by (simp_all add: ipcp_script_def run_program_def record_child_def forget_child_def Let_def
      split: exec_result.split prod.split option.split)

lemma one_script_start:
  assumes "one_script w" "ipcp_script_pid w = 0"
  shows "one_script (ipcp_script s False w)"
proof -
  have "sset (execs w) = insert (shd (execs w)) (sset (stl (execs w)))" by (metis stream.collapse stream.simps(8))
  with assms show ?thesis
    by (auto simp: one_script_def ip_scripts_def ipcp_script_def run_program_def record_child_def Let_def
        split: exec_result.split)
qed

lemma one_script_upd [simp]:
  "one_script (w\<lparr>ipcp_script_state := s\<rparr>) = one_script w" "one_script (w\<lparr>ipcp_is_up := u\<rparr>) = one_script w"
  by (simp_all add: one_script_def ip_scripts_def)

lemma admitted_script [simp]: "admitted (ipcp_script s b w) a = admitted w a"
  by (simp add: admitted_def)

lemma admitted_upd [simp]:
  "admitted (w\<lparr>ipcp_script_state := s\<rparr>) a = admitted w a" "admitted (w\<lparr>ipcp_is_up := u\<rparr>) a = admitted w a"
  "admitted (w\<lparr>ipcp_script_pid := p\<rparr>) a = admitted w a"
  by (simp_all add: admitted_def)

text \<open>Which state the scripts are brought to when a change of the link is seen.\<close>

definition script_due :: "script_state \<Rightarrow> 'z ipcp_world_scheme \<Rightarrow> 'z ipcp_world_scheme" where
  "script_due s w =
     (if ipcp_script_state w \<noteq> s \<and> ipcp_script_pid w = 0
      then ipcp_script (case s of s_up \<Rightarrow> PATH_IPUP | s_down \<Rightarrow> PATH_IPDOWN) False (w\<lparr>ipcp_script_state := s\<rparr>)
      else w)"

lemma script_due_fields [simp]:
  "ipcp_is_up (script_due s w) = ipcp_is_up w" "addresses (script_due s w) = addresses w"
  "auth_required (script_due s w) = auth_required w"
  "ipcp_gotoptions (script_due s w) = ipcp_gotoptions w" "ipcp_hisoptions (script_due s w) = ipcp_hisoptions w"
  "fsms (script_due s w) = fsms w" "ip_acts (script_due s w) = ip_acts w" "demand (script_due s w) = demand w" "admitted (script_due s w) a = admitted w a"
  by (simp_all add: script_due_def admitted_def)

lemma script_due_steps:
  assumes "one_script w"
  shows "one_script (script_due s w)" "ipcp_script_pid (script_due s w) = 0 \<longrightarrow> ipcp_script_state (script_due s w) = s"
  using assms by (auto simp: script_due_def one_script_start)

lemma not_s_down [simp]: "s \<noteq> s_down \<longleftrightarrow> s = s_up" and not_s_up [simp]: "s \<noteq> s_up \<longleftrightarrow> s = s_down"
  by (cases s; simp)+

lemma down_eq: "ipcp_down w =
  (let w = (if ipcp_is_up w then np_down (w\<lparr>ipcp_is_up := False\<rparr>) else w);
       w = os_do (Sifvjcomp False 0 0) w;
       w = (if demand w then os_do (Sifnpmode NPMODE_QUEUE) w
            else ipcp_clear_addrs (ouraddr (ipcp_gotoptions w)) (hisaddr (ipcp_hisoptions w))
                   (os_do Sifdown (os_do (Sifnpmode NPMODE_DROP) w)))
   in script_due s_down w)"
  by (simp add: ipcp_down_def script_due_def Let_def)

lemma same_is_up: "same_ip w w' \<Longrightarrow> same_ip (w\<lparr>ipcp_is_up := u\<rparr>) (w'\<lparr>ipcp_is_up := u\<rparr>)"
  by (simp add: same_defs)

text \<open>Up to the script, \<open>ipcp_down\<close> has told the kernel to pass no more packets and has taken the interface down.\<close>

lemma down_before_script:
  "\<exists>u. same_core (w\<lparr>ipcp_is_up := False\<rparr>) u \<and> \<not> passing (ip_acts u) \<and> (\<not> demand u \<longrightarrow> \<not> iface (ip_acts u)) \<and>
     ipcp_down w = script_due s_down u"
proof -
  let ?w1 = "if ipcp_is_up w then np_down (w\<lparr>ipcp_is_up := False\<rparr>) else w"
  have 1: "same_ip (w\<lparr>ipcp_is_up := False\<rparr>) ?w1"
    using same_np(2) [of "w\<lparr>ipcp_is_up := False\<rparr>"] by (simp add: same_defs)
  let ?w2 = "os_do (Sifvjcomp False 0 0) ?w1"
  have 2: "same_ip ?w1 ?w2" by (rule same_os) simp
  let ?q = "os_do (Sifnpmode NPMODE_QUEUE) ?w2"
  let ?d = "os_do Sifdown (os_do (Sifnpmode NPMODE_DROP) ?w2)"
  let ?c = "ipcp_clear_addrs (ouraddr (ipcp_gotoptions ?w2)) (hisaddr (ipcp_hisoptions ?w2)) ?d"
  let ?w3 = "if demand ?w2 then ?q else ?c"
  have c: "same_ip ?d ?c" by (rule same_clear)
  have d: "same_core ?w2 ?d" by (rule same_core_trans [OF core_os(1) core_os(1)])
  have "passing (ip_acts ?d) = False" "iface (ip_acts ?d) = False" "passing (ip_acts ?q) = False" "demand ?q = demand ?w2"
    by (simp_all add: os_do_def)
  then have l: "\<not> passing (ip_acts ?w3) \<and> (\<not> demand ?w3 \<longrightarrow> \<not> iface (ip_acts ?w3))"
    using c unfolding same_ip_def by (cases "demand ?w2") simp_all
  have 3: "same_core ?w2 ?w3"
    using core_os(1) [of ?w2 "Sifnpmode NPMODE_QUEUE"] same_core_trans [OF d same_ip_core [OF c]] by (cases "demand ?w2") (simp_all only: if_True if_False)
  have "ipcp_down w = script_due s_down ?w3" by (simp only: down_eq Let_def)
  with same_core_trans [OF same_ip_core [OF same_ip_trans [OF 1 2]] 3] l show ?thesis by blast
qed

lemma layer_one_script: "ip_opn A w \<or> ip_shut A w \<Longrightarrow> one_script w \<and> (\<forall>a. admitted w a \<longrightarrow> A a)"
  by (auto simp: ip_opn_def ip_shut_def)

lemma down_shut:
  "one_script w \<and> (\<forall>a. admitted w a \<longrightarrow> A a) \<Longrightarrow> ip_shut A (ipcp_down w)" "st ipcp_fsm (ipcp_down w) = st ipcp_fsm w"
proof -
  obtain u where u: "same_core (w\<lparr>ipcp_is_up := False\<rparr>) u" "ipcp_down w = script_due s_down u"
    and l: "\<not> passing (ip_acts u)" "\<not> demand u \<longrightarrow> \<not> iface (ip_acts u)"
    using down_before_script by blast
  from same_core_fields [OF u(1)] u(2) show "st ipcp_fsm (ipcp_down w) = st ipcp_fsm w" by simp
  assume w: "one_script w \<and> (\<forall>a. admitted w a \<longrightarrow> A a)"
  then have "one_script u" using same_core_one_script [OF u(1)] by simp
  from script_due_steps [OF this, of s_down] same_core_fields [OF u(1)] same_core_admitted [OF u(1)] u(2) l w
  show "ip_shut A (ipcp_down w)" by (simp add: ip_shut_def)
qed

section \<open>The contract of the automaton\<close>

lemma layer_frames:
  "(\<And>x. flags (h x) = flags x) \<Longrightarrow> ip_shut A (upd_fsm f h w) = ip_shut A w"
  "(\<And>x. flags (h x) = flags x) \<Longrightarrow> ip_opn A (upd_fsm f h w) = ip_opn A w"
  "ip_shut A (fsm_sdata f c i d w) = ip_shut A w" "ip_opn A (fsm_sdata f c i d w) = ip_opn A w"
  by (simp_all add: ip_shut_def ip_opn_def one_script_def ip_scripts_def admitted_def upd_fsm_def fsm_sdata_def Let_def)

lemma layer_timer_frames:
  "ip_shut A (timeout fn a s us w) = ip_shut A w" "ip_opn A (timeout fn a s us w) = ip_opn A w"
  "ip_shut A (untimeout fn a w) = ip_shut A w" "ip_opn A (untimeout fn a w) = ip_opn A w"
  by (simp_all add: ip_shut_def ip_opn_def one_script_def ip_scripts_def admitted_def timeout_def untimeout_def
      gettimeofday_def Let_def)

text \<open>
  What is asked of \<open>np_finished\<close>: IPCP is not opened behind the automaton's back, and its state stays consistent.
\<close>

definition fin_ok :: "('z ipcp_world_scheme \<Rightarrow> 'z ipcp_world_scheme) \<Rightarrow> bool" where
  "fin_ok fin \<longleftrightarrow> (\<forall>A w. st ipcp_fsm w = CLOSED \<or> st ipcp_fsm w = STOPPED \<longrightarrow> ip_shut A w \<longrightarrow>
     ip_layer A (fin w) \<and> st ipcp_fsm (fin w) \<noteq> OPENED)"

typedef (overloaded) 'z ip_env = "{ext :: 'z ipcp_world_scheme ip_ext. fin_ok (x_np_finished ext)}"
  by (rule exI [of _ "\<lparr>x_np_finished = id, x_have_route_to = (\<lambda>_ _. False), x_GetMask = (\<lambda>_ _. 0),
        x_resolver = one_address [] 0\<rparr>"]) (auto simp: fin_ok_def in_layer_def)

lemma fin_ok_env: "fin_ok (x_np_finished (Rep_ip_env e))"
  using Rep_ip_env [of e] by simp

lemma finished_keeps:
  assumes "st ipcp_fsm w = CLOSED \<or> st ipcp_fsm w = STOPPED" "ip_shut A w"
  shows "ip_layer A (ipcp_finished (Rep_ip_env e) w) \<and> st ipcp_fsm (ipcp_finished (Rep_ip_env e) w) \<noteq> OPENED"
proof (cases "ipcp_is_open w")
  case True
  have "ip_shut A (w\<lparr>ipcp_is_open := False\<rparr>)" using assms(2) by (simp add: ip_shut_def one_script_def ip_scripts_def admitted_def)
  with fin_ok_env [of e, unfolded fin_ok_def, rule_format, of "w\<lparr>ipcp_is_open := False\<rparr>" A] assms(1)
  show ?thesis by (simp add: ipcp_finished_def True)
next
  case False
  with assms show ?thesis by (auto simp: ipcp_finished_def in_layer_def)
qed

interpretation ipd: fsm_down_layer "ipcp_down_callbacks (Rep_ip_env e)" ipcp_fsm "ip_shut A" "ip_shut A" "ip_opn A"
  for e :: "'z ip_env" and A
  by unfold_locales
    (auto simp: layer_frames layer_timer_frames ipcp_down_callbacks_def finished_keeps down_shut(2)
      intro!: down_shut(1) layer_one_script)

section \<open>Coming up\<close>

lemma same_dns [simp]: "same_ip w (w\<lparr>ipcp_gotoptions := clear_dns (ipcp_gotoptions w)\<rparr>)"
  by (simp add: same_defs clear_dns_def Let_def)

lemma same_resolv [simp]: "same_ip w (create_resolv a b w)"
  by (simp add: same_defs create_resolv_def os_call_def Let_def)

lemma same_setenv_addr [simp]: "same_ip w (setenv_addr var a k w)"
  by (simp add: setenv_addr_def)

text \<open>Chains of operations.\<close>

lemma same_if: "same_ip u v \<Longrightarrow> same_ip u w \<Longrightarrow> same_ip u (if b then v else w)"
  by simp

lemma same_want: "same_ip u v \<Longrightarrow> same_ip u (v\<lparr>ipcp_wantoptions := wo\<rparr>)"
  by (simp add: same_defs)

lemma same_routes [simp]: "same_ip w (up_routes a b w)"
  by (simp add: same_defs up_routes_def os_call_def Let_def)

lemma same_os_chain: "same_ip u w \<Longrightarrow> quiet a \<Longrightarrow> same_ip u (os_do a w)" "same_ip u w \<Longrightarrow> quiet a \<Longrightarrow> same_ip u (snd (os_call a w))"
  using same_os same_ip_trans by blast+

lemmas same_chain =
  same_os_chain
  same_env(1) [THEN same_ip_trans [rotated]] same_env(2) [THEN same_ip_trans [rotated]]
  same_clear [THEN same_ip_trans [rotated]] same_dns [THEN same_ip_trans [rotated]]
  same_resolv [THEN same_ip_trans [rotated]] same_setenv_addr [THEN same_ip_trans [rotated]]
  same_script_wait [THEN same_ip_trans [rotated]] same_routes [THEN same_ip_trans [rotated]]
  same_if same_want same_ip_refl

lemma same_environment [simp]: "same_ip w (up_environment w)"
  unfolding up_environment_def Let_def by (intro same_chain)

lemma same_readdress [simp]: "same_ip w (up_readdress w)"
  unfolding up_readdress_def Let_def by (intro same_chain)

lemma demand_log:
  "\<not> fst (up_demand ext w) \<Longrightarrow> same_ip w (snd (up_demand ext w))"
  "fst (up_demand ext w) \<Longrightarrow> same_core w (snd (up_demand ext w)) \<and> passing (ip_acts (snd (up_demand ext w)))"
proof -
  let ?our = "ouraddr (ipcp_gotoptions w)" and ?peer = "hisaddr (ipcp_hisoptions w)" and ?u = "up_readdress w"
  let ?c = "os_call (Sifaddr ?our ?peer (x_GetMask ext ?our ?u)) ?u"
  let ?r = "if ?our \<noteq> ouraddr (ipcp_wantoptions w) \<or> ?peer \<noteq> hisaddr (ipcp_wantoptions w)
    then if \<not> fst ?c then (False, snd ?c) else (True, up_routes ?our ?peer (snd ?c)) else (True, w)"
  have c: "same_ip w (snd ?c)" by (intro same_chain same_readdress) simp
  then have r: "same_ip w (snd ?r)" using same_ip_trans [OF c same_routes] by auto
  have eq: "up_demand ext w = (if \<not> fst ?r then (False, snd ?r) else (True, os_do (Sifnpmode NPMODE_PASS) (os_do Demand_rexmit (snd ?r))))"
    by (simp add: up_demand_def Let_def split_def)
  show "same_ip w (snd (up_demand ext w))" if "\<not> fst (up_demand ext w)" using r that unfolding eq by (auto split: if_splits)
  have "same_core w (os_do (Sifnpmode NPMODE_PASS) (os_do Demand_rexmit (snd ?r)))"
    by (rule same_core_trans [OF same_ip_core [OF r] same_core_trans [OF core_os(1) core_os(1)]])
  then show "same_core w (snd (up_demand ext w)) \<and> passing (ip_acts (snd (up_demand ext w)))" if "fst (up_demand ext w)"
    using that unfolding eq by (simp add: os_do_def split: if_splits)
qed

lemma plain_log:
  "\<not> fst (up_plain ext w) \<Longrightarrow> same_ip w (snd (up_plain ext w))"
  "fst (up_plain ext w) \<Longrightarrow>
     same_core w (snd (up_plain ext w)) \<and> passing (ip_acts (snd (up_plain ext w))) \<and> iface (ip_acts (snd (up_plain ext w)))"
proof -
  let ?our = "ouraddr (ipcp_gotoptions w)" and ?peer = "hisaddr (ipcp_hisoptions w)"
  let ?c = "os_call (Sifaddr ?our ?peer (x_GetMask ext ?our w)) w"
  let ?p = "ipcp_script PATH_IPPREUP True (snd ?c)"
  let ?u = "os_call Sifup ?p"
  let ?n = "os_do (Sifnpmode NPMODE_PASS) (snd ?u)"
  let ?v = "up_routes ?our ?peer ?n"
  let ?e = "?v\<lparr>ipcp_wantoptions := (ipcp_wantoptions ?v)\<lparr>ouraddr := ?our\<rparr>\<rparr>"
  have eq: "up_plain ext w = (if \<not> fst ?c then (False, snd ?c) else if \<not> fst ?u then (False, snd ?u) else (True, ?e))"
    by (simp add: up_plain_def Let_def split_def)
  have c: "same_ip w (snd ?c)" and p: "same_ip w ?p" by (intro same_chain; simp)+
  have f: "\<not> fst ?u \<Longrightarrow> same_ip w (snd ?u)" using same_ip_trans [OF p same_failed] by blast
  show "same_ip w (snd (up_plain ext w))" if "\<not> fst (up_plain ext w)" using c f that unfolding eq by (simp split: if_splits)
  have n: "fst ?u \<Longrightarrow> passing (ip_acts ?n) \<and> iface (ip_acts ?n)" by (simp add: os_do_def os_call_def Let_def)
  have e: "same_ip ?n ?e" by (intro same_chain)
  have "same_core w ?e"
    by (rule same_core_trans [OF same_ip_core [OF p] same_core_trans [OF core_os(2) same_core_trans [OF core_os(1) same_ip_core [OF e]]]])
  moreover have "fst ?u \<Longrightarrow> passing (ip_acts ?e) \<and> iface (ip_acts ?e)" using n e unfolding same_ip_def by blast
  ultimately show "same_core w (snd (up_plain ext w)) \<and> passing (ip_acts (snd (up_plain ext w))) \<and> iface (ip_acts (snd (up_plain ext w)))"
    if "fst (up_plain ext w)" using that unfolding eq by (simp split: if_splits)
qed

lemma interface_log:
  fixes w :: "'z ipcp_world_scheme" and ext :: "'z ipcp_world_scheme ip_ext"
  defines "r \<equiv> if demand w then up_demand ext w else up_plain ext w"
  shows "\<not> fst r \<Longrightarrow> same_ip w (snd r)"
    "fst r \<Longrightarrow> same_core w (snd r) \<and> passing (ip_acts (snd r)) \<and> (\<not> demand w \<longrightarrow> iface (ip_acts (snd r)))"
  using demand_log [of ext w] plain_log [of ext w] by (simp_all add: r_def split: if_splits)

lemma up_done_eq: "up_done w = script_due s_up ((np_up w)\<lparr>ipcp_is_up := True\<rparr>)"
  by (simp add: up_done_def script_due_def Let_def)

lemma auth_ip_addr_admitted: "auth_ip_addr ext a w \<Longrightarrow> admitted w a"
  by (auto simp: auth_ip_addr_def auth_ip_addr_of_def admitted_def admits_def split: if_splits option.splits)

lemma up_done_opn:
  assumes "one_script w" "ouraddr (ipcp_gotoptions w) \<noteq> 0" "\<forall>a. admitted w a \<longrightarrow> A a"
    "hisaddr (ipcp_hisoptions w) \<noteq> 0 \<longrightarrow> A (hisaddr (ipcp_hisoptions w))"
    "passing (ip_acts w)" "\<not> demand w \<longrightarrow> iface (ip_acts w)"
  shows "ip_opn A (up_done w)" "st ipcp_fsm (up_done w) = st ipcp_fsm w"
proof -
  let ?u = "(np_up w)\<lparr>ipcp_is_up := True\<rparr>"
  have s: "same_ip (w\<lparr>ipcp_is_up := True\<rparr>) ?u" by (rule same_is_up) simp
  note c = same_ip_core [OF s]
  have "one_script ?u" using same_core_one_script [OF c] assms(1) by simp
  moreover have "passing (ip_acts ?u) = passing (ip_acts w)" "iface (ip_acts ?u) = iface (ip_acts w)" using s by (simp_all add: same_ip_def)
  ultimately show "ip_opn A (up_done w)"
    using script_due_steps [of ?u s_up] same_core_fields [OF c] same_core_admitted [OF c] assms by (simp add: ip_opn_def up_done_eq)
  show "st ipcp_fsm (up_done w) = st ipcp_fsm w" using same_core_fields(9) [OF c] by (simp add: up_done_eq)
qed

lemma close_in_up:
  assumes "ip_shut A w"
  shows "ip_layer A (ipcp_close (Rep_ip_env e) r w)"
  unfolding ipcp_close_def by (rule ipd.close_layer(1)) (use assms in simp)

lemma shut_his: "ip_shut A (w\<lparr>ipcp_hisoptions := ho\<rparr>) = ip_shut A w"
  by (simp add: ip_shut_def one_script_def ip_scripts_def admitted_def)

lemma opn_layer: "ip_opn A w \<and> st ipcp_fsm w = OPENED \<Longrightarrow> ip_layer A w"
  by (simp add: in_layer_def)

lemma interface_keeps:
  assumes "st ipcp_fsm w = OPENED" "ip_shut A w" "ouraddr (ipcp_gotoptions w) \<noteq> 0"
  shows "ip_layer A (up_interface (Rep_ip_env e) w)"
proof -
  let ?w1 = "up_environment w"
  have 1: "same_ip w ?w1" by simp
  have shut1: "ip_shut A ?w1" using same_ip_keeps(1) [OF 1] assms(2) by simp
  let ?ho = "ipcp_hisoptions ?w1"
  let ?w2 = "os_do (Sifvjcomp (neg_vj ?ho) (cflag ?ho) (maxslotindex ?ho)) ?w1"
  let ?r = "if demand ?w2 then up_demand (Rep_ip_env e) ?w2 else up_plain (Rep_ip_env e) ?w2"
  have 2: "same_ip w ?w2" by (rule same_ip_trans [OF 1 same_os(1)]) simp
  have eq: "up_interface (Rep_ip_env e) w =
      (if hisaddr ?ho \<noteq> 0 \<and> \<not> auth_ip_addr (Rep_ip_env e) (hisaddr ?ho) ?w1
       then ipcp_close (Rep_ip_env e) (cstr ''Unauthorized remote IP address'') ?w1
       else if \<not> fst ?r then ipcp_close (Rep_ip_env e) (cstr ''Interface configuration failed'') (snd ?r)
       else up_done (snd ?r))"
    by (simp add: up_interface_def Let_def split_def)
  note log = interface_log [of ?w2 "Rep_ip_env e"]
  have failed: "ip_shut A (snd ?r)" if "\<not> fst ?r"
    by (rule same_ip_keeps(1) [OF same_ip_trans [OF 2 log(1) [OF that]] assms(2)])
  have up: "ip_opn A (up_done (snd ?r)) \<and> st ipcp_fsm (up_done (snd ?r)) = OPENED"
    if ok: "fst ?r" and adm: "hisaddr ?ho \<noteq> 0 \<longrightarrow> admitted ?w1 (hisaddr ?ho)"
  proof -
    note r = log(2) [OF ok]
    have c: "same_core w (snd ?r)" using same_core_trans [OF same_ip_core [OF 2]] r by blast
    show ?thesis
      using up_done_opn [of "snd ?r" A] r adm assms same_core_one_script [OF c] same_core_fields [OF c] same_core_admitted [OF c]
        same_ip_fields [OF 1] same_core_admitted [OF same_ip_core [OF 1]] same_ip_fields(10) [OF 2]
      by (simp add: ip_shut_def)
  qed
  show ?thesis
  proof (cases "hisaddr ?ho \<noteq> 0 \<and> \<not> auth_ip_addr (Rep_ip_env e) (hisaddr ?ho) ?w1")
    case True
    show ?thesis unfolding eq if_P [OF True] by (rule close_in_up [OF shut1])
  next
    case False
    then have adm: "hisaddr ?ho \<noteq> 0 \<longrightarrow> admitted ?w1 (hisaddr ?ho)" by (blast dest: auth_ip_addr_admitted)
    show ?thesis
    proof (cases "fst ?r")
      case True
      then have n: "\<not> \<not> fst ?r" by blast
      show ?thesis unfolding eq if_not_P [OF False] if_not_P [OF n] by (rule opn_layer [OF up [OF True adm]])
    next
      case nok: False
      show ?thesis unfolding eq if_not_P [OF False] if_P [OF nok] by (rule close_in_up [OF failed [OF nok]])
    qed
  qed
qed

lemma up_keeps:
  assumes "st ipcp_fsm w = OPENED" "ip_shut A w"
  shows "ip_layer A (ipcp_up (Rep_ip_env e) w)"
  unfolding ipcp_up_def Let_def
  using assms by (auto simp: shut_his intro!: close_in_up interface_keeps)

section \<open>All entry points\<close>

lemma options_keep:
  "ip_shut A (w\<lparr>ipcp_gotoptions := go\<rparr>) = ip_shut A w" "ip_shut A (w\<lparr>ipcp_wantoptions := wo\<rparr>) = ip_shut A w"
  by (simp_all add: ip_shut_def one_script_def ip_scripts_def admitted_def)

lemma store_try_keeps: "store_try t w = (r, w') \<Longrightarrow> ip_layer A w \<Longrightarrow> ip_layer A w'"
  by (auto simp: store_try_def in_layer_def options_keep split: option.splits if_splits)

lemma confreq_data_keeps:
  "st ipcp_fsm (snd (confreq_data (ipcp_callbacks ext) w)) = st ipcp_fsm w"
  "ip_shut A (snd (confreq_data (ipcp_callbacks ext) w)) = ip_shut A w"
  by (simp_all add: confreq_data_def ipcp_callbacks_def ipcp_cilen_def ipcp_addci_def options_keep Let_def split: prod.split)

lemma ipcp_cb [simp]:
  "cb_resetci (ipcp_callbacks ext) = Some ipcp_resetci" "cb_reqci (ipcp_callbacks ext) = Some ipcp_reqci"
  "cb_nakci (ipcp_callbacks ext) = Some ipcp_nakci" "cb_rejci (ipcp_callbacks ext) = Some ipcp_rejci"
  "cb_up (ipcp_callbacks ext) = Some (ipcp_up ext)" "cb_down (ipcp_callbacks ext) = Some ipcp_down"
  "cb_starting (ipcp_callbacks ext) = None" "cb_finished (ipcp_callbacks ext) = Some (ipcp_finished ext)"
  "cb_retransmit (ipcp_callbacks ext) = None" "cb_extcode (ipcp_callbacks ext) = None"
  by (simp_all add: ipcp_callbacks_def)

interpretation ipl: fsm_layer "ipcp_callbacks (Rep_ip_env e)" ipcp_fsm "ip_shut A" "ip_shut A" "ip_opn A"
  for e :: "'z ip_env" and A
  by unfold_locales
    (auto simp: layer_frames layer_timer_frames down_shut(2) finished_keeps confreq_data_keeps up_keeps
      ipcp_resetci_def ipcp_reqci_def options_keep shut_his ipcp_nakci_def ipcp_rejci_def Let_def
      intro: store_try_keeps intro!: down_shut(1) layer_one_script)

end
