(* ===== verification/Fsm_Bystander.thy ===== *)
theory Fsm_Bystander
  imports Fsm_Props
begin

text \<open>
  What an automaton leaves alone.  A property \<open>P\<close> of the rest of the system that does not look at the automaton, its frames
  and its timer, and that each callback keeps, is kept by every entry point.  The contract is split along the callbacks
  that the entry points use: leaving (\<open>bystander_down\<close>) and starting (\<open>bystander_start\<close>) need only some of them.
\<close>

locale bystander_frame =
  fixes cb :: "'z fsm_world_scheme fsm_callbacks" and f :: fsm_ref and P :: "'z fsm_world_scheme \<Rightarrow> bool"
  assumes keep_fsm: "P w \<Longrightarrow> P (upd_fsm f h w)"
    and keep_sdata: "P w \<Longrightarrow> P (fsm_sdata f c i d w)"
    and keep_timeout: "P w \<Longrightarrow> P (timeout Fn_fsm_timeout (Fsm_arg f) s us w)"
    and keep_untimeout: "P w \<Longrightarrow> P (untimeout Fn_fsm_timeout (Fsm_arg f) w)"
    and keep_down: "cb_down cb = Some g \<Longrightarrow> P w \<Longrightarrow> P (g w)"
    and keep_starting: "cb_starting cb = Some g \<Longrightarrow> P w \<Longrightarrow> P (g w)"
begin

lemma keep_callbacks: "P w \<Longrightarrow> P (callback (cb_down cb) w)" "P w \<Longrightarrow> P (callback (cb_starting cb) w)"
  using keep_down keep_starting by (auto simp: callback_def split: option.split)

lemma keep_new_reqid: "P w \<Longrightarrow> P (new_reqid f w)"
  by (simp add: new_reqid_def keep_fsm)

lemmas keeps = keep_fsm keep_sdata keep_timeout keep_untimeout keep_callbacks keep_new_reqid

lemma keep_lowerdown: "P w \<Longrightarrow> P (fsm_lowerdown cb f w)"
  by (cases "st f w") (simp_all add: fsm_lowerdown_def keeps)

lemma keep_send_termreq: "P w \<Longrightarrow> P (send_termreq f w)"
  by (simp add: send_termreq_def Let_def keeps)

end

locale bystander_down = bystander_frame +
  assumes keep_finished: "cb_finished cb = Some g \<Longrightarrow> P w \<Longrightarrow> P (g w)"
begin

lemma keep_finishing: "P w \<Longrightarrow> P (callback (cb_finished cb) w)"
  using keep_finished by (auto simp: callback_def split: option.split)

lemma keep_terminate: "P w \<Longrightarrow> P (terminate_layer cb f s w)"
  by (simp add: terminate_layer_def Let_def keeps keep_finishing keep_send_termreq)

lemma keep_close: "P w \<Longrightarrow> P (fsm_close cb f reason w)"
  unfolding fsm_close_def Let_def
  by (cases "st f (upd_fsm f (\<lambda>x. x\<lparr>term_reason := reason\<rparr>) w)") (simp_all add: keeps keep_terminate)

lemma keep_protreject: "P w \<Longrightarrow> P (fsm_protreject cb f w)"
  by (cases "st f w") (simp_all add: fsm_protreject_def keeps keep_terminate keep_finishing)

end

locale bystander_start = bystander_frame +
  assumes keep_resetci: "cb_resetci cb = Some g \<Longrightarrow> P w \<Longrightarrow> P (g w)"
    and keep_data: "P w \<Longrightarrow> P (snd (confreq_data cb w))"
begin

lemma keep_sconfreq: "P w \<Longrightarrow> P (fsm_sconfreq cb f retrans w)"
proof -
  have r: "P (callback (cb_resetci cb) w)" if "P w" for w
    using that keep_resetci by (auto simp: callback_def split: option.split)
  assume "P w"
  then show ?thesis
    using keep_data unfolding fsm_sconfreq_def
    by (auto simp: Let_def keeps r split_def intro!: keep_timeout keep_fsm keep_sdata)
qed

lemma keep_lowerup: "P w \<Longrightarrow> P (fsm_lowerup cb f w)"
  by (cases "st f w") (simp_all add: fsm_lowerup_def keeps keep_sconfreq)

lemma keep_open: "P w \<Longrightarrow> P (fsm_open cb f w)"
  by (cases "st f w")
     (simp_all add: fsm_open_def fsm_open_restart_def keeps keep_sconfreq keep_lowerup keep_lowerdown)

end

locale fsm_bystander = bystander_down + bystander_start +
  assumes keep_up: "cb_up cb = Some g \<Longrightarrow> P w \<Longrightarrow> P (g w)"
    and keep_retransmit: "cb_retransmit cb = Some g \<Longrightarrow> P w \<Longrightarrow> P (g w)"
    and keep_reqci: "cb_reqci cb = Some rq \<Longrightarrow> P w \<Longrightarrow> P (snd (snd (rq w p r)))"
    and keep_nakci: "cb_nakci cb = Some n \<Longrightarrow> P w \<Longrightarrow> P (snd (n w p r))"
    and keep_rejci: "cb_rejci cb = Some j \<Longrightarrow> P w \<Longrightarrow> P (snd (j w p))"
    and keep_extcode: "cb_extcode cb = Some x \<Longrightarrow> P w \<Longrightarrow> P (snd (x w c i p))"
begin

lemma keep_upping: "P w \<Longrightarrow> P (callback (cb_up cb) w)" "P w \<Longrightarrow> P (callback (cb_retransmit cb) w)"
  using keep_up keep_retransmit by (auto simp: callback_def split: option.split)

lemma keep_fsm_timeout: "P w \<Longrightarrow> P (fsm_timeout cb f w)"
  by (cases "st f w")
     (simp_all add: fsm_timeout_def timeout_terminating_def timeout_negotiating_def Let_def keeps keep_sconfreq
        keep_finishing keep_upping keep_send_termreq)

lemma keep_answer: "P w \<Longrightarrow> P (rconfreq_answer cb f idn inp w)"
proof -
  assume w: "P w"
  obtain code inp' w' where rq: "(case cb_reqci cb of
      Some rq \<Rightarrow> rq w inp (nakloops (fsms w f) \<ge> maxnakloops (fsms w f))
    | None \<Rightarrow> (if inp \<noteq> [] then (CONFREJ, inp, w) else (CONFACK, inp, w))) = (code, inp', w')"
    by (metis prod_cases3)
  then have "P w'"
    using keep_reqci [of _ w inp "nakloops (fsms w f) \<ge> maxnakloops (fsms w f)"] w
    by (auto split: option.splits if_splits)
  then show ?thesis
    unfolding rconfreq_answer_def Let_def rq by (simp add: keeps keep_upping)
qed

lemma keep_rconfnakrej: "P w \<Longrightarrow> P (fsm_rconfnakrej cb f code idn inp w)"
proof -
  assume w: "P w"
  have "P (snd (rconfnakrej_check cb f code inp w))"
    using w keep_nakci keep_rejci by (auto simp: rconfnakrej_check_def Let_def keeps split: option.split)
  then obtain ret w' where ck: "rconfnakrej_check cb f code inp w = (ret, w')" and w': "P w'" by (metis snd_conv surj_pair)
  show ?thesis
    using w w' unfolding fsm_rconfnakrej_def ck Let_def
    by (cases "st f w'") (simp_all add: keeps keep_sconfreq)
qed

lemma keep_input: "P w \<Longrightarrow> P (fsm_input cb f p w)"
proof -
  have rq: "P (fsm_rconfreq cb f i d w)" if "P w" for i d w
    using that by (cases "st f w") (simp_all add: fsm_rconfreq_def keeps keep_sconfreq keep_answer)
  have ack: "P (fsm_rconfack cb f i d w)" if "P w" for i d w
    using that by (cases "st f w") (simp_all add: fsm_rconfack_def Let_def keeps keep_sconfreq keep_upping)
  have tr: "P (fsm_rtermreq cb f i d w)" "P (fsm_rtermack cb f w)" if "P w" for i d w
    using that by (cases "st f w"; simp add: fsm_rtermreq_def fsm_rtermack_def Let_def keeps keep_sconfreq keep_finishing)+
  assume "P w"
  then show ?thesis
    using keep_extcode unfolding fsm_input_def input_dispatch_def Let_def
    by (auto simp: rq ack tr keep_rconfnakrej fsm_rcoderej_def keeps split_def split: list.split option.split)
qed

end

end
