(* ===== verification/Ipcp_System.thy ===== *)
theory Ipcp_System
  imports Ipcp_Layer Fsm_Bystander System_Props
begin

text \<open>
  IPCP in the daemon.  IPCP closes the link when it is the last network protocol to finish, and the link going down takes
  IPCP down: \<open>np_finished\<close> of \<^verbatim>\<open>auth.c\<close> and IPCP's entry of \<open>protocols[]\<close> refer to each other.  Going down never reaches
  \<open>np_finished\<close> again, so the circle is opened there (\<open>ip_sys0\<close>), and \<open>finished_knot\<close> shows that nothing is lost.  Then
  IPCP satisfies the contract the rest of the daemon relies on (\<open>proto_ok\<close>), and the rest of the daemon satisfies what IPCP
  relies on (\<open>fin_ok\<close>).
\<close>

section \<open>The table of protocols with IPCP\<close>

definition ip_sys0 :: "'z ipcp_world_scheme ip_ext \<Rightarrow> 'z ipcp_world_scheme protent list \<Rightarrow> 'z ipcp_world_scheme sys_ext \<Rightarrow>
    'z ipcp_world_scheme sys_ext" where
  "ip_sys0 ext rest sys = sys\<lparr>other_protocols := ipcp_protent (ext\<lparr>x_np_finished := id\<rparr>) # rest\<rparr>"

definition ip_ext_of :: "'z ipcp_world_scheme ip_ext \<Rightarrow> 'z ipcp_world_scheme protent list \<Rightarrow> 'z ipcp_world_scheme sys_ext \<Rightarrow>
    'z ipcp_world_scheme ip_ext" where
  "ip_ext_of ext rest sys = ext\<lparr>x_np_finished := np_finished (ip_sys0 ext rest sys)\<rparr>"

definition ip_sys :: "'z ipcp_world_scheme ip_ext \<Rightarrow> 'z ipcp_world_scheme protent list \<Rightarrow> 'z ipcp_world_scheme sys_ext \<Rightarrow>
    'z ipcp_world_scheme sys_ext" where
  "ip_sys ext rest sys = sys\<lparr>other_protocols := ipcp_protent (ip_ext_of ext rest sys) # rest\<rparr>"

section \<open>The circle\<close>

lemma lowerdown_early: "early_state (st ipcp_fsm (ipcp_lowerdown ext w))"
  by (cases "st ipcp_fsm w") (simp_all add: ipcp_lowerdown_def fsm_lowerdown_def ipcp_down_callbacks_def callback_def)

lemma lowerdown_any: "ipcp_lowerdown ext w = ipcp_lowerdown ext' w"
  by (cases "st ipcp_fsm w") (simp_all add: ipcp_lowerdown_def fsm_lowerdown_def ipcp_down_callbacks_def callback_def)

lemma close_early: "early_state (st ipcp_fsm w) \<Longrightarrow> ipcp_close ext r w = ipcp_close ext' r w"
  by (cases "st ipcp_fsm w") (simp_all add: ipcp_close_def fsm_close_def Let_def)

lemma proto_down_ipcp: "proto_down (ipcp_protent ext) w = ipcp_close ext (cstr ''LCP down'') (ipcp_lowerdown ext w)"
  by (simp add: proto_down_def ipcp_protent_def)

lemma proto_down_any: "proto_down (ipcp_protent ext) = proto_down (ipcp_protent ext')"
  by (rule ext) (metis proto_down_ipcp lowerdown_any close_early lowerdown_early)

lemma upper_layers_down_cong:
  assumes "fold proto_down (other_protocols s) = fold proto_down (other_protocols t)"
  shows "upper_layers_down s = upper_layers_down t"
  by (rule HOL.ext) (simp add: upper_layers_down_def assms)

text \<open>The functions that close the link look at the rest of the daemon only through \<open>upper_layers_down\<close>.\<close>

lemma lcp_down_callbacks_cong:
  assumes "x_link_down a = x_link_down b" "x_link_required a = x_link_required b" "x_link_terminated a = x_link_terminated b"
  shows "lcp_down_callbacks a = lcp_down_callbacks b" "lcp_finished a = lcp_finished b"
proof -
  have "lcp_down a = lcp_down b" by (rule HOL.ext) (simp add: lcp_down_def assms)
  moreover have "lcp_starting a = lcp_starting b" by (rule HOL.ext) (simp add: lcp_starting_def assms)
  moreover show "lcp_finished a = lcp_finished b" by (rule HOL.ext) (simp add: lcp_finished_def assms)
  ultimately show "lcp_down_callbacks a = lcp_down_callbacks b" by (simp add: lcp_down_callbacks_def)
qed

lemma close_link_cong:
  assumes "upper_layers_down s = upper_layers_down t"
  shows "close_link s = close_link t"
proof -
  have ld: "link_down s = link_down t" by (intro HOL.ext) (simp add: link_down_def Let_def assms)
  then have "lcp_down_callbacks (lcp_ext0 s) = lcp_down_callbacks (lcp_ext0 t)"
    by (intro lcp_down_callbacks_cong) (simp_all add: lcp_ext0_def)
  then have "lcp_lowerdown (lcp_ext0 s) = lcp_lowerdown (lcp_ext0 t)" by (intro HOL.ext) (simp add: lcp_lowerdown_def)
  then have "link_terminated s = link_terminated t" by (intro HOL.ext) (simp add: link_terminated_def Let_def)
  then have "x_link_down (lcp_ext1 s) = x_link_down (lcp_ext1 t)" "x_link_required (lcp_ext1 s) = x_link_required (lcp_ext1 t)"
    "x_link_terminated (lcp_ext1 s) = x_link_terminated (lcp_ext1 t)"
    by (simp_all add: lcp_ext1_def lcp_ext0_def ld)
  note cb = lcp_down_callbacks_cong [OF this]
  show ?thesis by (intro HOL.ext) (simp only: close_link_def lcp_close_def cb)
qed

lemma np_finished_cong:
  assumes "upper_layers_down s = upper_layers_down t"
  shows "np_finished s = np_finished t"
proof -
  have c: "close_link s = close_link t" by (rule close_link_cong [OF assms])
  show ?thesis by (intro HOL.ext) (simp only: np_finished_def c)
qed

lemma finished_knot: "np_finished (ip_sys ext rest sys) = np_finished (ip_sys0 ext rest sys)"
  by (rule np_finished_cong, rule upper_layers_down_cong)
     (simp add: ip_sys_def ip_sys0_def proto_down_any [of "ip_ext_of ext rest sys" "ext\<lparr>x_np_finished := id\<rparr>"])

section \<open>IPCP keeps the contract of a network protocol\<close>

text \<open>Steps that change nothing the daemon looks at but the phase.\<close>

definition soft :: "'z auth_world_scheme \<Rightarrow> 'z auth_world_scheme \<Rightarrow> bool" where
  "soft w v \<longleftrightarrow> view (v\<lparr>phase := PHASE_DEAD\<rparr>) = view (w\<lparr>phase := PHASE_DEAD\<rparr>) \<and>
     (phase w \<noteq> PHASE_DEAD \<longrightarrow> phase v \<noteq> PHASE_DEAD)"

lemma soft_refl [simp]: "soft w w"
  by (simp add: soft_def)

lemma soft_trans [trans]: "soft u v \<Longrightarrow> soft v w \<Longrightarrow> soft u w"
  by (simp add: soft_def)

lemma mild_soft: "mild g \<longleftrightarrow> (\<forall>w. soft w (g w))"
  by (simp add: mild_def soft_def)

lemma soft_layer: "soft w v \<Longrightarrow> net_layer w \<Longrightarrow> net_layer v"
  by (auto simp: soft_def view_def in_layer_def net_early_def net_shut_def net_open_def cfg_ok_def alive_def must_auth_def
      split: if_splits)

lemmas soft_defs = soft_def view_def

lemma soft_timer: "soft u w \<Longrightarrow> soft u (timeout fn a s us w)" "soft u w \<Longrightarrow> soft u (untimeout fn a w)"
  by (simp_all add: soft_defs timeout_def untimeout_def gettimeofday_def Let_def)

lemma soft_fsm: "soft u w \<Longrightarrow> soft u (upd_fsm ipcp_fsm h w)" "soft u w \<Longrightarrow> soft u (fsm_sdata f c i d w)"
  by (simp_all add: soft_defs upd_fsm_def fsm_sdata_def Let_def)

lemma soft_np: "soft w (np_up w)" "soft w (np_down w)"
  by (simp_all add: soft_defs np_up_def np_down_def timeout_def untimeout_def gettimeofday_def new_phase_def act_def Let_def)

lemma soft_os: "soft w (os_do a w)" "soft w (snd (os_call a w))"
  by (simp_all add: soft_defs os_do_def os_call_def Let_def)

lemma soft_env: "soft w (script_setenv x v k w)" "soft w (script_unsetenv x w)" "soft w (setenv_addr x a k w)"
  by (simp_all add: soft_defs script_setenv_def script_unsetenv_def setenv_addr_def)

lemma soft_clear: "soft w (ipcp_clear_addrs a b w)"
  by (simp add: soft_defs ipcp_clear_addrs_def os_do_def)

lemma soft_script: "soft w (ipcp_script s b w)"
  by (simp add: soft_defs ipcp_script_def run_program_def record_child_def forget_child_def Let_def
      split: exec_result.split option.split prod.split)

lemma soft_routes: "soft w (up_routes a b w)"
  by (simp add: soft_defs up_routes_def os_call_def Let_def)

lemma soft_resolv: "soft w (create_resolv a b w)"
  by (simp add: soft_defs create_resolv_def os_call_def Let_def)

lemma soft_fields:
  fixes u w :: "'z ipcp_world_scheme"
  shows "soft u w \<Longrightarrow> soft u (w\<lparr>ipcp_gotoptions := o1\<rparr>)" "soft u w \<Longrightarrow> soft u (w\<lparr>ipcp_wantoptions := o1\<rparr>)"
    "soft u w \<Longrightarrow> soft u (w\<lparr>ipcp_hisoptions := o1\<rparr>)" "soft u w \<Longrightarrow> soft u (w\<lparr>ipcp_is_up := b\<rparr>)"
    "soft u w \<Longrightarrow> soft u (w\<lparr>ipcp_is_open := b\<rparr>)" "soft u w \<Longrightarrow> soft u (w\<lparr>ipcp_script_state := s\<rparr>)"
    "soft u w \<Longrightarrow> soft u (w\<lparr>ipcp_script_pid := n\<rparr>)"
  by (simp_all add: soft_defs)

lemma soft_if: "soft u v \<Longrightarrow> soft u w \<Longrightarrow> soft u (if b then v else w)"
  by simp

lemmas soft_chain =
  soft_os(1) [THEN soft_trans [rotated]] soft_os(2) [THEN soft_trans [rotated]]
  soft_env(1) [THEN soft_trans [rotated]] soft_env(2) [THEN soft_trans [rotated]] soft_env(3) [THEN soft_trans [rotated]]
  soft_clear [THEN soft_trans [rotated]] soft_script [THEN soft_trans [rotated]] soft_routes [THEN soft_trans [rotated]]
  soft_resolv [THEN soft_trans [rotated]] soft_np(1) [THEN soft_trans [rotated]] soft_np(2) [THEN soft_trans [rotated]]
  soft_fields soft_if soft_timer soft_fsm

lemma soft_down: "soft u w \<Longrightarrow> soft u (ipcp_down w)"
  unfolding ipcp_down_def Let_def by (intro soft_chain)

lemma soft_environment: "soft u w \<Longrightarrow> soft u (up_environment w)"
  unfolding up_environment_def Let_def by (intro soft_chain)

lemma soft_readdress: "soft u w \<Longrightarrow> soft u (up_readdress w)"
  unfolding up_readdress_def Let_def by (intro soft_chain)

lemma soft_demand: "soft u w \<Longrightarrow> soft u (snd (up_demand ext w))"
  unfolding up_demand_def Let_def by (auto simp: split_def intro!: soft_chain soft_readdress)

lemma soft_plain: "soft u w \<Longrightarrow> soft u (snd (up_plain ext w))"
  unfolding up_plain_def Let_def by (auto simp: split_def intro!: soft_chain)

lemma soft_done: "soft u w \<Longrightarrow> soft u (up_done w)"
  unfolding up_done_def Let_def by (intro soft_chain)

lemma soft_resetci: "soft u w \<Longrightarrow> soft u (ipcp_resetci w)"
  unfolding ipcp_resetci_def Let_def by (intro soft_chain)

lemma soft_store: "soft u w \<Longrightarrow> soft u (snd (store_try t w))"
  by (auto simp: store_try_def intro: soft_chain split: option.split)

lemma soft_reqci: "soft u w \<Longrightarrow> soft u (snd (snd (ipcp_reqci w p r)))"
  unfolding ipcp_reqci_def Let_def by (auto intro!: soft_chain)

lemma soft_data: "soft u w \<Longrightarrow> soft u (snd (confreq_data (ipcp_callbacks ext) w))"
  by (auto simp: confreq_data_def ipcp_callbacks_def ipcp_cilen_def ipcp_addci_def Let_def split_def intro!: soft_chain)

interpretation ips: bystander_start "ipcp_callbacks ext" ipcp_fsm "soft u" for ext u
  by unfold_locales (auto intro: soft_chain soft_down soft_resetci soft_data)

interpretation ipd0: bystander_frame "ipcp_down_callbacks ext" ipcp_fsm "soft u" for ext u
  by unfold_locales (auto simp: ipcp_down_callbacks_def intro: soft_chain soft_down)

lemma soft_close_early:
  "soft u w \<Longrightarrow> early_state (st ipcp_fsm w) \<Longrightarrow> soft u (ipcp_close ext r w)"
  by (cases "st ipcp_fsm w") (simp_all add: ipcp_close_def fsm_close_def Let_def soft_fsm)

lemma ipcp_down_mild: "mild (proto_down (ipcp_protent ext))"
proof -
  have "soft w (ipcp_lowerdown ext w)" for w
    unfolding ipcp_lowerdown_def by (rule ipd0.keep_lowerdown) simp
  then show ?thesis
    by (simp add: mild_soft proto_down_ipcp soft_close_early lowerdown_early)
qed

lemma ipcp_start_mild: "mild (ipcp_lowerup ext)" "mild (ipcp_open ext)"
  unfolding mild_soft ipcp_lowerup_def ipcp_open_def
  by (simp_all add: ips.keep_lowerup soft_fields(5) [OF ips.keep_open [OF soft_refl]])

text \<open>With a daemon that keeps the contract behind \<open>np_finished\<close>.\<close>

lemma np_finished_layer:
  assumes "sys_ok sys" "net_layer w"
  shows "net_layer (np_finished sys w)"
proof -
  let ?w = "w\<lparr>num_np_open := num_np_open w - 1\<rparr>"
  have "net_layer ?w" using assms(2)
    by (auto simp: in_layer_def net_early_def net_shut_def net_open_def cfg_ok_def must_auth_def split: if_splits)
  then show ?thesis
    using close_link_layer(1) [OF assms(1) net_layers(1)] by (simp add: np_finished_def Let_def)
qed

lemma soft_grounded: "soft w v \<Longrightarrow> grounded w \<Longrightarrow> grounded v"
  by (auto simp: soft_def view_def grounded_def)

lemma np_finished_grounded:
  assumes "sys_ok sys" "grounded w" "net_layer w"
  shows "grounded (np_finished sys w)"
  using assms(2) close_link_grounded [of "w\<lparr>num_np_open := num_np_open w - 1\<rparr>"]
  by (auto simp: np_finished_def Let_def grounded_def)

definition kept :: "bool \<Rightarrow> 'z auth_world_scheme \<Rightarrow> bool" where
  "kept g w \<longleftrightarrow> net_layer w \<and> (g \<longrightarrow> grounded w)"

lemma soft_kept: "soft w v \<Longrightarrow> kept g w \<Longrightarrow> kept g v"
  using soft_layer soft_grounded by (auto simp: kept_def)

lemma finished_kept:
  assumes "sys_ok sys" "x_np_finished ext = np_finished sys" "kept g w"
  shows "kept g (ipcp_finished ext w)"
proof -
  have "kept g (w\<lparr>ipcp_is_open := False\<rparr>)" by (rule soft_kept [OF _ assms(3)]) (simp add: soft_fields)
  then show ?thesis
    using np_finished_layer [OF assms(1)] np_finished_grounded [OF assms(1)] assms(2,3)
    by (auto simp: ipcp_finished_def kept_def)
qed

lemmas kept_chain =
  soft_fsm(1) [OF soft_refl, THEN soft_kept] soft_fsm(2) [OF soft_refl, THEN soft_kept]
  soft_timer(1) [OF soft_refl, THEN soft_kept] soft_timer(2) [OF soft_refl, THEN soft_kept]
  soft_down [OF soft_refl, THEN soft_kept] soft_resetci [OF soft_refl, THEN soft_kept]
  soft_data [OF soft_refl, THEN soft_kept] soft_store [OF soft_refl, THEN soft_kept]
  soft_reqci [OF soft_refl, THEN soft_kept]

abbreviation net_ip where
  "net_ip ext e \<equiv> ext\<lparr>x_np_finished := np_finished (Rep_net_env e)\<rparr>"

interpretation ipk: bystander_down "ipcp_down_callbacks (net_ip ext e)" ipcp_fsm "kept g" for ext e g
  by unfold_locales (auto simp: ipcp_down_callbacks_def intro: kept_chain finished_kept [OF env_ok])

lemma close_kept: "kept g w \<Longrightarrow> kept g (ipcp_close (net_ip ext e) r w)"
  unfolding ipcp_close_def by (rule ipk.keep_close)

lemma interface_kept: "kept g w \<Longrightarrow> kept g (up_interface (net_ip ext e) w)"
proof -
  assume w: "kept g w"
  let ?w1 = "up_environment w"
  let ?ho = "ipcp_hisoptions ?w1"
  let ?w2 = "os_do (Sifvjcomp (neg_vj ?ho) (cflag ?ho) (maxslotindex ?ho)) ?w1"
  let ?r = "if demand ?w2 then up_demand (net_ip ext e) ?w2 else up_plain (net_ip ext e) ?w2"
  have 1: "soft w ?w1" by (rule soft_environment) simp
  have 2: "soft w ?w2" using 1 by (rule soft_trans) (rule soft_os)
  have 3: "soft w (snd ?r)" by (cases "demand ?w2") (simp_all only: if_True if_False soft_demand [OF 2] soft_plain [OF 2])
  show ?thesis
    using close_kept [OF soft_kept [OF 1 w]] close_kept [OF soft_kept [OF 3 w]] soft_kept [OF soft_done [OF 3] w]
    by (auto simp: up_interface_def Let_def split_def)
qed

lemma up_kept: "kept g w \<Longrightarrow> kept g (ipcp_up (net_ip ext e) w)"
proof -
  assume w: "kept g w"
  have h: "kept g (w\<lparr>ipcp_hisoptions := ho\<rparr>)" for ho by (rule soft_kept [OF _ w]) (simp add: soft_fields)
  show ?thesis
    unfolding ipcp_up_def Let_def using close_kept [OF h] interface_kept [OF h] interface_kept [OF w] by simp
qed

interpretation ipn: fsm_bystander "ipcp_callbacks (net_ip ext e)" ipcp_fsm "kept g" for ext e g
  by unfold_locales
    (clarsimp simp: ipcp_nakci_def ipcp_rejci_def kept_chain finished_kept [OF env_ok] up_kept)+

lemma ipcp_proto_ok:
  assumes "sys_ok sys"
  shows "proto_ok (ipcp_protent (ext\<lparr>x_np_finished := np_finished sys\<rparr>))"
proof -
  let ?ext = "net_ip ext (Abs_net_env sys)"
  have "safe (ipcp_protrej ?ext)"
    unfolding safe_def ipcp_protrej_def using ipk.keep_lowerdown [where g = False] unfolding kept_def by blast
  moreover have "safe (ipcp_input ?ext p)" for p
    unfolding safe_def ipcp_input_def using ipn.keep_input [where g = False] unfolding kept_def by blast
  ultimately show ?thesis
    using ipcp_down_mild [of ?ext] ipcp_start_mild [of ?ext]
    by (simp add: proto_ok_def env_rep [OF assms]) (simp add: ipcp_protent_def)
qed

text \<open>So the table with IPCP is as good as the one without.\<close>

lemma ip_sys_ok:
  assumes "sys_ok (sys\<lparr>other_protocols := rest\<rparr>)"
  shows "sys_ok (ip_sys ext rest sys)" "proto_ok (ipcp_protent (ip_ext_of ext rest sys))"
proof -
  let ?s = "sys\<lparr>other_protocols := rest\<rparr>"
  let ?p = "ipcp_protent (ext\<lparr>x_np_finished := np_finished ?s\<rparr>)"
  have more: "sys_ok (sys\<lparr>other_protocols := p # rest\<rparr>)" if "proto_ok p" for p
    using assms that by (simp add: sys_ok_def passwd_ok_def)
  have "np_finished (sys\<lparr>other_protocols := ?p # rest\<rparr>) = np_finished (ip_sys0 ext rest sys)"
    by (rule np_finished_cong, rule upper_layers_down_cong)
       (simp add: ip_sys0_def proto_down_any [of "ext\<lparr>x_np_finished := np_finished ?s\<rparr>" "ext\<lparr>x_np_finished := id\<rparr>"])
  then show p: "proto_ok (ipcp_protent (ip_ext_of ext rest sys))"
    using ipcp_proto_ok [OF more [OF ipcp_proto_ok [OF assms]], of ext] by (simp add: ip_ext_of_def)
  show "sys_ok (ip_sys ext rest sys)" using more [OF p] by (simp add: ip_sys_def)
qed

section \<open>The daemon keeps what IPCP relies on\<close>

text \<open>IPCP is not OPENED and its state is consistent.\<close>

definition ip_off :: "(u32 \<Rightarrow> bool) \<Rightarrow> 'z ipcp_world_scheme \<Rightarrow> bool" where
  "ip_off A w \<longleftrightarrow> ip_shut A w \<and> st ipcp_fsm w \<noteq> OPENED"

lemma ip_off_layer: "ip_off A w \<longleftrightarrow> ip_layer A w \<and> st ipcp_fsm w \<noteq> OPENED"
  by (auto simp: ip_off_def in_layer_def)

lemma same_off: "same_ip w v \<Longrightarrow> ip_off A w \<Longrightarrow> ip_off A v"
  using same_ip_keeps(1) [of w v A] same_ip_fields(9) [of w v] by (simp add: ip_off_def)

text \<open>What is asked of the other protocols when the link goes down.\<close>

definition rest_ok :: "'z ipcp_world_scheme protent list \<Rightarrow> bool" where
  "rest_ok rest \<longleftrightarrow> (\<forall>p \<in> set rest. \<forall>A w. ip_off A w \<longrightarrow> ip_off A (proto_down p w))"

lemma ipcp_down_off: "ip_off A w \<Longrightarrow> ip_off A (proto_down (ipcp_protent ext) w)"
proof -
  let ?e = "Abs_ip_env (ext\<lparr>x_np_finished := id\<rparr>) :: 'a ip_env"
  have e: "Rep_ip_env ?e = ext\<lparr>x_np_finished := id\<rparr>"
    by (rule Abs_ip_env_inverse) (auto simp: fin_ok_def in_layer_def)
  assume "ip_off A w"
  then have "ip_layer A w" by (simp add: ip_off_layer)
  then have "ip_layer A (fsm_lowerdown (ipcp_down_callbacks (Rep_ip_env ?e)) ipcp_fsm w)" by (rule ipd.lowerdown_layer(1))
  then have "ip_off A (ipcp_close (Rep_ip_env ?e) r (ipcp_lowerdown (Rep_ip_env ?e) w))" for r
    using ipd.close_layer [of A "ipcp_lowerdown (Rep_ip_env ?e) w" ?e]
    by (simp add: ip_off_layer ipcp_close_def ipcp_lowerdown_def)
  then show ?thesis
    unfolding proto_down_any [of ext "Rep_ip_env ?e"] proto_down_ipcp by simp
qed

lemma same_link [simp]:
  "same_ip w (new_phase n w)" "same_ip w (act a w)" "same_ip w (lcp_echo_lowerdown w)"
  "same_ip w (upap_lowerdown w)" "same_ip w (chap_lowerdown w)" "same_ip w (upd_fsm lcp_fsm h w)"
  "same_ip w (snd (ppp_send_config m1 m2 m3 m4 w))" "same_ip w (snd (ppp_recv_config m1 m2 m3 m4 w))"
  "same_ip w (fsm_sdata lcp_fsm c' i dd w)" "same_ip w (clear_flag fl w)"
  by (simp_all add: same_defs new_phase_def act_def lcp_echo_lowerdown_def upap_lowerdown_def chap_lowerdown_def upd_fsm_def
      ppp_send_config_def ppp_recv_config_def chan_call_def fsm_sdata_def clear_flag_def upd_upap_def upd_client_def
      upd_server_def untimeout_def Let_def)

lemma same_auth_script [simp]: "same_ip w (auth_script s w)"
  using sset_stl [of "execs w"]
  by (simp add: same_defs auth_script_def run_program_def record_child_def Let_def split: exec_result.split)

lemma same_link_fields [simp]:
  "same_ip w (w\<lparr>num_np_open := n, num_np_up := n2\<rparr>)" "same_ip w (w\<lparr>auth_up := b\<rparr>)" "same_ip w (w\<lparr>peer_mru := n\<rparr>)"
  "same_ip w (w\<lparr>num_np_open := n\<rparr>)"
  by (simp_all add: same_defs)

lemma off_if: "ip_off A v \<Longrightarrow> ip_off A w \<Longrightarrow> ip_off A (if b then v else w)"
  by simp

lemma off_fields:
  fixes w :: "'z ipcp_world_scheme"
  shows "ip_off A w \<Longrightarrow> ip_off A (w\<lparr>num_np_open := n, num_np_up := m\<rparr>)" "ip_off A w \<Longrightarrow> ip_off A (w\<lparr>auth_up := b\<rparr>)"
    "ip_off A w \<Longrightarrow> ip_off A (w\<lparr>auth_script_up := b\<rparr>)" "ip_off A w \<Longrightarrow> ip_off A (w\<lparr>peer_mru := n\<rparr>)"
    "ip_off A w \<Longrightarrow> ip_off A (w\<lparr>num_np_open := n\<rparr>)" "ip_off A w \<Longrightarrow> ip_off A (w\<lparr>fd_ppp := n\<rparr>)"
    "ip_off A w \<Longrightarrow> ip_off A (w\<lparr>devfd := n\<rparr>)"
  by (erule same_off [rotated], simp add: same_defs)+

lemmas off_chain = same_link [THEN same_off] same_auth_script [THEN same_off] same_timer [THEN same_off] off_fields off_if

lemma upper_layers_down_off:
  assumes "rest_ok rest" "other_protocols s = ipcp_protent ext # rest" "ip_off A w"
  shows "ip_off A (upper_layers_down s w)"
proof -
  have "ip_off A (fold proto_down (other_protocols s) (chap_lowerdown (upap_lowerdown w)))"
    using assms(1) unfolding assms(2)
    by (intro fold_keeps [where P = "ip_off A"] off_chain assms(3)) (auto simp: ipcp_down_off rest_ok_def)
  then show ?thesis unfolding upper_layers_down_def Let_def by (rule off_fields)
qed

lemma link_down_off:
  assumes "rest_ok rest" "other_protocols s = ipcp_protent ext # rest" "ip_off A w"
  shows "ip_off A (link_down s w)"
  unfolding link_down_def Let_def by (intro off_chain upper_layers_down_off [OF assms(1,2)] assms(3))

lemma lcp_down_off:
  assumes "rest_ok rest" "other_protocols s = ipcp_protent ext # rest" "x_link_down lx = link_down s" "ip_off A w"
  shows "ip_off A (lcp_down lx w)"
  unfolding lcp_down_def Let_def assms(3) by (intro off_chain link_down_off [OF assms(1,2)] assms(4))

lemma lcp_off_bystander:
  assumes "rest_ok rest" "other_protocols s = ipcp_protent ext # rest" "x_link_down lx = link_down s"
    "x_link_required lx = link_required" "\<And>w. ip_off A w \<Longrightarrow> ip_off A (x_link_terminated lx w)"
  shows "bystander_down (lcp_down_callbacks lx) lcp_fsm (ip_off A)"
  by unfold_locales
    (auto simp: lcp_down_callbacks_def lcp_starting_def lcp_finished_def assms(4,5) link_required_def
      intro: off_chain lcp_down_off [OF assms(1,2,3)])

lemma lcp_lowerdown_off:
  assumes "bystander_down (lcp_down_callbacks lx) lcp_fsm (ip_off A)" "ip_off A w"
  shows "ip_off A (lcp_lowerdown lx w)"
  unfolding lcp_lowerdown_def
  by (intro off_chain bystander_frame.keep_lowerdown [OF bystander_down.axioms(1) [OF assms(1)]] assms(2))

lemma link_terminated_off:
  fixes w :: "'z ipcp_world_scheme"
  assumes "rest_ok rest" "other_protocols s = ipcp_protent ext # rest" "ip_off A w"
  shows "ip_off A (link_terminated s w)"
proof -
  have b: "bystander_down (lcp_down_callbacks (lcp_ext0 s)) lcp_fsm (ip_off A)"
    by (rule lcp_off_bystander [OF assms(1,2)]) (simp_all add: lcp_ext0_def)
  have "ip_off A (release_link w)" unfolding release_link_def Let_def by (intro off_chain assms(3))
  moreover have "ip_off A (finish_link v)" if "ip_off A v" for v :: "'z ipcp_world_scheme"
    unfolding finish_link_def Let_def by (intro off_chain that)
  ultimately show ?thesis
    using assms(3) lcp_lowerdown_off [OF b] by (simp add: link_terminated_def Let_def)
qed

lemma np_finished_off:
  assumes "rest_ok rest" "other_protocols s = ipcp_protent ext # rest" "ip_off A w"
  shows "ip_off A (np_finished s w)"
proof -
  have b: "bystander_down (lcp_down_callbacks (lcp_ext1 s)) lcp_fsm (ip_off A)"
    by (rule lcp_off_bystander [OF assms(1,2)]) (simp_all add: lcp_ext1_def lcp_ext0_def link_terminated_off [OF assms(1,2)])
  have "ip_off A (lcp_close (lcp_ext1 s) r v)" if "ip_off A v" for r v
  proof -
    have t: "ip_off A (lcp_finished (lcp_ext1 s) x)" if "ip_off A x" for x
      using that link_terminated_off [OF assms(1,2)] by (simp add: lcp_finished_def lcp_ext1_def)
    show ?thesis
      unfolding lcp_close_def Let_def by (intro off_chain t bystander_down.keep_close [OF b] that)
  qed
  then show ?thesis using off_fields(5) [OF assms(3)] by (simp add: np_finished_def close_link_def Let_def)
qed

lemma ipcp_fin_ok: "rest_ok rest \<Longrightarrow> fin_ok (x_np_finished (ip_ext_of ext rest sys))"
  using np_finished_off [of rest "ip_sys0 ext rest sys"]
  by (auto simp: fin_ok_def ip_ext_of_def ip_sys0_def ip_off_layer [symmetric]) (auto simp: ip_off_def)

end
