(* ===== verification/Ipcp_Run.thy ===== *)
theory Ipcp_Run
  imports Ipcp_System System_Run
begin

text \<open>
  Runs of IPCP: its entry points, its timer, the end of its scripts and whatever the rest of the daemon does in between, in
  any order.  \<open>ip_step\<close> is one of them and \<open>ip_reach\<close> collects the states; the layer of \<open>Ipcp_Layer\<close> is its invariant.
\<close>

section \<open>Steps\<close>

text \<open>
  The steps of IPCP itself: its entry points, its timer, the end of one of its scripts, and the configuration of a demand-dialled link
  before the link is there.
\<close>

inductive ip_call :: "'z ipcp_world_scheme ip_ext \<Rightarrow> 'z ipcp_world_scheme \<Rightarrow> 'z ipcp_world_scheme \<Rightarrow> bool"
    for ext :: "'z ipcp_world_scheme ip_ext" where
  ip_open: "ip_call ext w (ipcp_open ext w)"
| ip_close: "ip_call ext w (ipcp_close ext reason w)"
| ip_lowerup: "ip_call ext w (ipcp_lowerup ext w)"
| ip_lowerdown: "ip_call ext w (ipcp_lowerdown ext w)"
| ip_protrej: "ip_call ext w (ipcp_protrej ext w)"
| ip_input: "ip_call ext w (ipcp_input ext p w)"
| ip_timer: "ip_call ext w (fsm_timeout (ipcp_callbacks ext) ipcp_fsm w)"
| ip_reaped: "unlink pid (children w) = (Some c, cs) \<Longrightarrow> ch_done c = Some Fn_ipcp_script_done \<Longrightarrow>
     ip_call ext w (forget_child (\<lambda>_. ipcp_script_done) pid w)"
| ip_demand: "demand w \<Longrightarrow> st ipcp_fsm w \<noteq> OPENED \<Longrightarrow> ip_call ext w (snd (ip_demand_conf ext w))"

text \<open>
  What the rest of the daemon does in between leaves the variables of IPCP alone, and the calls that turn the interface on and off are
  IPCP's.  It may do anything else, for instance replace the table of addresses when the peer authenticates again, or switch to
  dialling on demand.
\<close>

definition elsewhere_ok :: "'z ipcp_world_scheme \<Rightarrow> 'z ipcp_world_scheme \<Rightarrow> bool" where
  "elsewhere_ok w v \<longleftrightarrow> ipcp_is_up v = ipcp_is_up w \<and> ipcp_script_state v = ipcp_script_state w \<and>
     ipcp_script_pid v = ipcp_script_pid w \<and> ip_scripts v = ip_scripts w \<and> sset (execs v) \<subseteq> sset (execs w) \<and>
     st ipcp_fsm v = st ipcp_fsm w \<and> passing (ip_acts v) = passing (ip_acts w) \<and>
     (\<not> demand v \<longrightarrow> \<not> demand w \<and> iface (ip_acts v) = iface (ip_acts w)) \<and>
     (st ipcp_fsm w = OPENED \<longrightarrow> ouraddr (ipcp_gotoptions v) = ouraddr (ipcp_gotoptions w) \<and>
        hisaddr (ipcp_hisoptions v) = hisaddr (ipcp_hisoptions w))"

definition ip_step :: "'z ipcp_world_scheme ip_ext \<Rightarrow> 'z ipcp_world_scheme \<Rightarrow> 'z ipcp_world_scheme \<Rightarrow> bool" where
  "ip_step ext w v \<longleftrightarrow> ip_call ext w v \<or> elsewhere_ok w v"

inductive ip_reach :: "'z ipcp_world_scheme ip_ext \<Rightarrow> 'z ipcp_world_scheme \<Rightarrow> bool" for ext :: "'z ipcp_world_scheme ip_ext" where
  ip_boot: "\<not> ipcp_is_up w \<Longrightarrow> ipcp_script_state w = s_down \<Longrightarrow> ipcp_script_pid w = 0 \<Longrightarrow> ip_scripts w = [] \<Longrightarrow>
     (\<And>p. Forked p \<in> sset (execs w) \<Longrightarrow> p > 0) \<Longrightarrow> ip_acts w = [] \<Longrightarrow> ip_reach ext (ipcp_init w)"
| ip_next: "ip_reach ext w \<Longrightarrow> ip_step ext w v \<Longrightarrow> ip_reach ext v"

section \<open>The invariant\<close>

text \<open>Between the steps the invariant is that of \<open>Ipcp_Layer\<close> without the addresses.\<close>

abbreviation ip_inv :: "'z ipcp_world_scheme \<Rightarrow> bool" where
  "ip_inv \<equiv> ip_layer (\<lambda>_. True)"

lemma elsewhere_inv: "elsewhere_ok w v \<Longrightarrow> ip_inv w \<Longrightarrow> ip_inv v"
proof -
  assume e: "elsewhere_ok w v" and l: "ip_inv w"
  then have "one_script w" using layer_one_script by (auto simp: in_layer_def split: if_splits)
  moreover have "\<forall>p. Forked p \<in> sset (execs v) \<longrightarrow> Forked p \<in> sset (execs w)" using e by (auto simp: elsewhere_ok_def)
  ultimately have "one_script v" using e by (auto simp: one_script_def elsewhere_ok_def)
  then show ?thesis
    using e l by (cases "st ipcp_fsm w = OPENED") (auto simp: in_layer_def ip_shut_def ip_opn_def elsewhere_ok_def split: if_splits)
qed

text \<open>The addresses that the peer can have behind a step: the one it has, and those that the table grants before the step.\<close>

definition grants :: "'z ipcp_world_scheme \<Rightarrow> u32 \<Rightarrow> bool" where
  "grants w a \<longleftrightarrow> admitted w a \<or> ipcp_is_up w \<and> a = hisaddr (ipcp_hisoptions w)"

lemma inv_grants: "ip_inv w \<Longrightarrow> ip_layer (grants w) w"
  by (auto simp: in_layer_def ip_shut_def ip_opn_def grants_def split: if_splits)

lemma unlink_scripts:
  "unlink pid cs = (Some c, cs') \<Longrightarrow> ch_done c = Some Fn_ipcp_script_done \<Longrightarrow>
   length (filter (\<lambda>c. ch_done c = Some Fn_ipcp_script_done) cs) =
     Suc (length (filter (\<lambda>c. ch_done c = Some Fn_ipcp_script_done) cs'))"
  by (induction cs arbitrary: cs') (auto split: if_splits prod.splits)

lemma script_done_due:
  "ipcp_script_done w = script_due (if st ipcp_fsm w = OPENED then s_up else s_down) (w\<lparr>ipcp_script_pid := 0\<rparr>)"
  by (simp add: ipcp_script_done_def script_due_def Let_def split: script_state.split)

lemma reaped_layer:
  assumes "ip_layer A w" "unlink pid (children w) = (Some c, cs)" "ch_done c = Some Fn_ipcp_script_done"
  shows "ip_layer A (forget_child (\<lambda>_. ipcp_script_done) pid w)"
proof -
  let ?u = "w\<lparr>n_children := n_children w - 1, children := cs, ipcp_script_pid := 0\<rparr>"
  have one: "one_script w" using assms(1) layer_one_script by (auto simp: in_layer_def split: if_splits)
  then have "length (ip_scripts w) \<le> 1" by (simp add: one_script_def)
  then have "ip_scripts ?u = []"
    using unlink_scripts [OF assms(2,3)] by (simp add: ip_scripts_def)
  then have u: "one_script ?u" using one by (simp add: one_script_def)
  have eq: "forget_child (\<lambda>_. ipcp_script_done) pid w = script_due (if st ipcp_fsm w = OPENED then s_up else s_down) ?u"
    by (simp add: forget_child_def assms(2,3) script_done_due Let_def)
  have a: "admitted ?u a = admitted w a" for a by (simp add: admitted_def)
  show ?thesis
    unfolding eq using script_due_steps [OF u] assms(1) a
    by (auto simp: in_layer_def ip_opn_def ip_shut_def split: if_splits)
qed

lemma lowerup_any:
  assumes "ip_layer A w"
  shows "ip_layer A (fsm_lowerup (ipcp_callbacks (Rep_ip_env e)) ipcp_fsm w)"
proof (cases "early_state (st ipcp_fsm w)")
  case True
  then have "ip_shut A w" using assms by (auto simp: in_layer_def split: if_splits)
  then show ?thesis using ipl.lowerup_layer [OF assms] by simp
next
  case False
  then show ?thesis using assms by (cases "st ipcp_fsm w") (simp_all add: fsm_lowerup_def)
qed

lemma is_open_layer: "ip_layer A (w\<lparr>ipcp_is_open := b\<rparr>) = ip_layer A w"
  by (simp add: in_layer_def ip_shut_def ip_opn_def one_script_def ip_scripts_def admitted_def)

lemma boot_layer:
  assumes "\<not> ipcp_is_up w" "ipcp_script_state w = s_down" "ipcp_script_pid w = 0" "ip_scripts w = []"
    "\<And>p. Forked p \<in> sset (execs w) \<Longrightarrow> p > 0" "ip_acts w = []"
  shows "ip_inv (ipcp_init w)"
  using assms
  by (simp add: ipcp_init_def Let_def in_layer_def ip_shut_def one_script_def ip_scripts_def fsm_init_def upd_fsm_def passing_def iface_def)

text \<open>On a demand-dialled link the interface is configured and its packets are queued.\<close>

definition calm :: "'z ipcp_world_scheme \<Rightarrow> 'z ipcp_world_scheme \<Rightarrow> bool" where
  "calm w v \<longleftrightarrow> same_core w v \<and> (passing (ip_acts v) \<longrightarrow> passing (ip_acts w))"

lemma calm_trans: "calm u v \<Longrightarrow> calm v w \<Longrightarrow> calm u w"
  using same_core_trans by (auto simp: calm_def)

lemma same_calm: "same_ip w v \<Longrightarrow> calm w v"
  by (simp add: calm_def same_ip_def)

lemma calm_call: "a \<noteq> Sifnpmode NPMODE_PASS \<Longrightarrow> calm w (snd (os_call a w))"
  using core_os(2) [of w a] by (cases a) (auto simp: calm_def os_call_def split: if_splits)

lemma calm_chain:
  fixes w :: "'z ipcp_world_scheme"
  shows "calm u w \<Longrightarrow> calm u (ipcp_script s True w)" "calm u w \<Longrightarrow> calm u (w\<lparr>ask_for_local := b\<rparr>)"
    "calm u w \<Longrightarrow> calm u (w\<lparr>ipcp_wantoptions := wo\<rparr>)" "calm u w \<Longrightarrow> calm u (w\<lparr>default_route_set := b\<rparr>)"
    "calm u w \<Longrightarrow> calm u (w\<lparr>proxy_arp_set := b\<rparr>)"
proof -
  have c: "calm u v \<Longrightarrow> same_ip v w \<Longrightarrow> calm u w" for v w :: "'z ipcp_world_scheme" using calm_trans same_calm by blast
  show "calm u w \<Longrightarrow> calm u (ipcp_script s True w)" by (erule c) simp
qed (erule calm_trans, rule same_calm, simp add: same_defs)+

text \<open>A sequence of bindings.\<close>

lemma calm_let:
  fixes u :: "'z ipcp_world_scheme"
  shows "calm u v \<Longrightarrow> a \<noteq> Sifnpmode NPMODE_PASS \<Longrightarrow> (\<And>ok x. calm u x \<Longrightarrow> calm u (snd (g ok x))) \<Longrightarrow>
      calm u (snd (let (ok, x) = os_call a v in g ok x))"
    "calm u v \<Longrightarrow> a \<noteq> Sifnpmode NPMODE_PASS \<Longrightarrow> (\<And>ok x. calm u x \<Longrightarrow> calm u (h ok x)) \<Longrightarrow>
      calm u (let (ok, x) = os_call a v in h ok x)"
    "calm u v \<Longrightarrow> (\<And>x. calm u x \<Longrightarrow> calm u (snd (k x))) \<Longrightarrow> calm u (snd (let x = v in k x))"
    "(\<And>y :: ipcp_options. calm u (snd (l y))) \<Longrightarrow> calm u (snd (let x = wo in l x))"
    "calm u (snd p) \<Longrightarrow> calm u (snd q) \<Longrightarrow> calm u (snd (if b then p else q))"
    "calm u w \<Longrightarrow> calm u v \<Longrightarrow> calm u (if b then w else v)" "calm u w \<Longrightarrow> calm u (snd (d, w))"
  by (simp_all add: Let_def split_def calm_trans [OF _ calm_call])

lemma demand_conf_calm: "calm w (snd (ip_demand_conf ext w))"
  unfolding ip_demand_conf_def by (intro calm_let calm_chain same_calm [OF same_ip_refl]; simp)

lemma demand_conf_layer:
  assumes "ip_layer A w" "demand w" "st ipcp_fsm w \<noteq> OPENED"
  shows "ip_layer A (snd (ip_demand_conf ext w))"
  using demand_conf_calm [of w ext] same_core_fields [of w] same_core_one_script [of w] same_core_admitted [of w] assms
  by (auto simp: calm_def in_layer_def ip_shut_def split: if_splits)

lemma ip_call_layer:
  assumes "fin_ok (x_np_finished ext)" "ip_call ext w v" "ip_layer A w"
  shows "ip_layer A v"
proof -
  have "Rep_ip_env (Abs_ip_env ext) = ext" by (rule Abs_ip_env_inverse) (simp add: assms(1))
  then obtain e where e: "ext = Rep_ip_env e" by metis
  from assms(2,3) show ?thesis unfolding e
    by cases
       (simp_all add: ipcp_open_def is_open_layer ipl.open_layer ipcp_close_def ipd.close_layer(1) ipcp_lowerup_def lowerup_any
          ipcp_lowerdown_def ipcp_protrej_def ipd.lowerdown_layer(1) ipcp_input_def ipl.input_layer ipl.timeout_layer reaped_layer
          demand_conf_layer)
qed

lemma ip_reach_inv:
  assumes "fin_ok (x_np_finished ext)" "ip_reach ext w"
  shows "ip_inv w"
  using assms(2)
proof (induction rule: ip_reach.induct)
  case (ip_boot w)
  then show ?case by (rule boot_layer)
next
  case (ip_next w v)
  then show ?case using ip_call_layer [OF assms(1)] elsewhere_inv by (auto simp: ip_step_def)
qed

lemma inv_state:
  "ip_inv w \<Longrightarrow> (ipcp_is_up w \<longleftrightarrow> st ipcp_fsm w = OPENED) \<and> (passing (ip_acts w) \<longleftrightarrow> ipcp_is_up w) \<and>
     (\<not> demand w \<longrightarrow> (iface (ip_acts w) \<longleftrightarrow> ipcp_is_up w)) \<and> (ipcp_is_up w \<longrightarrow> ouraddr (ipcp_gotoptions w) \<noteq> 0)"
  by (auto simp: in_layer_def ip_shut_def ip_opn_def split: if_splits)

lemma step_address:
  assumes "fin_ok (x_np_finished ext)" "ip_inv w" "ip_step ext w v" "ipcp_is_up v" "hisaddr (ipcp_hisoptions v) \<noteq> 0"
  shows "grants w (hisaddr (ipcp_hisoptions v))"
proof (cases "ip_call ext w v")
  case True
  then have "ip_layer (grants w) v" by (rule ip_call_layer [OF assms(1) _ inv_grants [OF assms(2)]])
  then show ?thesis using assms(4,5) by (auto simp: in_layer_def ip_shut_def ip_opn_def split: if_splits)
next
  case False
  then have "elsewhere_ok w v" using assms(3) by (simp add: ip_step_def)
  then show ?thesis using assms(4) inv_state [OF assms(2)] by (auto simp: elsewhere_ok_def grants_def)
qed

section \<open>Properties\<close>


text \<open>
  Property C6.  The scripts do not overlap and do not get out of step.  In every run, at most one \<open>ip-up\<close> or \<open>ip-down\<close> script is
  running, \<open>ipcp_script_pid\<close> names it, and when none is running (and no fork has failed) the last one that was due
  is \<open>ip-up\<close> exactly if IPCP is OPENED, however often the link went up and down while a script was running.
\<close>

theorem ip_scripts_in_step:
  assumes "rest_ok rest" "ip_reach (ip_ext_of ext rest sys) w"
  shows "ip_scripts w = (if ipcp_script_pid w > 0 then [ipcp_script_pid w] else []) \<and>
    (ipcp_script_pid w = 0 \<longrightarrow> (ipcp_script_state w = s_up \<longleftrightarrow> st ipcp_fsm w = OPENED))"
proof -
  have "ip_inv w" using ip_reach_inv [OF ipcp_fin_ok [OF assms(1)] assms(2)] .
  then show ?thesis
    by (cases "st ipcp_fsm w = OPENED") (auto simp: in_layer_def ip_opn_def ip_shut_def one_script_def split: if_splits)
qed

section \<open>A run\<close>

lemma ip_call_next: "ip_reach ext w \<Longrightarrow> ip_call ext w v \<Longrightarrow> ip_reach ext v"
  by (erule ip_reach.ip_next) (simp add: ip_step_def)

lemma ip_else_next: "ip_reach ext w \<Longrightarrow> elsewhere_ok w v \<Longrightarrow> ip_reach ext v"
  by (erule ip_reach.ip_next) (simp add: ip_step_def)

text \<open>
  The peer asks for 192.168.1.2, which its entry in the secrets file grants, and acknowledges our 10.0.0.1; the calls of the
  operating system succeed.
\<close>

definition demo_ip_with :: "'z \<Rightarrow> 'z ipcp_world_scheme" where
  "demo_ip_with x = auth_world.extend demo_world
     (ipcp_world_ext ipcp_zero ipcp_zero ipcp_zero ipcp_zero False False False False False False False True s_down 0
        (Some [\<lparr>permit = True, base = 0xc0a80102, mask = 0xffffffff\<rparr>, forbid_all]) False False 0 None
        ''here'' [] (sconst True) [] x)"

definition demo_ip_world :: ipcp_world where
  "demo_ip_world = demo_ip_with ()"

definition demo_ip_ext :: "ipcp_world ip_ext" where
  "demo_ip_ext = \<lparr>x_np_finished = id, x_have_route_to = (\<lambda>_ _. False), x_GetMask = (\<lambda>_ _. 0xffffffff),
     x_resolver = \<lparr>host_by_name = (\<lambda>_. None), net_by_name = (\<lambda>_. None), inet_addr = (\<lambda>_. 0)\<rparr>\<rparr>"

abbreviation demo_ip_env :: "ipcp_world sys_ext \<Rightarrow> ipcp_world ip_ext" where
  "demo_ip_env sys \<equiv> ip_ext_of demo_ip_ext [] sys"

definition ip_set_up :: "ipcp_world \<Rightarrow> ipcp_world" where
  "ip_set_up w = w\<lparr>ipcp_wantoptions := ipcp_zero\<lparr>neg_addr := True, ouraddr := 0x0a000001\<rparr>,
     ipcp_allowoptions := ipcp_zero\<lparr>neg_addr := True\<rparr>, peer_mru := 1500\<rparr>"

definition ip_req_sent :: "ipcp_world sys_ext \<Rightarrow> ipcp_world" where
  "ip_req_sent sys = ipcp_lowerup (demo_ip_env sys) (ipcp_open (demo_ip_env sys) (ip_set_up (ipcp_init demo_ip_world)))"

definition ip_acked :: "ipcp_world sys_ext \<Rightarrow> ipcp_world" where
  "ip_acked sys = ipcp_input (demo_ip_env sys) [1, 9, 0, 10, 3, 6, 0xc0, 0xa8, 1, 2] (ip_req_sent sys)"

definition ip_running :: "ipcp_world sys_ext \<Rightarrow> ipcp_world" where
  "ip_running sys = ipcp_input (demo_ip_env sys) [2, 1, 0, 10, 3, 6, 10, 0, 0, 1] (ip_acked sys)"

lemmas ip_run_simps = run_simps ipcp_lowerup_def ipcp_open_def ip_set_up_def ipcp_init_def ipcp_input_def ipcp_callbacks_def
  demo_ip_world_def demo_ip_with_def auth_world.defs ipcp_resetci_def confreq_data_def ipcp_cilen_def ipcp_addci_def ipcp_ackci_def ipcp_reqci_def
  ipcp_zero_def ipcp_old_forms_def ipcp_cilen_of_def ipcp_addci_of_def ipcp_ackci_of_def ipcp_reqci_of_def
  ip_reqci_loop.simps ip_reqci_end_def ip_reqci_ci_def ip_reqci_addr_def ip_reqci_addrs_def his_addr_nak_def ip_ask_addr_def
  ACKCIADDRS_def ACKCIVJ_def ACKCIADDR_def
  ipcp_up_def up_interface_def up_environment_def setenv_addr_def clear_dns_def up_plain_def up_done_def up_routes_def
  script_setenv_def script_unsetenv_def create_resolv_def os_do_def os_call_def ipcp_script_def forget_child_def
  auth_ip_addr_def auth_ip_addr_of_def bad_ip_adrs_def

lemma ip_running_state: "st ipcp_fsm (ip_running sys) = OPENED"
  by (simp add: ip_running_def ip_acked_def ip_req_sent_def ip_run_simps cong: let_weak_cong)

lemma ip_running_values:
  "hisaddr (ipcp_hisoptions (ip_running sys)) = 0xc0a80102" "ipcp_script_pid (ip_running sys) = 7"
  "demand (ip_running sys) = False"
  by (simp_all add: ip_running_def ip_acked_def ip_req_sent_def ip_run_simps cong: let_weak_cong)

lemma ip_acked_values:
  "ipcp_is_up (ip_acked sys) = False"
  "addresses (ip_acked sys) = Some [\<lparr>permit = True, base = 0xc0a80102, mask = 0xffffffff\<rparr>, forbid_all]"
  by (simp_all add: ip_acked_def ip_req_sent_def ip_run_simps cong: let_weak_cong)

lemma ip_acked_reach: "ip_reach (demo_ip_env sys) (ip_acked sys)"
proof -
  let ?w = "ipcp_init demo_ip_world"
  have "ip_reach (demo_ip_env sys) ?w"
    by (rule ip_reach.ip_boot) (simp_all add: demo_ip_world_def demo_ip_with_def auth_world.defs ip_scripts_def)
  moreover have "elsewhere_ok ?w (ip_set_up ?w)"
    by (simp add: elsewhere_ok_def ip_set_up_def ip_scripts_def ipcp_init_def Let_def fsm_init_def upd_fsm_def)
  ultimately have "ip_reach (demo_ip_env sys) (ip_set_up ?w)" by (rule ip_else_next)
  then show ?thesis
    unfolding ip_acked_def ip_req_sent_def
    by (intro ip_call_next [OF _ ip_call.ip_input] ip_call_next [OF _ ip_call.ip_lowerup] ip_call_next [OF _ ip_call.ip_open])
qed

lemma ip_running_step: "ip_step (demo_ip_env sys) (ip_acked sys) (ip_running sys)"
  unfolding ip_step_def ip_running_def by (rule disjI1) (rule ip_call.ip_input)

lemmas ip_running_reach = ip_reach.ip_next [OF ip_acked_reach ip_running_step]

lemma no_rest: "rest_ok []"
  by (simp add: rest_ok_def)


theorem ip_scripts_in_step_witness: "\<forall>sys. ip_scripts (ip_running sys) = [7]"
  using ip_scripts_in_step [OF no_rest ip_running_reach] ip_running_values(2) by simp

end
