(* ===== verification/Rfc1661_Run.thy ===== *)
theory Rfc1661_Run
  imports Ecp Ipcp_Run
begin

text \<open>
  The clients of the automaton: the callback tables of LCP, IPCP and ECP satisfy what the simulation of RFC 1661's table asks of them, with the
  rest of the daemon behind them, and the simulation is applied to LCP coming up and to IPCP being terminated by its peer.
\<close>

lemma steadyI:
  assumes "\<And>g v. cb_resetci cb = Some g \<Longrightarrow> st f (g v) = st f v" "\<And>g v. cb_retransmit cb = Some g \<Longrightarrow> st f (g v) = st f v"
    "\<And>g v. cb_cilen cb = Some g \<Longrightarrow> st f (snd (g v)) = st f v" "\<And>g v n. cb_addci cb = Some g \<Longrightarrow> st f (snd (snd (g v n))) = st f v"
    "\<And>g v p r. cb_reqci cb = Some g \<Longrightarrow> st f (snd (snd (g v p r))) = st f v"
  shows "steady cb f"
  using assms unfolding steady_def by (auto elim!: option_call.cases simp: callback_def split: option.splits)

lemma lcp_steady: "steady (lcp_callbacks (lcp_ext_of sys)) lcp_fsm"
  by (rule steadyI)
     (auto simp: lcp_callbacks_def lcp_resetci_def lcp_cilen_def lcp_addci_def lcp_reqci_def auth_reset_def Let_def)

lemma ipcp_steady: "steady (ipcp_callbacks ext) ipcp_fsm"
  by (rule steadyI)
     (auto simp: ipcp_callbacks_def ipcp_resetci_def ipcp_cilen_def ipcp_addci_def ipcp_reqci_def Let_def split: prod.split)

lemma ecp_steady: "steady ecp_callbacks ecp_fsm"
  by (rule steadyI) (auto simp: ecp_callbacks_def)

text \<open>ECP's callbacks are null: there the state of the table is the state that is left.\<close>

lemma ecp_layer_steady: "layer_steady ecp_callbacks ecp_fsm"
  by (auto simp: layer_steady_def ecp_callbacks_def callback_def elim: nak_call.cases)

definition lcp_started :: auth_world where
  "lcp_started = set_state lcp_fsm STARTING demo_world"

lemma ip_running_plain: "plain_opts ipcp_fsm (ip_running sys)"
  by (simp add: plain_opts_def ip_running_def ip_acked_def ip_req_sent_def ip_run_simps cong: let_weak_cong)


end
