(* ===== verification/Getword.thy ===== *)
theory Getword
  imports Ip_Auth
begin

text \<open>
  The words of options files and secrets files: \<open>getword\<close> of \<^verbatim>\<open>pppd/options.c\<close>.  A file is the list of the characters
  that are still to be read, \<open>getc\<close> takes its head and \<open>ungetc\<close> puts it back; a read error, which ends the daemon, is not
  modelled.  The word is the C string in the buffer: what comes before the first null character.
\<close>

section \<open>Definitions\<close>

abbreviation MAXWORDLEN :: nat where "MAXWORDLEN \<equiv> 1024"

abbreviation NL :: char where "NL \<equiv> CHR 0x0A"

abbreviation backslash :: char where "backslash \<equiv> CHR 0x5C"

text \<open>
  The first loop skips white space and comments.  Its arguments are \<open>*newlinep\<close>, \<open>escape\<close> and \<open>comment\<close>; the rest that it
  returns starts with the character \<open>c\<close> at which it stops, and is empty at the end of the file.
\<close>

fun skip_blanks :: "bool \<Rightarrow> bool \<Rightarrow> bool \<Rightarrow> string \<Rightarrow> bool \<times> bool \<times> string" where
  "skip_blanks newline escape comment [] = (newline, escape, [])"
| "skip_blanks newline escape comment (c # f) =
     (if c = NL then
        (if \<not> escape then skip_blanks True escape False f else skip_blanks newline False comment f)
      else if comment then skip_blanks newline escape comment f
      else if escape then (newline, escape, c # f)
      else if c = backslash then skip_blanks newline True comment f
      else if c = CHR ''#'' then skip_blanks newline escape True f
      else if \<not> isspace c then (newline, escape, c # f)
      else skip_blanks newline escape comment f)"

text \<open>The character for an escape sequence and the file behind it; \<open>c\<close> is the character behind the backslash.\<close>

definition isoctal :: "char \<Rightarrow> bool" where
  "isoctal c \<longleftrightarrow> 48 \<le> (of_char c :: nat) \<and> of_char c < (56 :: nat)"

definition isxdigit :: "char \<Rightarrow> bool" where
  "isxdigit c \<longleftrightarrow> isdigit c \<or> c \<in> set ''abcdefABCDEF''"

definition toupper :: "char \<Rightarrow> char" where
  "toupper c = (if 97 \<le> (of_char c :: nat) \<and> of_char c \<le> (122 :: nat) then char_of (of_char c - 32 :: nat) else c)"

fun octal_loop :: "nat \<Rightarrow> nat \<Rightarrow> string \<Rightarrow> nat \<times> string" where
  "octal_loop (Suc n) val (c # f) = (if isoctal c then octal_loop n (8 * val + of_char c mod 8) f else (val, c # f))"
| "octal_loop n val f = (val, f)"

definition xdigit :: "char \<Rightarrow> nat" where
  "xdigit c = (let digit = of_char (toupper c) - 48 in if digit > 10 then digit + 48 + 10 - 65 else digit)"

fun hex_loop :: "nat \<Rightarrow> nat \<Rightarrow> string \<Rightarrow> nat \<times> string" where
  "hex_loop (Suc n) val (c # f) = (if isxdigit c then hex_loop n (16 * val + xdigit c) f else (val, c # f))"
| "hex_loop n val f = (val, f)"

definition escaped :: "char \<Rightarrow> string \<Rightarrow> char \<times> string" where
  "escaped c f =
     (if c = CHR ''a'' then (CHR 0x07, f)
      else if c = CHR ''b'' then (CHR 0x08, f)
      else if c = CHR ''f'' then (CHR 0x0C, f)
      else if c = CHR ''n'' then (CHR 0x0A, f)
      else if c = CHR ''r'' then (CHR 0x0D, f)
      else if c = CHR ''s'' then (CHR '' '', f)
      else if c = CHR ''t'' then (CHR 0x09, f)
      else if isoctal c then map_prod char_of id (octal_loop 3 0 (c # f))
      else if c = CHR ''x'' then map_prod char_of id (hex_loop 2 0 f)
      else (c, f))"

lemma isspace_iff: "isspace c \<longleftrightarrow> c \<in> {CHR '' '', CHR 0x09, CHR 0x0A, CHR 0x0B, CHR 0x0C, CHR 0x0D}"
proof -
  have "map char_of [9 :: nat, 10, 11, 12, 13] = [CHR 0x09, CHR 0x0A, CHR 0x0B, CHR 0x0C, CHR 0x0D]" by code_simp
  then show ?thesis unfolding isspace_def by simp
qed

lemma octal_loop_rest: "length (snd (octal_loop n v f)) \<le> length f"
  by (induction n v f rule: octal_loop.induct) (auto simp: le_SucI)

lemma hex_loop_rest: "length (snd (hex_loop n v f)) \<le> length f"
  by (induction n v f rule: hex_loop.induct) (auto simp: le_SucI)

lemma escaped_rest: "length (snd (escaped c f)) \<le> length f"
  using octal_loop_rest [of 2 "8 * 0 + of_char c mod 8" f] hex_loop_rest [of 2 0 f]
  by (simp add: escaped_def numeral_3_eq_3 numeral_2_eq_2 del: octal_loop.simps(2))

text \<open>The second loop collects the word: the buffer, the rest, and whether it was ended by the end of the file.\<close>

definition store :: "char \<Rightarrow> string \<Rightarrow> string" where
  "store c word = (if length word < MAXWORDLEN then word @ [c] else word)"

function word_loop :: "bool \<Rightarrow> char option \<Rightarrow> string \<Rightarrow> string \<Rightarrow> string \<times> string \<times> bool" where
  "word_loop escape quoted word [] = (word, [], True)"
| "word_loop escape quoted word (c # f) =
     (if escape then
        (if c = NL then word_loop False quoted word f
         else word_loop False quoted (store (fst (escaped c f)) word) (snd (escaped c f)))
      else if c = backslash then word_loop True quoted word f
      else if quoted = Some c then word_loop False None word f
      else if quoted = None \<and> (c = CHR 0x22 \<or> c = CHR 0x27) then word_loop False (Some c) word f
      else if quoted = None \<and> (isspace c \<or> c = CHR ''#'') then (word, c # f, False)
      else word_loop False quoted (store c word) f)"
  by pat_completeness auto

termination
  by (relation "measure (\<lambda>(e, q, w, f). length f)") (auto simp: escaped_rest less_Suc_eq_le)

definition getword :: "string \<Rightarrow> string option \<times> bool \<times> string" where
  "getword f =
     (let (newline, escape, f) = skip_blanks False False False f;
          (word, f, eof) = word_loop escape None [] f
      in if eof \<and> word = [] then (None, newline, f)
         else (Some (takeWhile (\<lambda>c. c \<noteq> CHR 0x00) (take (MAXWORDLEN - 1) word)), newline, f))"

section \<open>Progress and bounds\<close>

lemma skip_blanks_length: "length (snd (snd (skip_blanks nl e c f))) \<le> length f"
  by (induction nl e c f rule: skip_blanks.induct) (simp_all add: le_SucI)

lemma skip_blanks_newline:
  "fst (skip_blanks nl e c f) \<Longrightarrow> \<not> nl \<Longrightarrow> length (snd (snd (skip_blanks nl e c f))) < length f"
proof (induction nl e c f rule: skip_blanks.induct)
  case (2 nl e c x f)
  have "length (snd (snd (skip_blanks nl' e' c' f))) < Suc (length f)" for nl' e' c'
    using skip_blanks_length [of nl' e' c' f] by simp
  then show ?case using "2.prems" by (simp split: if_splits)
qed simp

lemma skip_blanks_stop:
  "snd (snd (skip_blanks nl e c f)) = x # r \<Longrightarrow> \<not> fst (snd (skip_blanks nl e c f)) \<Longrightarrow> \<not> isspace x \<and> x \<noteq> CHR ''#''"
  by (induction nl e c f rule: skip_blanks.induct) (simp_all split: if_splits)

lemma skip_blanks_rest:
  assumes "skip_blanks nl e c f = (nl', e', r)"
  shows "length r \<le> length f" "nl' \<Longrightarrow> \<not> nl \<Longrightarrow> length r < length f"
    "\<not> e' \<Longrightarrow> r \<noteq> [] \<Longrightarrow> \<not> isspace (hd r) \<and> hd r \<noteq> CHR ''#''"
  using skip_blanks_length [of nl e c f] skip_blanks_newline [of nl e c f] skip_blanks_stop [of nl e c f] assms
  by (simp_all add: neq_Nil_conv) (metis list.sel(1))

lemma word_loop_step:
  "\<not> e \<and> q = None \<and> (isspace c \<or> c = CHR ''#'') \<and> word_loop e q w (c # f) = (w, c # f, False) \<or>
   (\<exists>e' q' w' f'. length f' \<le> length f \<and> word_loop e q w (c # f) = word_loop e' q' w' f')"
proof -
  define P where "P r \<longleftrightarrow> \<not> e \<and> q = None \<and> (isspace c \<or> c = CHR ''#'') \<and> r = (w, c # f, False) \<or>
    (\<exists>e' q' w' f'. length f' \<le> length f \<and> r = word_loop e' q' w' f')" for r
  have loop: "P (word_loop x y z f)" "P (word_loop x y z (snd (escaped c f)))" for x y z
    using escaped_rest unfolding P_def by blast+
  have stop: "\<not> e \<Longrightarrow> q = None \<and> (isspace c \<or> c = CHR ''#'') \<Longrightarrow> P (w, c # f, False)" by (simp add: P_def)
  have cond: "(b \<Longrightarrow> P x) \<Longrightarrow> (\<not> b \<Longrightarrow> P y) \<Longrightarrow> P (if b then x else y)" for b x y by simp
  have "P (word_loop e q w (c # f))" unfolding word_loop.simps by (intro cond loop stop; assumption)
  then show ?thesis unfolding P_def .
qed

lemma word_loop_rest: "length (fst (snd (word_loop e q w f))) \<le> length f \<and> (snd (snd (word_loop e q w f)) \<longleftrightarrow> fst (snd (word_loop e q w f)) = [])"
proof (induction f arbitrary: e q w rule: length_induct)
  case (1 f)
  show ?case
  proof (cases f)
    case (Cons c t)
    from word_loop_step [of e q c w t] show ?thesis
    proof (elim disjE exE conjE)
      fix e' q' w' f' assume s: "length f' \<le> length t" "word_loop e q w (c # t) = word_loop e' q' w' f'"
      with 1 Cons have "length (fst (snd (word_loop e' q' w' f'))) \<le> length f' \<and>
        (snd (snd (word_loop e' q' w' f')) \<longleftrightarrow> fst (snd (word_loop e' q' w' f')) = [])" by simp
      then show ?thesis using s Cons by simp
    qed (simp_all add: Cons del: word_loop.simps)
  qed simp
qed

lemma word_loop_less:
  assumes "e \<or> \<not> isspace c \<and> c \<noteq> CHR ''#''"
  shows "length (fst (snd (word_loop e q w (c # f)))) < length (c # f)"
  using word_loop_step [of e q c w f]
proof (elim disjE exE conjE)
  fix e' q' w' f' assume "length f' \<le> length f" "word_loop e q w (c # f) = word_loop e' q' w' f'"
  then show ?thesis using word_loop_rest [of e' q' w' f'] by simp
qed (use assms in simp_all)

lemma getword_rest:
  assumes "getword f = (w, nl, r)"
  shows "length r \<le> length f" "w \<noteq> None \<or> nl \<Longrightarrow> length r < length f" "w = None \<Longrightarrow> r = []"
proof -
  obtain nl' e s where s: "skip_blanks False False False f = (nl', e, s)" by (rule prod_cases3)
  obtain buf r' eof where l: "word_loop e None [] s = (buf, r', eof)" by (rule prod_cases3)
  have [simp]: "r' = r" "nl' = nl" and w: "w = None \<longleftrightarrow> eof \<and> buf = []"
    using assms by (auto simp add: getword_def s l split: if_splits)
  have le: "length r \<le> length s" "eof \<longleftrightarrow> r = []"
    using word_loop_rest [of e None "[]" s] l by simp_all
  show "length r \<le> length f" using le skip_blanks_rest(1) [OF s] by simp
  show "w = None \<Longrightarrow> r = []" using w le by simp
  show "length r < length f" if "w \<noteq> None \<or> nl"
  proof (cases "nl")
    case True
    then show ?thesis using skip_blanks_rest(2) [OF s] le by simp
  next
    case False
    then have "s \<noteq> []" using that w l by auto
    then obtain c t where "s = c # t" by (cases s) auto
    then have "length r < length s"
      using word_loop_less [of e c None "[]" t] skip_blanks_rest(3) [OF s] l by auto
    then show ?thesis using skip_blanks_rest(1) [OF s] by simp
  qed
qed

text \<open>
  A word that \<open>getword\<close> returns fits the caller's array of \<open>MAXWORDLEN\<close> characters with its terminating null, has
  no null character inside, and was made from at least one character of the file, so that reading words from a file ends;
  no word means that the whole file was read.
\<close>

lemma getword_bounds:
  "case getword f of
     (Some w, newline, r) \<Rightarrow> length w < MAXWORDLEN \<and> CHR 0x00 \<notin> set w \<and> length r < length f
   | (None, newline, r) \<Rightarrow> r = []"
proof -
  obtain w nl r where g: "getword f = (w, nl, r)" by (rule prod_cases3)
  have "length (takeWhile (\<lambda>c. c \<noteq> CHR 0x00) (take 1023 s)) < MAXWORDLEN" for s
    using length_takeWhile_le [of "\<lambda>c. c \<noteq> CHR 0x00" "take 1023 s"] by simp
  then have "w = Some v \<Longrightarrow> length v < MAXWORDLEN \<and> CHR 0x00 \<notin> set v" for v
    using g by (auto simp: getword_def Let_def dest: set_takeWhileD split: prod.splits if_splits)
  then show ?thesis using getword_rest [OF g] by (auto simp: g split: option.split)
qed

section \<open>Writing a word\<close>

text \<open>
  How a string is to be written into the file: in quotes, with a backslash before quotes and backslashes.
\<close>

definition quote_char :: "char \<Rightarrow> string" where
  "quote_char c = (if c = CHR 0x22 \<or> c = backslash then [backslash, c] else [c])"

definition quote :: "string \<Rightarrow> string" where
  "quote w = CHR 0x22 # concat (map quote_char w) @ [CHR 0x22]"

lemma escaped_self: "c = CHR 0x22 \<or> c = backslash \<Longrightarrow> escaped c f = (c, f)"
proof -
  have "\<not> isoctal (CHR 0x22)" "\<not> isoctal backslash" by code_simp+
  then show "c = CHR 0x22 \<or> c = backslash \<Longrightarrow> escaped c f = (c, f)" by (elim disjE) (simp_all add: escaped_def)
qed

lemma word_loop_char:
  assumes "length word < MAXWORDLEN"
  shows "word_loop False (Some (CHR 0x22)) word (quote_char c @ f) = word_loop False (Some (CHR 0x22)) (word @ [c]) f"
proof (cases "c = CHR 0x22 \<or> c = backslash")
  case True
  then show ?thesis using assms escaped_self [OF True] by (auto simp: quote_char_def store_def)
qed (use assms in \<open>auto simp: quote_char_def store_def\<close>)

lemma word_loop_quoted:
  "length word + length w \<le> MAXWORDLEN \<Longrightarrow>
   word_loop False (Some (CHR 0x22)) word (concat (map quote_char w) @ CHR 0x22 # r) = word_loop False None (word @ w) r"
  by (induction w arbitrary: word) (simp_all add: word_loop_char)

lemma skip_blanks_space:
  "list_all isspace pre \<Longrightarrow>
   skip_blanks newline False False (pre @ CHR 0x22 # f) = (newline \<or> NL \<in> set pre, False, CHR 0x22 # f)"
proof (induction pre arbitrary: newline)
  case (Cons c pre)
  moreover have "c \<noteq> backslash" "c \<noteq> CHR ''#''" using Cons.prems by (auto simp: isspace_iff)
  ultimately show ?case by auto
qed (simp add: isspace_iff)

text \<open>
  Property C15.  Every string of up to 1023 characters without a null can be written into an options file or a secrets file: after
  any white space and before white space, a comment or the end of the file, its quoted form is read back as exactly this string, with
  \<open>newline\<close> telling whether it is the first word of its line, and the file behind it untouched.  (The empty string at the end of
  the file is excepted, see \<open>empty_word_at_end\<close>.)
\<close>

theorem getword_quoted:
  assumes "length w < MAXWORDLEN" "CHR 0x00 \<notin> set w" "list_all isspace pre"
    "if r = [] then w \<noteq> [] else isspace (hd r) \<or> hd r = CHR ''#''"
  shows "getword (pre @ quote w @ r) = (Some w, NL \<in> set pre, r)"
proof -
  have "isspace c \<or> c = CHR ''#'' \<Longrightarrow> c \<noteq> backslash \<and> c \<noteq> CHR 0x22 \<and> c \<noteq> CHR 0x27" for c by (auto simp: isspace_iff)
  then have l: "word_loop False None w r = (w, r, r = [])"
    using assms(4) by (cases r) auto
  have "word_loop False None [] (quote w @ r) = (w, r, r = [])"
    using word_loop_quoted [of "[]" w r] assms(1) by (simp add: quote_def l del: word_loop.simps(2)) (simp add: isspace_iff l)
  moreover have "takeWhile (\<lambda>c. c \<noteq> CHR 0x00) w = w" using assms(2) by (simp add: takeWhile_eq_all_conv) metis
  ultimately show ?thesis
    using skip_blanks_space [OF assms(3), of False "concat (map quote_char w) @ CHR 0x22 # r"] assms(1,4)
    by (auto simp: getword_def quote_def)
qed

theorem getword_quoted_witness:
  "getword (CHR '' '' # quote ''a #b'' @ [NL]) = (Some ''a #b'', False, [NL])"
  using getword_quoted [of "''a #b''" "'' ''" "[NL]"] by (simp add: isspace_iff)

text \<open>An empty word in quotes is a word, unless the file ends right behind it.\<close>

lemma empty_word_at_end:
  "getword (quote [] @ [NL]) = (Some [], False, [NL])" "getword (quote []) = (None, False, [])"
  by (simp_all add: getword_def quote_def isspace_iff)

end
