(* ===== verification/Secrets.thy ===== *)
theory Secrets
  imports Getword
begin

text \<open>
  Searching a secrets file: \<open>scan_authfile\<close> of \<^verbatim>\<open>pppd/auth.c\<close>.  A file is its list of characters, \<open>files\<close> gives the content of
  the file behind a path (\<open>None\<close> if \<open>fopen\<close> fails).  A line is: client, server, secret, and words for addresses and options.
  The result of the search is specified line by line, and the loop of the code shown to compute it.
\<close>

section \<open>The code\<close>

definition ISWILD :: "string \<Rightarrow> bool" where
  "ISWILD word \<longleftrightarrow> word = ''*''"

abbreviation NONWILD_SERVER :: int where "NONWILD_SERVER \<equiv> 1"
abbreviation NONWILD_CLIENT :: int where "NONWILD_CLIENT \<equiv> 2"

text \<open>
  \<open>while (!newline && getword(...)) ;\<close> with the values of \<open>newline\<close>, \<open>word\<close> and the file behind it.  \<open>word\<close> keeps its value when
  there is no further word.
\<close>

function skip_line :: "bool \<Rightarrow> string \<Rightarrow> string \<Rightarrow> bool \<times> string \<times> string" where
  "skip_line newline word f =
     (if newline then (newline, word, f)
      else
        (case getword f of
           (None, newline, f) \<Rightarrow> (newline, word, f)
         | (Some word, newline, f) \<Rightarrow> skip_line newline word f))"
  by pat_completeness auto

termination
  by (relation "measure (\<lambda>(n, w, f). length f)") (simp, metis getword_rest(2) in_measure case_prod_conv option.distinct(1))

declare skip_line.simps [simp del]

text \<open>The loop that collects the words for addresses and options.\<close>

function addr_words :: "string \<Rightarrow> string \<Rightarrow> string list \<times> bool \<times> string \<times> string" where
  "addr_words word f =
     (case getword f of
        (None, newline, f) \<Rightarrow> ([], newline, word, f)
      | (Some word, newline, f) \<Rightarrow>
          (if newline then ([], newline, word, f)
           else (let (alist, newline, latest, f) = addr_words word f in (word # alist, newline, latest, f))))"
  by pat_completeness auto

termination
  by (relation "measure (\<lambda>(w, f). length f)") (simp, metis getword_rest(2) in_measure case_prod_conv option.distinct(1))

declare addr_words.simps [simp del]

definition two_colons :: "string \<Rightarrow> bool" where
  "two_colons word =
     (case dropWhile (\<lambda>c. c \<noteq> CHR '':'') word of [] \<Rightarrow> False | _ # r \<Rightarrow> CHR '':'' \<in> set r)"

text \<open>The secret: \<open>@/path\<close> stands for the first word of another file.\<close>

definition read_secret :: "(string \<Rightarrow> string option) \<Rightarrow> string \<Rightarrow> string option" where
  "read_secret files word =
     (case word of
        c # d # _ \<Rightarrow>
          (if c = CHR ''@'' \<and> d = CHR ''/'' then
             (case files (tl word) of None \<Rightarrow> None | Some sf \<Rightarrow> fst (getword sf))
           else Some word)
      | _ \<Rightarrow> Some word)"

text \<open>What the search asks for: \<open>None\<close> for a null pointer.\<close>

record query =
  q_client :: "string option"
  q_server :: "string option"
  q_secret :: bool
  q_flags :: bool

text \<open>
  The main loop, with \<open>newline\<close>, \<open>word\<close>, the file, and the best entry so far: \<open>best_flag\<close>, the secret and the words behind it.
\<close>

type_synonym entry = "int \<times> string \<times> string list"

lemma skip_line_eq:
  "getword f = (v, n, s) \<Longrightarrow>
   skip_line nl w f = (if nl then (nl, w, f) else case v of None \<Rightarrow> (n, w, s) | Some x \<Rightarrow> skip_line n x s)"
  by (subst skip_line.simps) (simp split: option.split)

lemma addr_words_eq:
  "getword f = (v, n, s) \<Longrightarrow>
   addr_words w f = (case v of None \<Rightarrow> ([], n, w, s)
     | Some x \<Rightarrow> if n then ([], n, x, s) else (let (as, n, l, f) = addr_words x s in (x # as, n, l, f)))"
  by (subst addr_words.simps) (simp split: option.split)

lemma skip_line_rest:
  "skip_line nl w f = (nl', w', r) \<Longrightarrow> length r \<le> length f \<and> (\<not> nl \<longrightarrow> nl' \<longrightarrow> length r < length f)"
proof (induction f arbitrary: nl w rule: length_induct)
  case (1 f)
  obtain v n s where g: "getword f = (v, n, s)" by (rule prod_cases3)
  show ?case
  proof (cases "nl \<or> v = None")
    case True
    then show ?thesis using "1.prems" getword_rest [OF g] by (auto simp: skip_line_eq [OF g] split: if_splits)
  next
    case False
    then obtain x where x: "v = Some x" by auto
    with "1.prems" False have "skip_line n x s = (nl', w', r)" by (simp add: skip_line_eq [OF g])
    moreover have "length s < length f" using getword_rest [OF g] x by simp
    ultimately show ?thesis using "1.IH" by fastforce
  qed
qed

lemma addr_words_rest: "addr_words w f = (as, nl, l, r) \<Longrightarrow> length r \<le> length f"
proof (induction f arbitrary: w as rule: length_induct)
  case (1 f)
  obtain v n s where g: "getword f = (v, n, s)" by (rule prod_cases3)
  show ?case
  proof (cases v)
    case None
    then show ?thesis using "1.prems" getword_rest [OF g] by (simp add: addr_words_eq [OF g])
  next
    case (Some x)
    then have s: "length s < length f" using getword_rest [OF g] by simp
    then show ?thesis using "1.prems" "1.IH" Some by (fastforce simp: addr_words_eq [OF g] split: if_splits prod.splits)
  qed
qed

text \<open>How much is left to do for the main loop.\<close>

definition work :: "bool \<Rightarrow> string \<Rightarrow> nat" where
  "work newline f = 2 * length f + (if newline then 1 else 0)"

lemma work_simps: "work True f = 2 * length f + 1" "work False f = 2 * length f"
  by (simp_all add: work_def)

lemma work_skip: "(True, w', r) = skip_line nl w f \<Longrightarrow> 2 * length r + 1 \<le> work nl f"
  using skip_line_rest [of nl w f True w' r] by (auto simp: work_def)

lemma work_word: "(Some w, nl, r) = getword f \<Longrightarrow> length r < length f"
  using getword_rest(2) by (metis option.distinct(1))

lemma work_addrs: "(as, nl, l, r) = addr_words w f \<Longrightarrow> length r \<le> length f"
  by (rule addr_words_rest [OF sym])

function scan_loop :: "(string \<Rightarrow> string option) \<Rightarrow> query \<Rightarrow> bool \<Rightarrow> string \<Rightarrow> string \<Rightarrow> entry \<Rightarrow> entry" where
  "scan_loop files q newline word f best =
     (case skip_line newline word f of
        (False, _, _) \<Rightarrow> best
      | (True, client, f) \<Rightarrow>
          (if (case q_client q of Some c \<Rightarrow> client \<noteq> c | None \<Rightarrow> False) \<and> \<not> ISWILD client
           then scan_loop files q False client f best
           else
             (case getword f of
                (None, _, _) \<Rightarrow> best
              | (Some server, True, f) \<Rightarrow> scan_loop files q True server f best
              | (Some server, False, f) \<Rightarrow>
                  (if \<not> ISWILD server \<and> (case q_server q of Some s \<Rightarrow> server \<noteq> s | None \<Rightarrow> False)
                   then scan_loop files q False server f best
                   else
                     (let got_flag = (if ISWILD client then 0 else NONWILD_CLIENT) + (if ISWILD server then 0 else NONWILD_SERVER)
                      in if got_flag \<le> fst best then scan_loop files q False server f best
                         else
                           (case getword f of
                              (None, _, _) \<Rightarrow> best
                            | (Some k, True, f) \<Rightarrow> scan_loop files q True k f best
                            | (Some k, False, f) \<Rightarrow>
                                (if q_flags q \<and> \<not> two_colons k then scan_loop files q False k f best
                                 else
                                   (case (if q_secret q then read_secret files k else Some k) of
                                      None \<Rightarrow> scan_loop files q False k f best
                                    | Some lsecret \<Rightarrow>
                                        (case addr_words lsecret f of
                                           (alist, False, _, _) \<Rightarrow> (got_flag, lsecret, alist)
                                         | (alist, True, latest, f) \<Rightarrow>
                                             scan_loop files q True latest f (got_flag, lsecret, alist))))))))))"
  by pat_completeness auto

termination
proof (relation "measure (\<lambda>(fs, q, nl, w, f, b). work nl f)", goal_cases)
  case 1
  show ?case by simp
qed (simp_all only: in_measure prod.case work_simps, (force dest: work_skip work_word work_addrs)+)

declare scan_loop.simps [simp del]

text \<open>
  The whole function: \<open>best_flag\<close>, the secret if the caller wants it and one was found, the words before \<open>--\<close> (addresses)
  and behind it (options).
\<close>

definition scan_authfile ::
    "(string \<Rightarrow> string option) \<Rightarrow> query \<Rightarrow> string \<Rightarrow> int \<times> string option \<times> string list \<times> string list" where
  "scan_authfile files q f =
     (case getword f of
        (None, _, _) \<Rightarrow> (-1, None, [], [])
      | (Some word, _, f) \<Rightarrow>
          (let (best_flag, secret, addr_list) = scan_loop files q True word f (-1, [], [])
           in (best_flag, if q_secret q \<and> best_flag \<ge> 0 then Some secret else None,
               takeWhile (\<lambda>w. w \<noteq> ''--'') addr_list, tl (dropWhile (\<lambda>w. w \<noteq> ''--'') addr_list))))"

section \<open>The lines of a file\<close>

text \<open>All words, each with the flag that it is the first of its line.\<close>

function words :: "string \<Rightarrow> (bool \<times> string) list" where
  "words f = (case getword f of (None, _, _) \<Rightarrow> [] | (Some w, newline, r) \<Rightarrow> (newline, w) # words r)"
  by pat_completeness auto

termination
  by (relation "measure length") (auto dest: work_word)

declare words.simps [simp del]

lemma words_eq:
  "getword f = (None, n, r) \<Longrightarrow> words f = []" "getword f = (Some w, n, r) \<Longrightarrow> words f = (n, w) # words r"
  by (subst words.simps, simp)+

text \<open>The rest of the current line, and the lines behind it.\<close>

fun line_up :: "(bool \<times> string) list \<Rightarrow> string list \<times> string list list" where
  "line_up [] = ([], [])"
| "line_up ((newline, w) # ts) =
     (let (l, ls) = line_up ts in if newline then ([], (w # l) # ls) else (w # l, ls))"

definition lines :: "string \<Rightarrow> string list list" where
  "lines f = (case words f of [] \<Rightarrow> [] | (_, w) # ts \<Rightarrow> (let (l, ls) = line_up ts in (w # l) # ls))"

section \<open>The specification\<close>

definition wants :: "string option \<Rightarrow> string \<Rightarrow> bool" where
  "wants p w \<longleftrightarrow> p = None \<or> p = Some w \<or> ISWILD w"

definition rank :: "string \<Rightarrow> string \<Rightarrow> int" where
  "rank c s = (if ISWILD c then 0 else NONWILD_CLIENT) + (if ISWILD s then 0 else NONWILD_SERVER)"

text \<open>What a line is good for: nothing, or its rank, its secret and its other words.\<close>

fun line_entry :: "(string \<Rightarrow> string option) \<Rightarrow> query \<Rightarrow> string list \<Rightarrow> entry option" where
  "line_entry files q (c # s # k # as) =
     (if wants (q_client q) c \<and> wants (q_server q) s \<and> (q_flags q \<longrightarrow> two_colons k)
      then map_option (\<lambda>x. (rank c s, x, as)) (if q_secret q then read_secret files k else Some k)
      else None)"
| "line_entry files q _ = None"

text \<open>The first entry that no other one outranks.\<close>

definition best_entry :: "entry list \<Rightarrow> entry option" where
  "best_entry es = find (\<lambda>e. \<forall>e' \<in> set es. fst e' \<le> fst e) es"

section \<open>The loop computes it\<close>

lemma best_entry_max: "best_entry es = Some e \<Longrightarrow> e \<in> set es \<and> (\<forall>e' \<in> set es. fst e' \<le> fst e)"
  by (auto simp: best_entry_def find_Some_iff in_set_conv_nth)

lemma best_entry_None: "best_entry es = None \<longleftrightarrow> es = []"
proof
  assume "best_entry es = None"
  then have none: "\<not> (\<exists>e \<in> set es. \<forall>e' \<in> set es. fst e' \<le> fst e)" unfolding best_entry_def find_None_iff by blast
  show "es = []"
  proof (rule ccontr)
    assume "es \<noteq> []"
    then have m: "Max (fst ` set es) \<in> fst ` set es" by (intro Max_in) simp_all
    then obtain e where "e \<in> set es" "fst e = Max (fst ` set es)" by auto
    then have "\<forall>e' \<in> set es. fst e' \<le> fst e" by simp
    then show False using none \<open>e \<in> set es\<close> by blast
  qed
qed (simp add: best_entry_def)

lemma best_entry_Nil [simp]: "best_entry [] = None"
  by (simp add: best_entry_def)

lemma find_append: "find P (xs @ ys) = (case find P xs of None \<Rightarrow> find P ys | Some x \<Rightarrow> Some x)"
  by (induction xs) auto

lemma best_entry_snoc:
  "best_entry (es @ [x]) = (case best_entry es of None \<Rightarrow> Some x | Some e \<Rightarrow> Some (if fst e < fst x then x else e))"
proof (cases "best_entry es")
  case None
  then show ?thesis by (simp add: best_entry_None) (simp add: best_entry_def)
next
  case (Some e)
  note e = best_entry_max [OF Some]
  show ?thesis
  proof (cases "fst e < fst x")
    case True
    then have none: "find (\<lambda>d. \<forall>e' \<in> set (es @ [x]). fst e' \<le> fst d) es = None"
      using e by (auto simp: find_None_iff)
    show ?thesis using True e unfolding best_entry_def [of "es @ [x]"] find_append none Some by auto
  next
    case False
    have "find (\<lambda>d. \<forall>e' \<in> set (es @ [x]). fst e' \<le> fst d) es = find (\<lambda>e. \<forall>e' \<in> set es. fst e' \<le> fst e) es"
      by (rule find_cong [OF refl]) (use False e in fastforce)
    then show ?thesis using False Some unfolding best_entry_def [of "es @ [x]"] find_append by (simp add: best_entry_def)
  qed
qed

definition better :: "entry \<Rightarrow> entry \<Rightarrow> entry" where
  "better e best = (if fst best < fst e then e else best)"

lemma fold_better:
  "fold better es b = (case best_entry es of None \<Rightarrow> b | Some e \<Rightarrow> better e b)"
  by (induction es rule: rev_induct) (auto simp: best_entry_snoc better_def split: option.split)

text \<open>What is left for the main loop: the lines behind, and the current one if its first word has been read.\<close>

definition left_over :: "bool \<Rightarrow> string \<Rightarrow> string \<Rightarrow> string list list" where
  "left_over newline word f = (let (l, ls) = line_up (words f) in if newline then (word # l) # ls else ls)"

abbreviation entries :: "(string \<Rightarrow> string option) \<Rightarrow> query \<Rightarrow> string list list \<Rightarrow> entry list" where
  "entries files q \<equiv> List.map_filter (line_entry files q)"

lemma line_entry_short [simp]: "line_entry files q [c] = None" "line_entry files q [c, s] = None"
  by simp_all

lemma left_over_end: "getword f = (None, n, r) \<Longrightarrow> left_over nl w f = (if nl then [[w]] else [])"
  by (simp add: left_over_def words_eq)

lemma getword_Nil [simp]: "getword [] = (None, False, [])"
  by (simp add: getword_def)

lemma left_over_Nil: "left_over nl w [] = (if nl then [[w]] else [])"
  by (rule left_over_end [OF getword_Nil])

text \<open>Skipping to the start of a line loses nothing; at the end of the file a word may be left that is no line.\<close>

lemma skip_line_entries:
  "skip_line nl w f = (nl', w', r) \<Longrightarrow> entries files q (left_over nl w f) = (if nl' then entries files q (left_over True w' r) else [])"
proof (induction f arbitrary: nl w rule: length_induct)
  case (1 f)
  obtain v n s where g: "getword f = (v, n, s)" by (rule prod_cases3)
  consider "nl" | "\<not> nl" "v = None" | x where "\<not> nl" "v = Some x" by auto
  then show ?case
  proof cases
    case 1
    then show ?thesis using "1.prems" by (simp add: skip_line_eq [OF g])
  next
    case 2
    then have "r = []" using "1.prems" getword_rest(3) [OF g] by (simp add: skip_line_eq [OF g])
    then show ?thesis using 2 g by (simp add: left_over_end left_over_Nil List.map_filter_simps)
  next
    case (3 x)
    have "length s < length f" using getword_rest(2) [OF g] 3 by simp
    moreover have "skip_line n x s = (nl', w', r)" using "1.prems" 3 by (simp add: skip_line_eq [OF g])
    ultimately have "entries files q (left_over n x s) = (if nl' then entries files q (left_over True w' r) else [])"
      using "1.IH" by blast
    moreover have "left_over nl w f = left_over n x s"
      using 3 g by (simp add: left_over_def words_eq(2) split: prod.split)
    ultimately show ?thesis by simp
  qed
qed

lemma addr_words_entries:
  "addr_words w f = (as, nl, w', r) \<Longrightarrow> as = fst (line_up (words f)) \<and>
   entries files q (snd (line_up (words f))) = (if nl then entries files q (left_over True w' r) else [])"
proof (induction f arbitrary: w as rule: length_induct)
  case (1 f)
  obtain v n s where g: "getword f = (v, n, s)" by (rule prod_cases3)
  consider "v = None" | x where "v = Some x" "n" | x where "v = Some x" "\<not> n" by (cases v) auto
  then show ?case
  proof cases
    case 1
    then have "r = []" using "1.prems" getword_rest(3) [OF g] by (simp add: addr_words_eq [OF g])
    then show ?thesis using 1 g "1.prems" by (simp add: words_eq left_over_Nil List.map_filter_simps addr_words_eq [OF g])
  next
    case (2 x)
    then show ?thesis using g "1.prems" by (auto simp: words_eq left_over_def addr_words_eq [OF g] split: prod.split)
  next
    case (3 x)
    obtain as' where a: "addr_words x s = (as', nl, w', r)" "as = x # as'"
      using 3 "1.prems" by (auto simp: addr_words_eq [OF g] split: prod.splits)
    have "length s < length f" using getword_rest(2) [OF g] 3 by simp
    then have "as' = fst (line_up (words s)) \<and>
      entries files q (snd (line_up (words s))) = (if nl then entries files q (left_over True w' r) else [])"
      using "1.IH" a(1) by blast
    then show ?thesis using 3 g a(2) by (auto simp: words_eq split: prod.split)
  qed
qed

text \<open>The lines in front of the main loop when the first words of the current line are read.\<close>

lemma entries_first:
  assumes "getword f = (v, n, s)"
  shows "entries files q (left_over True c f) =
    (case v of None \<Rightarrow> [] | Some x \<Rightarrow>
       if n then entries files q (left_over True x s)
       else entries files q [c # x # fst (line_up (words s))] @ entries files q (left_over False x s))"
proof (cases v)
  case None
  then show ?thesis using assms by (simp add: left_over_end List.map_filter_simps)
next
  case (Some x)
  obtain l ls where "line_up (words s) = (l, ls)" by (rule prod.exhaust)
  then show ?thesis using assms Some by (cases n) (simp_all add: left_over_def words_eq List.map_filter_simps split: option.split)
qed

lemma entries_second:
  assumes "getword f = (v, n, s)"
  shows "entries files q [c # x # fst (line_up (words f))] @ entries files q (left_over False x f) =
    (case v of None \<Rightarrow> [] | Some k \<Rightarrow>
       if n then entries files q (left_over True k s)
       else entries files q [c # x # k # fst (line_up (words s))] @ entries files q (left_over False k s))"
proof (cases v)
  case None
  then show ?thesis using assms by (simp add: left_over_end words_eq List.map_filter_simps)
next
  case (Some k)
  obtain l ls where "line_up (words s) = (l, ls)" by (rule prod.exhaust)
  then show ?thesis using assms Some by (cases n) (simp_all add: left_over_def words_eq List.map_filter_simps split: option.split)
qed

lemma unwanted_client: "\<not> wants (q_client q) c \<Longrightarrow> line_entry files q (c # l) = None"
  by (cases l; cases "tl l"; cases "tl (tl l)") auto

lemma unwanted_server: "\<not> wants (q_server q) s \<Longrightarrow> line_entry files q (c # s # l) = None"
  by (cases l) auto

lemma low_rank: "rank c s \<le> fst best \<Longrightarrow> fold better (entries files q [c # s # l]) best = best"
  by (cases l) (auto simp: List.map_filter_simps better_def split: option.split)

lemma rank_eq: "(if ISWILD c then 0 else NONWILD_CLIENT) + (if ISWILD s then 0 else NONWILD_SERVER) = rank c s"
  by (simp add: rank_def)

lemma wants_code:
  "((case p of Some c \<Rightarrow> w \<noteq> c | None \<Rightarrow> False) \<and> \<not> ISWILD w) = (\<not> wants p w)"
  "(\<not> ISWILD w \<and> (case p of Some c \<Rightarrow> w \<noteq> c | None \<Rightarrow> False)) = (\<not> wants p w)"
  by (auto simp: wants_def split: option.split)

lemma entry_rank:
  assumes "e \<in> set (entries files q ls)"
  shows "0 \<le> fst e"
proof -
  from assms obtain l where l: "line_entry files q l = Some e" by (auto simp: List.map_filter_def)
  then show ?thesis by (cases "(files, q, l)" rule: line_entry.cases) (auto simp: rank_def split: if_splits)
qed

lemma skip_client:
  "\<not> wants (q_client q) c \<Longrightarrow> entries files q (left_over True c f) = entries files q (left_over False c f)"
  by (simp add: left_over_def List.map_filter_simps unwanted_client split: prod.split)

text \<open>A line from its secret on: \<open>H\<close> is what is known of the loop behind it.\<close>

lemma scan_secret:
  assumes H: "\<And>nl w b. scan_loop files q nl w s b = fold better (entries files q (left_over nl w s)) b"
    "\<And>nl w r b. length r \<le> length s \<Longrightarrow> scan_loop files q nl w r b = fold better (entries files q (left_over nl w r)) b"
    and new: "wants (q_client q) c" "wants (q_server q) x" "fst best < rank c x"
  shows "(if q_flags q \<and> \<not> two_colons k then scan_loop files q False k s best
     else case (if q_secret q then read_secret files k else Some k) of
         None \<Rightarrow> scan_loop files q False k s best
       | Some lsecret \<Rightarrow>
           (case addr_words lsecret s of
              (alist, False, _, _) \<Rightarrow> (rank c x, lsecret, alist)
            | (alist, True, latest, f) \<Rightarrow> scan_loop files q True latest f (rank c x, lsecret, alist))) =
     fold better (entries files q [c # x # k # fst (line_up (words s))] @ entries files q (left_over False k s)) best"
proof (cases "(q_flags q \<longrightarrow> two_colons k) \<and> (if q_secret q then read_secret files k else Some k) \<noteq> None")
  case False
  then show ?thesis by (auto simp: H(1) List.map_filter_simps split: option.split)
next
  case True
  then obtain y where y: "(if q_secret q then read_secret files k else Some k) = Some y" by auto
  obtain as nl w' r where a: "addr_words y s = (as, nl, w', r)" by (rule prod_cases4)
  have "left_over False k s = snd (line_up (words s))" by (simp add: left_over_def split: prod.split)
  moreover have "entries files q [c # x # k # fst (line_up (words s))] = [(rank c x, y, as)]"
    using True y new(1,2) addr_words_entries [OF a] by (simp add: List.map_filter_simps)
  ultimately show ?thesis
    using True y new(3) addr_words_entries [OF a, of files q] addr_words_rest [OF a]
    by (cases nl) (auto simp: a H(2) better_def)
qed

lemma scan_loop_fold: "scan_loop files q nl w f best = fold better (entries files q (left_over nl w f)) best"
proof (induction "work nl f" arbitrary: nl w f best rule: less_induct)
  case less
  note H = less.hyps
  obtain nl' c r where sk: "skip_line nl w f = (nl', c, r)" by (rule prod_cases3)
  obtain v n s where g: "getword r = (v, n, s)" by (rule prod_cases3)
  obtain v2 n2 s2 where g2: "getword s = (v2, n2, s2)" by (rule prod_cases3)
  note eq = scan_loop.simps [of files q nl w f best, unfolded sk wants_code rank_eq Let_def, simplified g g2]
  consider "\<not> nl'" | "nl'" "\<not> wants (q_client q) c" | "nl'" "wants (q_client q) c" "v = None"
    | x where "nl'" "wants (q_client q) c" "v = Some x" by (cases v) auto
  then show ?case
  proof cases
    case 1
    then show ?thesis using skip_line_entries [OF sk] by (simp add: eq)
  next
    case 2
    then have "work False r < work nl f" using work_skip [of c r nl w f] sk by (simp add: work_simps)
    then show ?thesis using 2 skip_line_entries [OF sk] H by (simp add: eq skip_client)
  next
    case 3
    then show ?thesis using skip_line_entries [OF sk] entries_first [OF g] by (simp add: eq g)
  next
    case (4 x)
    have r: "2 * length s + 2 < work nl f" using work_skip [of c r nl w f] sk getword_rest(2) [OF g] 4 by simp
    have Hs: "length u \<le> length s \<Longrightarrow> scan_loop files q m y u b = fold better (entries files q (left_over m y u)) b" for m y u b
      using r by (intro H) (cases m; simp add: work_simps)
    have E: "entries files q (left_over nl w f) = (if n then entries files q (left_over True x s)
       else entries files q [c # x # fst (line_up (words s))] @ entries files q (left_over False x s))"
      using skip_line_entries [OF sk] entries_first [OF g] 4 by simp
    consider "n" | "\<not> n" "\<not> wants (q_server q) x" | "\<not> n" "wants (q_server q) x" "rank c x \<le> fst best"
      | "\<not> n" "wants (q_server q) x" "fst best < rank c x" by linarith
    then show ?thesis
    proof cases
      case 1
      then show ?thesis using 4 by (simp add: eq g E Hs)
    next
      case 2
      then show ?thesis using 4 by (simp add: eq g E Hs unwanted_server List.map_filter_simps)
    next
      case 3
      then show ?thesis using 4 low_rank [OF 3(3)] by (simp add: eq g E Hs)
    next
      case best: 4
      have s2: "length s2 \<le> length s" by (rule getword_rest(1) [OF g2])
      have Hs2: "scan_loop files q m y s2 b = fold better (entries files q (left_over m y s2)) b" for m y b by (rule Hs [OF s2])
      have Hr: "length u \<le> length s2 \<Longrightarrow> scan_loop files q m y u b = fold better (entries files q (left_over m y u)) b" for m y u b
        using s2 by (intro Hs) simp
      have E2: "entries files q [c # x # fst (line_up (words s))] @ entries files q (left_over False x s) =
        (case v2 of None \<Rightarrow> [] | Some k \<Rightarrow> if n2 then entries files q (left_over True k s2)
         else entries files q [c # x # k # fst (line_up (words s2))] @ entries files q (left_over False k s2))"
        by (rule entries_second [OF g2])
      have start: "scan_loop files q nl w f best = (case v2 of None \<Rightarrow> best | Some k \<Rightarrow>
          if n2 then scan_loop files q True k s2 best
          else if q_flags q \<and> \<not> two_colons k then scan_loop files q False k s2 best
          else case (if q_secret q then read_secret files k else Some k) of
              None \<Rightarrow> scan_loop files q False k s2 best
            | Some lsecret \<Rightarrow>
                (case addr_words lsecret s2 of
                   (alist, False, _, _) \<Rightarrow> (rank c x, lsecret, alist)
                 | (alist, True, latest, f) \<Rightarrow> scan_loop files q True latest f (rank c x, lsecret, alist)))"
        using 4 best g g2 by (simp add: eq split: option.split)
      show ?thesis
        unfolding start E if_not_P [OF best(1)] E2
        using scan_secret [OF Hs2 Hr 4(2) best(2,3)] by (cases v2; cases n2; simp only: option.case if_True if_False Hs2 fold_Nil id_apply)
    qed
  qed
qed

lemma scan_authfile_eq:
  "scan_authfile files q f =
     (case best_entry (entries files q (lines f)) of
        None \<Rightarrow> (-1, None, [], [])
      | Some (flag, secret, ws) \<Rightarrow>
          (flag, if q_secret q then Some secret else None, takeWhile (\<lambda>w. w \<noteq> ''--'') ws, tl (dropWhile (\<lambda>w. w \<noteq> ''--'') ws)))"
proof (cases "getword f")
  case (fields v n r)
  show ?thesis
  proof (cases v)
    case None
    then show ?thesis using fields by (simp add: scan_authfile_def lines_def words_eq List.map_filter_simps)
  next
    case (Some w)
    have l: "lines f = left_over True w r"
      using fields Some by (simp add: lines_def words_eq left_over_def)
    have best: "best_entry (entries files q ls) = Some e \<Longrightarrow> 0 \<le> fst e" for e ls
      using best_entry_max entry_rank by blast
    have "scan_loop files q True w r (-1, [], []) =
      (case best_entry (entries files q (lines f)) of None \<Rightarrow> (-1, [], []) | Some e \<Rightarrow> e)"
      by (auto simp: scan_loop_fold l fold_better better_def dest: best split: option.split)
    then show ?thesis
      using fields Some by (auto simp: scan_authfile_def Let_def dest: best split: option.split prod.split)
  qed
qed

section \<open>Properties\<close>

text \<open>
  Property C13.  A secrets file is searched line by line.  Whatever the file contains, the secret, the addresses and the options
  that \<open>scan_authfile\<close> returns are those of the first usable line that no other usable line outranks; a line is usable
  if its client and server are the wanted ones or a star and its secret can be read, and a name that is written out
  outranks a star, first of all for the client.  Without a usable line the result is -1.
\<close>

theorem scan_authfile_best:
  "scan_authfile files q f =
     (case best_entry (entries files q (lines f)) of
        None \<Rightarrow> (-1, None, [], [])
      | Some (flag, secret, ws) \<Rightarrow>
          (flag, if q_secret q then Some secret else None, takeWhile (\<lambda>w. w \<noteq> ''--'') ws, tl (dropWhile (\<lambda>w. w \<noteq> ''--'') ws)))"
  by (rule scan_authfile_eq)

end
