(* ===== verification/Secret_Files.thy ===== *)
theory Secret_Files
  imports Secrets Ipcp
begin

text \<open>
  What \<^verbatim>\<open>pppd/auth.c\<close> does with the secrets files: checking a password (\<open>check_passwd\<close>), finding secrets for CHAP and SRP
  (\<open>get_secret\<close>, \<open>get_srp_secret\<close>), the questions whether there is any suitable secret, and \<open>auth_check_options\<close>, which asks them
  before the daemon starts.

  \<open>secrets_env\<close> holds the file system, \<open>crypt\<close> of the C library, and \<open>session_full\<close> and \<open>session_check\<close> of \<^verbatim>\<open>session.c\<close>, which ask
  PAM and the system's accounts.  Hooks of plugins are null; \<open>sleep\<close> and the warning about file permissions have no
  effect on the state.  The functions whose names are taken by the fields of \<open>sys_ext\<close> carry the prefix \<open>file\<close>.
\<close>

section \<open>State\<close>

record secrets_env =
  env_files :: "string \<Rightarrow> string option"
  env_crypt :: "string \<Rightarrow> string \<Rightarrow> string option"
  session_full :: "string \<Rightarrow> string \<Rightarrow> bool \<times> packet"
  session_check :: "string \<Rightarrow> bool"

record secrets_world = ipcp_world +
  noauth_addrs :: "string list"
  extra_options :: "string list"
  attempts :: int
  cryptpap :: bool
  session_mgmt :: bool
  permitted_numbers :: "string list"
  remote_number :: string
  usehostname :: bool
  explicit_user :: bool
  default_auth :: bool
  chap_mdtype_all :: byte

abbreviation PATH_UPAPFILE :: string where "PATH_UPAPFILE \<equiv> ''/etc/ppp/pap-secrets''"
abbreviation PATH_CHAPFILE :: string where "PATH_CHAPFILE \<equiv> ''/etc/ppp/chap-secrets''"
abbreviation PATH_SRPFILE :: string where "PATH_SRPFILE \<equiv> ''/etc/ppp/srp-secrets''"
abbreviation EXIT_CNID_AUTH_FAILED :: int where "EXIT_CNID_AUTH_FAILED \<equiv> 21"
abbreviation MAXSECRETLEN :: nat where "MAXSECRETLEN \<equiv> 256"

section \<open>Addresses and numbers\<close>

text \<open>\<open>set_allowed_addrs\<close> on the state.\<close>

definition set_allowed ::
    "'z secrets_world_scheme ip_ext \<Rightarrow> string list \<Rightarrow> string list \<Rightarrow> 'z secrets_world_scheme \<Rightarrow> 'z secrets_world_scheme" where
  "set_allowed ext addrs opts w =
     (let (t, wo) = set_allowed_addrs_of (x_resolver ext) (ifunit w) addrs (noauth_addrs w) (auth_required w)
            (\<lambda>a. allow_any_ip w \<or> privileged w \<or> \<not> x_have_route_to ext a w) (ipcp_wantoptions w)
      in w\<lparr>addresses := t, ipcp_wantoptions := wo, extra_options := opts\<rparr>)"

fun some_ip_ok :: "string list \<Rightarrow> bool" where
  "some_ip_ok [] = False"
| "some_ip_ok (wd # addrs) =
     (if take 1 wd = ''-'' then False else if take 1 wd \<noteq> ''!'' then True else some_ip_ok addrs)"

text \<open>
  \<open>auth_number\<close>: a number on the list, or its beginning in front of a star.  For an empty entry the code reads the character in
  front of the string, which is the highest octet of the pointer \<open>wp->word\<close> and no star; no characters are compared then.
\<close>

definition tolower :: "char \<Rightarrow> char" where
  "tolower c = (if 65 \<le> (of_char c :: nat) \<and> of_char c \<le> (90 :: nat) then char_of (of_char c + 32 :: nat) else c)"

fun number_loop :: "string list \<Rightarrow> string \<Rightarrow> bool" where
  "number_loop [] number = False"
| "number_loop (wd # wp) number =
     (let l = (if wd \<noteq> [] \<and> last wd = CHR ''*'' then length wd - 1 else length wd)
      in if map tolower (take l wd) = map tolower (take l number) then True else number_loop wp number)"

definition file_auth_number :: "'z secrets_world_scheme \<Rightarrow> bool" where
  "file_auth_number w = (if permitted_numbers w = [] then True else number_loop (permitted_numbers w) (remote_number w))"

section \<open>PAP\<close>

text \<open>
  \<open>check_passwd\<close>.  First whether the secret found admits the password, and the message of the session functions; \<open>close\<close> is
  \<open>lcp_close\<close>.
\<close>

definition login_ok :: "secrets_env \<Rightarrow> string \<Rightarrow> string \<Rightarrow> string \<Rightarrow> 'z secrets_world_scheme \<Rightarrow> bool \<times> packet" where
  "login_ok env name pw secret w =
     (let login_secret = (secret = ''@login'');
          (ok, msg) = (if uselogin w \<or> login_secret then session_full env name pw
                       else if session_mgmt w then (session_check env name, [])
                       else (True, []))
      in (ok \<and> (secret \<noteq> [] \<and> \<not> login_secret \<longrightarrow>
                   (\<not> cryptpap w \<and> pw = secret) \<or> env_crypt env pw secret = Some secret), msg))"

definition file_check_passwd ::
    "secrets_env \<Rightarrow> 'z secrets_world_scheme ip_ext \<Rightarrow> (string \<Rightarrow> 'z secrets_world_scheme \<Rightarrow> 'z secrets_world_scheme) \<Rightarrow>
     packet \<Rightarrow> packet \<Rightarrow> 'z secrets_world_scheme \<Rightarrow> int \<times> packet \<times> 'z secrets_world_scheme" where
  "file_check_passwd env ext close auser apasswd w =
     (let pw = text_of (vslprintf_v False 256 (length apasswd) apasswd);
          name = text_of (vslprintf_v False 256 (length auser) auser);
          (ok, msg, addrs, opts) =
            (case env_files env PATH_UPAPFILE of
               None \<Rightarrow> (False, [], [], [])
             | Some f \<Rightarrow>
                 (case scan_authfile (env_files env)
                         \<lparr>q_client = Some name, q_server = Some (text_of (our_name w)), q_secret = True, q_flags = False\<rparr> f of
                    (_, None, _, _) \<Rightarrow> (False, [], [], [])
                  | (_, Some secret, addrs, opts) \<Rightarrow>
                      (let (ok, msg) = login_ok env name pw secret w in (ok, msg, addrs, opts))))
      in if \<not> ok then
           (UPAP_AUTHNAK, if msg = [] then cstr ''Login incorrect'' else msg,
            (let n = attempts w; w = w\<lparr>attempts := n + 1\<rparr> in if n \<ge> 10 then close ''login failed'' w else w))
         else
           (UPAP_AUTHACK, if msg = [] then cstr ''Login ok'' else msg, set_allowed ext addrs opts (w\<lparr>attempts := 0\<rparr>)))"

definition file_null_login ::
    "secrets_env \<Rightarrow> 'z secrets_world_scheme ip_ext \<Rightarrow> 'z secrets_world_scheme \<Rightarrow> bool \<times> 'z secrets_world_scheme" where
  "file_null_login env ext w =
     (case env_files env PATH_UPAPFILE of
        None \<Rightarrow> (False, w)
      | Some f \<Rightarrow>
          (case scan_authfile (env_files env)
                  \<lparr>q_client = Some [], q_server = Some (text_of (our_name w)), q_secret = True, q_flags = False\<rparr> f of
             (i, secret, addrs, opts) \<Rightarrow>
               (if i \<ge> 0 \<and> secret = Some [] then (True, set_allowed ext addrs opts w) else (False, w))))"

definition file_get_pap_passwd :: "secrets_env \<Rightarrow> 'z secrets_world_scheme \<Rightarrow> packet option" where
  "file_get_pap_passwd env w =
     (case env_files env PATH_UPAPFILE of
        None \<Rightarrow> None
      | Some f \<Rightarrow>
          (case scan_authfile (env_files env)
                  \<lparr>q_client = Some (text_of (user w)),
                   q_server = (if remote_name w \<noteq> [] then Some (text_of (remote_name w)) else None),
                   q_secret = True, q_flags = False\<rparr> f of
             (_, secret, _, _) \<Rightarrow> map_option (\<lambda>s. cstr (take (MAXSECRETLEN - 1) s)) secret))"

definition file_have_pap_secret :: "secrets_env \<Rightarrow> 'z secrets_world_scheme \<Rightarrow> bool" where
  "file_have_pap_secret env w =
     (case env_files env PATH_UPAPFILE of
        None \<Rightarrow> False
      | Some f \<Rightarrow>
          (case scan_authfile (env_files env)
                  \<lparr>q_client = (if explicit_remote w then Some (text_of (remote_name w)) else None),
                   q_server = Some (text_of (our_name w)), q_secret = False, q_flags = False\<rparr> f of
             (i, _, addrs, _) \<Rightarrow> i \<ge> 0 \<and> some_ip_ok addrs))"

section \<open>CHAP and SRP\<close>

text \<open>\<open>have_chap_secret\<close> and \<open>have_srp_secret\<close> differ in the file.\<close>

definition have_secret ::
    "string \<Rightarrow> secrets_env \<Rightarrow> packet option \<Rightarrow> packet option \<Rightarrow> bool \<Rightarrow> 'z secrets_world_scheme \<Rightarrow> bool" where
  "have_secret path env client server need_ip w =
     (case env_files env path of
        None \<Rightarrow> False
      | Some f \<Rightarrow>
          (let (client, server) = (if client = Some [] then (None, server)
                                   else if server = Some [] then (client, None) else (client, server))
           in case scan_authfile (env_files env)
                     \<lparr>q_client = map_option text_of client, q_server = map_option text_of server,
                      q_secret = False, q_flags = False\<rparr> f of
                (i, _, addrs, _) \<Rightarrow> i \<ge> 0 \<and> (need_ip \<longrightarrow> some_ip_ok addrs)))"

definition file_have_chap_secret ::
    "secrets_env \<Rightarrow> packet option \<Rightarrow> packet option \<Rightarrow> bool \<Rightarrow> 'z secrets_world_scheme \<Rightarrow> bool" where
  "file_have_chap_secret = have_secret PATH_CHAPFILE"

definition file_have_srp_secret ::
    "secrets_env \<Rightarrow> packet option \<Rightarrow> packet option \<Rightarrow> bool \<Rightarrow> 'z secrets_world_scheme \<Rightarrow> bool" where
  "file_have_srp_secret = have_secret PATH_SRPFILE"

definition file_get_secret ::
    "secrets_env \<Rightarrow> 'z secrets_world_scheme ip_ext \<Rightarrow> packet \<Rightarrow> packet \<Rightarrow> bool \<Rightarrow> 'z secrets_world_scheme \<Rightarrow>
     packet option \<times> 'z secrets_world_scheme" where
  "file_get_secret env ext client server am_server w =
     (if \<not> am_server \<and> passwd w \<noteq> [] then (Some (take MAXSECRETLEN (passwd w)), w)
      else
        (case env_files env PATH_CHAPFILE of
           None \<Rightarrow> (None, w)
         | Some f \<Rightarrow>
             (case scan_authfile (env_files env)
                     \<lparr>q_client = Some (text_of client), q_server = Some (text_of server), q_secret = True, q_flags = False\<rparr> f of
                (_, None, _, _) \<Rightarrow> (None, w)
              | (_, Some secbuf, addrs, opts) \<Rightarrow>
                  (Some (take MAXSECRETLEN (cstr secbuf)), if am_server then set_allowed ext addrs opts w else w))))"

definition get_srp_secret ::
    "secrets_env \<Rightarrow> 'z secrets_world_scheme ip_ext \<Rightarrow> packet \<Rightarrow> packet \<Rightarrow> bool \<Rightarrow> 'z secrets_world_scheme \<Rightarrow>
     packet option \<times> 'z secrets_world_scheme" where
  "get_srp_secret env ext client server am_server w =
     (if \<not> am_server \<and> passwd w \<noteq> [] then (Some (take (MAXWORDLEN - 1) (passwd w)), w)
      else
        (case env_files env PATH_SRPFILE of
           None \<Rightarrow> (None, w)
         | Some f \<Rightarrow>
             (case scan_authfile (env_files env)
                     \<lparr>q_client = Some (text_of client), q_server = Some (text_of server), q_secret = True, q_flags = am_server\<rparr> f of
                (_, None, _, _) \<Rightarrow> (None, w)
              | (_, Some secret, addrs, opts) \<Rightarrow>
                  (Some (cstr secret), if am_server then set_allowed ext addrs opts w else w))))"

section \<open>Before the start\<close>

text \<open>\<open>auth_check_options\<close>: the state behind it, or the status with which the daemon exits.\<close>

definition check_names :: "'z secrets_world_scheme \<Rightarrow> 'z secrets_world_scheme" where
  "check_names w =
     (let w = (if our_name w = [] \<or> usehostname w then w\<lparr>our_name := take (MAXNAMELEN - 1) (cstr (hostname w))\<rparr> else w)
      in if user w = [] \<and> \<not> explicit_user w then w\<lparr>user := take (MAXNAMELEN - 1) (our_name w)\<rparr> else w)"

definition check_wishes :: "'z secrets_world_scheme ip_ext \<Rightarrow> 'z secrets_world_scheme \<Rightarrow> 'z secrets_world_scheme" where
  "check_wishes ext w =
     (let w = (if \<not> auth_required w \<and> \<not> allow_any_ip w \<and> x_have_route_to ext 0 w \<and> \<not> privileged w
               then w\<lparr>auth_required := True, default_auth := True\<rparr> else w);
          wo = lcp_wantoptions w;
          wo = (if chap_mdtype wo \<noteq> 0 then wo\<lparr>neg_chap := True\<rparr> else wo)
      in if auth_required w
         then (w\<lparr>allow_any_ip := False\<rparr>)\<lparr>lcp_wantoptions :=
                (if \<not> neg_chap wo \<and> \<not> neg_upap wo \<and> \<not> neg_eap wo
                 then wo\<lparr>neg_chap := (chap_mdtype_all w \<noteq> 0), chap_mdtype := chap_mdtype_all w, neg_upap := True, neg_eap := True\<rparr>
                 else wo)\<rparr>
         else w\<lparr>lcp_wantoptions := wo\<lparr>neg_chap := False, chap_mdtype := 0, neg_upap := False, neg_eap := False\<rparr>\<rparr>)"

definition can_auth :: "secrets_env \<Rightarrow> 'z secrets_world_scheme \<Rightarrow> bool" where
  "can_auth env w =
     (let wo = lcp_wantoptions w; peer = (if explicit_remote w then Some (remote_name w) else None)
      in neg_upap wo \<and> (uselogin w \<or> file_have_pap_secret env w) \<or>
         (neg_chap wo \<or> neg_eap wo) \<and> file_have_chap_secret env peer (Some (our_name w)) True w \<or>
         neg_eap wo \<and> file_have_srp_secret env peer (Some (our_name w)) True w)"

definition auth_check_options ::
    "secrets_env \<Rightarrow> 'z secrets_world_scheme ip_ext \<Rightarrow> 'z secrets_world_scheme \<Rightarrow> int + 'z secrets_world_scheme" where
  "auth_check_options env ext w =
     (let w = check_wishes ext (check_names w)
      in if auth_required w \<and> \<not> can_auth env w \<and> noauth_addrs w = [] then Inl EXIT_FATAL_ERROR
         else if \<not> file_auth_number w then Inl EXIT_CNID_AUTH_FAILED
         else Inr w)"

section \<open>Properties\<close>

text \<open>The entry that a search is about.\<close>

definition found :: "secrets_env \<Rightarrow> string \<Rightarrow> query \<Rightarrow> entry option" where
  "found env path q =
     (case env_files env path of None \<Rightarrow> None | Some f \<Rightarrow> best_entry (entries (env_files env) q (lines f)))"

text \<open>The question that \<open>check_passwd\<close> asks the file.\<close>

abbreviation pap_query :: "packet \<Rightarrow> 'z secrets_world_scheme \<Rightarrow> query" where
  "pap_query name w \<equiv> \<lparr>q_client = Some (text_of (vslprintf_v False 256 (length name) name)),
     q_server = Some (text_of (our_name w)), q_secret = True, q_flags = False\<rparr>"

text \<open>
  Property C14.  What it takes to log in with PAP.  A peer is accepted exactly if the file has a usable line for its name and
  ours, the session functions agree where they are asked, and its password is that of the best such line (in clear, unless
  all are encrypted, or encrypted), which an empty secret and \<open>@login\<close> waive.  Then the addresses of this line become the
  table for IPCP and its options the extra options, and the count of failures is reset; otherwise the count goes up and
  nothing else changes, but that LCP is closed from the eleventh failure in a row on.
\<close>

theorem check_passwd_spec:
  fixes w :: "'z secrets_world_scheme"
  defines "clear p \<equiv> text_of (vslprintf_v False 256 (length p) p)"
  shows "case found env PATH_UPAPFILE (pap_query name w) of
     Some (_, secret, ws) \<Rightarrow>
       (if fst (if uselogin w \<or> secret = ''@login'' then session_full env (clear name) (clear pw)
                else if session_mgmt w then (session_check env (clear name), []) else (True, [])) \<and>
           (secret = [] \<or> secret = ''@login'' \<or> \<not> cryptpap w \<and> clear pw = secret \<or>
            env_crypt env (clear pw) secret = Some secret)
        then \<exists>msg. file_check_passwd env ext close name pw w =
               (UPAP_AUTHACK, msg, set_allowed ext (takeWhile (\<lambda>wd. wd \<noteq> ''--'') ws) (tl (dropWhile (\<lambda>wd. wd \<noteq> ''--'') ws)) (w\<lparr>attempts := 0\<rparr>))
        else \<exists>msg. file_check_passwd env ext close name pw w =
               (UPAP_AUTHNAK, msg, if attempts w \<ge> 10 then close ''login failed'' (w\<lparr>attempts := attempts w + 1\<rparr>)
                  else w\<lparr>attempts := attempts w + 1\<rparr>))
   | None \<Rightarrow>
       file_check_passwd env ext close name pw w =
         (UPAP_AUTHNAK, cstr ''Login incorrect'', if attempts w \<ge> 10 then close ''login failed'' (w\<lparr>attempts := attempts w + 1\<rparr>)
            else w\<lparr>attempts := attempts w + 1\<rparr>)"
proof (cases "env_files env PATH_UPAPFILE")
  case None
  then show ?thesis by (simp add: found_def file_check_passwd_def)
next
  case (Some f)
  show ?thesis
  proof (cases "best_entry (entries (env_files env) (pap_query name w) (lines f))")
    case None
    then show ?thesis using Some by (simp add: found_def file_check_passwd_def scan_authfile_eq Let_def)
  next
    case e: (Some e)
    then show ?thesis
      using Some by (cases e) (auto simp: found_def file_check_passwd_def scan_authfile_eq login_ok_def clear_def Let_def split: prod.split)
  qed
qed

end
