(* ===== verification/Daemon.thy ===== *)
theory Daemon
  imports Secret_Files Ipcp_System
begin

text \<open>
  The daemon with its own secrets files and its own IPCP: the parameters of \<^verbatim>\<open>Auth\<close> that stand for the functions of \<^verbatim>\<open>auth.c\<close> on
  secrets files are replaced by those of \<open>Secret_Files\<close>, the entry of \<open>protocols[]\<close> for IPCP by the real one, and the
  handlers of IPCP's timer and of the end of its scripts by the real ones.  They satisfy what the theorem about all runs asks of them.
\<close>

section \<open>The daemon\<close>

definition secrets_sys :: "secrets_env \<Rightarrow> 'z secrets_world_scheme ip_ext \<Rightarrow> 'z secrets_world_scheme sys_ext \<Rightarrow>
    'z secrets_world_scheme sys_ext" where
  "secrets_sys env ext sys = sys\<lparr>
     null_login := file_null_login env ext,
     set_allowed_addrs := set_allowed ext [] [],
     get_pap_passwd := file_get_pap_passwd env,
     have_pap_secret := file_have_pap_secret env,
     have_chap_secret := file_have_chap_secret env,
     have_srp_secret := file_have_srp_secret env,
     check_passwd := file_check_passwd env ext (close_link sys),
     auth_number := file_auth_number,
     get_secret := file_get_secret env ext,
     session_denied := (\<lambda>name w. session_mgmt w \<and> \<not> session_check env (text_of name))\<rparr>"

definition ip_timer :: "'z secrets_world_scheme ip_ext \<Rightarrow>
    (timer_fn \<Rightarrow> timer_arg \<Rightarrow> 'z secrets_world_scheme \<Rightarrow> 'z secrets_world_scheme) \<Rightarrow>
    timer_fn \<Rightarrow> timer_arg \<Rightarrow> 'z secrets_world_scheme \<Rightarrow> 'z secrets_world_scheme" where
  "ip_timer ext other fn arg =
     (if fn = Fn_fsm_timeout \<and> arg = Fsm_arg ipcp_fsm then fsm_timeout (ipcp_callbacks ext) ipcp_fsm else other fn arg)"

definition ip_done ::
    "(done_fn \<Rightarrow> 'z secrets_world_scheme \<Rightarrow> 'z secrets_world_scheme) \<Rightarrow> done_fn \<Rightarrow> 'z secrets_world_scheme \<Rightarrow> 'z secrets_world_scheme" where
  "ip_done other fn = (if fn = Fn_ipcp_script_done then ipcp_script_done else other fn)"

definition daemon :: "secrets_env \<Rightarrow> 'z secrets_world_scheme ip_ext \<Rightarrow> 'z secrets_world_scheme protent list \<Rightarrow>
    'z secrets_world_scheme main_ext \<Rightarrow> 'z secrets_world_scheme main_ext" where
  "daemon env ext rest m = m\<lparr>
     env_sys := secrets_sys env ext (ip_sys ext rest (env_sys m)),
     other_timer := ip_timer (ip_ext_of ext rest (env_sys m)) (other_timer m),
     other_done := ip_done (other_done m)\<rparr>"

section \<open>The secrets files keep the contract\<close>

lemma secrets_close: "close_link (secrets_sys env ext sys) = close_link sys"
  by (rule close_link_cong, rule upper_layers_down_cong) (simp add: secrets_sys_def)

lemma view_allowed: "view (set_allowed ext addrs opts w) = view w"
  by (simp add: set_allowed_def view_def split: prod.split)

text \<open>
  Files that admit no peer without a name: no line for the empty name or for all names has an empty secret.
\<close>

definition no_open_door :: "secrets_env \<Rightarrow> bool" where
  "no_open_door env \<longleftrightarrow> (\<forall>f. env_files env PATH_UPAPFILE = Some f \<longrightarrow>
     list_all (\<lambda>l. case l of c # s # k # _ \<Rightarrow> (c = [] \<or> ISWILD c) \<longrightarrow> read_secret (env_files env) k \<noteq> Some [] | _ \<Rightarrow> True) (lines f))"

lemma no_null_login:
  assumes "no_open_door env"
  shows "\<not> fst (file_null_login env ext w)"
proof (cases "env_files env PATH_UPAPFILE")
  case (Some f)
  let ?q = "\<lparr>q_client = Some [], q_server = Some (text_of (our_name w)), q_secret = True, q_flags = False\<rparr>"
  have "x \<noteq> []" if "best_entry (entries (env_files env) ?q (lines f)) = Some (r, x, ws)" for r x ws
  proof -
    have "(r, x, ws) \<in> set (entries (env_files env) ?q (lines f))" using best_entry_max [OF that] by simp
    then obtain l where l: "l \<in> set (lines f)" "line_entry (env_files env) ?q l = Some (r, x, ws)"
      by (auto simp: List.map_filter_def)
    then obtain c s k as where k: "l = c # s # k # as" "c = [] \<or> ISWILD c" "read_secret (env_files env) k = Some x"
      by (cases "(env_files env, ?q, l)" rule: line_entry.cases) (auto simp: wants_def split: if_splits)
    with l(1) show ?thesis using assms Some by (auto simp: no_open_door_def list_all_iff)
  qed
  then show ?thesis
    using Some by (auto simp: file_null_login_def scan_authfile_eq split: option.splits prod.splits if_splits)
qed (simp add: file_null_login_def)

lemma quiet_files:
  "quiet (\<lambda>w. snd (file_null_login env ext w))" "quiet (set_allowed ext addrs opts)"
  "quiet (\<lambda>w. snd (file_get_secret env ext c s b w))"
  by (auto simp: quiet_def file_null_login_def file_get_secret_def view_allowed split: option.split prod.split)

lemma attempts_view: "view (w\<lparr>attempts := n\<rparr>) = view w"
  by (simp add: view_def)

lemma file_passwd_ok:
  assumes "sys_ok sys"
  shows "let (k, msg, v) = file_check_passwd env ext (close_link sys) u p w
    in view v = view w \<or> k = UPAP_AUTHNAK \<and> (net_layer w \<longrightarrow> net_layer v)"
proof -
  have "net_layer (close_link sys r (w\<lparr>attempts := n\<rparr>))" if "net_layer w" for r n
    using close_link_layer(1) [OF assms net_layers(1)] view_net(1) [OF attempts_view] that by blast
  then show ?thesis
    by (auto simp: file_check_passwd_def Let_def view_allowed attempts_view split: prod.split)
qed

lemma secrets_sys_ok:
  assumes "sys_ok sys" "no_open_door env"
  shows "sys_ok (secrets_sys env ext sys)"
proof -
  have "passwd_ok (secrets_sys env ext sys)"
    unfolding passwd_ok_def using file_passwd_ok [OF assms(1)] by (simp add: secrets_sys_def)
  then show ?thesis
    using assms(1) by (simp add: sys_ok_def secrets_sys_def no_null_login [OF assms(2)] quiet_files)
qed

section \<open>The timer of IPCP keeps the contract\<close>

lemma ip_timer_ok:
  assumes "sys_ok (sys\<lparr>other_protocols := rest\<rparr>)"
  shows "kept g w \<Longrightarrow> kept g (fsm_timeout (ipcp_callbacks (ip_ext_of ext rest sys)) ipcp_fsm w)"
proof -
  have "sys_ok (ip_sys ext rest sys)" by (rule ip_sys_ok(1) [OF assms])
  then have "np_finished (Rep_net_env (Abs_net_env (ip_sys ext rest sys))) = np_finished (ip_sys0 ext rest sys)"
    by (simp add: env_rep finished_knot)
  then have "ip_ext_of ext rest sys = net_ip ext (Abs_net_env (ip_sys ext rest sys))" by (simp add: ip_ext_of_def)
  then show "kept g w \<Longrightarrow> kept g (fsm_timeout (ipcp_callbacks (ip_ext_of ext rest sys)) ipcp_fsm w)"
    using ipn.keep_fsm_timeout by metis
qed

lemma ip_done_ok: "kept g w \<Longrightarrow> kept g (ipcp_script_done w)"
proof -
  have "soft w (ipcp_script_done w)" unfolding ipcp_script_done_def Let_def
    by (auto split: script_state.split intro!: soft_chain)
  then show "kept g w \<Longrightarrow> kept g (ipcp_script_done w)" by (rule soft_kept)
qed

lemma daemon_ok:
  assumes "main_ok (m\<lparr>env_sys := (env_sys m)\<lparr>other_protocols := rest\<rparr>\<rparr>)" "no_open_door env"
  shows "main_ok (daemon env ext rest m)"
proof -
  have s: "sys_ok ((env_sys m)\<lparr>other_protocols := rest\<rparr>)" using assms(1) by (simp add: main_ok_def)
  have "sys_ok (secrets_sys env ext (ip_sys ext rest (env_sys m)))"
    by (rule secrets_sys_ok [OF ip_sys_ok(1) [OF s] assms(2)])
  moreover have "layered (ip_timer (ip_ext_of ext rest (env_sys m)) (other_timer m) fn a)" for fn a
    using assms(1) ip_timer_ok [OF s, where g = False, unfolded kept_def] by (simp add: layered_def ip_timer_def main_ok_def)
  moreover have "grounded (ip_timer (ip_ext_of ext rest (env_sys m)) (other_timer m) fn a w)" if "grounded w" "net_layer w" for fn a w
    using assms(1) ip_timer_ok [OF s, where g = True, unfolded kept_def] that by (simp add: ip_timer_def main_ok_def)
  moreover have "layered (ip_done (other_done m) fn)" for fn
    using assms(1) by (simp add: layered_def ip_done_def main_ok_def ip_done_ok [where g = False, unfolded kept_def, simplified])
  moreover have "grounded (ip_done (other_done m) fn w)" if "grounded w" "net_layer w" for fn w
    using assms(1) that by (simp add: ip_done_def main_ok_def ip_done_ok [where g = True, unfolded kept_def, simplified])
  ultimately show ?thesis using assms(1) by (simp add: main_ok_def daemon_def)
qed

section \<open>The daemon with its secrets files\<close>

text \<open>
  Property C2. The daemon reads its secrets from the files of the administrator and runs IPCP as a network protocol. If no
  line of the PAP secrets file for the empty name or for all names has an empty secret, every state it can reach, whatever the peer
  sends and in whatever order timers, signals and new attempts come, keeps this: while a network protocol is open, LCP is opened, no authentication
  is pending, and an authentication that the options require has been passed by the peer on this link.
\<close>

theorem daemon_needs_authentication:
  assumes "main_ok (m\<lparr>env_sys := (env_sys m)\<lparr>other_protocols := rest\<rparr>\<rparr>)" "no_open_door env"
    "sys_reach (daemon env ext rest m) pc w" "num_np_open w > 0"
  shows "st lcp_fsm w = OPENED \<and> auth_pending w = 0 \<and>
    (auth_required w \<and> \<not> has_noauth_addrs w \<longrightarrow> auth_done w AND (PAP_PEER OR CHAP_PEER OR EAP_PEER) \<noteq> 0)"
  by (rule open_needs_authentication [OF daemon_ok [OF assms(1,2)] assms(3,4)])

end
