(* ===== verification/Daemon_Run.thy ===== *)
theory Daemon_Run
  imports Daemon Ipcp_Run
begin

text \<open>
  A run of the daemon with a secrets file, evaluated: the peer logs in with PAP as \<open>u\<close>, the file has a line for it, and IPCP is
  opened.
\<close>

definition demo_file :: string where
  "demo_file = ''u * p *'' @ [NL]"

definition demo_secrets :: secrets_env where
  "demo_secrets = \<lparr>env_files = (\<lambda>p. if p = PATH_UPAPFILE then Some demo_file else None), env_crypt = (\<lambda>_ _. None),
     session_full = (\<lambda>_ _. (False, [])), session_check = (\<lambda>_. False)\<rparr>"

abbreviation demo_query :: "string option \<Rightarrow> string option \<Rightarrow> bool \<Rightarrow> query" where
  "demo_query c s k \<equiv> \<lparr>q_client = c, q_server = s, q_secret = k, q_flags = False\<rparr>"

lemma demo_scan:
  "scan_authfile (env_files demo_secrets) (demo_query (Some ''u'') (Some []) True) demo_file = (2, Some ''p'', [''*''], [])"
  "scan_authfile (env_files demo_secrets) (demo_query None (Some []) False) demo_file = (2, None, [''*''], [])"
  "scan_authfile (env_files demo_secrets) (demo_query (Some []) None True) demo_file = (-1, None, [], [])"
  by code_simp+

definition demo_boot :: secrets_world where
  "demo_boot = demo_ip_with (secrets_world_ext [] [] 0 False False [] [] False False False 0 ())"

definition demo_daemon_ext :: "secrets_world ip_ext" where
  "demo_daemon_ext = \<lparr>x_np_finished = id, x_have_route_to = (\<lambda>_ _. False), x_GetMask = (\<lambda>_ _. 0xffffffff),
     x_resolver = \<lparr>host_by_name = (\<lambda>_. None), net_by_name = (\<lambda>_. None), inet_addr = (\<lambda>_. 0)\<rparr>\<rparr>"

definition demo_base :: "secrets_world main_ext" where
  "demo_base = \<lparr>env_sys = idle_sys,
     parse_options = (\<lambda>w. w\<lparr>auth_required := True, has_noauth_addrs := False, multilink := False,
        doing_multilink := False, lcp_echo_fails := 0, lcp_wantoptions := lcp_zero\<lparr>neg_upap := True\<rparr>\<rparr>),
     mp_bundle_terminated = id, channel_connect = (\<lambda>w. (3, w)), channel_establish = (\<lambda>fd w. (4, w)),
     other_timer = (\<lambda>_ _ w. w), other_done = (\<lambda>_ w. w)\<rparr>"

definition demo_daemon :: "secrets_world main_ext" where
  "demo_daemon = daemon demo_secrets demo_daemon_ext [] demo_base"

lemma demo_door: "no_open_door demo_secrets"
proof -
  have "lines demo_file = [[''u'', ''*'', ''p'', ''*'']]" by code_simp
  then show ?thesis by (simp add: no_open_door_def demo_secrets_def ISWILD_def)
qed

lemma demo_base_ok: "main_ok (demo_base\<lparr>env_sys := (env_sys demo_base)\<lparr>other_protocols := []\<rparr>\<rparr>)"
proof -
  have "grounded (parse_options demo_base w) \<and> net_layer (parse_options demo_base w)"
    if "grounded w" "num_np_open w \<le> 0" "\<not> started w" for w
  proof -
    have g: "grounded (parse_options demo_base w)" using that(1) by (simp add: demo_base_def grounded_def)
    then show ?thesis using that by (simp add: grounded_layer(2)) (simp add: demo_base_def cfg_ok_def)
  qed
  moreover have "sys_ok (idle_sys\<lparr>other_protocols := []\<rparr> :: secrets_world sys_ext)"
    by (simp add: sys_ok_def passwd_ok_def idle_sys_def quiet_def)
  ultimately show ?thesis by (simp add: main_ok_def demo_base_def layered_def quiet_def)
qed

lemma demo_daemon_sel [simp]:
  "env_sys demo_daemon = secrets_sys demo_secrets demo_daemon_ext (ip_sys demo_daemon_ext [] idle_sys)"
  "parse_options demo_daemon w = w\<lparr>auth_required := True, has_noauth_addrs := False, multilink := False,
        doing_multilink := False, lcp_echo_fails := 0, lcp_wantoptions := lcp_zero\<lparr>neg_upap := True\<rparr>\<rparr>"
  "channel_connect demo_daemon w = (3, w)" "channel_establish demo_daemon fd w = (4, w)"
  by (simp_all add: demo_daemon_def daemon_def demo_base_def)

abbreviation demo_dsys :: "secrets_world sys_ext" where
  "demo_dsys \<equiv> secrets_sys demo_secrets demo_daemon_ext (ip_sys demo_daemon_ext [] idle_sys)"

lemma demo_dsys_sel [simp]:
  "other_protocols demo_dsys = [ipcp_protent (ip_ext_of demo_daemon_ext [] idle_sys)]"
  "check_passwd demo_dsys = file_check_passwd demo_secrets demo_daemon_ext (close_link (ip_sys demo_daemon_ext [] idle_sys))"
  "apply_extra_options demo_dsys w = w" "\<not> ecp_required demo_dsys w" "\<not> mppe_required demo_dsys w"
  "have_pap_secret demo_dsys = file_have_pap_secret demo_secrets" "get_pap_passwd demo_dsys = file_get_pap_passwd demo_secrets"
  "\<not> have_chap_secret demo_dsys c s b w" "\<not> have_srp_secret demo_dsys c s b w" "auth_number demo_dsys = file_auth_number"
  by (simp_all add: secrets_sys_def ip_sys_def idle_sys_def file_have_chap_secret_def file_have_srp_secret_def have_secret_def
      demo_secrets_def)

definition login_boot :: secrets_world where
  "login_boot = parse_options demo_daemon (init_protocols demo_boot)"

definition login_up :: secrets_world where
  "login_up = attempt demo_daemon login_boot"

definition login_req :: secrets_world where
  "login_req = get_input demo_daemon (Read_frame [0xff, 0x03, 0xc0, 0x21, 1, 7, 0, 4]) login_up"

definition login_open :: secrets_world where
  "login_open = get_input demo_daemon (Read_frame [0xff, 0x03, 0xc0, 0x21, 2, 1, 0, 8, 3, 4, 0xc0, 0x23]) login_req"

definition login_net :: secrets_world where
  "login_net = get_input demo_daemon (Read_frame [0xff, 0x03, 0xc0, 0x23, 1, 9, 0, 8, 1, 0x75, 1, 0x70]) login_open"

lemma demo_files: "env_files demo_secrets PATH_UPAPFILE = Some demo_file" "env_files demo_secrets PATH_CHAPFILE = None"
  by (simp_all add: demo_secrets_def)

lemma text_Nil [simp]: "text_of [] = []"
  by (simp add: text_of_def)

lemmas login_simps = run_simps demo_boot_def demo_ip_with_def auth_world.defs demo_scan demo_files
  file_have_pap_secret_def file_get_pap_passwd_def file_auth_number_def

lemma ipcp_protent_sel [simp]:
  "pe_protocol (ipcp_protent x) = 0x8021" "pe_enabled (ipcp_protent x)" "pe_lowerup (ipcp_protent x) = Some (ipcp_lowerup x)"
  "pe_open (ipcp_protent x) = Some (ipcp_open x)" "pe_input (ipcp_protent x) = ipcp_input x"
  by (simp_all add: ipcp_protent_def)

lemma demo_names: "text_of (vslprintf_v False 256 (Suc 0) [0x75]) = ''u''" "text_of (vslprintf_v False 256 (Suc 0) [0x70]) = ''p''"
  by code_simp+

lemma demo_login:
  assumes "our_name w = []" "\<not> uselogin w" "\<not> session_mgmt w" "\<not> cryptpap w" "noauth_addrs w = []"
  shows "file_check_passwd demo_secrets demo_daemon_ext c [0x75] [0x70] w =
    (UPAP_AUTHACK, cstr ''Login ok'', w\<lparr>attempts := 0, addresses := Some [\<lparr>permit = True, base = 0, mask = 0\<rparr>, forbid_all], extra_options := []\<rparr>)"
  using assms
  by (simp add: file_check_passwd_def demo_files demo_names demo_scan login_ok_def set_allowed_def set_allowed_addrs_of_def)

lemma login_open_pap: "upap_ss login_open = UPAPSS_LISTEN" 
  by (simp_all add: login_simps ipcp_lowerup_def login_open_def login_req_def login_up_def login_boot_def
      cong: let_weak_cong)

lemma ipcp_open_keeps:
  "num_np_open (ipcp_open x w) = num_np_open w" "auth_required (ipcp_open x w) = auth_required w"
  "has_noauth_addrs (ipcp_open x w) = has_noauth_addrs w"
  using ipcp_start_mild(2) [of x] by (simp_all add: mild_def view_def)

lemma login_net: "num_np_open login_net = 1" "auth_required login_net" "\<not> has_noauth_addrs login_net"
  by (simp_all add: login_simps ipcp_lowerup_def ipcp_open_keeps login_net_def login_open_def login_req_def login_up_def login_boot_def
      demo_login cong: let_weak_cong)

lemma login_reach: "sys_reach demo_daemon Link_loop login_net"
proof -
  have "sys_reach demo_daemon Waiting login_boot" unfolding login_boot_def
    by (rule sys_reach.boot) (simp_all add: demo_boot_def demo_ip_with_def auth_world.defs)
  moreover have "sys_step demo_daemon Waiting login_boot Link_loop login_up" unfolding login_up_def
    by (rule sys_step.again) (simp add: login_simps login_boot_def)
  ultimately have "sys_reach demo_daemon Link_loop login_up" by (rule sys_reach.step)
  then have "sys_reach demo_daemon Link_loop login_req" unfolding login_req_def by (rule sys_reach.step) (rule sys_step.read_in)
  then have "sys_reach demo_daemon Link_loop login_open" unfolding login_open_def by (rule sys_reach.step) (rule sys_step.read_in)
  then show ?thesis unfolding login_net_def by (rule sys_reach.step) (rule sys_step.read_in)
qed

theorem daemon_needs_authentication_witness:
  "sys_reach demo_daemon Link_loop login_net \<and> num_np_open login_net = 1 \<and> st lcp_fsm login_net = OPENED \<and>
   auth_pending login_net = 0 \<and> auth_done login_net AND (PAP_PEER OR CHAP_PEER OR EAP_PEER) \<noteq> 0"
proof -
  have "num_np_open login_net > 0" by (simp add: login_net(1))
  from daemon_needs_authentication [OF demo_base_ok demo_door login_reach [unfolded demo_daemon_def] this]
  show ?thesis using login_reach login_net by simp
qed

end
