(* ===== verification/Spec2Isabelle.thy ===== *)
theory Spec2Isabelle
  imports Lcp_Interop Exchange_Run Echo_Run Ipcp_Options_Props Rfc1661_Run Daemon_Run
begin

text \<open>
  \<^bold>\<open>A verification development for pppd 2.4.7\<close>, the PPP daemon in \<^verbatim>\<open>src/tools/src/ppp-2.4.7/pppd\<close>.

  \<^bold>\<open>The program.\<close>  The daemon brings up a point-to-point link.  A main loop (\<^verbatim>\<open>main.c\<close>) reads frames, calls
  expired timers and hands each frame to the protocol it is for.  The link control protocol LCP (\<^verbatim>\<open>lcp.c\<close>)
  negotiates options with the peer; it is a client of the automaton of RFC 1661 (\<^verbatim>\<open>fsm.c\<close>), which calls it
  back for everything that depends on the protocol.  When LCP is up, \<^verbatim>\<open>auth.c\<close> starts the authentications
  (PAP, \<^verbatim>\<open>upap.c\<close>; CHAP, \<^verbatim>\<open>chap-new.c\<close>; EAP) and, when none is left, opens the network protocols.  The parts call
  each other in both directions: a failed authentication closes LCP, whose going down resets the
  authentication protocols and closes the network protocols.

  \<^bold>\<open>Theories and what they model\<close> (files below \<^verbatim>\<open>pppd/\<close>).
  \<^item> \<^verbatim>\<open>Pppd_Prelude\<close>: octets and packets, the macros \<open>PUTSHORT\<close>, \<open>GETLONG\<close>, \<open>MAKEHEADER\<close> of \<^verbatim>\<open>pppd.h\<close>, lemmas on words and lists.
  \<^item> \<^verbatim>\<open>Callout\<close>: the timer queue of \<^verbatim>\<open>main.c\<close> (\<open>timeout\<close>, \<open>untimeout\<close>, \<open>calltimeout\<close>, \<open>timeleft\<close>); \<^verbatim>\<open>Callout_Props\<close>: it is a
    stable sorted queue, and the loop over it ends although the clock runs on (shown for the echo timer's handler in \<^verbatim>\<open>Echo_Run\<close>).
  \<^item> \<^verbatim>\<open>Fsm\<close>: \<^verbatim>\<open>fsm.c\<close>, one definition per function, the struct \<open>fsm\<close> and the callbacks as records; \<^verbatim>\<open>Fsm_Props\<close>: the
    locale \<open>fsm_client\<close> states what a client's callbacks promise and proves once that the retransmission timer
    is neither lost nor doubled, with the runs of the automaton as an inductive relation; give-up, framing and
    duplicate handling; \<^verbatim>\<open>Fsm_Layer\<close>: the locales \<open>fsm_down_layer\<close> and \<open>fsm_layer\<close>, by which what holds above an
    OPENED automaton is carried through all of its operations; \<^verbatim>\<open>Rfc1661\<close>: the transition table of the RFC as
    data, the primitive steps of the code labelled with the table's actions (\<open>performs\<close>), and the refinement of the code to the table up to
    eight entries (\<open>fsm_actions\<close>); \<^verbatim>\<open>Rfc1661_Run\<close>: LCP, IPCP and ECP satisfy its hypothesis, and it is applied to LCP and IPCP.
  \<^item> \<^verbatim>\<open>Ecp\<close>: \<^verbatim>\<open>ecp.c\<close>, the client with empty callbacks, and with it an instance of the locale.
  \<^item> \<^verbatim>\<open>Lcp_Options\<close>: the option functions of \<^verbatim>\<open>lcp.c\<close> with all their macros; \<^verbatim>\<open>Lcp_Options_Props\<close>: lengths, the check of
    an Ack, what Naks and Rejects can do, the answer to any request; \<^verbatim>\<open>Lcp_Interop\<close>: two copies of the program
    agree.
  \<^item> \<^verbatim>\<open>Lcp\<close>: the entry points, the callbacks and the echo requests of \<^verbatim>\<open>lcp.c\<close>.
  \<^item> \<^verbatim>\<open>Utils\<close>: the conversions \<open>%v\<close>, \<open>%q\<close> and \<open>%d\<close> of \<open>vslprintf\<close> in \<^verbatim>\<open>utils.c\<close>.  \<^verbatim>\<open>Upap\<close>, \<^verbatim>\<open>Chap\<close>: PAP and CHAP, client and server.
  \<^item> \<^verbatim>\<open>Process\<close>: children and the environment of the scripts in \<^verbatim>\<open>main.c\<close>; \<^verbatim>\<open>Auth\<close>: the life of a link in \<^verbatim>\<open>auth.c\<close> with the scripts
    \<open>auth-up\<close> and \<open>auth-down\<close>; \<^verbatim>\<open>System\<close>: \<open>get_input\<close>, the dispatch of timers, \<open>start_link\<close> and the loops of \<open>main\<close> as the relation
    \<open>sys_step\<close>, signals and the exits of children (\<open>reap_kids\<close>) included, with \<open>sys_reach\<close> its reachable states.
  \<^item> \<^verbatim>\<open>Timer_Layer\<close>: LCP with its real callbacks is a client of the automaton in the sense of \<open>fsm_client\<close>;
    \<^verbatim>\<open>Auth_Layer\<close>, \<^verbatim>\<open>System_Props\<close>: it is a layer in the sense of \<open>fsm_layer\<close>, and from this the safety of the daemon: no
    network protocol is open on a link whose peer has not been authenticated; \<^verbatim>\<open>System_Run\<close>: one concrete run of
    the daemon, evaluated, from boot to an open network protocol.
  \<^item> \<^verbatim>\<open>Retry\<close>: the locale of a protocol that repeats a request a bounded number of times; \<^verbatim>\<open>Upap_Props\<close>: the PAP handshake and
    the client's giving up; \<^verbatim>\<open>Md5\<close>: \<^verbatim>\<open>md5.c\<close> against the function of RFC 1321; \<^verbatim>\<open>Chap_Md5\<close>: \<^verbatim>\<open>chap-md5.c\<close> and \<^verbatim>\<open>magic.c\<close>, the
    check of a response and the CHAP handshake; \<^verbatim>\<open>Chap_Stale\<close>: a flag that survives a failed response; \<^verbatim>\<open>Exchange_Run\<close>: both
    handshakes evaluated; \<^verbatim>\<open>Lcp_Echo\<close>, \<^verbatim>\<open>Echo_Run\<close>: a peer that stops answering is noticed.
  \<^item> \<^verbatim>\<open>Ipcp_Options\<close>: the option functions of \<^verbatim>\<open>ipcp.c\<close>; \<^verbatim>\<open>Ipcp_Options_Props\<close>: requests, Acks, what Naks and Rejects can do, the
    assignment of an address between two copies of the program.
  \<^item> \<^verbatim>\<open>Ip_Auth\<close>: the address words of the secrets files and the address check of \<^verbatim>\<open>auth.c\<close>; \<^verbatim>\<open>Ip_Text\<close>: addresses as text and the
    option handlers of \<^verbatim>\<open>ipcp.c\<close>.
  \<^item> \<^verbatim>\<open>Ipcp\<close>: the callbacks and entry points of \<^verbatim>\<open>ipcp.c\<close>; \<^verbatim>\<open>Ipcp_Layer\<close>: they are a layer in the sense of \<open>fsm_layer\<close>;
    \<^verbatim>\<open>Fsm_Bystander\<close>: locales by which a condition that every callback keeps is kept by the automaton; \<^verbatim>\<open>Ipcp_System\<close>: IPCP in
    the table of protocols keeps what the daemon asks of a network protocol, and the daemon keeps what IPCP relies on;
    \<^verbatim>\<open>Ipcp_Run\<close>: the runs of IPCP, the interface as the recorded system calls have left it (up and passing packets exactly while IPCP is
    OPENED, for an address that the table grants), and the scripts in step.
  \<^item> \<^verbatim>\<open>Getword\<close>: \<open>getword\<close> of \<^verbatim>\<open>options.c\<close>, which reads back every quoted word; \<^verbatim>\<open>Secrets\<close>: \<open>scan_authfile\<close> of \<^verbatim>\<open>auth.c\<close> against a
    specification line by line; \<^verbatim>\<open>Secret_Files\<close>: the functions of \<^verbatim>\<open>auth.c\<close> that ask these files, what it takes to log in
    with PAP, and \<open>auth_check_options\<close>; \<^verbatim>\<open>Daemon\<close>: the daemon with these functions and with IPCP in place of the
    parameters, and its safety; \<^verbatim>\<open>Daemon_Run\<close>: a login with PAP up to the opening of IPCP, evaluated.

  \<^bold>\<open>State.\<close>  Global and static variables are fields of one record that grows along the theories (\<open>timers\<close>,
  \<open>fsm_world\<close>, \<open>lcp_world\<close>, \<open>upap_world\<close>, \<open>chap_world\<close>, \<open>proc_world\<close>, \<open>auth_world\<close>, \<open>ipcp_world\<close>, \<open>secrets_world\<close>), so a definition over \<open>'z lcp_world_scheme\<close> is used
  unchanged above.  Unit numbers are gone: the Linux build has \<open>NUM_PPP = 1\<close>.  Frames that are sent are appended
  to the list \<open>sent\<close>; the clock, \<open>magic()\<close>, the errors of the channel, the outcome of starting a program and
  the answers of the operating system to IPCP are streams in the state.  Calls to
  code that is not modelled go through records of functions (\<open>lcp_ext\<close>, \<open>auth_ext\<close>, \<open>chap_ext\<close>, \<open>sys_ext\<close>,
  \<open>main_ext\<close>, \<open>ip_ext\<close>, \<open>secrets_env\<close>), arguments of the definitions; what the theorems assume of them is written in \<open>sys_ok\<close>, \<open>main_ok\<close> and
  \<open>timer_ok\<close> (they leave the state of the modelled protocols alone, or change it through its own operations).

  \<^bold>\<open>Bounds and loops.\<close>  All loops over packets are total functions with a measure.  \<open>calltimeout\<close> may run for
  ever if a handler keeps scheduling callouts that are due, so it is a partial function into an option type and
  its return is a theorem.  There is no fuel.  Integers of C's type \<open>int\<close> that only count are \<open>int\<close>; octets,
  flags and values from the network are words of their width.  Buffers are lists: what the code
  writes past the end of a static array is seen as a list that is too long, so the bounds are theorems.

  \<^bold>\<open>Configuration.\<close>  The Linux Makefile's: \<open>CHAPMS\<close>, \<open>HAVE_MULTILINK\<close> and \<open>MAXOCTETS\<close> on, \<open>CBCP_SUPPORT\<close> off, plugin
  hooks null.

  \<^bold>\<open>Not modelled.\<close>  Log output and packet printers; locks and the tdb database; terminal and kernel interfaces
  (\<^verbatim>\<open>tty.c\<close>, \<^verbatim>\<open>sys-linux.c\<close>), because they are calls into the operating system; the table of options and its
  handlers (a parameter), PAM and the session log; EAP, IPv6CP and CCP (entries of the protocol table that are parameters); multilink, which shares
  state between processes.  The programs beside pppd (chat, pppstats, pppdump), the plugins, the C++ daemon and the
  Android reference code are outside.
\<close>

end
